(* ===== verification/Nova_Prelude.thy ===== *)
theory Nova_Prelude
  imports Main "HOL-Library.Word" "HOL-Library.Multiset" "HOL-Library.Code_Target_Numeral"
begin

text \<open>
  The prelude of the NovaRoute development: the parts of the Go language that every
  component uses.  A Go \<open>map\<close> is an association list with distinct keys
  (\<open>gm_put\<close>, \<open>gm_del\<close>, lookup by \<open>map_of\<close>), and \<open>for k, v := range m\<close> visits its
  entries in an order the language leaves open: \<open>range_perm\<close> turns a \<^emph>\<open>schedule\<close>, a list
  of picks, into such an order, and every order is the order of some schedule.  A
  \<open>uint32\<close> is a \<open>32 word\<close>, a Go string is a list of bytes, an \<open>error\<close> result is an
  option whose \<open>None\<close> is \<open>nil\<close>.  The collections \<open>gomap\<close> and \<open>wf_intro\<close> carry
  the map equations and the preservation facts of the components.
\<close>

section \<open>Types\<close>

type_synonym uint32 = "32 word"

type_synonym uint64 = "64 word"

type_synonym time = int

type_synonym ('k, 'v) gomap = "('k \<times> 'v) list"

type_synonym sched = "nat list"

named_theorems gomap \<open>equations for Go maps\<close>

named_theorems wf_intro \<open>well-formedness is kept\<close>

section \<open>Maps\<close>

fun gm_put :: "('k, 'v) gomap \<Rightarrow> 'k \<Rightarrow> 'v \<Rightarrow> ('k, 'v) gomap" where
  "gm_put [] k v = [(k, v)]"
| "gm_put ((k', v') # m) k v =
     (if k' = k then (k, v) # m else (k', v') # gm_put m k v)"

definition gm_del :: "('k, 'v) gomap \<Rightarrow> 'k \<Rightarrow> ('k, 'v) gomap" where
  "gm_del m k = filter (\<lambda>e. fst e \<noteq> k) m"

definition gm_ok :: "('k, 'v) gomap \<Rightarrow> bool" where
  "gm_ok m \<longleftrightarrow> distinct (map fst m)"

text \<open>A well-formed map all of whose entries satisfy a predicate.\<close>

definition entries_ok :: "('k \<Rightarrow> 'v \<Rightarrow> bool) \<Rightarrow> ('k, 'v) gomap \<Rightarrow> bool" where
  "entries_ok P m \<longleftrightarrow> gm_ok m \<and> (\<forall>e \<in> set m. P (fst e) (snd e))"

text \<open>
  The order in which a \<open>range\<close> loop visits the entries: each number of the schedule picks
  one of the entries that are left, and the entries left when the schedule ends are
  visited as they stand.
\<close>

fun range_perm :: "sched \<Rightarrow> 'a list \<Rightarrow> 'a list" where
  "range_perm [] xs = xs"
| "range_perm (i # sch) [] = []"
| "range_perm (i # sch) (x # xs) =
     (let ys = x # xs; j = i mod length ys
      in ys ! j # range_perm sch (take j ys @ drop (Suc j) ys))"

section \<open>Loops\<close>

text \<open>A \<open>for _, x := range xs\<close> whose body only changes the state.\<close>

fun for_each :: "('a \<Rightarrow> 's \<Rightarrow> 's) \<Rightarrow> 'a list \<Rightarrow> 's \<Rightarrow> 's" where
  "for_each f [] s = s"
| "for_each f (x # xs) s = for_each f xs (f x s)"

text \<open>
  Code of the form \<open>if err := first(); err != nil { return err }\<close> followed by more, and a
  loop whose body may return an error.
\<close>

definition seq :: "'e option \<times> 's \<Rightarrow> ('s \<Rightarrow> 'e option \<times> 's) \<Rightarrow> 'e option \<times> 's" where
  "seq x f = (case x of (Some e, s) \<Rightarrow> (Some e, s) | (None, s) \<Rightarrow> f s)"

fun for_err :: "('a \<Rightarrow> 's \<Rightarrow> 'e option \<times> 's) \<Rightarrow> 'a list \<Rightarrow> 's \<Rightarrow> 'e option \<times> 's" where
  "for_err f [] s = (None, s)"
| "for_err f (x # xs) s = seq (f x s) (for_err f xs)"

text \<open>The error a function returns when it collected a list of errors.\<close>

definition first_of :: "'e list \<Rightarrow> 'e option" where
  "first_of errs = (case errs of [] \<Rightarrow> None | e # _ \<Rightarrow> Some e)"

text \<open>\<open>m[k] = v\<close> for every element of a slice, in order: later elements win.\<close>

definition index_by :: "('a \<Rightarrow> 'k) \<Rightarrow> 'a list \<Rightarrow> ('k, 'a) gomap" where
  "index_by key xs = for_each (\<lambda>x m. gm_put m (key x) x) xs []"

section \<open>Decimal numbers\<close>

text \<open>What \<open>fmt.Sprintf("%d", n)\<close> prints for an unsigned \<open>n\<close>.\<close>

fun dec :: "nat \<Rightarrow> string" where
  "dec n = (if n < 10 then [''0123456789'' ! n]
            else dec (n div 10) @ [''0123456789'' ! (n mod 10)])"

declare dec.simps [simp del]

definition dec32 :: "uint32 \<Rightarrow> string" where
  "dec32 w = dec (unat w)"

definition is_digit :: "char \<Rightarrow> bool" where
  "is_digit c \<longleftrightarrow> 48 \<le> (of_char c :: nat) \<and> (of_char c :: nat) \<le> 57"

definition digit_val :: "char \<Rightarrow> nat" where
  "digit_val c = of_char c - 48"

text \<open>Reading decimal digits back, most significant first.\<close>

fun undec :: "nat \<Rightarrow> string \<Rightarrow> nat" where
  "undec acc [] = acc"
| "undec acc (c # cs) = undec (10 * acc + digit_val c) cs"

section \<open>Facts about maps\<close>

lemma map_of_gm_put [gomap, simp]: "map_of (gm_put m k v) = (map_of m)(k \<mapsto> v)"
  by (induction m k v rule: gm_put.induct) (auto simp: fun_eq_iff)

lemma map_of_gm_del [gomap, simp]: "map_of (gm_del m k) = (map_of m)(k := None)"
  by (induction m) (auto simp: gm_del_def fun_eq_iff)

lemma keys_gm_put [gomap]: "fst ` set (gm_put m k v) = insert k (fst ` set m)"
  by (induction m k v rule: gm_put.induct) auto

lemma set_gm_put_subset: "set (gm_put m k v) \<subseteq> insert (k, v) (set m)"
  by (induction m k v rule: gm_put.induct) auto

lemma set_gm_del_subset: "set (gm_del m k) \<subseteq> set m"
  by (auto simp: gm_del_def)

lemma gm_ok_Nil [simp]: "gm_ok []"
  by (simp add: gm_ok_def)

lemma gm_ok_Cons: "gm_ok (e # m) \<longleftrightarrow> fst e \<notin> fst ` set m \<and> gm_ok m"
  by (auto simp: gm_ok_def)

lemma gm_ok_put [wf_intro, simp]: "gm_ok m \<Longrightarrow> gm_ok (gm_put m k v)"
  by (induction m k v rule: gm_put.induct) (auto simp: gm_ok_Cons keys_gm_put)

lemma gm_ok_del [wf_intro, simp]: "gm_ok m \<Longrightarrow> gm_ok (gm_del m k)"
  by (auto simp: gm_ok_def gm_del_def distinct_map_filter)

lemma gm_ok_lookup: "gm_ok m \<Longrightarrow> map_of m k = Some v \<longleftrightarrow> (k, v) \<in> set m"
  by (simp add: gm_ok_def)

lemma gm_entry_lookup: "gm_ok m \<Longrightarrow> (k, v) \<in> set m \<Longrightarrow> map_of m k = Some v"
  by (simp add: gm_ok_def)

lemma gm_lookup_entry: "map_of m k = Some v \<Longrightarrow> (k, v) \<in> set m"
  by (rule map_of_SomeD)

lemma gm_ok_same_entries: "mset m' = mset m \<Longrightarrow> gm_ok m' = gm_ok m"
proof -
  assume "mset m' = mset m"
  then have "mset (map fst m') = mset (map fst m)" by simp
  then show ?thesis unfolding gm_ok_def by (rule mset_eq_imp_distinct_iff)
qed

lemma map_of_same_entries:
  assumes "gm_ok m" and "mset m' = mset m"
  shows "map_of m' = map_of m"
proof -
  have "set m' = set m" using assms(2) by (rule mset_eq_setD)
  moreover have "gm_ok m'" using gm_ok_same_entries [OF assms(2)] assms(1) by simp
  ultimately show ?thesis
    using assms(1) by (simp add: gm_ok_def map_of_inject_set)
qed

lemma entries_ok_Nil [simp]: "entries_ok P []"
  by (simp add: entries_ok_def)

lemma entries_ok_gm_ok: "entries_ok P m \<Longrightarrow> gm_ok m"
  by (simp add: entries_ok_def)

lemma entries_okD: "entries_ok P m \<Longrightarrow> map_of m k = Some v \<Longrightarrow> P k v"
  by (fastforce simp: entries_ok_def dest: map_of_SomeD)

lemma entries_ok_put [wf_intro]: "entries_ok P m \<Longrightarrow> P k v \<Longrightarrow> entries_ok P (gm_put m k v)"
  using set_gm_put_subset [of m k v] by (fastforce simp: entries_ok_def)

lemma entries_ok_del [wf_intro]: "entries_ok P m \<Longrightarrow> entries_ok P (gm_del m k)"
  using set_gm_del_subset [of m k] by (auto simp: entries_ok_def)

lemma entries_ok_mono: "entries_ok P m \<Longrightarrow> (\<And>k v. P k v \<Longrightarrow> Q k v) \<Longrightarrow> entries_ok Q m"
  by (simp add: entries_ok_def)

section \<open>Facts about iteration orders\<close>

lemma mset_pick:
  assumes "j < length xs"
  shows "add_mset (xs ! j) (mset (take j xs @ drop (Suc j) xs)) = mset xs"
proof -
  have "mset xs = mset (take j xs @ xs ! j # drop (Suc j) xs)"
    using assms by (simp add: id_take_nth_drop [symmetric])
  then show ?thesis by simp
qed

lemma mset_range_perm [simp]: "mset (range_perm sch xs) = mset xs"
proof (induction sch xs rule: range_perm.induct)
  case (3 i sch x xs)
  define ys where "ys = x # xs"
  define j where "j = i mod length ys"
  have j: "j < length ys" by (simp add: j_def ys_def)
  have "mset (range_perm sch (take j ys @ drop (Suc j) ys)) = mset (take j ys @ drop (Suc j) ys)"
    using "3.IH" [of ys j] by (simp add: ys_def j_def)
  then have "mset (range_perm (i # sch) ys) = add_mset (ys ! j) (mset (take j ys @ drop (Suc j) ys))"
    by (simp add: ys_def j_def Let_def)
  also have "\<dots> = mset ys" using j by (rule mset_pick)
  finally show ?case by (simp add: ys_def)
qed simp_all

lemma set_range_perm [simp]: "set (range_perm sch xs) = set xs"
  by (rule mset_eq_setD) simp

lemma length_range_perm [simp]: "length (range_perm sch xs) = length xs"
  by (rule mset_eq_length) simp

lemma gm_ok_range_perm [simp]: "gm_ok (range_perm sch m) = gm_ok m"
  by (rule gm_ok_same_entries) simp

lemma map_of_range_perm: "gm_ok m \<Longrightarrow> map_of (range_perm sch m) = map_of m"
  by (rule map_of_same_entries) simp_all

lemma range_perm_every_order:
  assumes "mset ys = mset xs"
  shows "\<exists>sch. range_perm sch xs = ys"
  using assms
proof (induction ys arbitrary: xs)
  case Nil
  then show ?case by (intro exI [of _ "[]"]) simp
next
  case (Cons y ys)
  then have "y \<in> set xs" by (metis list.set_intros(1) set_mset_mset)
  then obtain j where j: "j < length xs" "xs ! j = y"
    by (auto simp: in_set_conv_nth)
  let ?rest = "take j xs @ drop (Suc j) xs"
  have "mset ys = mset ?rest"
    using Cons.prems j mset_pick [OF j(1)] by (metis add_mset_add_mset_same_iff mset.simps(2))
  then obtain sch where "range_perm sch ?rest = ys"
    using Cons.IH by blast
  moreover obtain x xs' where "xs = x # xs'"
    using j by (cases xs) auto
  ultimately have "range_perm (j # sch) xs = y # ys"
    using j by (auto simp: Let_def)
  then show ?case by blast
qed

section \<open>Facts about loops\<close>

lemma for_each_append: "for_each f (xs @ ys) s = for_each f ys (for_each f xs s)"
  by (induction xs arbitrary: s) auto

lemma for_each_invariant:
  assumes "\<And>x s. x \<in> set xs \<Longrightarrow> P s \<Longrightarrow> P (f x s)" and "P s"
  shows "P (for_each f xs s)"
  using assms by (induction xs arbitrary: s) auto

lemma seq_simps [simp]:
  "seq (Some e, s) f = (Some e, s)" "seq (None, s) f = f s"
  by (simp_all add: seq_def)

lemma seq_invariant:
  assumes "P (snd x)" and "\<And>s. P s \<Longrightarrow> P (snd (f s))"
  shows "P (snd (seq x f))"
  using assms by (auto simp: seq_def split: prod.splits option.splits)

lemma for_err_invariant:
  assumes "P s" and "\<And>x s. x \<in> set xs \<Longrightarrow> P s \<Longrightarrow> P (snd (f x s))"
  shows "P (snd (for_err f xs s))"
  using assms
proof (induction xs arbitrary: s)
  case (Cons x xs)
  have "P (snd (seq (f x s) (for_err f xs)))"
    by (rule seq_invariant) (use Cons in simp_all)
  then show ?case by simp
qed simp

lemma seq_None:
  "fst (seq x f) = None \<longleftrightarrow> fst x = None \<and> fst (f (snd x)) = None"
  by (auto simp: seq_def split: prod.splits option.splits)

lemma seq_None_snd: "fst x = None \<Longrightarrow> seq x f = f (snd x)"
  by (cases x) auto

text \<open>A loop returns no error if no body does, in states that satisfy an invariant.\<close>

lemma for_err_None:
  assumes "P s" and "\<And>x s. x \<in> set xs \<Longrightarrow> P s \<Longrightarrow> P (snd (f x s)) \<and> fst (f x s) = None"
  shows "fst (for_err f xs s) = None"
  using assms by (induction xs arbitrary: s) (auto simp: seq_None)

lemma first_of_None [simp]: "first_of errs = None \<longleftrightarrow> errs = []"
  by (simp add: first_of_def split: list.splits)

lemma for_each_gm_ok:
  "gm_ok m \<Longrightarrow> gm_ok (for_each (\<lambda>x m. gm_put m (key x) x) xs m)"
  by (rule for_each_invariant) simp_all

lemma gm_ok_index_by [simp]: "gm_ok (index_by key xs)"
  by (simp add: index_by_def for_each_gm_ok)

lemma find_snoc:
  "find P (ys @ [y]) = (case find P ys of Some z \<Rightarrow> Some z | None \<Rightarrow> if P y then Some y else None)"
  by (induction ys) auto

lemma find_SomeD: "find P xs = Some x \<Longrightarrow> x \<in> set xs \<and> P x"
  by (induction xs) (auto split: if_splits)

lemma map_of_for_each_put:
  "map_of (for_each (\<lambda>x m. gm_put m (key x) x) xs m) k =
   (case find (\<lambda>x. key x = k) (rev xs) of Some x \<Rightarrow> Some x | None \<Rightarrow> map_of m k)"
  by (induction xs arbitrary: m) (auto simp: find_snoc split: option.splits)

lemma map_of_index_by: "map_of (index_by key xs) k = find (\<lambda>x. key x = k) (rev xs)"
  by (simp add: index_by_def map_of_for_each_put split: option.splits)

lemma index_by_lookup:
  assumes "map_of (index_by key xs) k = Some x"
  shows "x \<in> set xs \<and> key x = k"
  using find_SomeD [OF assms [unfolded map_of_index_by]] by simp

lemma index_by_key: "map_of (index_by key xs) k = Some x \<Longrightarrow> key x = k"
  by (drule index_by_lookup) simp

lemma index_by_dom: "map_of (index_by key xs) k = None \<longleftrightarrow> k \<notin> key ` set xs"
  by (auto simp: map_of_index_by find_None_iff)

text \<open>With one element per key, the index does not depend on the order.\<close>

lemma index_by_distinct:
  assumes "distinct (map key xs)" and "x \<in> set xs"
  shows "map_of (index_by key xs) (key x) = Some x"
proof -
  obtain y where y: "map_of (index_by key xs) (key x) = Some y"
    using assms(2) index_by_dom [of key xs "key x"] by fastforce
  then have "y \<in> set xs" "key y = key x" using index_by_lookup by fastforce+
  then have "y = x" using assms by (auto simp: distinct_map dest: inj_onD)
  with y show ?thesis by simp
qed

section \<open>Facts about decimal numbers\<close>

lemma dec_not_Nil [simp]: "dec n \<noteq> []"
  by (subst dec.simps) simp

lemma decimal_digit:
  "n < 10 \<Longrightarrow> is_digit (''0123456789'' ! n) \<and> digit_val (''0123456789'' ! n) = n"
proof -
  assume "n < 10"
  then have "n = 0 \<or> n = 1 \<or> n = 2 \<or> n = 3 \<or> n = 4 \<or> n = 5 \<or> n = 6 \<or> n = 7 \<or> n = 8 \<or> n = 9"
    by presburger
  then show ?thesis by (elim disjE) (simp_all add: is_digit_def digit_val_def)
qed

lemma dec_digits: "\<forall>c \<in> set (dec n). is_digit c"
proof (induction n rule: dec.induct)
  case (1 n)
  show ?case
  proof (cases "n < 10")
    case True
    then show ?thesis by (subst dec.simps) (simp add: decimal_digit)
  next
    case False
    with "1.IH" show ?thesis
      by (subst dec.simps) (auto simp: decimal_digit)
  qed
qed

lemma undec_append: "undec acc (xs @ ys) = undec (undec acc xs) ys"
  by (induction xs arbitrary: acc) auto

lemma undec_dec: "undec 0 (dec n) = n"
proof (induction n rule: dec.induct)
  case (1 n)
  show ?case
  proof (cases "n < 10")
    case True
    then show ?thesis by (subst dec.simps) (simp add: decimal_digit)
  next
    case False
    with "1.IH" show ?thesis
      by (subst dec.simps) (simp add: undec_append decimal_digit)
  qed
qed

lemma dec_inject [simp]: "dec a = dec b \<longleftrightarrow> a = b"
  by (metis undec_dec)

lemma dec32_inject [simp]: "dec32 a = dec32 b \<longleftrightarrow> a = b"
  by (simp add: dec32_def word_unat_eq_iff)

end
