(* ===== verification/Go_Strings.thy ===== *)
theory Go_Strings
  imports Nova_Prelude
begin

text \<open>
  The functions of Go's packages \<open>strings\<close> and \<open>strconv\<close> that NovaRoute calls, on byte
  strings.  Case mapping is exact on ASCII and on the few other code points whose mapping
  is an ASCII letter (U+0130, U+212A, U+0131, U+017F), so comparing a mapped string with
  an ASCII literal gives what Go gives; every other multi-byte code point is left as it
  is.  \<open>TrimSpace\<close> knows every code point of \<open>unicode.IsSpace\<close>.
\<close>

section \<open>Case\<close>

definition lower_byte :: "char \<Rightarrow> char" where
  "lower_byte c =
     (if 65 \<le> (of_char c :: nat) \<and> (of_char c :: nat) \<le> 90
      then ''abcdefghijklmnopqrstuvwxyz'' ! (of_char c - 65) else c)"

definition upper_byte :: "char \<Rightarrow> char" where
  "upper_byte c =
     (if 97 \<le> (of_char c :: nat) \<and> (of_char c :: nat) \<le> 122
      then ''ABCDEFGHIJKLMNOPQRSTUVWXYZ'' ! (of_char c - 97) else c)"

fun ToLower :: "string \<Rightarrow> string" where
  "ToLower [] = []"
| "ToLower (c # cs) =
     (if c = CHR 0xC4 \<and> take 1 cs = [CHR 0xB0] then CHR ''i'' # ToLower (drop 1 cs)
      else if c = CHR 0xE2 \<and> take 2 cs = [CHR 0x84, CHR 0xAA] then CHR ''k'' # ToLower (drop 2 cs)
      else lower_byte c # ToLower cs)"

fun ToUpper :: "string \<Rightarrow> string" where
  "ToUpper [] = []"
| "ToUpper (c # cs) =
     (if c = CHR 0xC4 \<and> take 1 cs = [CHR 0xB1] then CHR ''I'' # ToUpper (drop 1 cs)
      else if c = CHR 0xC5 \<and> take 1 cs = [CHR 0xBF] then CHR ''S'' # ToUpper (drop 1 cs)
      else upper_byte c # ToUpper cs)"

text \<open>Simple case folding, as \<open>strings.EqualFold\<close> uses it.\<close>

fun case_fold :: "string \<Rightarrow> string" where
  "case_fold [] = []"
| "case_fold (c # cs) =
     (if c = CHR 0xC5 \<and> take 1 cs = [CHR 0xBF] then CHR ''s'' # case_fold (drop 1 cs)
      else if c = CHR 0xE2 \<and> take 2 cs = [CHR 0x84, CHR 0xAA] then CHR ''k'' # case_fold (drop 2 cs)
      else lower_byte c # case_fold cs)"

definition EqualFold :: "string \<Rightarrow> string \<Rightarrow> bool" where
  "EqualFold s t \<longleftrightarrow> case_fold s = case_fold t"

section \<open>Searching, splitting and joining\<close>

definition HasPrefix :: "string \<Rightarrow> string \<Rightarrow> bool" where
  "HasPrefix s p \<longleftrightarrow> take (length p) s = p"

definition CutPrefix :: "string \<Rightarrow> string \<Rightarrow> string option" where
  "CutPrefix s p = (if HasPrefix s p then Some (drop (length p) s) else None)"

fun Contains :: "string \<Rightarrow> string \<Rightarrow> bool" where
  "Contains [] t = (t = [])"
| "Contains (c # cs) t = (HasPrefix (c # cs) t \<or> Contains cs t)"

text \<open>\<open>strings.ReplaceAll\<close> for a one-byte pattern and a one-byte replacement.\<close>

definition ReplaceAll :: "char \<Rightarrow> char \<Rightarrow> string \<Rightarrow> string" where
  "ReplaceAll old new s = map (\<lambda>c. if c = old then new else c) s"

fun Join :: "string list \<Rightarrow> string \<Rightarrow> string" where
  "Join [] sep = []"
| "Join [x] sep = x"
| "Join (x # y # xs) sep = x @ sep @ Join (y # xs) sep"

text \<open>\<open>strings.Split\<close> for a one-byte separator: never the empty list.\<close>

fun Split :: "string \<Rightarrow> char \<Rightarrow> string list" where
  "Split [] sep = [[]]"
| "Split (c # cs) sep =
     (if c = sep then [] # Split cs sep
      else (case Split cs sep of w # ws \<Rightarrow> (c # w) # ws | [] \<Rightarrow> [[c]]))"

text \<open>\<open>strings.Cut\<close> for a one-byte separator: what stands before and after its first
  occurrence.\<close>

fun Cut :: "string \<Rightarrow> char \<Rightarrow> (string \<times> string) option" where
  "Cut [] sep = None"
| "Cut (c # cs) sep =
     (if c = sep then Some ([], cs)
      else (case Cut cs sep of None \<Rightarrow> None | Some (a, b) \<Rightarrow> Some (c # a, b)))"

section \<open>Paths\<close>

text \<open>\<open>path/filepath\<close>: \<open>Clean\<close> drops empty and dot elements and resolves dot-dot elements
  against the elements before them (given last first), and \<open>Join\<close> cleans the joined path.\<close>

fun clean_elems :: "bool \<Rightarrow> string list \<Rightarrow> string list \<Rightarrow> string list" where
  "clean_elems rooted acc [] = rev acc"
| "clean_elems rooted acc (e # es) =
     (if e = [] \<or> e = ''.'' then clean_elems rooted acc es
      else if e = ''..'' then
        (case acc of
           a # acc' \<Rightarrow> if a = ''..'' then clean_elems rooted (e # acc) es else clean_elems rooted acc' es
         | [] \<Rightarrow> if rooted then clean_elems rooted [] es else clean_elems rooted [e] es)
      else clean_elems rooted (e # acc) es)"

definition Clean :: "string \<Rightarrow> string" where
  "Clean p =
     (let rooted = HasPrefix p ''/'';
          body = Join (clean_elems rooted [] (Split p (CHR ''/''))) ''/'' in
      if rooted then CHR ''/'' # body else if body = [] then ''.'' else body)"

definition FilepathJoin :: "string \<Rightarrow> string \<Rightarrow> string" where
  "FilepathJoin dir name = (if dir = [] then Clean name else Clean (dir @ ''/'' @ name))"

section \<open>White space\<close>

text \<open>The UTF-8 encodings of the code points of \<open>unicode.IsSpace\<close>.\<close>

definition spaces :: "string list" where
  "spaces =
     [[CHR 0x09], [CHR 0x0A], [CHR 0x0B], [CHR 0x0C], [CHR 0x0D], [CHR 0x20],
      [CHR 0xC2, CHR 0x85], [CHR 0xC2, CHR 0xA0], [CHR 0xE1, CHR 0x9A, CHR 0x80],
      [CHR 0xE2, CHR 0x80, CHR 0x80], [CHR 0xE2, CHR 0x80, CHR 0x81],
      [CHR 0xE2, CHR 0x80, CHR 0x82], [CHR 0xE2, CHR 0x80, CHR 0x83],
      [CHR 0xE2, CHR 0x80, CHR 0x84], [CHR 0xE2, CHR 0x80, CHR 0x85],
      [CHR 0xE2, CHR 0x80, CHR 0x86], [CHR 0xE2, CHR 0x80, CHR 0x87],
      [CHR 0xE2, CHR 0x80, CHR 0x88], [CHR 0xE2, CHR 0x80, CHR 0x89],
      [CHR 0xE2, CHR 0x80, CHR 0x8A], [CHR 0xE2, CHR 0x80, CHR 0xA8],
      [CHR 0xE2, CHR 0x80, CHR 0xA9], [CHR 0xE2, CHR 0x80, CHR 0xAF],
      [CHR 0xE2, CHR 0x81, CHR 0x9F], [CHR 0xE3, CHR 0x80, CHR 0x80]]"

fun strip_one :: "string list \<Rightarrow> string \<Rightarrow> string option" where
  "strip_one [] s = None"
| "strip_one (p # ps) s =
     (if p \<noteq> [] \<and> HasPrefix s p then Some (drop (length p) s) else strip_one ps s)"

lemma strip_one_shorter: "strip_one ps s = Some t \<Longrightarrow> length t < length s"
proof (induction ps)
  case (Cons p ps)
  show ?case
  proof (cases "p \<noteq> [] \<and> HasPrefix s p")
    case True
    with Cons.prems have t: "t = drop (length p) s" by simp
    from True have "0 < length p" and "s \<noteq> []" by (auto simp: HasPrefix_def)
    then show ?thesis by (simp add: t)
  next
    case False
    with Cons show ?thesis by simp
  qed
qed simp

function strip_all :: "string list \<Rightarrow> string \<Rightarrow> string" where
  "strip_all ps s = (case strip_one ps s of None \<Rightarrow> s | Some t \<Rightarrow> strip_all ps t)"
  by pat_completeness auto
termination
  by (relation "measure (\<lambda>(ps, s). length s)") (auto dest: strip_one_shorter)

declare strip_all.simps [simp del]

definition TrimSpace :: "string \<Rightarrow> string" where
  "TrimSpace s = rev (strip_all (map rev spaces) (rev (strip_all spaces s)))"

section \<open>Numbers\<close>

text \<open>\<open>strconv.ParseUint(s, 10, 32)\<close>: one or more decimal digits, no sign, no
  underscore, below \<open>2 ^ 32\<close>.\<close>

definition ParseUint32 :: "string \<Rightarrow> uint32 option" where
  "ParseUint32 s =
     (if s \<noteq> [] \<and> list_all is_digit s \<and> undec 0 s < 2 ^ 32
      then Some (of_nat (undec 0 s)) else None)"

section \<open>Facts\<close>

lemma HasPrefix_append [simp]: "HasPrefix (p @ s) p"
  by (simp add: HasPrefix_def)

lemma HasPrefix_iff: "HasPrefix s p \<longleftrightarrow> (\<exists>t. s = p @ t)"
  unfolding HasPrefix_def by (metis append_eq_conv_conj append_take_drop_id)

lemma Contains_iff: "Contains s t \<longleftrightarrow> (\<exists>a b. s = a @ t @ b)"
proof (induction s)
  case Nil
  then show ?case by auto
next
  case (Cons c cs)
  show ?case
  proof
    assume "Contains (c # cs) t"
    then consider "HasPrefix (c # cs) t" | "Contains cs t" by auto
    then show "\<exists>a b. c # cs = a @ t @ b"
    proof cases
      case 1
      then show ?thesis by (metis HasPrefix_iff append_Nil)
    next
      case 2
      then show ?thesis using Cons.IH by (metis append_Cons)
    qed
  next
    assume "\<exists>a b. c # cs = a @ t @ b"
    then obtain a b where ab: "c # cs = a @ t @ b" by blast
    show "Contains (c # cs) t"
    proof (cases a)
      case Nil
      with ab have "HasPrefix (c # cs) t" by (auto simp: HasPrefix_iff)
      then show ?thesis by simp
    next
      case (Cons x a')
      with ab have "cs = a' @ t @ b" by simp
      then show ?thesis using \<open>Contains cs t = (\<exists>a b. cs = a @ t @ b)\<close> by auto
    qed
  qed
qed

lemma Split_not_Nil [simp]: "Split s sep \<noteq> []"
  by (cases s) (auto split: list.splits)

lemma Join_Split: "Join (Split s sep) [sep] = s"
proof (induction s)
  case (Cons c cs)
  then show ?case
    by (cases "Split cs sep" rule: list.exhaust; cases "tl (Split cs sep)") auto
qed simp

lemma Split_append_sep:
  "sep \<notin> set a \<Longrightarrow> Split (a @ sep # b) sep = a # Split b sep"
  by (induction a) auto

lemma Split_append_any: "Split (a @ sep # b) sep = Split a sep @ Split b sep"
  by (induction a) (auto split: list.splits)

lemma Split_snoc_sep: "Split (s @ [sep]) sep = Split s sep @ [[]]"
  by (simp add: Split_append_any)

lemma Split_single: "sep \<notin> set a \<Longrightarrow> Split a sep = [a]"
  by (induction a) auto

text \<open>Joining and splitting again splits every element.\<close>

lemma Split_Join_concat:
  "xs \<noteq> [] \<Longrightarrow> Split (Join xs [sep]) sep = concat (map (\<lambda>x. Split x sep) xs)"
  by (induction xs "[sep]" rule: Join.induct) (auto simp: Split_append_any)

lemma Split_Join:
  assumes "xs \<noteq> []" and "\<forall>x \<in> set xs. sep \<notin> set x"
  shows "Split (Join xs [sep]) sep = xs"
proof -
  have "concat (map (\<lambda>x. Split x sep) xs) = xs"
    using assms(2) by (induction xs) (auto simp: Split_single)
  then show ?thesis using Split_Join_concat [OF assms(1)] by simp
qed

lemma Cut_Some: "Cut s sep = Some (a, b) \<Longrightarrow> s = a @ sep # b \<and> sep \<notin> set a"
  by (induction s arbitrary: a b) (auto split: if_splits option.splits)

lemma Cut_append: "sep \<notin> set a \<Longrightarrow> Cut (a @ sep # b) sep = Some (a, b)"
  by (induction a) auto

lemma ParseUint32_dec32: "ParseUint32 (dec32 w) = Some w"
proof -
  have "unat w < 2 ^ 32" using unsigned_less [of w] by simp
  then show ?thesis
    using dec_digits [of "unat w"]
    by (simp add: ParseUint32_def dec32_def undec_dec list_all_iff)
qed

end
