(* ===== verification/Go_Net.thy ===== *)
theory Go_Net
  imports Go_Strings
begin

unbundle bit_operations_syntax

text \<open>
  The part of Go's packages \<open>net\<close> and \<open>net/netip\<close> that NovaRoute validates addresses
  with.  An \<open>IP\<close> is a list of bytes, 4 or 16 of them, as in Go; \<open>ParseIP\<close> and
  \<open>ParseCIDR\<close> give the 16-byte form.  The parsers follow the library's loops: octets
  without leading zeros, at most four hexadecimal digits per group, one ellipsis, an
  IPv4 tail, a zone.  The second half relates masks to bits: \<open>Contains\<close> on a network
  that \<open>ParseCIDR\<close> made compares leading bits, and a longer mask never contains more.
\<close>

section \<open>Addresses\<close>

type_synonym byte = "8 word"

type_synonym IP = "byte list"

definition v4InV6Prefix :: "byte list" where
  "v4InV6Prefix = [0, 0, 0, 0, 0, 0, 0, 0, 0, 0, 255, 255]"

text \<open>\<open>netip.Addr\<close>: four bytes, or sixteen bytes and a zone.\<close>

datatype Addr = Addr4 "byte list" | Addr6 "byte list" string

fun As16 :: "Addr \<Rightarrow> IP" where
  "As16 (Addr4 bs) = v4InV6Prefix @ bs"
| "As16 (Addr6 bs z) = bs"

fun BitLen :: "Addr \<Rightarrow> nat" where
  "BitLen (Addr4 bs) = 32"
| "BitLen (Addr6 bs z) = 128"

fun Zone :: "Addr \<Rightarrow> string" where
  "Zone (Addr4 bs) = []"
| "Zone (Addr6 bs z) = z"

section \<open>Parsing addresses\<close>

text \<open>\<open>parseIPv4Fields\<close>: the octet read so far, its position, its number of digits, the
  byte before (none at the start) and the octets already stored.\<close>

fun parseIPv4Fields :: "nat \<Rightarrow> nat \<Rightarrow> nat \<Rightarrow> char option \<Rightarrow> byte list \<Rightarrow> string \<Rightarrow> byte list option" where
  "parseIPv4Fields val pos digLen prev fs [] =
     (if pos < 3 then None else Some (fs @ [of_nat val]))"
| "parseIPv4Fields val pos digLen prev fs (c # cs) =
     (if is_digit c then
        if digLen = 1 \<and> val = 0 then None
        else if 255 < val * 10 + digit_val c then None
        else parseIPv4Fields (val * 10 + digit_val c) pos (Suc digLen) (Some c) fs cs
      else if c = CHR ''.'' then
        if prev = None \<or> cs = [] \<or> prev = Some (CHR ''.'') then None
        else if pos = 3 then None
        else parseIPv4Fields 0 (Suc pos) 0 (Some c) (fs @ [of_nat val]) cs
      else None)"

definition parseIPv4 :: "string \<Rightarrow> Addr option" where
  "parseIPv4 s = map_option Addr4 (parseIPv4Fields 0 0 0 None [] s)"

definition hex_val :: "char \<Rightarrow> nat option" where
  "hex_val c =
     (let n = (of_char c :: nat) in
      if 48 \<le> n \<and> n \<le> 57 then Some (n - 48)
      else if 97 \<le> n \<and> n \<le> 102 then Some (n - 87)
      else if 65 \<le> n \<and> n \<le> 70 then Some (n - 55)
      else None)"

definition is_hex :: "char \<Rightarrow> bool" where
  "is_hex c \<longleftrightarrow> hex_val c \<noteq> None"

fun hex_num :: "nat \<Rightarrow> string \<Rightarrow> nat" where
  "hex_num acc [] = acc"
| "hex_num acc (c # cs) = hex_num (16 * acc + (case hex_val c of None \<Rightarrow> 0 | Some d \<Rightarrow> d)) cs"

text \<open>The loop of \<open>parseIPv6\<close>: groups left, bytes stored, position of the ellipsis, rest
  of the string.\<close>

fun parseIPv6_loop :: "nat \<Rightarrow> byte list \<Rightarrow> nat option \<Rightarrow> string \<Rightarrow> (byte list \<times> nat option \<times> string) option" where
  "parseIPv6_loop 0 ip ell s = Some (ip, ell, s)"
| "parseIPv6_loop (Suc n) ip ell s =
     (let ds = takeWhile is_hex s; off = length ds; rest = dropWhile is_hex s; acc = hex_num 0 ds in
      if 4 < off \<or> off = 0 then None
      else if take 1 rest = ''.'' then
        if ell = None \<and> length ip \<noteq> 12 then None
        else if 16 < length ip + 4 then None
        else (case parseIPv4Fields 0 0 0 None [] s of
                None \<Rightarrow> None
              | Some bs \<Rightarrow> Some (ip @ bs, ell, []))
      else
        let ip' = ip @ [of_nat (acc div 256), of_nat (acc mod 256)] in
        (case rest of
           [] \<Rightarrow> Some (ip', ell, [])
         | c # cs \<Rightarrow>
             if c \<noteq> CHR '':'' \<or> cs = [] then None
             else if hd cs = CHR '':'' then
               if ell \<noteq> None then None
               else if tl cs = [] then Some (ip', Some (length ip'), [])
               else parseIPv6_loop n ip' (Some (length ip')) (tl cs)
             else parseIPv6_loop n ip' ell cs))"

definition parseIPv6_body :: "string \<Rightarrow> byte list option" where
  "parseIPv6_body s =
     (let lead = (take 2 s = ''::'');
          s' = (if lead then drop 2 s else s);
          ell = (if lead then Some 0 else None) in
      if lead \<and> s' = [] then Some (replicate 16 0)
      else (case parseIPv6_loop 8 [] ell s' of
              None \<Rightarrow> None
            | Some (ip, ell', r) \<Rightarrow>
                if r \<noteq> [] then None
                else if length ip < 16 then
                  (case ell' of
                     None \<Rightarrow> None
                   | Some e \<Rightarrow> Some (take e ip @ replicate (16 - length ip) 0 @ drop e ip))
                else if ell' \<noteq> None then None
                else Some ip))"

definition parseIPv6 :: "string \<Rightarrow> Addr option" where
  "parseIPv6 s =
     (case Cut s (CHR ''%'') of
        None \<Rightarrow> map_option (\<lambda>bs. Addr6 bs []) (parseIPv6_body s)
      | Some (a, zone) \<Rightarrow>
          if zone = [] then None else map_option (\<lambda>bs. Addr6 bs zone) (parseIPv6_body a))"

text \<open>\<open>netip.ParseAddr\<close>: the first dot, colon or percent sign decides.\<close>

definition ParseAddr :: "string \<Rightarrow> Addr option" where
  "ParseAddr s =
     (case find (\<lambda>c. c = CHR ''.'' \<or> c = CHR '':'' \<or> c = CHR ''%'') s of
        None \<Rightarrow> None
      | Some c \<Rightarrow>
          if c = CHR ''.'' then parseIPv4 s
          else if c = CHR '':'' then parseIPv6 s
          else None)"

definition ParseIP :: "string \<Rightarrow> IP option" where
  "ParseIP s =
     (case ParseAddr s of
        None \<Rightarrow> None
      | Some a \<Rightarrow> if Zone a \<noteq> [] then None else Some (As16 a))"

definition To4 :: "IP \<Rightarrow> IP option" where
  "To4 ip =
     (if length ip = 4 then Some ip
      else if length ip = 16 \<and> take 12 ip = v4InV6Prefix then Some (drop 12 ip)
      else None)"

definition IsMulticast :: "IP \<Rightarrow> bool" where
  "IsMulticast ip =
     (case To4 ip of
        Some ip4 \<Rightarrow> ip4 ! 0 AND 0xf0 = 0xe0
      | None \<Rightarrow> length ip = 16 \<and> ip ! 0 = 0xff)"

definition IsUnspecified :: "IP \<Rightarrow> bool" where
  "IsUnspecified ip \<longleftrightarrow> To4 ip = Some [0, 0, 0, 0] \<or> ip = replicate 16 0"

section \<open>Networks\<close>

text \<open>\<open>CIDRMask\<close>, for a number of bytes.\<close>

fun CIDRMask :: "nat \<Rightarrow> nat \<Rightarrow> byte list" where
  "CIDRMask 0 n = []"
| "CIDRMask (Suc l) n =
     (if 8 \<le> n then 255 # CIDRMask l (n - 8)
      else NOT (drop_bit n 255) # CIDRMask l 0)"

text \<open>\<open>simpleMaskLength\<close>: the number of leading ones, if only zeros follow them.\<close>

fun leading_ones :: "nat \<Rightarrow> byte \<Rightarrow> nat \<times> byte" where
  "leading_ones 0 v = (0, v)"
| "leading_ones (Suc k) v =
     (if v AND 0x80 \<noteq> 0 then (case leading_ones k (push_bit 1 v) of (n, r) \<Rightarrow> (Suc n, r))
      else (0, v))"

fun simpleMaskLength :: "byte list \<Rightarrow> nat option" where
  "simpleMaskLength [] = Some 0"
| "simpleMaskLength (v # vs) =
     (if v = 255 then map_option (\<lambda>n. n + 8) (simpleMaskLength vs)
      else case leading_ones 8 v of
        (n, r) \<Rightarrow> if r \<noteq> 0 \<or> \<not> list_all (\<lambda>w. w = 0) vs then None else Some n)"

definition MaskSize :: "byte list \<Rightarrow> nat \<times> nat" where
  "MaskSize m = (case simpleMaskLength m of None \<Rightarrow> (0, 0) | Some n \<Rightarrow> (n, 8 * length m))"

record IPNet =
  net_IP :: IP
  net_Mask :: "byte list"

definition and_bytes :: "byte list \<Rightarrow> byte list \<Rightarrow> byte list" where
  "and_bytes a m = map (\<lambda>(x, y). x AND y) (zip a m)"

text \<open>\<open>IP.Mask\<close>; Go's \<open>nil\<close> result (mismatched lengths) is the empty address.\<close>

definition IPMask :: "IP \<Rightarrow> byte list \<Rightarrow> IP" where
  "IPMask ip msk =
     (let m = (if length msk = 16 \<and> length ip = 4 \<and> list_all (\<lambda>b. b = 255) (take 12 msk)
               then drop 12 msk else msk);
          i = (if length m = 4 \<and> length ip = 16 \<and> take 12 ip = v4InV6Prefix
               then drop 12 ip else ip) in
      if length i \<noteq> length m then [] else and_bytes i m)"

text \<open>\<open>dtoi\<close>: the digits must be the whole string and stay below \<open>0xFFFFFF\<close>.\<close>

fun dtoi :: "nat \<Rightarrow> string \<Rightarrow> nat option" where
  "dtoi n [] = Some n"
| "dtoi n (c # cs) =
     (if \<not> is_digit c then None
      else if 0xFFFFFF \<le> n * 10 + digit_val c then None
      else dtoi (n * 10 + digit_val c) cs)"

definition cidr_of :: "Addr \<Rightarrow> nat \<Rightarrow> IP \<times> IPNet" where
  "cidr_of a n =
     (let m = CIDRMask (BitLen a div 8) n in
      (As16 a, \<lparr>net_IP = IPMask (As16 a) m, net_Mask = m\<rparr>))"

definition ParseCIDR :: "string \<Rightarrow> (IP \<times> IPNet) option" where
  "ParseCIDR s =
     (case Cut s (CHR ''/'') of
        None \<Rightarrow> None
      | Some (addr, msk) \<Rightarrow>
          (case ParseAddr addr of
             None \<Rightarrow> None
           | Some a \<Rightarrow>
               if Zone a \<noteq> [] \<or> msk = [] then None
               else (case dtoi 0 msk of
                       None \<Rightarrow> None
                     | Some n \<Rightarrow> if BitLen a < n then None else Some (cidr_of a n))))"

text \<open>\<open>networkNumberAndMask\<close> and \<open>IPNet.Contains\<close>.\<close>

definition networkNumberAndMask :: "IPNet \<Rightarrow> (byte list \<times> byte list) option" where
  "networkNumberAndMask n =
     (let ip = (case To4 (net_IP n) of Some x \<Rightarrow> x | None \<Rightarrow> net_IP n); m = net_Mask n in
      if To4 (net_IP n) = None \<and> length ip \<noteq> 16 then None
      else if length m = 4 then (if length ip \<noteq> 4 then None else Some (ip, m))
      else if length m = 16 then (if length ip = 4 then Some (ip, drop 12 m) else Some (ip, m))
      else None)"

definition Contains_IP :: "IPNet \<Rightarrow> IP \<Rightarrow> bool" where
  "Contains_IP n ip =
     (case networkNumberAndMask n of
        None \<Rightarrow> ip = []
      | Some (nn, m) \<Rightarrow>
          (let x = (case To4 ip of Some y \<Rightarrow> y | None \<Rightarrow> ip) in
           length x = length nn \<and> and_bytes nn m = and_bytes x m))"

section \<open>Facts about masks\<close>

lemma length_CIDRMask [simp]: "length (CIDRMask l n) = l"
  by (induction l n rule: CIDRMask.induct) auto

lemma length_and_bytes [simp]: "length (and_bytes a m) = min (length a) (length m)"
  by (simp add: and_bytes_def)

lemma and_bytes_Nil [simp]: "and_bytes [] m = []"
  by (simp add: and_bytes_def)

lemma and_bytes_Cons [simp]: "and_bytes (x # xs) (y # ys) = (x AND y) # and_bytes xs ys"
  by (simp add: and_bytes_def)

lemma bit_255 [simp]: "bit (255 :: byte) i \<longleftrightarrow> i < 8"
proof -
  have "(255 :: byte) = - 1" by simp
  then have "bit (255 :: byte) i = bit (- 1 :: byte) i" by (simp only:)
  also have "\<dots> \<longleftrightarrow> i < 8" by (simp only: bit_minus_1_iff possible_bit_word) simp
  finally show ?thesis .
qed

lemma top_mask_bit: "bit (NOT (drop_bit n (255 :: byte))) i \<longleftrightarrow> i < 8 \<and> 8 \<le> n + i"
  by (auto simp only: bit_not_iff bit_drop_bit_eq comp_apply bit_255 possible_bit_word) simp_all

lemma all_ones_and [simp]: "(255 :: byte) AND x = x" "x AND (255 :: byte) = x"
  by (rule bit_word_eqI, simp only: bit_and_iff bit_255, simp)+

lemma and_bytes_assoc: "and_bytes (and_bytes a m) m' = and_bytes a (and_bytes m m')"
proof (induction a arbitrary: m m')
  case (Cons x xs)
  then show ?case by (cases m; cases m') (auto simp: and_bytes_def ac_simps)
qed simp

lemma CIDRMask_shorter:
  "n \<le> n' \<Longrightarrow> and_bytes (CIDRMask l n') (CIDRMask l n) = CIDRMask l n"
proof (induction l arbitrary: n n')
  case (Suc l)
  have "NOT (drop_bit n' 255) AND NOT (drop_bit n 255) = NOT (drop_bit n (255 :: byte))"
    if "n' < 8"
    using Suc.prems that by (auto intro!: bit_word_eqI simp: top_mask_bit bit_and_iff)
  with Suc show ?case by auto
qed simp

text \<open>Addresses that agree under a longer mask agree under a shorter one.\<close>

lemma agree_shorter:
  assumes "and_bytes a (CIDRMask l n') = and_bytes b (CIDRMask l n')" and "n \<le> n'"
  shows "and_bytes a (CIDRMask l n) = and_bytes b (CIDRMask l n)"
proof -
  have "and_bytes a (CIDRMask l n) = and_bytes (and_bytes a (CIDRMask l n')) (CIDRMask l n)"
    by (simp add: and_bytes_assoc CIDRMask_shorter assms(2))
  also have "\<dots> = and_bytes (and_bytes b (CIDRMask l n')) (CIDRMask l n)"
    by (simp add: assms(1))
  also have "\<dots> = and_bytes b (CIDRMask l n)"
    by (simp add: and_bytes_assoc CIDRMask_shorter assms(2))
  finally show ?thesis .
qed

lemma leading_ones_top_mask:
  "n < 8 \<Longrightarrow> leading_ones 8 (NOT (drop_bit n 255)) = (n, 0)"
proof -
  assume "n < 8"
  then have "n = 0 \<or> n = 1 \<or> n = 2 \<or> n = 3 \<or> n = 4 \<or> n = 5 \<or> n = 6 \<or> n = 7" by presburger
  then show ?thesis by (elim disjE; hypsubst; code_simp)
qed

lemma CIDRMask_zero: "CIDRMask l 0 = replicate l 0"
  by (induction l) auto

lemma simpleMaskLength_CIDRMask:
  "n \<le> 8 * l \<Longrightarrow> simpleMaskLength (CIDRMask l n) = Some n"
proof (induction l arbitrary: n)
  case (Suc l)
  show ?case
  proof (cases "8 \<le> n")
    case True
    with Suc show ?thesis by simp
  next
    case False
    have "\<not> bit (NOT (drop_bit n (255 :: byte))) 0" using False by (simp add: top_mask_bit)
    then have "NOT (drop_bit n (255 :: byte)) \<noteq> 255" by (metis bit_255 zero_less_numeral)
    with False show ?thesis
      by (simp add: leading_ones_top_mask CIDRMask_zero list_all_iff)
  qed
qed simp

lemma MaskSize_CIDRMask: "n \<le> 8 * l \<Longrightarrow> MaskSize (CIDRMask l n) = (n, 8 * l)"
  by (simp add: MaskSize_def simpleMaskLength_CIDRMask)

section \<open>Facts about parsed addresses\<close>

lemma parseIPv4Fields_length:
  assumes "parseIPv4Fields val pos digLen prev fs s = Some bs"
    and "length fs = pos" and "pos \<le> 3"
  shows "length bs = 4"
  using assms
proof (induction val pos digLen prev fs s rule: parseIPv4Fields.induct)
  case (1 val pos digLen prev fs)
  then show ?case by (auto split: if_splits)
next
  case (2 val pos digLen prev fs c cs)
  show ?case
  proof (cases "is_digit c")
    case True
    with "2.prems" "2.IH"(1) show ?thesis by (auto split: if_splits)
  next
    case False
    with "2.prems" "2.IH"(2) show ?thesis by (auto split: if_splits)
  qed
qed

lemma parseIPv6_loop_length:
  assumes "parseIPv6_loop n ip ell s = Some (ip', ell', r)"
    and "length ip + 2 * n = 16"
  shows "length ip' \<le> 16"
  using assms
proof (induction n arbitrary: ip ell s)
  case (Suc n)
  from Suc.prems show ?case
    by (auto simp: Let_def dest!: Suc.IH parseIPv4Fields_length
        split: if_splits option.splits list.splits)
qed simp

lemma parseIPv6_body_length: "parseIPv6_body s = Some bs \<Longrightarrow> length bs = 16"
  by (auto simp: parseIPv6_body_def Let_def split: if_splits option.splits
      dest!: parseIPv6_loop_length)

lemma ParseAddr_length:
  "ParseAddr s = Some a \<Longrightarrow> (case a of Addr4 bs \<Rightarrow> length bs = 4 | Addr6 bs z \<Rightarrow> length bs = 16)"
  by (auto simp: ParseAddr_def parseIPv4_def parseIPv6_def split: option.splits if_splits
      dest!: parseIPv4Fields_length parseIPv6_body_length)

lemma length_As16: "ParseAddr s = Some a \<Longrightarrow> length (As16 a) = 16"
  by (drule ParseAddr_length) (auto simp: v4InV6Prefix_def split: Addr.splits)

lemma ParseIP_length: "ParseIP s = Some ip \<Longrightarrow> length ip = 16"
  by (auto simp: ParseIP_def length_As16 split: option.splits if_splits)

lemma ParseIP_empty [simp]: "ParseIP [] = None"
  by (simp add: ParseIP_def ParseAddr_def)

end
