(* ===== verification/Agent_Config.thy ===== *)
theory Agent_Config
  imports Go_Net
begin

text \<open>
  The agent's configuration (\<open>internal/config/config.go\<close>): its records, the defaults,
  \<open>Validate\<close> with every check in the order of the code, and \<open>ExpandEnvVars\<close> with
  \<open>os.ExpandEnv\<close> and the per-node AS computation on 32-bit words.  The environment is
  the argument \<open>env\<close>.  The JSON file is decoded in \<open>Config_File\<close>.  A Go \<open>int\<close> field is an
  \<open>int\<close>: it is only compared with zero.
\<close>

section \<open>Data\<close>

datatype config_error =
    ErrListenSocketEmpty
  | ErrAtLeastOneOwnerRequired
  | ErrDisconnectGracePeriodNeg
  | ErrFRRSocketDirEmpty
  | ErrFRRConnectTimeoutPositive
  | ErrFRRRetryIntervalPositive
  | ErrBGPRouterIDInvalid
  | ErrBGPPeerNeighborEmpty
  | ErrBGPPeerNeighborInvalid
  | ErrBGPPeerRemoteASZero
  | ErrBGPPeerSourceAddrInvalid
  | ErrOwnerTokenEmpty
  | ErrOwnerPrefixTypeEmpty
  | ErrOwnerPrefixTypeUnknown
  | ErrOwnerCIDRInvalid
  | ErrLogLevelInvalid

record FRRConfig =
  frr_SocketDir :: string
  frr_ConnectTimeout :: int
  frr_RetryInterval :: int

record PeerConfig =
  pc_NeighborAddress :: string
  pc_RemoteAS :: uint32
  pc_Description :: string
  pc_BFDEnabled :: bool
  pc_BFDMinRxMs :: uint32
  pc_BFDMinTxMs :: uint32
  pc_BFDDetectMultiplier :: uint32
  pc_Keepalive :: uint32
  pc_HoldTime :: uint32
  pc_AddressFamilies :: "string list"
  pc_SourceAddress :: string
  pc_EBGPMultihop :: uint32
  pc_Password :: string
  pc_MaxPrefixes :: uint32

record BGPConfig =
  bgp_LocalAS :: uint32
  bgp_AsBase :: uint32
  bgp_RouterID :: string
  bgp_AutoRouterID :: bool
  bgp_Peers :: "PeerConfig list"

record PrefixPolicy =
  pp_Type :: string
  pp_AllowedCIDRs :: "string list"

record OwnerConfig =
  oc_Token :: string
  oc_AllowedPrefixes :: PrefixPolicy

record Config =
  cfg_ListenSocket :: string
  cfg_FRR :: FRRConfig
  cfg_BGP :: BGPConfig
  cfg_Owners :: "(string, OwnerConfig) gomap"
  cfg_LogLevel :: string
  cfg_MetricsAddress :: string
  cfg_DisconnectGracePeriod :: int

definition DefaultConfig :: Config where
  "DefaultConfig =
     \<lparr>cfg_ListenSocket = ''/run/novaroute/novaroute.sock'',
      cfg_FRR = \<lparr>frr_SocketDir = ''/run/frr'', frr_ConnectTimeout = 10, frr_RetryInterval = 5\<rparr>,
      cfg_BGP = \<lparr>bgp_LocalAS = 0, bgp_AsBase = 0, bgp_RouterID = [], bgp_AutoRouterID = False,
        bgp_Peers = []\<rparr>,
      cfg_Owners = [],
      cfg_LogLevel = ''info'',
      cfg_MetricsAddress = '':9100'',
      cfg_DisconnectGracePeriod = 0\<rparr>"

section \<open>Validation\<close>

definition validateBGPPeer :: "PeerConfig \<Rightarrow> config_error option" where
  "validateBGPPeer peer =
     (if pc_NeighborAddress peer = [] then Some ErrBGPPeerNeighborEmpty
      else if ParseIP (pc_NeighborAddress peer) = None then Some ErrBGPPeerNeighborInvalid
      else if pc_RemoteAS peer = 0 then Some ErrBGPPeerRemoteASZero
      else if pc_SourceAddress peer \<noteq> [] \<and> ParseIP (pc_SourceAddress peer) = None
        then Some ErrBGPPeerSourceAddrInvalid
      else None)"

text \<open>A loop that returns the first error it meets.\<close>

fun first_error :: "('a \<Rightarrow> 'e option) \<Rightarrow> 'a list \<Rightarrow> 'e option" where
  "first_error f [] = None"
| "first_error f (x # xs) = (case f x of Some e \<Rightarrow> Some e | None \<Rightarrow> first_error f xs)"

definition validateOwner :: "OwnerConfig \<Rightarrow> config_error option" where
  "validateOwner owner =
     (if oc_Token owner = [] then Some ErrOwnerTokenEmpty
      else
        let ty = ToLower (pp_Type (oc_AllowedPrefixes owner)) in
        if ty = ''host_only'' \<or> ty = ''subnet'' \<or> ty = ''any'' then
          first_error (\<lambda>cidr. if ParseCIDR cidr = None then Some ErrOwnerCIDRInvalid else None)
            (pp_AllowedCIDRs (oc_AllowedPrefixes owner))
        else if ty = [] then Some ErrOwnerPrefixTypeEmpty
        else Some ErrOwnerPrefixTypeUnknown)"

text \<open>The owners are visited in the order \<open>sch\<close>.\<close>

definition validateOwners :: "sched \<Rightarrow> (string, OwnerConfig) gomap \<Rightarrow> config_error option" where
  "validateOwners sch owners =
     (if owners = [] then Some ErrAtLeastOneOwnerRequired
      else first_error (\<lambda>(name, owner). validateOwner owner) (range_perm sch owners))"

definition Validate :: "sched \<Rightarrow> Config \<Rightarrow> config_error option" where
  "Validate sch cfg =
     (if cfg_ListenSocket cfg = [] then Some ErrListenSocketEmpty
      else if frr_SocketDir (cfg_FRR cfg) = [] then Some ErrFRRSocketDirEmpty
      else if frr_ConnectTimeout (cfg_FRR cfg) \<le> 0 then Some ErrFRRConnectTimeoutPositive
      else if frr_RetryInterval (cfg_FRR cfg) \<le> 0 then Some ErrFRRRetryIntervalPositive
      else if bgp_RouterID (cfg_BGP cfg) \<noteq> [] \<and> ParseIP (bgp_RouterID (cfg_BGP cfg)) = None
        then Some ErrBGPRouterIDInvalid
      else case first_error validateBGPPeer (bgp_Peers (cfg_BGP cfg)) of
        Some e \<Rightarrow> Some e
      | None \<Rightarrow>
          (case validateOwners sch (cfg_Owners cfg) of
             Some e \<Rightarrow> Some e
           | None \<Rightarrow>
               if ToLower (cfg_LogLevel cfg) \<notin> {''debug'', ''info'', ''warn'', ''error''}
               then Some ErrLogLevelInvalid
               else if cfg_DisconnectGracePeriod cfg < 0 then Some ErrDisconnectGracePeriodNeg
               else None))"

section \<open>Environment variables\<close>

type_synonym environment = "string \<Rightarrow> string option"

definition Getenv :: "environment \<Rightarrow> string \<Rightarrow> string" where
  "Getenv env v = (case env v of None \<Rightarrow> [] | Some x \<Rightarrow> x)"

text \<open>\<open>os.Expand\<close> and its \<open>getShellName\<close>: the name after a dollar sign and the number of
  bytes it takes.\<close>

definition isShellSpecialVar :: "char \<Rightarrow> bool" where
  "isShellSpecialVar c \<longleftrightarrow> c \<in> set ''*#$@!?-'' \<or> is_digit c"

definition isAlphaNum :: "char \<Rightarrow> bool" where
  "isAlphaNum c \<longleftrightarrow> c = CHR ''_'' \<or> is_digit c \<or>
     (97 \<le> (of_char c :: nat) \<and> (of_char c :: nat) \<le> 122) \<or>
     (65 \<le> (of_char c :: nat) \<and> (of_char c :: nat) \<le> 90)"

definition getShellName :: "string \<Rightarrow> string \<times> nat" where
  "getShellName s =
     (if take 1 s = ''{'' then
        if 2 < length s \<and> isShellSpecialVar (s ! 1) \<and> s ! 2 = CHR ''}'' then ([s ! 1], 3)
        else (case Cut (drop 1 s) (CHR ''}'') of
                None \<Rightarrow> ([], 1)
              | Some (name, _) \<Rightarrow> if name = [] then ([], 2) else (name, length name + 2))
      else if s \<noteq> [] \<and> isShellSpecialVar (s ! 0) then ([s ! 0], 1)
      else (takeWhile isAlphaNum s, length (takeWhile isAlphaNum s)))"

function ExpandEnv :: "environment \<Rightarrow> string \<Rightarrow> string" where
  "ExpandEnv env [] = []"
| "ExpandEnv env (c # cs) =
     (if c = CHR ''$'' \<and> cs \<noteq> [] then
        (case getShellName cs of
           (name, w) \<Rightarrow>
             (if name = [] \<and> 0 < w then [] else if name = [] then [c] else Getenv env name)
             @ ExpandEnv env (drop w cs))
      else c # ExpandEnv env cs)"
  by pat_completeness auto
termination
  by (relation "measure (\<lambda>(env, s). length s)") auto

definition expand_router_id :: "environment \<Rightarrow> BGPConfig \<Rightarrow> BGPConfig" where
  "expand_router_id env b =
     (let b = b\<lparr>bgp_RouterID := ExpandEnv env (bgp_RouterID b)\<rparr> in
      if bgp_AutoRouterID b \<and> bgp_RouterID b = [] \<and> Getenv env ''NODE_IP'' \<noteq> []
      then b\<lparr>bgp_RouterID := Getenv env ''NODE_IP''\<rparr> else b)"

definition expand_as_base :: "environment \<Rightarrow> BGPConfig \<Rightarrow> BGPConfig" where
  "expand_as_base env b =
     (if 0 < bgp_AsBase b \<and> Getenv env ''NODE_IP'' \<noteq> [] then
        (let parts = Split (Getenv env ''NODE_IP'') (CHR ''.'') in
         if length parts = 4 then
           (case ParseUint32 (parts ! 3) of
              Some lastOctet \<Rightarrow> b\<lparr>bgp_LocalAS := bgp_AsBase b + lastOctet\<rparr>
            | None \<Rightarrow> b)
         else b)
      else b)"

definition expand_overrides :: "environment \<Rightarrow> BGPConfig \<Rightarrow> BGPConfig" where
  "expand_overrides env b =
     (let b = (if Getenv env ''NOVAROUTE_BGP_LOCAL_AS'' \<noteq> [] then
                 (case ParseUint32 (Getenv env ''NOVAROUTE_BGP_LOCAL_AS'') of
                    Some as \<Rightarrow> b\<lparr>bgp_LocalAS := as\<rparr>
                  | None \<Rightarrow> b)
               else b) in
      if Getenv env ''NOVAROUTE_BGP_ROUTER_ID'' \<noteq> []
      then b\<lparr>bgp_RouterID := Getenv env ''NOVAROUTE_BGP_ROUTER_ID''\<rparr> else b)"

definition ExpandEnvVars :: "environment \<Rightarrow> Config \<Rightarrow> Config" where
  "ExpandEnvVars env cfg =
     (let owners = for_each
            (\<lambda>(name, owner) m. gm_put m name (owner\<lparr>oc_Token := ExpandEnv env (oc_Token owner)\<rparr>))
            (cfg_Owners cfg) (cfg_Owners cfg)
      in cfg\<lparr>cfg_Owners := owners,
             cfg_BGP := expand_overrides env (expand_as_base env (expand_router_id env (cfg_BGP cfg)))\<rparr>)"

section \<open>Facts about validation\<close>

lemma first_error_None: "first_error f xs = None \<longleftrightarrow> (\<forall>x \<in> set xs. f x = None)"
  by (induction xs) (auto split: option.splits)

lemma first_error_Some: "first_error f xs = Some e \<Longrightarrow> \<exists>x \<in> set xs. f x = Some e"
  by (induction xs) (auto split: option.splits)

text \<open>An owner entry that passed validation.\<close>

definition owner_valid :: "OwnerConfig \<Rightarrow> bool" where
  "owner_valid owner \<longleftrightarrow> oc_Token owner \<noteq> [] \<and>
     ToLower (pp_Type (oc_AllowedPrefixes owner)) \<in> {''host_only'', ''subnet'', ''any''} \<and>
     (\<forall>cidr \<in> set (pp_AllowedCIDRs (oc_AllowedPrefixes owner)). ParseCIDR cidr \<noteq> None)"

lemma validateOwner_None: "validateOwner owner = None \<longleftrightarrow> owner_valid owner"
  by (auto simp: validateOwner_def owner_valid_def first_error_None Let_def)

lemma validateOwners_None:
  "validateOwners sch owners = None \<longleftrightarrow> owners \<noteq> [] \<and> (\<forall>(name, owner) \<in> set owners. owner_valid owner)"
  by (auto simp: validateOwners_def first_error_None validateOwner_None)

lemma Validate_owners:
  assumes "Validate sch cfg = None"
  shows "cfg_Owners cfg \<noteq> [] \<and> (\<forall>(name, owner) \<in> set (cfg_Owners cfg). owner_valid owner)"
  using assms validateOwners_None [of sch "cfg_Owners cfg"]
  by (auto simp: Validate_def split: if_splits option.splits)

end
