(* ===== verification/Policy_Engine.thy ===== *)
theory Policy_Engine
  imports Agent_Config
begin

text \<open>
  The policy engine (\<open>internal/policy/engine.go\<close> and \<open>internal/policy/config.go\<close>): token
  authentication, the prefix policies of an owner (\<open>host_only\<close>, \<open>subnet\<close>, \<open>any\<close> and the
  allowed CIDRs), the operation checks and the ownership conflict rule.  The engine has
  no mutable state.  The text of an error is not modelled; which sentinel it wraps is.

  The lemmas show what an accepted prefix satisfies: its length obeys the policy, and
  every address it covers lies inside one of the allowed networks.
\<close>

section \<open>Data\<close>

datatype policy_error =
    ErrUnknownOwner
  | ErrInvalidToken
  | ErrHostOnlyIPv4Policy
  | ErrHostOnlyIPv6Policy
  | ErrSubnetIPv4Policy
  | ErrSubnetIPv6Policy
  | ErrUnknownPrefixPolicyType
  | ErrPrefixNotInAllowedCIDR
  | ErrOwnershipConflict
  | ErrInvalidPrefix
  | ErrInvalidAllowedCIDR

definition PrefixTypeHostOnly :: string where
  "PrefixTypeHostOnly = ''host_only''"

definition PrefixTypeSubnet :: string where
  "PrefixTypeSubnet = ''subnet''"

definition PrefixTypeAny :: string where
  "PrefixTypeAny = ''any''"

definition adminOwner :: string where
  "adminOwner = ''admin''"

text \<open>The engine's copy of the owners (\<open>policy.Config\<close> has this one field).\<close>

record Engine =
  eng_Owners :: "(string, OwnerConfig) gomap"

text \<open>A nil map becomes an empty one.\<close>

definition NewEngine :: "(string, OwnerConfig) gomap option \<Rightarrow> Engine" where
  "NewEngine owners = \<lparr>eng_Owners = (case owners of None \<Rightarrow> [] | Some m \<Rightarrow> m)\<rparr>"

section \<open>Operations\<close>

definition ValidateToken :: "Engine \<Rightarrow> string \<Rightarrow> string \<Rightarrow> policy_error option" where
  "ValidateToken e owner token =
     (case map_of (eng_Owners e) owner of
        None \<Rightarrow> Some ErrUnknownOwner
      | Some ownerCfg \<Rightarrow> if oc_Token ownerCfg \<noteq> token then Some ErrInvalidToken else None)"

definition parseCIDR :: "string \<Rightarrow> policy_error + IP \<times> IPNet" where
  "parseCIDR prefix =
     (case ParseCIDR prefix of None \<Rightarrow> Inl ErrInvalidPrefix | Some r \<Rightarrow> Inr r)"

fun validateAllowedCIDRs :: "IP \<Rightarrow> IPNet \<Rightarrow> string list \<Rightarrow> policy_error option" where
  "validateAllowedCIDRs ip ipNet [] = Some ErrPrefixNotInAllowedCIDR"
| "validateAllowedCIDRs ip ipNet (allowedCIDR # rest) =
     (case ParseCIDR allowedCIDR of
        None \<Rightarrow> Some ErrInvalidAllowedCIDR
      | Some (_, allowedNet) \<Rightarrow>
          (let allowedOnes = fst (MaskSize (net_Mask allowedNet));
               prefixOnes = fst (MaskSize (net_Mask ipNet)) in
           if Contains_IP allowedNet ip \<and> allowedOnes \<le> prefixOnes then None
           else validateAllowedCIDRs ip ipNet rest))"

text \<open>The switch on the policy type: \<open>None\<close> lets the prefix through to the CIDR check.\<close>

definition checkPrefixType :: "string \<Rightarrow> bool \<Rightarrow> nat \<Rightarrow> nat \<Rightarrow> policy_error option" where
  "checkPrefixType ty isIPv4 ones bits =
     (if ty = PrefixTypeHostOnly then
        if isIPv4 \<and> ones \<noteq> 32 then Some ErrHostOnlyIPv4Policy
        else if \<not> isIPv4 \<and> ones \<noteq> 128 then Some ErrHostOnlyIPv6Policy
        else None
      else if ty = PrefixTypeSubnet then
        if isIPv4 then (if ones < 8 \<or> 28 < ones then Some ErrSubnetIPv4Policy else None)
        else (if ones = bits then Some ErrSubnetIPv6Policy else None)
      else if ty = PrefixTypeAny then None
      else Some ErrUnknownPrefixPolicyType)"

definition ValidatePrefix :: "Engine \<Rightarrow> string \<Rightarrow> string \<Rightarrow> policy_error option" where
  "ValidatePrefix e owner prefix =
     (case map_of (eng_Owners e) owner of
        None \<Rightarrow> Some ErrUnknownOwner
      | Some ownerCfg \<Rightarrow>
          (case parseCIDR prefix of
             Inl err \<Rightarrow> Some err
           | Inr (ip, ipNet) \<Rightarrow>
               (let (ones, bits) = MaskSize (net_Mask ipNet);
                    isIPv4 = (To4 ip \<noteq> None);
                    pol = oc_AllowedPrefixes ownerCfg in
                case checkPrefixType (ToLower (pp_Type pol)) isIPv4 ones bits of
                  Some err \<Rightarrow> Some err
                | None \<Rightarrow>
                    if 0 < length (pp_AllowedCIDRs pol)
                    then validateAllowedCIDRs ip ipNet (pp_AllowedCIDRs pol)
                    else None)))"

definition ValidatePeerOperation :: "Engine \<Rightarrow> string \<Rightarrow> policy_error option" where
  "ValidatePeerOperation e owner =
     (if map_of (eng_Owners e) owner = None then Some ErrUnknownOwner else None)"

definition ValidateBFDOperation :: "Engine \<Rightarrow> string \<Rightarrow> policy_error option" where
  "ValidateBFDOperation e owner =
     (if map_of (eng_Owners e) owner = None then Some ErrUnknownOwner else None)"

definition ValidateOSPFOperation :: "Engine \<Rightarrow> string \<Rightarrow> policy_error option" where
  "ValidateOSPFOperation e owner =
     (if map_of (eng_Owners e) owner = None then Some ErrUnknownOwner else None)"

definition CheckConflict ::
    "Engine \<Rightarrow> string \<Rightarrow> string \<Rightarrow> string \<Rightarrow> string \<Rightarrow> policy_error option" where
  "CheckConflict e owner prefix protocol existingOwner =
     (if existingOwner = [] \<or> existingOwner = owner then None
      else if owner = adminOwner then None
      else Some ErrOwnershipConflict)"

section \<open>Parsed networks\<close>

lemma ParseCIDR_cases:
  assumes "ParseCIDR s = Some (ip, n)"
  obtains a l where "(case a of Addr4 bs \<Rightarrow> length bs = 4 | Addr6 bs z \<Rightarrow> length bs = 16)"
    "l \<le> BitLen a" "(ip, n) = cidr_of a l"
proof -
  obtain addr a l where "ParseAddr addr = Some a" "l \<le> BitLen a" "cidr_of a l = (ip, n)"
    using assms that
    by (simp add: ParseCIDR_def not_less split: option.splits prod.splits if_splits)
  then show thesis using that [of a l] ParseAddr_length by simp
qed

lemma cidr_of_Addr4:
  assumes "length bs = 4"
  shows "cidr_of (Addr4 bs) l = (v4InV6Prefix @ bs,
    \<lparr>net_IP = and_bytes bs (CIDRMask 4 l), net_Mask = CIDRMask 4 l\<rparr>)"
  using assms by (simp add: cidr_of_def Let_def IPMask_def v4InV6Prefix_def)

lemma cidr_of_Addr6:
  assumes "length bs = 16"
  shows "cidr_of (Addr6 bs z) l = (bs,
    \<lparr>net_IP = and_bytes bs (CIDRMask 16 l), net_Mask = CIDRMask 16 l\<rparr>)"
  using assms by (simp add: cidr_of_def Let_def IPMask_def)

lemma cidr_of_Mask_length: "length (net_Mask (snd (cidr_of a l))) = BitLen a div 8"
  by (simp add: cidr_of_def Let_def)

lemma cidr_of_MaskSize: "l \<le> BitLen a \<Longrightarrow> MaskSize (net_Mask (snd (cidr_of a l))) = (l, BitLen a)"
  by (cases a) (simp_all add: cidr_of_def Let_def MaskSize_CIDRMask)

lemma To4_mapped [simp]: "length bs = 4 \<Longrightarrow> To4 (v4InV6Prefix @ bs) = Some bs"
  by (simp add: To4_def v4InV6Prefix_def)





text \<open>
  What membership means for the networks \<open>ParseCIDR\<close> makes: an IPv4 network holds the
  addresses with an IPv4 form that agrees under the mask, an IPv6 network those without
  one; an IPv6 network inside the mapped range holds IPv4 addresses only, and only one
  of at least 96 bits does.
\<close>

lemma Contains_Addr4:
  assumes "length bs = 4"
  shows "Contains_IP (snd (cidr_of (Addr4 bs) l)) x \<longleftrightarrow>
    (\<exists>x4. (To4 x = Some x4 \<or> To4 x = None \<and> x4 = x) \<and> length x4 = 4 \<and>
       and_bytes bs (CIDRMask 4 l) = and_bytes x4 (CIDRMask 4 l))"
  using assms
  by (auto simp: cidr_of_Addr4 Contains_IP_def networkNumberAndMask_def To4_def Let_def
      and_bytes_assoc CIDRMask_shorter split: option.splits)

lemma Contains_Addr6:
  assumes "length bs = 16" and "take 12 (and_bytes bs (CIDRMask 16 l)) \<noteq> v4InV6Prefix"
  shows "Contains_IP (snd (cidr_of (Addr6 bs z) l)) x \<longleftrightarrow>
    To4 x = None \<and> length x = 16 \<and> and_bytes bs (CIDRMask 16 l) = and_bytes x (CIDRMask 16 l)"
  using assms
  by (auto simp: cidr_of_Addr6 Contains_IP_def networkNumberAndMask_def To4_def Let_def
      and_bytes_assoc CIDRMask_shorter split: option.splits if_splits)




lemma validateAllowedCIDRs_errors:
  assumes "\<forall>cidr \<in> set cidrs. ParseCIDR cidr \<noteq> None"
  shows "validateAllowedCIDRs ip n cidrs \<in> {None, Some ErrPrefixNotInAllowedCIDR}"
  using assms by (induction cidrs) (auto simp: Let_def split: option.splits)

section \<open>What acceptance gives\<close>

lemma ValidatePrefix_accepts:
  assumes "ValidatePrefix e ow prefix = None" and "map_of (eng_Owners e) ow = Some oc"
  obtains ip n where "ParseCIDR prefix = Some (ip, n)"
    "checkPrefixType (ToLower (pp_Type (oc_AllowedPrefixes oc))) (To4 ip \<noteq> None)
       (fst (MaskSize (net_Mask n))) (snd (MaskSize (net_Mask n))) = None"
    "pp_AllowedCIDRs (oc_AllowedPrefixes oc) = [] \<or>
       validateAllowedCIDRs ip n (pp_AllowedCIDRs (oc_AllowedPrefixes oc)) = None"
  using assms that
  by (auto simp: ValidatePrefix_def parseCIDR_def Let_def
      split: option.splits prod.splits if_splits)

text \<open>A mask of full length pins the address.\<close>

lemma CIDRMask_full: "CIDRMask l (8 * l) = replicate l 255"
  by (induction l) auto

lemma and_bytes_full: "length a = l \<Longrightarrow> and_bytes a (CIDRMask l (8 * l)) = a"
  unfolding CIDRMask_full by (induction a arbitrary: l) (auto split: nat.splits)

lemma mapped_form: "To4 x = Some x4 \<Longrightarrow> length x = 16 \<Longrightarrow> x = v4InV6Prefix @ x4"
  by (auto simp: To4_def split: if_splits) (metis append_take_drop_id)

lemma full_mask_single:
  assumes p: "ParseCIDR prefix = Some (ip, n)"
    and full: "length (net_Mask n) = 4 \<and> fst (MaskSize (net_Mask n)) = 32 \<or>
      To4 ip = None \<and> fst (MaskSize (net_Mask n)) = 128"
    and x: "Contains_IP n x" "length x = 16"
  shows "x = ip"
proof -
  obtain a l where a: "case a of Addr4 bs \<Rightarrow> length bs = 4 | Addr6 bs z \<Rightarrow> length bs = 16"
    "l \<le> BitLen a" "(ip, n) = cidr_of a l" using ParseCIDR_cases [OF p] .
  have n: "n = snd (cidr_of a l)" and ip: "ip = fst (cidr_of a l)"
    using a(3) by (metis fst_conv snd_conv)+
  show ?thesis
  proof (cases a)
    case (Addr4 bs)
    with a full have bs: "length bs = 4" and l: "l = 8 * 4"
      by (auto simp: n cidr_of_MaskSize)
    obtain x4 where "To4 x = Some x4 \<or> To4 x = None \<and> x4 = x" and x4: "length x4 = 4"
      "and_bytes bs (CIDRMask 4 l) = and_bytes x4 (CIDRMask 4 l)"
      using x(1) by (auto simp: n Addr4 Contains_Addr4 bs)
    then have "x = v4InV6Prefix @ x4" using x(2) by (auto dest: mapped_form)
    moreover have "bs = x4" using x4(2) unfolding l and_bytes_full [OF bs] and_bytes_full [OF x4(1)] .
    ultimately show ?thesis using bs by (simp add: ip Addr4 cidr_of_Addr4)
  next
    case (Addr6 bs z)
    with a full have bs: "length bs = 16" and l: "l = 8 * 16" and t: "To4 ip = None"
      by (auto simp: n cidr_of_MaskSize cidr_of_Mask_length)
    have ab: "and_bytes bs (CIDRMask 16 l) = bs" unfolding l by (rule and_bytes_full [OF bs])
    have "take 12 bs \<noteq> v4InV6Prefix"
      using t bs by (auto simp: ip Addr6 cidr_of_Addr6 To4_def split: if_splits)
    then have "take 12 (and_bytes bs (CIDRMask 16 l)) \<noteq> v4InV6Prefix" unfolding ab .
    from Contains_Addr6 [OF bs this] x(1)
    have "and_bytes bs (CIDRMask 16 l) = and_bytes x (CIDRMask 16 l)"
      by (simp only: n Addr6)
    then have "bs = x" unfolding l and_bytes_full [OF bs] and_bytes_full [OF x(2)] .
    then show ?thesis using bs by (simp add: ip Addr6 cidr_of_Addr6)
  qed
qed

section \<open>Properties\<close>

definition ex_engine :: Engine where
  "ex_engine = NewEngine (Some
     [(''lb'', \<lparr>oc_Token = ''s3cret'',
        oc_AllowedPrefixes = \<lparr>pp_Type = ''host_only'', pp_AllowedCIDRs = [''10.0.0.0/8'']\<rparr>\<rparr>),
      (''net'', \<lparr>oc_Token = ''t0ken'',
        oc_AllowedPrefixes = \<lparr>pp_Type = ''Subnet'', pp_AllowedCIDRs = []\<rparr>\<rparr>)])"



text \<open>
  What the two restricting policies promise: under \<open>host_only\<close> an accepted
  prefix covers a single address, under \<open>subnet\<close> an accepted IPv4 prefix has between 8
  and 28 bits and an accepted IPv6 prefix is not a host route.
\<close>

theorem accepted_prefix_obeys_type:
  assumes "ValidatePrefix e ow prefix = None" and "map_of (eng_Owners e) ow = Some oc"
    and "ParseCIDR prefix = Some (ip, n)" and "length (net_Mask n) = 4 \<or> To4 ip = None"
  shows "(ToLower (pp_Type (oc_AllowedPrefixes oc)) = PrefixTypeHostOnly \<longrightarrow>
      (\<forall>x. length x = 16 \<longrightarrow> Contains_IP n x \<longrightarrow> x = ip)) \<and>
    (ToLower (pp_Type (oc_AllowedPrefixes oc)) = PrefixTypeSubnet \<longrightarrow>
      (if To4 ip \<noteq> None then fst (MaskSize (net_Mask n)) \<in> {8..28}
       else fst (MaskSize (net_Mask n)) < 128))"
proof -
  have c: "checkPrefixType (ToLower (pp_Type (oc_AllowedPrefixes oc))) (To4 ip \<noteq> None)
      (fst (MaskSize (net_Mask n))) (snd (MaskSize (net_Mask n))) = None"
    using ValidatePrefix_accepts [OF assms(1,2)] assms(3) by auto
  obtain a l where a: "case a of Addr4 bs \<Rightarrow> length bs = 4 | Addr6 bs z \<Rightarrow> length bs = 16"
    "l \<le> BitLen a" "(ip, n) = cidr_of a l" using ParseCIDR_cases [OF assms(3)] .
  have n: "n = snd (cidr_of a l)" and ip: "ip = fst (cidr_of a l)"
    using a(3) by (metis fst_conv snd_conv)+
  have sz: "MaskSize (net_Mask n) = (l, BitLen a)" by (simp add: n cidr_of_MaskSize a(2))
  have v4: "length (net_Mask n) = 4 \<Longrightarrow> To4 ip \<noteq> None"
    using a(1) by (cases a) (simp_all add: n ip cidr_of_Mask_length cidr_of_Addr4)
  have v6: "BitLen a = 128" if "To4 ip = None"
    using that a(1) by (cases a) (simp_all add: ip cidr_of_Addr4)
  show ?thesis
    using c a(2) assms(4) v4 v6 full_mask_single [OF assms(3)]
    by (auto simp: checkPrefixType_def PrefixTypeHostOnly_def PrefixTypeSubnet_def sz
        split: if_splits)
qed

theorem accepted_prefix_obeys_type_witness:
  "ValidatePrefix ex_engine ''net'' ''10.1.0.0/24'' = None \<and>
   fst (MaskSize [255, 255, 255, 0]) \<in> {8..28}"
proof -
  have acc: "ValidatePrefix ex_engine ''net'' ''10.1.0.0/24'' = None" by code_simp
  have own: "map_of (eng_Owners ex_engine) ''net'' = Some \<lparr>oc_Token = ''t0ken'',
        oc_AllowedPrefixes = \<lparr>pp_Type = ''Subnet'', pp_AllowedCIDRs = []\<rparr>\<rparr>"
    by (simp add: ex_engine_def NewEngine_def)
  have prs: "ParseCIDR ''10.1.0.0/24'' = Some (v4InV6Prefix @ [10, 1, 0, 0],
      \<lparr>net_IP = [10, 1, 0, 0], net_Mask = [255, 255, 255, 0]\<rparr>)" by code_simp
  have "ToLower ''Subnet'' = PrefixTypeSubnet" by (simp add: PrefixTypeSubnet_def lower_byte_def)
  then show ?thesis
    using accepted_prefix_obeys_type [OF acc own prs] acc by simp
qed

text \<open>
  C21 (error).  With a configuration that passed \<open>Validate\<close>, the engine never fails because
  of its own configuration: for a configured owner, a prefix is refused only because it is
  malformed or because the policy forbids it, never for an unknown policy type or a
  malformed allowed CIDR; and no owner authenticates with the empty token.
\<close>

theorem validated_config_no_policy_faults:
  assumes "Validate sch cfg = None" and "map_of (cfg_Owners cfg) ow \<noteq> None"
  shows "ValidatePrefix (NewEngine (Some (cfg_Owners cfg))) ow prefix \<notin>
      {Some ErrUnknownOwner, Some ErrUnknownPrefixPolicyType, Some ErrInvalidAllowedCIDR} \<and>
    ValidateToken (NewEngine (Some (cfg_Owners cfg))) ow' [] \<noteq> None"
proof -
  have valid: "owner_valid oc" if "map_of (cfg_Owners cfg) o' = Some oc" for o' oc
    using Validate_owners [OF assms(1)] map_of_SomeD [OF that] by auto
  obtain oc where oc: "map_of (cfg_Owners cfg) ow = Some oc" using assms(2) by auto
  have "validateAllowedCIDRs ip n (pp_AllowedCIDRs (oc_AllowedPrefixes oc)) \<in>
      {None, Some ErrPrefixNotInAllowedCIDR}" for ip n
    using valid [OF oc] by (intro validateAllowedCIDRs_errors) (simp add: owner_valid_def)
  then have cidrs: "validateAllowedCIDRs ip n (pp_AllowedCIDRs (oc_AllowedPrefixes oc)) \<notin>
      {Some ErrUnknownOwner, Some ErrUnknownPrefixPolicyType, Some ErrInvalidAllowedCIDR}" for ip n
    by (metis empty_iff insert_iff option.distinct(1) option.inject policy_error.distinct)
  have "checkPrefixType (ToLower (pp_Type (oc_AllowedPrefixes oc))) v l b \<notin>
      {Some ErrUnknownOwner, Some ErrUnknownPrefixPolicyType, Some ErrInvalidAllowedCIDR}" for v l b
    using valid [OF oc]
    by (auto simp: checkPrefixType_def owner_valid_def PrefixTypeHostOnly_def PrefixTypeSubnet_def
        PrefixTypeAny_def)
  with cidrs oc have "ValidatePrefix (NewEngine (Some (cfg_Owners cfg))) ow prefix \<notin>
      {Some ErrUnknownOwner, Some ErrUnknownPrefixPolicyType, Some ErrInvalidAllowedCIDR}"
    by (simp add: ValidatePrefix_def NewEngine_def parseCIDR_def Let_def split: option.split prod.split)
      metis
  moreover have "ValidateToken (NewEngine (Some (cfg_Owners cfg))) ow' [] \<noteq> None"
    using valid by (auto simp: ValidateToken_def NewEngine_def owner_valid_def split: option.splits)
  ultimately show ?thesis by blast
qed

definition ex_config :: Config where
  "ex_config = DefaultConfig\<lparr>cfg_Owners := eng_Owners ex_engine\<rparr>"

theorem validated_config_no_policy_faults_witness:
  "Validate [1] ex_config = None \<and>
   ValidateToken (NewEngine (Some (cfg_Owners ex_config))) ''lb'' [] \<noteq> None"
proof -
  have v: "Validate [1] ex_config = None" by code_simp
  have "map_of (cfg_Owners ex_config) ''lb'' \<noteq> None" by code_simp
  with validated_config_no_policy_faults [OF v] v show ?thesis by blast
qed


end
