(* ===== verification/Api_Types.thy ===== *)
theory Api_Types
  imports Go_Strings
begin

text \<open>
  The enumerations of the RouteControl API (\<open>api/v1\<close>).  They are open, as protobuf
  enumerations are: a client can send any \<open>int32\<close>, so each type has a constructor for
  the numbers without a name.  \<open>String\<close> prints the name, or the number when there is none.
\<close>

datatype PeerType =
    PEER_TYPE_UNSPECIFIED
  | PEER_TYPE_EXTERNAL
  | PEER_TYPE_INTERNAL
  | PEER_TYPE_OTHER int

datatype AddressFamily =
    ADDRESS_FAMILY_UNSPECIFIED
  | ADDRESS_FAMILY_IPV4_UNICAST
  | ADDRESS_FAMILY_IPV6_UNICAST
  | ADDRESS_FAMILY_OTHER int

datatype Protocol =
    PROTOCOL_UNSPECIFIED
  | PROTOCOL_BGP
  | PROTOCOL_OSPF
  | PROTOCOL_OTHER int

datatype EventType =
    EVENT_TYPE_UNSPECIFIED
  | EVENT_TYPE_PEER_UP
  | EVENT_TYPE_PEER_DOWN
  | EVENT_TYPE_PREFIX_ADVERTISED
  | EVENT_TYPE_PREFIX_WITHDRAWN
  | EVENT_TYPE_BFD_UP
  | EVENT_TYPE_BFD_DOWN
  | EVENT_TYPE_OSPF_NEIGHBOR_UP
  | EVENT_TYPE_OSPF_NEIGHBOR_DOWN
  | EVENT_TYPE_FRR_CONNECTED
  | EVENT_TYPE_FRR_DISCONNECTED
  | EVENT_TYPE_OWNER_REGISTERED
  | EVENT_TYPE_OWNER_DEREGISTERED
  | EVENT_TYPE_POLICY_VIOLATION
  | EVENT_TYPE_BGP_CONFIG_CHANGED
  | EVENT_TYPE_OTHER int

definition dec_int :: "int \<Rightarrow> string" where
  "dec_int i = (if i < 0 then ''-'' @ dec (nat (- i)) else dec (nat i))"

fun Protocol_String :: "Protocol \<Rightarrow> string" where
  "Protocol_String PROTOCOL_UNSPECIFIED = ''PROTOCOL_UNSPECIFIED''"
| "Protocol_String PROTOCOL_BGP = ''PROTOCOL_BGP''"
| "Protocol_String PROTOCOL_OSPF = ''PROTOCOL_OSPF''"
| "Protocol_String (PROTOCOL_OTHER n) = dec_int n"

fun EventType_String :: "EventType \<Rightarrow> string" where
  "EventType_String EVENT_TYPE_UNSPECIFIED = ''EVENT_TYPE_UNSPECIFIED''"
| "EventType_String EVENT_TYPE_PEER_UP = ''EVENT_TYPE_PEER_UP''"
| "EventType_String EVENT_TYPE_PEER_DOWN = ''EVENT_TYPE_PEER_DOWN''"
| "EventType_String EVENT_TYPE_PREFIX_ADVERTISED = ''EVENT_TYPE_PREFIX_ADVERTISED''"
| "EventType_String EVENT_TYPE_PREFIX_WITHDRAWN = ''EVENT_TYPE_PREFIX_WITHDRAWN''"
| "EventType_String EVENT_TYPE_BFD_UP = ''EVENT_TYPE_BFD_UP''"
| "EventType_String EVENT_TYPE_BFD_DOWN = ''EVENT_TYPE_BFD_DOWN''"
| "EventType_String EVENT_TYPE_OSPF_NEIGHBOR_UP = ''EVENT_TYPE_OSPF_NEIGHBOR_UP''"
| "EventType_String EVENT_TYPE_OSPF_NEIGHBOR_DOWN = ''EVENT_TYPE_OSPF_NEIGHBOR_DOWN''"
| "EventType_String EVENT_TYPE_FRR_CONNECTED = ''EVENT_TYPE_FRR_CONNECTED''"
| "EventType_String EVENT_TYPE_FRR_DISCONNECTED = ''EVENT_TYPE_FRR_DISCONNECTED''"
| "EventType_String EVENT_TYPE_OWNER_REGISTERED = ''EVENT_TYPE_OWNER_REGISTERED''"
| "EventType_String EVENT_TYPE_OWNER_DEREGISTERED = ''EVENT_TYPE_OWNER_DEREGISTERED''"
| "EventType_String EVENT_TYPE_POLICY_VIOLATION = ''EVENT_TYPE_POLICY_VIOLATION''"
| "EventType_String EVENT_TYPE_BGP_CONFIG_CHANGED = ''EVENT_TYPE_BGP_CONFIG_CHANGED''"
| "EventType_String (EVENT_TYPE_OTHER n) = dec_int n"

end
