(* ===== verification/Intent_Store.thy ===== *)
theory Intent_Store
  imports Api_Types Go_Net
begin

text \<open>
  The intent store (\<open>internal/intent/store.go\<close>): the routing intents of every owner, in
  four maps per owner, keyed by kind and identifier.  Each operation holds the store's
  lock for its whole body, so it is one step; it takes the clock reading it makes and
  returns the error (\<open>None\<close> for \<open>nil\<close>) and the new store.  Intents are values here:
  the store owns the structs it was given and hands out deep copies.

  Then: the invariant \<open>store_ok\<close> and its preservation by every operation, and the
  interface \<open>intent_kind\<close>, the contract the four kinds of intent share, with the lemmas
  its clients use and one interpretation per kind.
\<close>

section \<open>Data\<close>

datatype intent_error =
    ErrOwnerEmpty
  | ErrIntentNil
  | ErrNeighborAddrEmpty
  | ErrPrefixEmpty
  | ErrPeerAddrEmpty
  | ErrIfaceNameEmpty
  | ErrAreaIDEmpty
  | ErrNoIntents
  | ErrIntentNotFound
  | ErrAreaIDInvalid
  | ErrAreaIDIPv6

record PeerIntent =
  peer_Owner :: string
  peer_NeighborAddress :: string
  peer_RemoteAS :: uint32
  peer_PeerType :: PeerType
  peer_Keepalive :: uint32
  peer_HoldTime :: uint32
  peer_BFDEnabled :: bool
  peer_BFDMinRxMs :: uint32
  peer_BFDMinTxMs :: uint32
  peer_BFDDetectMultiplier :: uint32
  peer_Description :: string
  peer_AddressFamilies :: "AddressFamily list"
  peer_SourceAddress :: string
  peer_EBGPMultihop :: uint32
  peer_Password :: string
  peer_MaxPrefixes :: uint32
  peer_CreatedAt :: time
  peer_UpdatedAt :: time

record PrefixIntent =
  pfx_Owner :: string
  pfx_Prefix :: string
  pfx_Protocol :: Protocol
  pfx_LocalPreference :: uint32
  pfx_Communities :: "string list"
  pfx_MED :: uint32
  pfx_NextHop :: string
  pfx_CreatedAt :: time
  pfx_UpdatedAt :: time

record BFDIntent =
  bfd_Owner :: string
  bfd_PeerAddress :: string
  bfd_MinRxMs :: uint32
  bfd_MinTxMs :: uint32
  bfd_DetectMultiplier :: uint32
  bfd_InterfaceName :: string
  bfd_CreatedAt :: time
  bfd_UpdatedAt :: time

record OSPFIntent =
  ospf_Owner :: string
  ospf_InterfaceName :: string
  ospf_AreaID :: string
  ospf_Passive :: bool
  ospf_Cost :: uint32
  ospf_HelloInterval :: uint32
  ospf_DeadInterval :: uint32
  ospf_IPv6 :: bool
  ospf_CreatedAt :: time
  ospf_UpdatedAt :: time

record OwnerIntents =
  Peers :: "(string, PeerIntent) gomap"
  Prefixes :: "(string, PrefixIntent) gomap"
  BFD :: "(string, BFDIntent) gomap"
  OSPF :: "(string, OSPFIntent) gomap"

record Store =
  intents :: "(string, OwnerIntents) gomap"

definition newOwnerIntents :: OwnerIntents where
  "newOwnerIntents = \<lparr>Peers = [], Prefixes = [], BFD = [], OSPF = []\<rparr>"

definition NewStore :: Store where
  "NewStore = \<lparr>intents = []\<rparr>"

section \<open>Keys\<close>

definition peerKey :: "string \<Rightarrow> string" where
  "peerKey neighborAddr = ''peer:'' @ neighborAddr"

definition prefixKey :: "string \<Rightarrow> string \<Rightarrow> string" where
  "prefixKey protocol prefix = ''prefix:'' @ ToLower protocol @ '':'' @ prefix"

definition bfdKey :: "string \<Rightarrow> string" where
  "bfdKey peerAddr = ''bfd:'' @ peerAddr"

definition ospfKey :: "string \<Rightarrow> string" where
  "ospfKey ifaceName = ''ospf:'' @ ifaceName"

fun protocolString :: "Protocol \<Rightarrow> string" where
  "protocolString PROTOCOL_BGP = ''bgp''"
| "protocolString PROTOCOL_OSPF = ''ospf''"
| "protocolString PROTOCOL_UNSPECIFIED = ''unknown''"
| "protocolString (PROTOCOL_OTHER n) = ''unknown''"

section \<open>Adding and updating\<close>

definition ensureOwner :: "string \<Rightarrow> Store \<Rightarrow> OwnerIntents \<times> Store" where
  "ensureOwner owner s =
     (case map_of (intents s) owner of
        Some oi \<Rightarrow> (oi, s)
      | None \<Rightarrow> (newOwnerIntents, s\<lparr>intents := gm_put (intents s) owner newOwnerIntents\<rparr>))"

text \<open>
  \<open>setIntent\<close>.  The callback \<open>execute\<close> stores the intent and returns pointers to its two
  time stamps and to the old creation time; here it returns the old creation time, if
  any, and the owner's maps as a function of the time stamps written through those
  pointers.
\<close>

definition setIntent ::
    "string \<Rightarrow> bool \<Rightarrow> intent_error option \<Rightarrow>
     (OwnerIntents \<Rightarrow> time option \<times> (time \<Rightarrow> time \<Rightarrow> OwnerIntents)) \<Rightarrow>
     time \<Rightarrow> Store \<Rightarrow> intent_error option \<times> Store" where
  "setIntent owner intentNil validate execute now s =
     (if owner = [] then (Some ErrOwnerEmpty, s)
      else if intentNil then (Some ErrIntentNil, s)
      else case validate of
        Some err \<Rightarrow> (Some err, s)
      | None \<Rightarrow>
          (case ensureOwner owner s of
             (oi, s') \<Rightarrow>
               (case execute oi of
                  (existingCreatedAt, stored) \<Rightarrow>
                    (let createdAt = (case existingCreatedAt of Some t \<Rightarrow> t | None \<Rightarrow> now)
                     in (None, s'\<lparr>intents := gm_put (intents s') owner (stored createdAt now)\<rparr>)))))"

definition SetPeerIntent ::
    "string \<Rightarrow> PeerIntent option \<Rightarrow> time \<Rightarrow> Store \<Rightarrow> intent_error option \<times> Store" where
  "SetPeerIntent owner intent now s =
     setIntent owner (intent = None)
       (case intent of
          None \<Rightarrow> None
        | Some p \<Rightarrow> if peer_NeighborAddress p = [] then Some ErrNeighborAddrEmpty else None)
       (\<lambda>oi. case intent of
          None \<Rightarrow> (None, \<lambda>c u. oi)
        | Some p \<Rightarrow>
            (let key = peerKey (peer_NeighborAddress p) in
             (map_option peer_CreatedAt (map_of (Peers oi) key),
              \<lambda>c u. oi\<lparr>Peers := gm_put (Peers oi) key
                (p\<lparr>peer_Owner := owner, peer_CreatedAt := c, peer_UpdatedAt := u\<rparr>)\<rparr>)))
       now s"

definition SetPrefixIntent ::
    "string \<Rightarrow> PrefixIntent option \<Rightarrow> time \<Rightarrow> Store \<Rightarrow> intent_error option \<times> Store" where
  "SetPrefixIntent owner intent now s =
     setIntent owner (intent = None)
       (case intent of
          None \<Rightarrow> None
        | Some p \<Rightarrow> if pfx_Prefix p = [] then Some ErrPrefixEmpty else None)
       (\<lambda>oi. case intent of
          None \<Rightarrow> (None, \<lambda>c u. oi)
        | Some p \<Rightarrow>
            (let key = prefixKey (protocolString (pfx_Protocol p)) (pfx_Prefix p) in
             (map_option pfx_CreatedAt (map_of (Prefixes oi) key),
              \<lambda>c u. oi\<lparr>Prefixes := gm_put (Prefixes oi) key
                (p\<lparr>pfx_Owner := owner, pfx_CreatedAt := c, pfx_UpdatedAt := u\<rparr>)\<rparr>)))
       now s"

definition SetBFDIntent ::
    "string \<Rightarrow> BFDIntent option \<Rightarrow> time \<Rightarrow> Store \<Rightarrow> intent_error option \<times> Store" where
  "SetBFDIntent owner intent now s =
     setIntent owner (intent = None)
       (case intent of
          None \<Rightarrow> None
        | Some b \<Rightarrow> if bfd_PeerAddress b = [] then Some ErrPeerAddrEmpty else None)
       (\<lambda>oi. case intent of
          None \<Rightarrow> (None, \<lambda>c u. oi)
        | Some b \<Rightarrow>
            (let key = bfdKey (bfd_PeerAddress b) in
             (map_option bfd_CreatedAt (map_of (BFD oi) key),
              \<lambda>c u. oi\<lparr>BFD := gm_put (BFD oi) key
                (b\<lparr>bfd_Owner := owner, bfd_CreatedAt := c, bfd_UpdatedAt := u\<rparr>)\<rparr>)))
       now s"

text \<open>The validation callback of \<open>SetOSPFIntent\<close>: the area is an IPv4 address or decimal
  digits.\<close>

definition validateOSPF :: "OSPFIntent \<Rightarrow> intent_error option" where
  "validateOSPF o' =
     (if ospf_InterfaceName o' = [] then Some ErrIfaceNameEmpty
      else if ospf_AreaID o' = [] then Some ErrAreaIDEmpty
      else case ParseIP (ospf_AreaID o') of
        Some ip \<Rightarrow> if To4 ip = None then Some ErrAreaIDIPv6 else None
      | None \<Rightarrow> if list_all is_digit (ospf_AreaID o') then None else Some ErrAreaIDInvalid)"

definition SetOSPFIntent ::
    "string \<Rightarrow> OSPFIntent option \<Rightarrow> time \<Rightarrow> Store \<Rightarrow> intent_error option \<times> Store" where
  "SetOSPFIntent owner intent now s =
     setIntent owner (intent = None)
       (case intent of None \<Rightarrow> None | Some o' \<Rightarrow> validateOSPF o')
       (\<lambda>oi. case intent of
          None \<Rightarrow> (None, \<lambda>c u. oi)
        | Some o' \<Rightarrow>
            (let key = ospfKey (ospf_InterfaceName o') in
             (map_option ospf_CreatedAt (map_of (OSPF oi) key),
              \<lambda>c u. oi\<lparr>OSPF := gm_put (OSPF oi) key
                (o'\<lparr>ospf_Owner := owner, ospf_CreatedAt := c, ospf_UpdatedAt := u\<rparr>)\<rparr>)))
       now s"

section \<open>Removing\<close>

definition RemovePeerIntent :: "string \<Rightarrow> string \<Rightarrow> Store \<Rightarrow> intent_error option \<times> Store" where
  "RemovePeerIntent owner neighborAddr s =
     (if owner = [] then (Some ErrOwnerEmpty, s)
      else if neighborAddr = [] then (Some ErrNeighborAddrEmpty, s)
      else case map_of (intents s) owner of
        None \<Rightarrow> (Some ErrNoIntents, s)
      | Some oi \<Rightarrow>
          (let key = peerKey neighborAddr in
           if map_of (Peers oi) key = None then (Some ErrIntentNotFound, s)
           else (None, s\<lparr>intents := gm_put (intents s) owner (oi\<lparr>Peers := gm_del (Peers oi) key\<rparr>)\<rparr>)))"

definition RemovePrefixIntent ::
    "string \<Rightarrow> string \<Rightarrow> string \<Rightarrow> Store \<Rightarrow> intent_error option \<times> Store" where
  "RemovePrefixIntent owner prefix protocol s =
     (if owner = [] then (Some ErrOwnerEmpty, s)
      else if prefix = [] then (Some ErrPrefixEmpty, s)
      else case map_of (intents s) owner of
        None \<Rightarrow> (Some ErrNoIntents, s)
      | Some oi \<Rightarrow>
          (let key = prefixKey protocol prefix in
           if map_of (Prefixes oi) key = None then (Some ErrIntentNotFound, s)
           else (None, s\<lparr>intents := gm_put (intents s) owner
                   (oi\<lparr>Prefixes := gm_del (Prefixes oi) key\<rparr>)\<rparr>)))"

definition RemoveBFDIntent :: "string \<Rightarrow> string \<Rightarrow> Store \<Rightarrow> intent_error option \<times> Store" where
  "RemoveBFDIntent owner peerAddr s =
     (if owner = [] then (Some ErrOwnerEmpty, s)
      else if peerAddr = [] then (Some ErrPeerAddrEmpty, s)
      else case map_of (intents s) owner of
        None \<Rightarrow> (Some ErrNoIntents, s)
      | Some oi \<Rightarrow>
          (let key = bfdKey peerAddr in
           if map_of (BFD oi) key = None then (Some ErrIntentNotFound, s)
           else (None, s\<lparr>intents := gm_put (intents s) owner (oi\<lparr>BFD := gm_del (BFD oi) key\<rparr>)\<rparr>)))"

definition RemoveOSPFIntent :: "string \<Rightarrow> string \<Rightarrow> Store \<Rightarrow> intent_error option \<times> Store" where
  "RemoveOSPFIntent owner ifaceName s =
     (if owner = [] then (Some ErrOwnerEmpty, s)
      else if ifaceName = [] then (Some ErrIfaceNameEmpty, s)
      else case map_of (intents s) owner of
        None \<Rightarrow> (Some ErrNoIntents, s)
      | Some oi \<Rightarrow>
          (let key = ospfKey ifaceName in
           if map_of (OSPF oi) key = None then (Some ErrIntentNotFound, s)
           else (None, s\<lparr>intents := gm_put (intents s) owner (oi\<lparr>OSPF := gm_del (OSPF oi) key\<rparr>)\<rparr>)))"

definition RemoveAllByOwner :: "string \<Rightarrow> Store \<Rightarrow> Store" where
  "RemoveAllByOwner owner s =
     (if map_of (intents s) owner = None then s
      else s\<lparr>intents := gm_del (intents s) owner\<rparr>)"

section \<open>Reading\<close>

text \<open>Deep copies.  A copied slice has the same elements, so a copy is an equal value.\<close>

definition copyPeerIntent :: "PeerIntent \<Rightarrow> PeerIntent" where
  "copyPeerIntent src =
     (let dst = src in dst\<lparr>peer_AddressFamilies := map (\<lambda>af. af) (peer_AddressFamilies src)\<rparr>)"

definition copyPrefixIntent :: "PrefixIntent \<Rightarrow> PrefixIntent" where
  "copyPrefixIntent src =
     (let dst = src in dst\<lparr>pfx_Communities := map (\<lambda>c. c) (pfx_Communities src)\<rparr>)"

definition copyBFDIntent :: "BFDIntent \<Rightarrow> BFDIntent" where
  "copyBFDIntent src = (let dst = src in dst)"

definition copyOSPFIntent :: "OSPFIntent \<Rightarrow> OSPFIntent" where
  "copyOSPFIntent src = (let dst = src in dst)"

text \<open>Copying a map entry by entry; the order of the visits does not show in a map.\<close>

definition copy_entries :: "('v \<Rightarrow> 'v) \<Rightarrow> ('k, 'v) gomap \<Rightarrow> ('k, 'v) gomap" where
  "copy_entries f m = for_each (\<lambda>(k, v) c. gm_put c k (f v)) m []"

definition copyOwnerIntents :: "OwnerIntents \<Rightarrow> OwnerIntents" where
  "copyOwnerIntents oi =
     newOwnerIntents
       \<lparr>Peers := copy_entries copyPeerIntent (Peers oi),
        Prefixes := copy_entries copyPrefixIntent (Prefixes oi),
        BFD := copy_entries copyBFDIntent (BFD oi),
        OSPF := copy_entries copyOSPFIntent (OSPF oi)\<rparr>"

definition GetAllIntents :: "Store \<Rightarrow> (string, OwnerIntents) gomap" where
  "GetAllIntents s = copy_entries copyOwnerIntents (intents s)"

definition GetOwnerIntents :: "string \<Rightarrow> Store \<Rightarrow> OwnerIntents option" where
  "GetOwnerIntents owner s = map_option copyOwnerIntents (map_of (intents s) owner)"

text \<open>
  The list getters range over the owners and, inside, over one map of each owner.
  \<open>outer\<close> schedules the first loop and \<open>inner owner\<close> the loop over that owner's map.
\<close>

definition collect ::
    "(OwnerIntents \<Rightarrow> (string, 'i) gomap) \<Rightarrow> ('i \<Rightarrow> 'i) \<Rightarrow> sched \<Rightarrow> (string \<Rightarrow> sched) \<Rightarrow> Store \<Rightarrow> 'i list" where
  "collect sel cp outer inner s =
     concat (map (\<lambda>(owner, oi). map (\<lambda>(k, v). cp v) (range_perm (inner owner) (sel oi)))
       (range_perm outer (intents s)))"

definition GetPeerIntents :: "sched \<Rightarrow> (string \<Rightarrow> sched) \<Rightarrow> Store \<Rightarrow> PeerIntent list" where
  "GetPeerIntents outer inner s = collect Peers copyPeerIntent outer inner s"

definition GetPrefixIntents :: "sched \<Rightarrow> (string \<Rightarrow> sched) \<Rightarrow> Store \<Rightarrow> PrefixIntent list" where
  "GetPrefixIntents outer inner s = collect Prefixes copyPrefixIntent outer inner s"

definition GetBFDIntents :: "sched \<Rightarrow> (string \<Rightarrow> sched) \<Rightarrow> Store \<Rightarrow> BFDIntent list" where
  "GetBFDIntents outer inner s = collect BFD copyBFDIntent outer inner s"

definition GetOSPFIntents :: "sched \<Rightarrow> (string \<Rightarrow> sched) \<Rightarrow> Store \<Rightarrow> OSPFIntent list" where
  "GetOSPFIntents outer inner s = collect OSPF copyOSPFIntent outer inner s"

definition GetOwnerPrefixes :: "sched \<Rightarrow> string \<Rightarrow> Store \<Rightarrow> string list" where
  "GetOwnerPrefixes sch owner s =
     (case map_of (intents s) owner of
        None \<Rightarrow> []
      | Some oi \<Rightarrow> map (\<lambda>(k, p). pfx_Prefix p) (range_perm sch (Prefixes oi)))"

definition GetOwnerPeers :: "sched \<Rightarrow> string \<Rightarrow> Store \<Rightarrow> string list" where
  "GetOwnerPeers sch owner s =
     (case map_of (intents s) owner of
        None \<Rightarrow> []
      | Some oi \<Rightarrow> map (\<lambda>(k, p). peer_NeighborAddress p) (range_perm sch (Peers oi)))"

section \<open>The operations as one machine\<close>

datatype store_op =
    OpSetPeer string "PeerIntent option" time
  | OpSetPrefix string "PrefixIntent option" time
  | OpSetBFD string "BFDIntent option" time
  | OpSetOSPF string "OSPFIntent option" time
  | OpRemovePeer string string
  | OpRemovePrefix string string string
  | OpRemoveBFD string string
  | OpRemoveOSPF string string
  | OpRemoveAll string

fun store_step :: "store_op \<Rightarrow> Store \<Rightarrow> intent_error option \<times> Store" where
  "store_step (OpSetPeer ow i t) s = SetPeerIntent ow i t s"
| "store_step (OpSetPrefix ow i t) s = SetPrefixIntent ow i t s"
| "store_step (OpSetBFD ow i t) s = SetBFDIntent ow i t s"
| "store_step (OpSetOSPF ow i t) s = SetOSPFIntent ow i t s"
| "store_step (OpRemovePeer ow a) s = RemovePeerIntent ow a s"
| "store_step (OpRemovePrefix ow p pr) s = RemovePrefixIntent ow p pr s"
| "store_step (OpRemoveBFD ow a) s = RemoveBFDIntent ow a s"
| "store_step (OpRemoveOSPF ow a) s = RemoveOSPFIntent ow a s"
| "store_step (OpRemoveAll ow) s = (None, RemoveAllByOwner ow s)"

fun op_owner :: "store_op \<Rightarrow> string" where
  "op_owner (OpSetPeer ow i t) = ow"
| "op_owner (OpSetPrefix ow i t) = ow"
| "op_owner (OpSetBFD ow i t) = ow"
| "op_owner (OpSetOSPF ow i t) = ow"
| "op_owner (OpRemovePeer ow a) = ow"
| "op_owner (OpRemovePrefix ow p pr) = ow"
| "op_owner (OpRemoveBFD ow a) = ow"
| "op_owner (OpRemoveOSPF ow a) = ow"
| "op_owner (OpRemoveAll ow) = ow"

text \<open>Every store the program can build: the empty one and what the operations make of it.\<close>

inductive store_reachable :: "Store \<Rightarrow> bool" where
  start: "store_reachable NewStore"
| step: "store_reachable s \<Longrightarrow> store_reachable (snd (store_step op s))"

section \<open>The invariant\<close>

text \<open>
  Every map has distinct keys; an intent is stored under the key of its own identifier,
  bears the name of the owner whose map holds it, and passed its validation.
\<close>

definition peer_entry :: "string \<Rightarrow> string \<Rightarrow> PeerIntent \<Rightarrow> bool" where
  "peer_entry owner k p \<longleftrightarrow>
     k = peerKey (peer_NeighborAddress p) \<and> peer_Owner p = owner \<and> peer_NeighborAddress p \<noteq> []"

definition prefix_entry :: "string \<Rightarrow> string \<Rightarrow> PrefixIntent \<Rightarrow> bool" where
  "prefix_entry owner k p \<longleftrightarrow>
     k = prefixKey (protocolString (pfx_Protocol p)) (pfx_Prefix p) \<and> pfx_Owner p = owner \<and>
     pfx_Prefix p \<noteq> []"

definition bfd_entry :: "string \<Rightarrow> string \<Rightarrow> BFDIntent \<Rightarrow> bool" where
  "bfd_entry owner k b \<longleftrightarrow>
     k = bfdKey (bfd_PeerAddress b) \<and> bfd_Owner b = owner \<and> bfd_PeerAddress b \<noteq> []"

definition ospf_entry :: "string \<Rightarrow> string \<Rightarrow> OSPFIntent \<Rightarrow> bool" where
  "ospf_entry owner k o' \<longleftrightarrow>
     k = ospfKey (ospf_InterfaceName o') \<and> ospf_Owner o' = owner \<and> validateOSPF o' = None"

definition owner_ok :: "string \<Rightarrow> OwnerIntents \<Rightarrow> bool" where
  "owner_ok owner oi \<longleftrightarrow>
     entries_ok (peer_entry owner) (Peers oi) \<and> entries_ok (prefix_entry owner) (Prefixes oi) \<and>
     entries_ok (bfd_entry owner) (BFD oi) \<and> entries_ok (ospf_entry owner) (OSPF oi)"

definition store_ok :: "Store \<Rightarrow> bool" where
  "store_ok s \<longleftrightarrow> entries_ok (\<lambda>owner oi. owner \<noteq> [] \<and> owner_ok owner oi) (intents s)"

section \<open>Lookups\<close>

definition look :: "(OwnerIntents \<Rightarrow> (string, 'i) gomap) \<Rightarrow> Store \<Rightarrow> string \<Rightarrow> string \<Rightarrow> 'i option" where
  "look sel s owner key =
     (case map_of (intents s) owner of None \<Rightarrow> None | Some oi \<Rightarrow> map_of (sel oi) key)"

section \<open>Preservation of the invariant\<close>

lemma owner_ok_new [simp]: "owner_ok owner newOwnerIntents"
  by (simp add: owner_ok_def newOwnerIntents_def)

lemma store_ok_owner: "store_ok s \<Longrightarrow> map_of (intents s) ow = Some oi \<Longrightarrow> ow \<noteq> [] \<and> owner_ok ow oi"
  unfolding store_ok_def by (drule entries_okD)

lemma store_ok_update [wf_intro]:
  "store_ok s \<Longrightarrow> ow \<noteq> [] \<Longrightarrow> owner_ok ow oi \<Longrightarrow> store_ok (s\<lparr>intents := gm_put (intents s) ow oi\<rparr>)"
  by (simp add: store_ok_def entries_ok_put)

lemma NewStore_ok: "store_ok NewStore"
  by (simp add: store_ok_def NewStore_def)

lemma setIntent_ok:
  assumes "store_ok s"
    and "\<And>oi c. validate = None \<Longrightarrow> \<not> nil \<Longrightarrow> owner_ok ow oi \<Longrightarrow> owner_ok ow (snd (execute oi) c now)"
  shows "store_ok (snd (setIntent ow nil validate execute now s))"
proof (cases "ow = [] \<or> nil \<or> validate \<noteq> None")
  case True
  with assms(1) show ?thesis by (auto simp: setIntent_def split: option.splits)
next
  case False
  obtain oi s' where e: "ensureOwner ow s = (oi, s')" by fastforce
  have "owner_ok ow oi" and "store_ok s'"
    using e assms(1) False store_ok_owner [OF assms(1)]
    by (auto simp: ensureOwner_def wf_intro split: option.splits)
  then have stored: "owner_ok ow (snd (execute oi) c now)" for c
    using False assms(2) by simp
  obtain ex st where "execute oi = (ex, st)" by fastforce
  with False e \<open>store_ok s'\<close> stored show ?thesis
    by (simp add: setIntent_def Let_def wf_intro)
qed

lemma SetPeerIntent_ok: "store_ok s \<Longrightarrow> store_ok (snd (SetPeerIntent ow i t s))"
  unfolding SetPeerIntent_def
  by (rule setIntent_ok)
    (auto simp: owner_ok_def peer_entry_def Let_def wf_intro split: option.splits if_splits)

lemma SetPrefixIntent_ok: "store_ok s \<Longrightarrow> store_ok (snd (SetPrefixIntent ow i t s))"
  unfolding SetPrefixIntent_def
  by (rule setIntent_ok)
    (auto simp: owner_ok_def prefix_entry_def Let_def wf_intro split: option.splits if_splits)

lemma SetBFDIntent_ok: "store_ok s \<Longrightarrow> store_ok (snd (SetBFDIntent ow i t s))"
  unfolding SetBFDIntent_def
  by (rule setIntent_ok)
    (auto simp: owner_ok_def bfd_entry_def Let_def wf_intro split: option.splits if_splits)

lemma validateOSPF_stamp [simp]:
  "validateOSPF (o'\<lparr>ospf_Owner := ow, ospf_CreatedAt := c, ospf_UpdatedAt := u\<rparr>) = validateOSPF o'"
  by (simp add: validateOSPF_def)

lemma SetOSPFIntent_ok: "store_ok s \<Longrightarrow> store_ok (snd (SetOSPFIntent ow i t s))"
  unfolding SetOSPFIntent_def
  by (rule setIntent_ok)
    (auto simp: owner_ok_def ospf_entry_def Let_def wf_intro split: option.splits if_splits)

lemma RemovePeerIntent_ok: "store_ok s \<Longrightarrow> store_ok (snd (RemovePeerIntent ow a s))"
  by (auto simp: RemovePeerIntent_def Let_def owner_ok_def wf_intro dest: store_ok_owner
      split: option.splits intro!: store_ok_update)

lemma RemovePrefixIntent_ok: "store_ok s \<Longrightarrow> store_ok (snd (RemovePrefixIntent ow a pr s))"
  by (auto simp: RemovePrefixIntent_def Let_def owner_ok_def wf_intro dest: store_ok_owner
      split: option.splits intro!: store_ok_update)

lemma RemoveBFDIntent_ok: "store_ok s \<Longrightarrow> store_ok (snd (RemoveBFDIntent ow a s))"
  by (auto simp: RemoveBFDIntent_def Let_def owner_ok_def wf_intro dest: store_ok_owner
      split: option.splits intro!: store_ok_update)

lemma RemoveOSPFIntent_ok: "store_ok s \<Longrightarrow> store_ok (snd (RemoveOSPFIntent ow a s))"
  by (auto simp: RemoveOSPFIntent_def Let_def owner_ok_def wf_intro dest: store_ok_owner
      split: option.splits intro!: store_ok_update)

lemma RemoveAllByOwner_ok: "store_ok s \<Longrightarrow> store_ok (RemoveAllByOwner ow s)"
  by (simp add: RemoveAllByOwner_def store_ok_def wf_intro)

lemmas store_op_ok =
  SetPeerIntent_ok SetPrefixIntent_ok SetBFDIntent_ok SetOSPFIntent_ok
  RemovePeerIntent_ok RemovePrefixIntent_ok RemoveBFDIntent_ok RemoveOSPFIntent_ok
  RemoveAllByOwner_ok

lemma store_step_ok: "store_ok s \<Longrightarrow> store_ok (snd (store_step op s))"
  by (cases op) (simp_all add: store_op_ok)

lemma store_step_frame:
  assumes "ow \<noteq> op_owner op"
  shows "map_of (intents (snd (store_step op s))) ow = map_of (intents s) ow"
  using assms
  by (cases op)
    (auto simp: SetPeerIntent_def SetPrefixIntent_def SetBFDIntent_def SetOSPFIntent_def
      setIntent_def ensureOwner_def RemovePeerIntent_def RemovePrefixIntent_def
      RemoveBFDIntent_def RemoveOSPFIntent_def RemoveAllByOwner_def Let_def
      split: option.splits prod.splits)

section \<open>The contract the four kinds of intent share\<close>

text \<open>
  What a client of the store relies on for one kind of intent: which calls are accepted,
  that a refused call changes nothing, and what every lookup returns afterwards.  A new
  intent is stamped with the owner and the clock; the creation time of an intent that
  replaces another is the old one's.
\<close>

locale intent_kind =
  fixes set_op :: "string \<Rightarrow> 'i option \<Rightarrow> time \<Rightarrow> Store \<Rightarrow> intent_error option \<times> Store"
    and remove_op :: "string \<Rightarrow> 'q \<Rightarrow> Store \<Rightarrow> intent_error option \<times> Store"
    and sel :: "OwnerIntents \<Rightarrow> (string, 'i) gomap"
    and key_of :: "'i \<Rightarrow> string"
    and key_q :: "'q \<Rightarrow> string"
    and valid :: "'i \<Rightarrow> bool"
    and valid_q :: "'q \<Rightarrow> bool"
    and stamp :: "string \<Rightarrow> time \<Rightarrow> time \<Rightarrow> 'i \<Rightarrow> 'i"
    and created :: "'i \<Rightarrow> time"
  assumes set_accepts:
      "fst (set_op ow x t s) = None \<longleftrightarrow> ow \<noteq> [] \<and> (\<exists>i. x = Some i \<and> valid i)"
    and set_rejects: "fst (set_op ow x t s) \<noteq> None \<Longrightarrow> snd (set_op ow x t s) = s"
    and set_look:
      "fst (set_op ow (Some i) t s) = None \<Longrightarrow>
       look sel (snd (set_op ow (Some i) t s)) ow' k =
         (if ow' = ow \<and> k = key_of i
          then Some (stamp ow (case look sel s ow (key_of i) of Some e \<Rightarrow> created e | None \<Rightarrow> t) t i)
          else look sel s ow' k)"
    and remove_accepts:
      "fst (remove_op ow q s) = None \<longleftrightarrow> ow \<noteq> [] \<and> valid_q q \<and> look sel s ow (key_q q) \<noteq> None"
    and remove_rejects: "fst (remove_op ow q s) \<noteq> None \<Longrightarrow> snd (remove_op ow q s) = s"
    and remove_look:
      "fst (remove_op ow q s) = None \<Longrightarrow>
       look sel (snd (remove_op ow q s)) ow' k =
         (if ow' = ow \<and> k = key_q q then None else look sel s ow' k)"
    and stamp_created: "created (stamp ow c u i) = c"
    and stamp_key: "key_of (stamp ow c u i) = key_of i"
begin

lemma set_then_look:
  assumes "ow \<noteq> []" and "valid i"
  shows "fst (set_op ow (Some i) t s) = None"
    and "look sel (snd (set_op ow (Some i) t s)) ow (key_of i) =
      Some (stamp ow (case look sel s ow (key_of i) of Some e \<Rightarrow> created e | None \<Rightarrow> t) t i)"
proof -
  show "fst (set_op ow (Some i) t s) = None" using assms by (simp add: set_accepts)
  then show "look sel (snd (set_op ow (Some i) t s)) ow (key_of i) =
      Some (stamp ow (case look sel s ow (key_of i) of Some e \<Rightarrow> created e | None \<Rightarrow> t) t i)"
    by (simp add: set_look)
qed

lemma update_keeps_created:
  assumes "ow \<noteq> []" and "valid i" and "valid j" and "key_of j = key_of i"
    and "look sel s ow (key_of i) = None"
  shows "map_option created (look sel
      (snd (set_op ow (Some j) t' (snd (set_op ow (Some i) t s)))) ow (key_of i)) = Some t"
  using assms set_then_look [of ow i t s] set_then_look [of ow j t' "snd (set_op ow (Some i) t s)"]
  by (simp add: stamp_created)

lemma set_then_remove:
  fixes s :: Store and t :: time
  assumes "ow \<noteq> []" and "valid i" and "valid_q q" and "key_q q = key_of i"
  defines "s1 \<equiv> snd (set_op ow (Some i) t s)"
  shows "fst (remove_op ow q s1) = None"
    and "look sel (snd (remove_op ow q s1)) ow' k =
      (if ow' = ow \<and> k = key_of i then None else look sel s ow' k)"
proof -
  have ok: "fst (set_op ow (Some i) t s) = None" using assms(1,2) by (simp add: set_accepts)
  have "look sel s1 ow (key_of i) \<noteq> None"
    using set_then_look(2) [OF assms(1,2)] by (simp add: s1_def)
  then show rm: "fst (remove_op ow q s1) = None" using assms by (simp add: remove_accepts)
  show "look sel (snd (remove_op ow q s1)) ow' k =
      (if ow' = ow \<and> k = key_of i then None else look sel s ow' k)"
    using remove_look [OF rm] set_look [OF ok] assms(4) by (simp add: s1_def)
qed

lemma remove_twice:
  assumes "fst (remove_op ow q s) = None"
  shows "fst (remove_op ow q (snd (remove_op ow q s))) \<noteq> None"
    and "snd (remove_op ow q (snd (remove_op ow q s))) = snd (remove_op ow q s)"
proof -
  have "look sel (snd (remove_op ow q s)) ow (key_q q) = None"
    using assms by (simp add: remove_look)
  then show "fst (remove_op ow q (snd (remove_op ow q s))) \<noteq> None"
    by (simp add: remove_accepts)
  then show "snd (remove_op ow q (snd (remove_op ow q s))) = snd (remove_op ow q s)"
    by (rule remove_rejects)
qed

end

text \<open>\<open>setIntent\<close> establishes the contract for any kind whose callback stores under one key.\<close>

lemma setIntent_accepts:
  "fst (setIntent ow nil validate execute now s) = None \<longleftrightarrow> ow \<noteq> [] \<and> \<not> nil \<and> validate = None"
  by (auto simp: setIntent_def Let_def split: option.splits prod.splits)

lemma setIntent_rejects:
  "fst (setIntent ow nil validate execute now s) \<noteq> None \<Longrightarrow>
   snd (setIntent ow nil validate execute now s) = s"
  by (auto simp: setIntent_def Let_def split: option.splits prod.splits)

lemma setIntent_intents:
  fixes s :: Store
  assumes "fst (setIntent ow nil validate execute now s) = None"
  defines "oi \<equiv> (case map_of (intents s) ow of Some oi \<Rightarrow> oi | None \<Rightarrow> newOwnerIntents)"
  shows "map_of (intents (snd (setIntent ow nil validate execute now s))) =
    (map_of (intents s))(ow \<mapsto> snd (execute oi)
       (case fst (execute oi) of Some t \<Rightarrow> t | None \<Rightarrow> now) now)"
  using assms
  by (auto simp: setIntent_def ensureOwner_def Let_def fun_eq_iff split: option.splits prod.splits if_splits)

lemma look_new: "sel newOwnerIntents = [] \<Longrightarrow>
  map_of (sel (case map_of (intents s) ow of Some oi \<Rightarrow> oi | None \<Rightarrow> newOwnerIntents)) k = look sel s ow k"
  by (auto simp: look_def split: option.splits)

definition stampPeer :: "string \<Rightarrow> time \<Rightarrow> time \<Rightarrow> PeerIntent \<Rightarrow> PeerIntent" where
  "stampPeer ow c u p = p\<lparr>peer_Owner := ow, peer_CreatedAt := c, peer_UpdatedAt := u\<rparr>"

definition stampPrefix :: "string \<Rightarrow> time \<Rightarrow> time \<Rightarrow> PrefixIntent \<Rightarrow> PrefixIntent" where
  "stampPrefix ow c u p = p\<lparr>pfx_Owner := ow, pfx_CreatedAt := c, pfx_UpdatedAt := u\<rparr>"

definition stampBFD :: "string \<Rightarrow> time \<Rightarrow> time \<Rightarrow> BFDIntent \<Rightarrow> BFDIntent" where
  "stampBFD ow c u b = b\<lparr>bfd_Owner := ow, bfd_CreatedAt := c, bfd_UpdatedAt := u\<rparr>"

definition stampOSPF :: "string \<Rightarrow> time \<Rightarrow> time \<Rightarrow> OSPFIntent \<Rightarrow> OSPFIntent" where
  "stampOSPF ow c u o' = o'\<lparr>ospf_Owner := ow, ospf_CreatedAt := c, ospf_UpdatedAt := u\<rparr>"

interpretation pk: intent_kind SetPeerIntent RemovePeerIntent Peers
  "\<lambda>p. peerKey (peer_NeighborAddress p)" peerKey "\<lambda>p. peer_NeighborAddress p \<noteq> []" "\<lambda>a. a \<noteq> []"
  stampPeer peer_CreatedAt
proof unfold_locales
  fix ow i t s ow' k
  assume ok: "fst (SetPeerIntent ow (Some i) t s) = None"
  show "look Peers (snd (SetPeerIntent ow (Some i) t s)) ow' k =
      (if ow' = ow \<and> k = peerKey (peer_NeighborAddress i)
       then Some (stampPeer ow (case look Peers s ow (peerKey (peer_NeighborAddress i)) of
          None \<Rightarrow> t | Some e \<Rightarrow> peer_CreatedAt e) t i)
       else look Peers s ow' k)"
    using setIntent_intents [OF ok [unfolded SetPeerIntent_def]]
    by (auto simp: SetPeerIntent_def look_def stampPeer_def Let_def newOwnerIntents_def
        split: option.splits)
qed (auto simp: SetPeerIntent_def RemovePeerIntent_def setIntent_accepts setIntent_rejects
    look_def stampPeer_def Let_def split: option.splits)

interpretation xk: intent_kind SetPrefixIntent "\<lambda>ow (p, pr). RemovePrefixIntent ow p pr" Prefixes
  "\<lambda>p. prefixKey (protocolString (pfx_Protocol p)) (pfx_Prefix p)" "\<lambda>(p, pr). prefixKey pr p" "\<lambda>p. pfx_Prefix p \<noteq> []" "\<lambda>(p, pr). p \<noteq> []"
  stampPrefix pfx_CreatedAt
proof unfold_locales
  fix ow i t s ow' k
  assume ok: "fst (SetPrefixIntent ow (Some i) t s) = None"
  show "look Prefixes (snd (SetPrefixIntent ow (Some i) t s)) ow' k =
      (if ow' = ow \<and> k = prefixKey (protocolString (pfx_Protocol i)) (pfx_Prefix i)
       then Some (stampPrefix ow (case look Prefixes s ow (prefixKey (protocolString (pfx_Protocol i)) (pfx_Prefix i)) of
          None \<Rightarrow> t | Some e \<Rightarrow> pfx_CreatedAt e) t i)
       else look Prefixes s ow' k)"
    using setIntent_intents [OF ok [unfolded SetPrefixIntent_def]]
    by (auto simp: SetPrefixIntent_def look_def stampPrefix_def Let_def newOwnerIntents_def
        split: option.splits)
qed (auto simp: SetPrefixIntent_def RemovePrefixIntent_def setIntent_accepts setIntent_rejects
    look_def stampPrefix_def Let_def split: option.splits if_splits)

interpretation bk: intent_kind SetBFDIntent RemoveBFDIntent BFD
  "\<lambda>b. bfdKey (bfd_PeerAddress b)" bfdKey "\<lambda>b. bfd_PeerAddress b \<noteq> []" "\<lambda>a. a \<noteq> []"
  stampBFD bfd_CreatedAt
proof unfold_locales
  fix ow i t s ow' k
  assume ok: "fst (SetBFDIntent ow (Some i) t s) = None"
  show "look BFD (snd (SetBFDIntent ow (Some i) t s)) ow' k =
      (if ow' = ow \<and> k = bfdKey (bfd_PeerAddress i)
       then Some (stampBFD ow (case look BFD s ow (bfdKey (bfd_PeerAddress i)) of
          None \<Rightarrow> t | Some e \<Rightarrow> bfd_CreatedAt e) t i)
       else look BFD s ow' k)"
    using setIntent_intents [OF ok [unfolded SetBFDIntent_def]]
    by (auto simp: SetBFDIntent_def look_def stampBFD_def Let_def newOwnerIntents_def
        split: option.splits)
qed (auto simp: SetBFDIntent_def RemoveBFDIntent_def setIntent_accepts setIntent_rejects
    look_def stampBFD_def Let_def split: option.splits)

interpretation ok: intent_kind SetOSPFIntent RemoveOSPFIntent OSPF
  "\<lambda>o'. ospfKey (ospf_InterfaceName o')" ospfKey "\<lambda>o'. validateOSPF o' = None" "\<lambda>a. a \<noteq> []"
  stampOSPF ospf_CreatedAt
proof unfold_locales
  fix ow i t s ow' k
  assume ok: "fst (SetOSPFIntent ow (Some i) t s) = None"
  show "look OSPF (snd (SetOSPFIntent ow (Some i) t s)) ow' k =
      (if ow' = ow \<and> k = ospfKey (ospf_InterfaceName i)
       then Some (stampOSPF ow (case look OSPF s ow (ospfKey (ospf_InterfaceName i)) of
          None \<Rightarrow> t | Some e \<Rightarrow> ospf_CreatedAt e) t i)
       else look OSPF s ow' k)"
    using setIntent_intents [OF ok [unfolded SetOSPFIntent_def]]
    by (auto simp: SetOSPFIntent_def look_def stampOSPF_def Let_def newOwnerIntents_def
        split: option.splits)
qed (auto simp: SetOSPFIntent_def RemoveOSPFIntent_def setIntent_accepts setIntent_rejects
    look_def stampOSPF_def Let_def split: option.splits)

section \<open>Keys are injective\<close>

lemma peerKey_inject [simp]: "peerKey a = peerKey b \<longleftrightarrow> a = b"
  by (simp add: peerKey_def)

lemma bfdKey_inject [simp]: "bfdKey a = bfdKey b \<longleftrightarrow> a = b"
  by (simp add: bfdKey_def)

lemma ospfKey_inject [simp]: "ospfKey a = ospfKey b \<longleftrightarrow> a = b"
  by (simp add: ospfKey_def)

lemma ToLower_protocolString [simp]: "ToLower (protocolString p) = protocolString p"
  by (cases p) (simp_all add: lower_byte_def)

lemma prefixKey_inject:
  "prefixKey (protocolString p) a = prefixKey (protocolString q) b \<longleftrightarrow>
   protocolString p = protocolString q \<and> a = b"
  by (cases p; cases q) (auto simp: prefixKey_def lower_byte_def)

section \<open>What the getters return\<close>

lemma copy_ids [simp]:
  "copyPeerIntent = (\<lambda>p. p)" "copyPrefixIntent = (\<lambda>p. p)"
  "copyBFDIntent = (\<lambda>b. b)" "copyOSPFIntent = (\<lambda>o'. o')"
  by (auto simp: copyPeerIntent_def copyPrefixIntent_def copyBFDIntent_def copyOSPFIntent_def)

lemma gm_put_new: "k \<notin> fst ` set m \<Longrightarrow> gm_put m k v = m @ [(k, v)]"
  by (induction m k v rule: gm_put.induct) auto

lemma copy_entries_acc:
  "gm_ok (acc @ m) \<Longrightarrow> for_each (\<lambda>(k, v) c. gm_put c k (f v)) m acc =
   acc @ map (\<lambda>(k, v). (k, f v)) m"
proof (induction m arbitrary: acc)
  case (Cons e m)
  obtain k v where e: "e = (k, v)" by fastforce
  from Cons.prems e have new: "k \<notin> fst ` set acc" and ok: "gm_ok ((acc @ [(k, f v)]) @ m)"
    by (auto simp: gm_ok_def)
  from Cons.IH [OF ok] show ?case by (simp add: e gm_put_new [OF new])
qed simp

lemma copy_entries_map: "gm_ok m \<Longrightarrow> copy_entries f m = map (\<lambda>(k, v). (k, f v)) m"
  unfolding copy_entries_def by (subst copy_entries_acc) auto

lemma copyOwnerIntents_id: "owner_ok ow oi \<Longrightarrow> copyOwnerIntents oi = oi"
  by (auto simp: copyOwnerIntents_def newOwnerIntents_def owner_ok_def copy_entries_map
      dest!: entries_ok_gm_ok)

lemma GetOwnerIntents_eq: "store_ok s \<Longrightarrow> GetOwnerIntents ow s = map_of (intents s) ow"
  by (cases "map_of (intents s) ow")
    (auto simp: GetOwnerIntents_def dest: store_ok_owner intro: copyOwnerIntents_id)

lemma GetAllIntents_eq: "store_ok s \<Longrightarrow> GetAllIntents s = intents s"
proof -
  assume s: "store_ok s"
  then have ok: "gm_ok (intents s)" by (simp add: store_ok_def entries_ok_def)
  have "copyOwnerIntents oi = oi" if "(ow, oi) \<in> set (intents s)" for ow oi
    using store_ok_owner [OF s gm_entry_lookup [OF ok that]] copyOwnerIntents_id by blast
  then show ?thesis
    by (auto simp: GetAllIntents_def copy_entries_map [OF ok] intro!: map_idI)
qed

lemma look_iff:
  assumes "gm_ok (intents s)" and "\<And>ow oi. (ow, oi) \<in> set (intents s) \<Longrightarrow> gm_ok (sel oi)"
  shows "look sel s ow k = Some v \<longleftrightarrow> (\<exists>oi. (ow, oi) \<in> set (intents s) \<and> (k, v) \<in> set (sel oi))"
  using assms by (auto simp: look_def gm_ok_lookup [symmetric] split: option.splits)

lemma set_collect:
  assumes "gm_ok (intents s)" and "\<And>ow oi. (ow, oi) \<in> set (intents s) \<Longrightarrow> gm_ok (sel oi)"
  shows "set (collect sel (\<lambda>v. v) outer inner s) = {v. \<exists>ow k. look sel s ow k = Some v}"
proof -
  have "set (collect sel (\<lambda>v. v) outer inner s) =
      {v. \<exists>ow oi k. (ow, oi) \<in> set (intents s) \<and> (k, v) \<in> set (sel oi)}"
    by (force simp: collect_def)
  then show ?thesis by (auto simp: look_iff [OF assms])
qed

lemma mset_collect:
  "mset (collect sel (\<lambda>v. v) outer inner s) = mset (collect sel (\<lambda>v. v) [] (\<lambda>_. []) s)"
proof -
  have "mset (concat (map (\<lambda>(ow, oi). map (\<lambda>(k, v). v) (range_perm (inner ow) (sel oi))) xs)) =
      (\<Sum>(ow, oi) \<in># mset xs. image_mset snd (mset (sel oi)))" for xs inner
    by (induction xs) (auto simp: case_prod_unfold)
  note L = this
  show ?thesis by (simp only: collect_def L mset_range_perm)
qed

section \<open>Properties\<close>

text \<open>
  C18 (invariant).  Every store that any sequence of operations can build is well formed:
  each owner's four maps have distinct keys, each intent sits under the key of its own
  identifier, in the maps of the owner it names, and has passed its validation.
\<close>

theorem store_reachable_ok: "store_reachable s \<Longrightarrow> store_ok s"
proof (induction rule: store_reachable.induct)
  case start
  show ?case by (rule NewStore_ok)
next
  case (step s op)
  from step.IH show ?case by (rule store_step_ok)
qed

theorem store_reachable_ok_witness:
  "store_ok (snd (store_step (OpRemoveAll ''nova'') (snd (store_step (OpSetPeer ''nova'' None 7) NewStore))))"
  by (rule store_reachable_ok) (intro store_reachable.intros)

text \<open>
  C19 (safety).  Owners are isolated: whatever operation an owner calls, and whether it
  succeeds or not, the intents of every other owner are what they were.
\<close>

theorem store_owner_isolation:
  assumes "ow \<noteq> op_owner op"
  shows "map_of (intents (snd (store_step op s))) ow = map_of (intents s) ow"
  using assms by (rule store_step_frame)

definition ex_peer :: PeerIntent where
  "ex_peer = \<lparr>peer_Owner = [], peer_NeighborAddress = ''10.0.0.1'', peer_RemoteAS = 65001,
     peer_PeerType = PEER_TYPE_EXTERNAL, peer_Keepalive = 30, peer_HoldTime = 90,
     peer_BFDEnabled = True, peer_BFDMinRxMs = 300, peer_BFDMinTxMs = 300,
     peer_BFDDetectMultiplier = 3, peer_Description = ''tor1'',
     peer_AddressFamilies = [ADDRESS_FAMILY_IPV4_UNICAST], peer_SourceAddress = [],
     peer_EBGPMultihop = 0, peer_Password = [], peer_MaxPrefixes = 1000,
     peer_CreatedAt = 0, peer_UpdatedAt = 0\<rparr>"

definition ex_prefix :: PrefixIntent where
  "ex_prefix = \<lparr>pfx_Owner = [], pfx_Prefix = ''10.1.0.0/24'', pfx_Protocol = PROTOCOL_BGP,
     pfx_LocalPreference = 0, pfx_Communities = [], pfx_MED = 0, pfx_NextHop = [],
     pfx_CreatedAt = 0, pfx_UpdatedAt = 0\<rparr>"

theorem store_owner_isolation_witness:
  "map_of (intents (snd (store_step (OpSetPeer ''nova'' (Some ex_peer) 7) NewStore))) ''edge'' =
   map_of (intents NewStore) ''edge''"
  by (rule store_owner_isolation) simp

text \<open>
  A prefix intent that was set can be removed by its prefix and
  protocol, and afterwards every lookup, of any owner and any key, returns what it
  returned before it was set, except that the key itself is free.
\<close>

theorem prefix_set_remove_roundtrip:
  assumes "ow \<noteq> []" and "pfx_Prefix p \<noteq> []"
    and "RemovePrefixIntent ow (pfx_Prefix p) (protocolString (pfx_Protocol p))
      (snd (SetPrefixIntent ow (Some p) t s)) = (e, s')"
  shows "e = None \<and>
    (\<forall>ow' k. look Prefixes s' ow' k =
      (if ow' = ow \<and> k = prefixKey (protocolString (pfx_Protocol p)) (pfx_Prefix p) then None
       else look Prefixes s ow' k))"
  using xk.set_then_remove
    [of ow p "(pfx_Prefix p, protocolString (pfx_Protocol p))" t s] assms
  by simp

theorem prefix_set_remove_roundtrip_witness:
  "\<exists>e s'. RemovePrefixIntent ''nova'' (pfx_Prefix ex_prefix) (protocolString (pfx_Protocol ex_prefix))
     (snd (SetPrefixIntent ''nova'' (Some ex_prefix) 7 NewStore)) = (e, s') \<and> e = None"
proof -
  obtain e s' where r: "RemovePrefixIntent ''nova'' (pfx_Prefix ex_prefix)
      (protocolString (pfx_Protocol ex_prefix))
      (snd (SetPrefixIntent ''nova'' (Some ex_prefix) 7 NewStore)) = (e, s')" by fastforce
  have "e = None" using prefix_set_remove_roundtrip [OF _ _ r] by (simp add: ex_prefix_def)
  with r show ?thesis by blast
qed

text \<open>
  In whatever order the maps are ranged over, \<open>GetPrefixIntents\<close> returns
  the same intents the same number of times, and they are exactly the stored ones.
\<close>

theorem GetPrefixIntents_exact:
  assumes "store_ok s"
  shows "mset (GetPrefixIntents outer inner s) = mset (GetPrefixIntents [] (\<lambda>_. []) s) \<and>
    set (GetPrefixIntents outer inner s) = {p. \<exists>ow k. look Prefixes s ow k = Some p}"
proof -
  have gm: "gm_ok (intents s)" using assms by (simp add: store_ok_def entries_ok_def)
  have "gm_ok (Prefixes oi)" if "(ow, oi) \<in> set (intents s)" for ow oi
    using store_ok_owner [OF assms gm_entry_lookup [OF gm that]]
    by (auto simp: owner_ok_def dest: entries_ok_gm_ok)
  then show ?thesis
    unfolding GetPrefixIntents_def copy_ids using set_collect [OF gm] mset_collect by blast
qed

end
