(* ===== verification/Frr_Client.thy ===== *)
theory Frr_Client
  imports Go_Net
begin

text \<open>
  The FRR client (\<open>internal/frr/client.go\<close>, \<open>bgp.go\<close>, \<open>bfd.go\<close>, \<open>ospf.go\<close>).  The client
  drives FRR by running the program \<open>vtysh\<close>, which is not part of NovaRoute: it is the
  parameter \<open>vt\<close>, a function of the runs so far and of the run itself, so it may keep any
  state and answer the same commands differently each time; a time-out or a cancelled
  context is a run that fails.  The ghost field \<open>cl_runs\<close> records every run, in order.

  Each operation builds its commands from its arguments and hands them to \<open>runConfig\<close> or
  \<open>runShow\<close>; it returns the error (\<open>None\<close> for \<open>nil\<close>) and the client afterwards.  Error
  texts and log messages are not modelled.
\<close>

section \<open>Data\<close>

text \<open>One run of \<open>vtysh\<close>: its path, its arguments and its standard input.\<close>

datatype vrun = VRun (run_path: string) (run_args: "string list") (run_stdin: string)

text \<open>What \<open>cmd.CombinedOutput\<close> returns: whether the run failed, and the output.\<close>

datatype vresult = VResult (run_failed: bool) (run_output: string)

type_synonym vtysh = "vrun list \<Rightarrow> vrun \<Rightarrow> vresult"

datatype frr_error =
    ErrBGPNotConfigured
  | ErrVtyshConfigError
  | ErrVtyshFailed

record Client =
  cl_socketDir :: string
  cl_vtyshPath :: string
  cl_localAS :: uint32
  cl_runs :: "vrun list"

record NeighborConfig =
  nc_SourceAddress :: string
  nc_EBGPMultihop :: uint32
  nc_Password :: string
  nc_Description :: string

section \<open>Running vtysh\<close>

text \<open>\<open>exists\<close> is the file system: whether \<open>os.Stat\<close> finds a path.\<close>

definition NewClient :: "(string \<Rightarrow> bool) \<Rightarrow> string \<Rightarrow> Client" where
  "NewClient exists socketDir =
     \<lparr>cl_socketDir = socketDir,
      cl_vtyshPath =
        (case find exists [''/usr/bin/vtysh'', ''/usr/lib/frr/vtysh''] of
           Some p \<Rightarrow> p
         | None \<Rightarrow> ''vtysh''),
      cl_localAS = 0, cl_runs = []\<rparr>"

definition IsReady :: "(string \<Rightarrow> bool) \<Rightarrow> Client \<Rightarrow> bool" where
  "IsReady exists c =
     list_all (\<lambda>daemon. exists (FilepathJoin (cl_socketDir c) (daemon @ ''.vty''))) [''zebra'', ''bgpd'']"

text \<open>\<open>Close\<close> has nothing to do: each operation runs its own \<open>vtysh\<close>.\<close>

definition Close :: "Client \<Rightarrow> string option \<times> Client" where
  "Close c = (None, c)"

definition newline :: char where
  "newline = CHR 0x0A"

text \<open>The block that is piped to \<open>vtysh\<close>.\<close>

definition configInput :: "string list \<Rightarrow> string" where
  "configInput commands =
     Join (''configure terminal'' # commands @ [''end'']) [newline] @ [newline]"

text \<open>The markers of an output that reports an error.\<close>

definition errorMarkers :: "string list" where
  "errorMarkers =
     [''% '', ''error reading from'', ''is not running'', ''Command incomplete'',
      ''connection refused'', ''vtysh: error'']"

definition runConfig :: "vtysh \<Rightarrow> string list \<Rightarrow> Client \<Rightarrow> frr_error option \<times> Client" where
  "runConfig vt commands c =
     (let run = VRun (cl_vtyshPath c) [''--vty_socket'', cl_socketDir c] (configInput commands);
          c' = c\<lparr>cl_runs := cl_runs c @ [run]\<rparr> in
      case vt (cl_runs c) run of
        VResult failed out \<Rightarrow>
          if failed then (Some ErrVtyshFailed, c')
          else if list_ex (Contains out) errorMarkers then (Some ErrVtyshConfigError, c')
          else (None, c'))"

definition runShow :: "vtysh \<Rightarrow> string \<Rightarrow> Client \<Rightarrow> (frr_error + string) \<times> Client" where
  "runShow vt command c =
     (let run = VRun (cl_vtyshPath c) [''--vty_socket'', cl_socketDir c, ''-c'', command] [];
          c' = c\<lparr>cl_runs := cl_runs c @ [run]\<rparr> in
      case vt (cl_runs c) run of
        VResult failed out \<Rightarrow> if failed then (Inl ErrVtyshFailed, c') else (Inr out, c'))"

text \<open>The loop of \<open>GetVersion\<close> over the lines of the output.\<close>

fun findVersion :: "string list \<Rightarrow> string option" where
  "findVersion [] = None"
| "findVersion (line # rest) =
     (case CutPrefix (TrimSpace line) ''FRRouting '' of
        Some after \<Rightarrow> Some after
      | None \<Rightarrow> findVersion rest)"

definition GetVersion :: "vtysh \<Rightarrow> Client \<Rightarrow> (frr_error + string) \<times> Client" where
  "GetVersion vt c =
     (case runShow vt ''show version'' c of
        (Inl e, c') \<Rightarrow> (Inl e, c')
      | (Inr output, c') \<Rightarrow>
          (case findVersion (Split output newline) of
             Some v \<Rightarrow> (Inr v, c')
           | None \<Rightarrow> (Inr (TrimSpace (hd (Split output newline))), c')))"

section \<open>BGP\<close>

definition bgpGracefulRestartCommands :: "string list" where
  "bgpGracefulRestartCommands =
     [''bgp graceful-restart'', ''bgp graceful-restart restart-time 120'',
      ''bgp graceful-restart stalepath-time 360'']"

definition bgpGlobalCommands :: "uint32 \<Rightarrow> string \<Rightarrow> string list" where
  "bgpGlobalCommands as routerID =
     [''router bgp '' @ dec32 as, ''bgp router-id '' @ routerID] @ bgpGracefulRestartCommands"

definition ConfigureBGPGlobal ::
    "vtysh \<Rightarrow> uint32 \<Rightarrow> string \<Rightarrow> Client \<Rightarrow> frr_error option \<times> Client" where
  "ConfigureBGPGlobal vt localAS routerID c =
     (case runConfig vt (bgpGlobalCommands localAS routerID) c of
        (Some e, c') \<Rightarrow> (Some e, c')
      | (None, c') \<Rightarrow> (None, c'\<lparr>cl_localAS := localAS\<rparr>))"

definition ReconfigureBGPGlobal ::
    "vtysh \<Rightarrow> uint32 \<Rightarrow> uint32 \<Rightarrow> string \<Rightarrow> Client \<Rightarrow> frr_error option \<times> Client" where
  "ReconfigureBGPGlobal vt oldAS newAS routerID c =
     (if oldAS = newAS then runConfig vt (bgpGlobalCommands newAS routerID) c
      else if oldAS \<noteq> 0 then
        (case runConfig vt [''no router bgp '' @ dec32 oldAS] c of
           (Some e, c') \<Rightarrow> (Some e, c')
         | (None, c') \<Rightarrow> ConfigureBGPGlobal vt newAS routerID c')
      else ConfigureBGPGlobal vt newAS routerID c)"

definition GetLocalAS :: "Client \<Rightarrow> uint32" where
  "GetLocalAS c = cl_localAS c"

definition getLocalAS :: "Client \<Rightarrow> uint32" where
  "getLocalAS c = cl_localAS c"

definition routerCmd :: "Client \<Rightarrow> string" where
  "routerCmd c = ''router bgp '' @ dec32 (getLocalAS c)"

definition neighborConfigCommands :: "string \<Rightarrow> NeighborConfig option \<Rightarrow> string list" where
  "neighborConfigCommands addr cfg =
     (case cfg of
        None \<Rightarrow> []
      | Some n \<Rightarrow>
          (if nc_Description n \<noteq> []
           then [''neighbor '' @ addr @ '' description '' @ nc_Description n] else []) @
          (if nc_SourceAddress n \<noteq> []
           then [''neighbor '' @ addr @ '' update-source '' @ nc_SourceAddress n] else []) @
          (if 0 < nc_EBGPMultihop n
           then [''neighbor '' @ addr @ '' ebgp-multihop '' @ dec32 (nc_EBGPMultihop n)] else []) @
          (if nc_Password n \<noteq> []
           then [''neighbor '' @ addr @ '' password '' @ nc_Password n] else []))"

text \<open>\<open>peerType\<close> is only logged.\<close>

definition AddNeighbor ::
    "vtysh \<Rightarrow> string \<Rightarrow> uint32 \<Rightarrow> string \<Rightarrow> uint32 \<Rightarrow> uint32 \<Rightarrow> NeighborConfig option \<Rightarrow> Client \<Rightarrow>
     frr_error option \<times> Client" where
  "AddNeighbor vt addr remoteAS peerType keepalive holdTime cfg c =
     (if getLocalAS c = 0 then (Some ErrBGPNotConfigured, c)
      else runConfig vt
        ([routerCmd c, ''neighbor '' @ addr @ '' remote-as '' @ dec32 remoteAS] @
         (if 0 < keepalive \<and> 0 < holdTime
          then [''neighbor '' @ addr @ '' timers '' @ dec32 keepalive @ '' '' @ dec32 holdTime]
          else []) @
         neighborConfigCommands addr cfg) c)"

definition RemoveNeighbor :: "vtysh \<Rightarrow> string \<Rightarrow> Client \<Rightarrow> frr_error option \<times> Client" where
  "RemoveNeighbor vt addr c = runConfig vt [routerCmd c, ''no neighbor '' @ addr] c"

definition resolveAFICLI :: "string \<Rightarrow> string" where
  "resolveAFICLI afi =
     (if afi = ''ipv4-unicast'' \<or> afi = ''ipv4'' then ''ipv4 unicast''
      else if afi = ''ipv6-unicast'' \<or> afi = ''ipv6'' then ''ipv6 unicast''
      else afi)"

definition ActivateNeighborAFI ::
    "vtysh \<Rightarrow> string \<Rightarrow> string \<Rightarrow> Client \<Rightarrow> frr_error option \<times> Client" where
  "ActivateNeighborAFI vt addr afi c =
     runConfig vt
       [routerCmd c,
        ''address-family '' @ resolveAFICLI afi,
        ''neighbor '' @ addr @ '' activate'',
        ''neighbor '' @ addr @ '' soft-reconfiguration inbound'',
        ''exit-address-family''] c"

definition AdvertiseNetwork ::
    "vtysh \<Rightarrow> string \<Rightarrow> string \<Rightarrow> Client \<Rightarrow> frr_error option \<times> Client" where
  "AdvertiseNetwork vt prefix afi c =
     runConfig vt
       [routerCmd c,
        ''address-family '' @ resolveAFICLI afi,
        ''network '' @ prefix,
        ''exit-address-family''] c"

definition WithdrawNetwork ::
    "vtysh \<Rightarrow> string \<Rightarrow> string \<Rightarrow> Client \<Rightarrow> frr_error option \<times> Client" where
  "WithdrawNetwork vt prefix afi c =
     runConfig vt
       [routerCmd c,
        ''address-family '' @ resolveAFICLI afi,
        ''no network '' @ prefix,
        ''exit-address-family''] c"

definition SetNeighborMaxPrefix ::
    "vtysh \<Rightarrow> string \<Rightarrow> uint32 \<Rightarrow> bool \<Rightarrow> string \<Rightarrow> Client \<Rightarrow> frr_error option \<times> Client" where
  "SetNeighborMaxPrefix vt addr maxPrefixes warningOnly afi c =
     runConfig vt
       [routerCmd c,
        ''address-family '' @ resolveAFICLI afi,
        ''neighbor '' @ addr @ '' maximum-prefix '' @ dec32 maxPrefixes @
          (if warningOnly then '' warning-only'' else []),
        ''exit-address-family''] c"

definition ConfigureRouteMap ::
    "vtysh \<Rightarrow> string \<Rightarrow> string list \<Rightarrow> Client \<Rightarrow> frr_error option \<times> Client" where
  "ConfigureRouteMap vt name setCmds c =
     runConfig vt
       ([''no route-map '' @ name, ''route-map '' @ name @ '' permit 10''] @ setCmds @ [''exit'']) c"

definition AdvertiseNetworkWithRouteMap ::
    "vtysh \<Rightarrow> string \<Rightarrow> string \<Rightarrow> string \<Rightarrow> Client \<Rightarrow> frr_error option \<times> Client" where
  "AdvertiseNetworkWithRouteMap vt prefix afi routeMap c =
     runConfig vt
       [routerCmd c,
        ''address-family '' @ resolveAFICLI afi,
        ''network '' @ prefix @ '' route-map '' @ routeMap,
        ''exit-address-family''] c"

definition RemoveRouteMap :: "vtysh \<Rightarrow> string \<Rightarrow> Client \<Rightarrow> frr_error option \<times> Client" where
  "RemoveRouteMap vt name c = runConfig vt [''no route-map '' @ name] c"

definition SetNeighborBFD :: "vtysh \<Rightarrow> string \<Rightarrow> bool \<Rightarrow> Client \<Rightarrow> frr_error option \<times> Client" where
  "SetNeighborBFD vt addr enabled c =
     runConfig vt
       [routerCmd c,
        if enabled then ''neighbor '' @ addr @ '' bfd'' else ''no neighbor '' @ addr @ '' bfd''] c"

section \<open>BFD\<close>

definition AddBFDPeer ::
    "vtysh \<Rightarrow> string \<Rightarrow> uint32 \<Rightarrow> uint32 \<Rightarrow> uint32 \<Rightarrow> string \<Rightarrow> Client \<Rightarrow> frr_error option \<times> Client" where
  "AddBFDPeer vt peerAddr minRx minTx detectMult iface c =
     runConfig vt
       ([''bfd'',
         ''peer '' @ peerAddr @ (if iface \<noteq> [] then '' interface '' @ iface else [])] @
        (if 0 < minRx then [''receive-interval '' @ dec32 minRx] else []) @
        (if 0 < minTx then [''transmit-interval '' @ dec32 minTx] else []) @
        (if 0 < detectMult then [''detect-multiplier '' @ dec32 detectMult] else []) @
        [''exit'', ''exit'']) c"

definition RemoveBFDPeer :: "vtysh \<Rightarrow> string \<Rightarrow> string \<Rightarrow> Client \<Rightarrow> frr_error option \<times> Client" where
  "RemoveBFDPeer vt peerAddr iface c =
     runConfig vt
       [''bfd'',
        ''no peer '' @ peerAddr @ (if iface \<noteq> [] then '' interface '' @ iface else []),
        ''exit''] c"

section \<open>OSPF\<close>

definition EnableOSPFInterface ::
    "vtysh \<Rightarrow> string \<Rightarrow> string \<Rightarrow> bool \<Rightarrow> uint32 \<Rightarrow> uint32 \<Rightarrow> uint32 \<Rightarrow> Client \<Rightarrow>
     frr_error option \<times> Client" where
  "EnableOSPFInterface vt ifaceName areaID passive cost hello dead c =
     runConfig vt
       ([''interface '' @ ifaceName, ''ip ospf area '' @ areaID] @
        (if 0 < cost then [''ip ospf cost '' @ dec32 cost] else []) @
        (if 0 < hello then [''ip ospf hello-interval '' @ dec32 hello] else []) @
        (if 0 < dead then [''ip ospf dead-interval '' @ dec32 dead] else []) @
        [''exit''] @
        (if passive then [''router ospf'', ''passive-interface '' @ ifaceName] else [])) c"

definition EnableOSPFv3Interface ::
    "vtysh \<Rightarrow> string \<Rightarrow> string \<Rightarrow> bool \<Rightarrow> uint32 \<Rightarrow> Client \<Rightarrow> frr_error option \<times> Client" where
  "EnableOSPFv3Interface vt ifaceName areaID passive cost c =
     runConfig vt
       ([''interface '' @ ifaceName, ''ipv6 ospf6 area '' @ areaID] @
        (if 0 < cost then [''ipv6 ospf6 cost '' @ dec32 cost] else []) @
        [''exit''] @
        (if passive then [''router ospf6'', ''passive-interface '' @ ifaceName] else [])) c"

definition DisableOSPFv3Interface ::
    "vtysh \<Rightarrow> string \<Rightarrow> string \<Rightarrow> bool \<Rightarrow> Client \<Rightarrow> frr_error option \<times> Client" where
  "DisableOSPFv3Interface vt ifaceName areaID passive c =
     runConfig vt
       ([''interface '' @ ifaceName, ''no ipv6 ospf6 area '' @ areaID, ''exit''] @
        (if passive then [''router ospf6'', ''no passive-interface '' @ ifaceName] else [])) c"

definition DisableOSPFInterface ::
    "vtysh \<Rightarrow> string \<Rightarrow> string \<Rightarrow> bool \<Rightarrow> Client \<Rightarrow> frr_error option \<times> Client" where
  "DisableOSPFInterface vt ifaceName areaID passive c =
     runConfig vt
       ([''interface '' @ ifaceName, ''no ip ospf area '' @ areaID, ''exit''] @
        (if passive then [''router ospf'', ''no passive-interface '' @ ifaceName] else [])) c"

section \<open>Facts about runs\<close>

text \<open>The run a batch of commands makes, and what \<open>vtysh\<close> reads from it line by line.\<close>

definition configRun :: "Client \<Rightarrow> string list \<Rightarrow> vrun" where
  "configRun c commands =
     VRun (cl_vtyshPath c) [''--vty_socket'', cl_socketDir c] (configInput commands)"

definition stdin_lines :: "vrun \<Rightarrow> string list" where
  "stdin_lines r = butlast (Split (run_stdin r) newline)"

text \<open>A show run passes its command as an argument and has no standard input.\<close>

definition is_config_run :: "vrun \<Rightarrow> bool" where
  "is_config_run r \<longleftrightarrow> run_stdin r \<noteq> []"

text \<open>A \<open>vtysh\<close> that accepts every configuration block.\<close>

definition vtysh_accepts :: "vtysh \<Rightarrow> bool" where
  "vtysh_accepts vt \<longleftrightarrow>
     (\<forall>h r. is_config_run r \<longrightarrow>
        \<not> run_failed (vt h r) \<and> \<not> list_ex (Contains (run_output (vt h r))) errorMarkers)"

lemma configRun_is_config [simp]: "is_config_run (configRun c cmds)"
  by (simp add: is_config_run_def configRun_def configInput_def)

lemma runConfig_client [simp]:
  "snd (runConfig vt cmds c) = c\<lparr>cl_runs := cl_runs c @ [configRun c cmds]\<rparr>"
  by (simp add: runConfig_def configRun_def Let_def split: vresult.splits)

lemma runConfig_None_iff:
  "fst (runConfig vt cmds c) = None \<longleftrightarrow>
   \<not> run_failed (vt (cl_runs c) (configRun c cmds)) \<and>
   \<not> list_ex (Contains (run_output (vt (cl_runs c) (configRun c cmds)))) errorMarkers"
  by (simp add: runConfig_def configRun_def [symmetric] Let_def split: vresult.splits)

lemma runConfig_accepted: "vtysh_accepts vt \<Longrightarrow> fst (runConfig vt cmds c) = None"
  by (simp add: runConfig_None_iff vtysh_accepts_def)

lemma runShow_client:
  "snd (runShow vt cmd c) = c\<lparr>cl_runs := cl_runs c @
     [VRun (cl_vtyshPath c) [''--vty_socket'', cl_socketDir c, ''-c'', cmd] []]\<rparr>"
  by (simp add: runShow_def Let_def split: vresult.splits)

lemma stdin_lines_concat:
  "stdin_lines (configRun c cmds) =
   ''configure terminal'' # concat (map (\<lambda>cmd. Split cmd newline) cmds) @ [''end'']"
proof -
  have "Split (configInput cmds) newline =
      Split (Join (''configure terminal'' # cmds @ [''end'']) [newline]) newline @ [[]]"
    by (simp only: configInput_def Split_snoc_sep)
  also have "Split (Join (''configure terminal'' # cmds @ [''end'']) [newline]) newline =
      ''configure terminal'' # concat (map (\<lambda>cmd. Split cmd newline) cmds) @ [''end'']"
    by (simp only: Split_Join_concat list.simps(3) not_False_eq_True) (simp add: newline_def)
  finally show ?thesis by (simp add: stdin_lines_def configRun_def butlast_append)
qed

lemma stdin_lines_configRun:
  assumes "\<forall>cmd \<in> set cmds. newline \<notin> set cmd"
  shows "stdin_lines (configRun c cmds) = ''configure terminal'' # cmds @ [''end'']"
proof -
  have "concat (map (\<lambda>cmd. Split cmd newline) cmds) = cmds"
    using assms by (induction cmds) (auto simp: Split_single)
  then show ?thesis by (simp add: stdin_lines_concat)
qed

section \<open>The contract of the configuration operations\<close>

text \<open>
  What the reconciler relies on for every operation except the two that set the AS: the
  client keeps its paths and its AS, the operation makes at most one run, which is a
  configuration block, it makes none only if it fails, and it succeeds when its guard
  holds and \<open>vtysh\<close> accepts.
\<close>

locale frr_op =
  fixes op :: "vtysh \<Rightarrow> Client \<Rightarrow> frr_error option \<times> Client"
    and guard :: "Client \<Rightarrow> bool"
  assumes op_frame: "\<exists>rs. snd (op vt c) = c\<lparr>cl_runs := cl_runs c @ rs\<rparr> \<and> list_all is_config_run rs"
    and op_success: "fst (op vt c) = None \<Longrightarrow>
      \<exists>cmds. snd (op vt c) = c\<lparr>cl_runs := cl_runs c @ [configRun c cmds]\<rparr> \<and>
        \<not> run_failed (vt (cl_runs c) (configRun c cmds))"
    and op_accepted: "vtysh_accepts vt \<Longrightarrow> guard c \<Longrightarrow> fst (op vt c) = None"
begin

lemma op_localAS [simp]: "cl_localAS (snd (op vt c)) = cl_localAS c"
  using op_frame [of vt c] by auto

lemma op_runs: "\<exists>rs. cl_runs (snd (op vt c)) = cl_runs c @ rs \<and> list_all is_config_run rs"
  using op_frame [of vt c] by auto

end

lemma runConfig_frr_op: "frr_op (\<lambda>vt c. runConfig vt (cmds c) c) (\<lambda>_. True)"
  by unfold_locales
    (auto simp: runConfig_accepted runConfig_None_iff intro!: exI [of _ "[configRun _ _]"])

interpretation op_AddNeighbor:
  frr_op "\<lambda>vt. AddNeighbor vt addr remoteAS pt keepalive holdTime cfg" "\<lambda>c. cl_localAS c \<noteq> 0"
  for addr remoteAS pt keepalive holdTime cfg
  by unfold_locales
    (auto simp: AddNeighbor_def getLocalAS_def runConfig_accepted runConfig_None_iff
      intro: exI [of _ "[]"] exI [of _ "[configRun _ _]"] split: if_splits)

interpretation op_RemoveNeighbor: frr_op "\<lambda>vt. RemoveNeighbor vt addr" "\<lambda>_. True" for addr
  unfolding RemoveNeighbor_def by (rule runConfig_frr_op)

interpretation op_ActivateNeighborAFI: frr_op "\<lambda>vt. ActivateNeighborAFI vt addr afi" "\<lambda>_. True"
  for addr afi
  unfolding ActivateNeighborAFI_def by (rule runConfig_frr_op)

interpretation op_AdvertiseNetwork: frr_op "\<lambda>vt. AdvertiseNetwork vt prefix afi" "\<lambda>_. True"
  for prefix afi
  unfolding AdvertiseNetwork_def by (rule runConfig_frr_op)

interpretation op_WithdrawNetwork: frr_op "\<lambda>vt. WithdrawNetwork vt prefix afi" "\<lambda>_. True"
  for prefix afi
  unfolding WithdrawNetwork_def by (rule runConfig_frr_op)

interpretation op_SetNeighborMaxPrefix:
  frr_op "\<lambda>vt. SetNeighborMaxPrefix vt addr n w afi" "\<lambda>_. True" for addr n w afi
  unfolding SetNeighborMaxPrefix_def by (rule runConfig_frr_op)

interpretation op_ConfigureRouteMap: frr_op "\<lambda>vt. ConfigureRouteMap vt name setCmds" "\<lambda>_. True"
  for name setCmds
  unfolding ConfigureRouteMap_def by (rule runConfig_frr_op)

interpretation op_AdvertiseNetworkWithRouteMap:
  frr_op "\<lambda>vt. AdvertiseNetworkWithRouteMap vt prefix afi rm" "\<lambda>_. True" for prefix afi rm
  unfolding AdvertiseNetworkWithRouteMap_def by (rule runConfig_frr_op)

interpretation op_RemoveRouteMap: frr_op "\<lambda>vt. RemoveRouteMap vt name" "\<lambda>_. True" for name
  unfolding RemoveRouteMap_def by (rule runConfig_frr_op)

interpretation op_SetNeighborBFD: frr_op "\<lambda>vt. SetNeighborBFD vt addr enabled" "\<lambda>_. True"
  for addr enabled
  unfolding SetNeighborBFD_def by (rule runConfig_frr_op)

interpretation op_AddBFDPeer: frr_op "\<lambda>vt. AddBFDPeer vt addr rx tx mult iface" "\<lambda>_. True"
  for addr rx tx mult iface
  unfolding AddBFDPeer_def by (rule runConfig_frr_op)

interpretation op_RemoveBFDPeer: frr_op "\<lambda>vt. RemoveBFDPeer vt addr iface" "\<lambda>_. True"
  for addr iface
  unfolding RemoveBFDPeer_def by (rule runConfig_frr_op)

interpretation op_EnableOSPFInterface:
  frr_op "\<lambda>vt. EnableOSPFInterface vt iface area p cost hello dead" "\<lambda>_. True"
  for iface area p cost hello dead
  unfolding EnableOSPFInterface_def by (rule runConfig_frr_op)

interpretation op_EnableOSPFv3Interface:
  frr_op "\<lambda>vt. EnableOSPFv3Interface vt iface area p cost" "\<lambda>_. True"
  for iface area p cost
  unfolding EnableOSPFv3Interface_def by (rule runConfig_frr_op)

interpretation op_DisableOSPFv3Interface:
  frr_op "\<lambda>vt. DisableOSPFv3Interface vt iface area p" "\<lambda>_. True" for iface area p
  unfolding DisableOSPFv3Interface_def by (rule runConfig_frr_op)

interpretation op_DisableOSPFInterface:
  frr_op "\<lambda>vt. DisableOSPFInterface vt iface area p" "\<lambda>_. True" for iface area p
  unfolding DisableOSPFInterface_def by (rule runConfig_frr_op)

section \<open>Properties\<close>

lemma newline_dec32: "newline \<notin> set (dec32 n)"
  using dec_digits [of "unat n"] by (auto simp: dec32_def newline_def is_digit_def)

definition ex_client :: Client where
  "ex_client = (NewClient (\<lambda>p. p = ''/usr/bin/vtysh'') ''/run/frr'')\<lparr>cl_localAS := 65000\<rparr>"

definition vtysh_ok :: vtysh where
  "vtysh_ok h r = VResult False []"

lemma vtysh_ok_accepts: "vtysh_accepts vtysh_ok"
  by (simp add: vtysh_accepts_def vtysh_ok_def errorMarkers_def)

text \<open>The lines of an \<open>AddNeighbor\<close> block that stand between the frame and the router command.\<close>

lemma neighborConfigCommands_prefix:
  "cmd \<in> set (neighborConfigCommands addr cfg) \<Longrightarrow> HasPrefix cmd (''neighbor '' @ addr @ '' '')"
  by (auto simp: neighborConfigCommands_def HasPrefix_def split: option.splits if_splits)

lemma neighborConfigCommands_newline:
  assumes "newline \<notin> set addr"
    and "\<forall>n. cfg = Some n \<longrightarrow> newline \<notin> set (nc_Description n) \<and> newline \<notin> set (nc_SourceAddress n) \<and>
      newline \<notin> set (nc_Password n)"
  shows "\<forall>cmd \<in> set (neighborConfigCommands addr cfg). newline \<notin> set cmd"
  using assms newline_dec32 unfolding newline_def
  by (auto simp: neighborConfigCommands_def split: option.splits if_splits)

text \<open>
  Adding a neighbor is confined to it: if no argument contains a newline, the
  run that \<open>AddNeighbor\<close> makes feeds \<open>vtysh\<close> the frame, the router line of the local AS,
  and otherwise only lines about that neighbor.
\<close>

theorem AddNeighbor_confined:
  assumes "cl_localAS c \<noteq> 0" and "newline \<notin> set addr"
    and "\<forall>n. cfg = Some n \<longrightarrow> newline \<notin> set (nc_Description n) \<and> newline \<notin> set (nc_SourceAddress n) \<and>
      newline \<notin> set (nc_Password n)"
  shows "\<exists>run. cl_runs (snd (AddNeighbor vt addr ras pt ka ht cfg c)) = cl_runs c @ [run] \<and>
    (\<forall>line \<in> set (stdin_lines run).
       line \<in> {''configure terminal'', ''router bgp '' @ dec32 (cl_localAS c), ''end''} \<or>
       HasPrefix line (''neighbor '' @ addr @ '' ''))"
proof -
  define cmds where "cmds = [routerCmd c, ''neighbor '' @ addr @ '' remote-as '' @ dec32 ras] @
    (if 0 < ka \<and> 0 < ht then [''neighbor '' @ addr @ '' timers '' @ dec32 ka @ '' '' @ dec32 ht] else []) @
    neighborConfigCommands addr cfg"
  have run: "cl_runs (snd (AddNeighbor vt addr ras pt ka ht cfg c)) = cl_runs c @ [configRun c cmds]"
    using assms(1) by (simp add: AddNeighbor_def getLocalAS_def cmds_def)
  have "\<forall>cmd \<in> set cmds. newline \<notin> set cmd"
    using assms(2) neighborConfigCommands_newline [OF assms(2,3)] newline_dec32
    unfolding newline_def by (auto simp: cmds_def routerCmd_def)
  then have "stdin_lines (configRun c cmds) = ''configure terminal'' # cmds @ [''end'']"
    by (rule stdin_lines_configRun)
  moreover have "cmd = ''router bgp '' @ dec32 (cl_localAS c) \<or> HasPrefix cmd (''neighbor '' @ addr @ '' '')"
    if "cmd \<in> set cmds" for cmd
    using that neighborConfigCommands_prefix
    by (auto simp: cmds_def routerCmd_def getLocalAS_def HasPrefix_def split: if_splits)
  ultimately show ?thesis using run by (intro exI [of _ "configRun c cmds"]) auto
qed

theorem AddNeighbor_confined_witness:
  "\<exists>run. cl_runs (snd (AddNeighbor vtysh_ok ''10.0.0.1'' 65001 ''external'' 0 0 None ex_client)) = [run] \<and>
    (\<forall>line \<in> set (stdin_lines run).
       line \<in> {''configure terminal'', ''router bgp '' @ dec32 65000, ''end''} \<or>
       HasPrefix line (''neighbor '' @ ''10.0.0.1'' @ '' ''))"
proof -
  have "cl_localAS ex_client \<noteq> 0" "newline \<notin> set ''10.0.0.1''"
    by (simp_all add: ex_client_def newline_def)
  from AddNeighbor_confined [OF this, of None vtysh_ok 65001 "''external''" 0 0]
  show ?thesis by (simp add: ex_client_def NewClient_def)
qed

text \<open>
  The guard matters: the arguments are not escaped, so a newline in a
  description ends the command and the rest reaches \<open>vtysh\<close> as a command of its own.
\<close>

theorem AddNeighbor_newline_injects:
  "''no router bgp 65000'' \<in> set (stdin_lines (last (cl_runs (snd
     (AddNeighbor vtysh_ok ''10.0.0.1'' 65001 ''external'' 0 0
       (Some \<lparr>nc_SourceAddress = [], nc_EBGPMultihop = 0, nc_Password = [],
              nc_Description = ''x'' @ [newline] @ ''no router bgp 65000''\<rparr>) ex_client)))))"
  by (simp add: AddNeighbor_def getLocalAS_def ex_client_def stdin_lines_concat
      neighborConfigCommands_def newline_def)

text \<open>
  Reconfiguring from the AS the client has cached: on success the client
  caches the new AS and, if the AS changed, the old instance was removed, in a run of its
  own, before the block of the new instance was sent; on failure the cached AS is the old
  one.
\<close>

theorem ReconfigureBGPGlobal_spec:
  "case ReconfigureBGPGlobal vt (GetLocalAS c) newAS rid c of
     (None, c') \<Rightarrow>
       GetLocalAS c' = newAS \<and>
       cl_runs c' = cl_runs c @
         (if GetLocalAS c \<noteq> newAS \<and> GetLocalAS c \<noteq> 0
          then [configRun c [''no router bgp '' @ dec32 (GetLocalAS c)]] else []) @
         [configRun c (bgpGlobalCommands newAS rid)]
   | (Some e, c') \<Rightarrow> GetLocalAS c' = GetLocalAS c"
proof -
  have runs: "\<exists>e. runConfig vt cmds d = (e, d\<lparr>cl_runs := cl_runs d @ [configRun d cmds]\<rparr>)" for cmds d
    by (metis prod.collapse runConfig_client)
  obtain e1 where e1: "runConfig vt [''no router bgp '' @ dec32 (cl_localAS c)] c =
      (e1, c\<lparr>cl_runs := cl_runs c @ [configRun c [''no router bgp '' @ dec32 (cl_localAS c)]]\<rparr>)"
    using runs by blast
  have new: "case ConfigureBGPGlobal vt newAS rid d of
     (None, c') \<Rightarrow> cl_localAS c' = newAS \<and> cl_runs c' = cl_runs d @ [configRun d (bgpGlobalCommands newAS rid)]
   | (Some e, c') \<Rightarrow> cl_localAS c' = cl_localAS d" for d
    using runs [of "bgpGlobalCommands newAS rid" d]
    by (auto simp: ConfigureBGPGlobal_def split: option.splits)
  have [simp]: "configRun (c\<lparr>cl_runs := rs\<rparr>) cmds = configRun c cmds" for rs cmds
    by (simp add: configRun_def)
  consider "cl_localAS c = newAS" | "cl_localAS c \<noteq> newAS" "cl_localAS c = 0"
    | "cl_localAS c \<noteq> newAS" "cl_localAS c \<noteq> 0" by blast
  then show ?thesis
  proof cases
    case 1
    then show ?thesis using runs [of "bgpGlobalCommands newAS rid" c]
      by (auto simp: ReconfigureBGPGlobal_def GetLocalAS_def split: option.splits)
  next
    case 2
    then show ?thesis using new [of c]
      by (auto simp: ReconfigureBGPGlobal_def GetLocalAS_def split: option.splits prod.splits)
  next
    case 3
    then show ?thesis
      using new [of "c\<lparr>cl_runs := cl_runs c @ [configRun c [''no router bgp '' @ dec32 (cl_localAS c)]]\<rparr>"]
        e1 by (cases e1) (auto simp: ReconfigureBGPGlobal_def GetLocalAS_def split: option.splits prod.splits)
  qed
qed

end
