(* ===== verification/Go_Json.thy ===== *)
theory Go_Json
  imports Go_Strings
begin

text \<open>
  The part of Go's \<open>encoding/json\<close> that NovaRoute reads FRR's output with: the scanner and
  string decoder (escapes, surrogate pairs, invalid UTF-8 replaced), and the rules for
  storing a value: \<open>null\<close> leaves a variable as it is, a number goes into an unsigned
  integer only if it is written with digits alone and fits, struct fields are matched
  without regard to case, unknown fields are skipped, and of two equal keys the later
  wins.  A syntax or type error is \<open>None\<close>.

  The parser takes fuel; \<open>parse_json\<close> gives it one more than twice the length of the text, and
  \<open>parse_value_fuel\<close> shows that more would not change any result.
\<close>

section \<open>Values\<close>

datatype json =
    JNull
  | JBool bool
  | JNum string
  | JStr string
  | JArr "json list"
  | JObj "(string \<times> json) list"

section \<open>Strings\<close>

definition byte_in :: "nat \<Rightarrow> nat \<Rightarrow> char \<Rightarrow> bool" where
  "byte_in lo hi c \<longleftrightarrow> lo \<le> (of_char c :: nat) \<and> (of_char c :: nat) \<le> hi"

definition is_space :: "char \<Rightarrow> bool" where
  "is_space c \<longleftrightarrow> c = CHR 0x20 \<or> c = CHR 0x09 \<or> c = CHR 0x0D \<or> c = CHR 0x0A"

definition skip_ws :: "string \<Rightarrow> string" where
  "skip_ws s = dropWhile is_space s"

definition hex_digit :: "char \<Rightarrow> nat option" where
  "hex_digit c =
     (let n = (of_char c :: nat) in
      if 48 \<le> n \<and> n \<le> 57 then Some (n - 48)
      else if 97 \<le> n \<and> n \<le> 102 then Some (n - 87)
      else if 65 \<le> n \<and> n \<le> 70 then Some (n - 55)
      else None)"

definition is_hex4 :: "string \<Rightarrow> bool" where
  "is_hex4 s \<longleftrightarrow> 4 \<le> length s \<and> list_all (\<lambda>c. hex_digit c \<noteq> None) (take 4 s)"

definition hex4 :: "string \<Rightarrow> nat" where
  "hex4 s = foldl (\<lambda>acc c. 16 * acc + (case hex_digit c of None \<Rightarrow> 0 | Some d \<Rightarrow> d)) 0 (take 4 s)"

text \<open>The raw text of a literal, up to its closing quote, and what follows it.\<close>

fun scan_string :: "string \<Rightarrow> (string \<times> string) option" where
  "scan_string [] = None"
| "scan_string (c # cs) =
     (if c = CHR 0x22 then Some ([], cs)
      else if c = CHR 0x5C then
        (case cs of
           [] \<Rightarrow> None
         | e # cs' \<Rightarrow>
             if e \<in> {CHR 0x22, CHR 0x5C, CHR ''/'', CHR ''b'', CHR ''f'', CHR ''n'', CHR ''r'', CHR ''t''} then
               map_option (\<lambda>(a, r). (c # e # a, r)) (scan_string cs')
             else if e = CHR ''u'' \<and> is_hex4 cs' then
               map_option (\<lambda>(a, r). (c # e # take 4 cs' @ a, r)) (scan_string (drop 4 cs'))
             else None)
      else if (of_char c :: nat) < 0x20 then None
      else map_option (\<lambda>(a, r). (c # a, r)) (scan_string cs))"

definition byte_of :: "nat \<Rightarrow> char" where
  "byte_of n = char_of n"

definition encode_rune :: "nat \<Rightarrow> string" where
  "encode_rune r =
     (if r < 0x80 then [byte_of r]
      else if r < 0x800 then [byte_of (0xC0 + r div 64), byte_of (0x80 + r mod 64)]
      else if r < 0x10000 then
        [byte_of (0xE0 + r div 4096), byte_of (0x80 + r div 64 mod 64), byte_of (0x80 + r mod 64)]
      else [byte_of (0xF0 + r div 262144), byte_of (0x80 + r div 4096 mod 64),
            byte_of (0x80 + r div 64 mod 64), byte_of (0x80 + r mod 64)])"

definition replacement :: string where
  "replacement = [CHR 0xEF, CHR 0xBF, CHR 0xBD]"

text \<open>How many bytes the well-formed code point at the head takes; none if there is none.\<close>

definition utf8_width :: "string \<Rightarrow> nat option" where
  "utf8_width s =
     (case s of
        [] \<Rightarrow> None
      | c # cs \<Rightarrow>
          (let tail = (\<lambda>k. k \<le> length cs \<and> list_all (byte_in 0x80 0xBF) (take k cs)) in
           if (of_char c :: nat) < 0x80 then Some 1
           else if byte_in 0xC2 0xDF c \<and> tail 1 then Some 2
           else if c = CHR 0xE0 \<and> tail 2 \<and> byte_in 0xA0 0xBF (hd cs) then Some 3
           else if (byte_in 0xE1 0xEC c \<or> byte_in 0xEE 0xEF c) \<and> tail 2 then Some 3
           else if c = CHR 0xED \<and> tail 2 \<and> byte_in 0x80 0x9F (hd cs) then Some 3
           else if c = CHR 0xF0 \<and> tail 3 \<and> byte_in 0x90 0xBF (hd cs) then Some 4
           else if byte_in 0xF1 0xF3 c \<and> tail 3 then Some 4
           else if c = CHR 0xF4 \<and> tail 3 \<and> byte_in 0x80 0x8F (hd cs) then Some 4
           else None))"

definition unescape :: "char \<Rightarrow> char" where
  "unescape e =
     (if e = CHR ''b'' then CHR 0x08 else if e = CHR ''f'' then CHR 0x0C
      else if e = CHR ''n'' then CHR 0x0A else if e = CHR ''r'' then CHR 0x0D
      else if e = CHR ''t'' then CHR 0x09 else e)"

text \<open>\<open>unquote\<close>: a code unit of the surrogate range takes the next escape with it if the two
  form a pair, and is replaced otherwise.\<close>

function unquote :: "string \<Rightarrow> string" where
  "unquote [] = []"
| "unquote (c # cs) =
     (if c = CHR 0x5C \<and> cs \<noteq> [] then
        if hd cs = CHR ''u'' then
          (let r = hex4 (tl cs); rest = drop 4 (tl cs) in
           if 0xD800 \<le> r \<and> r < 0xE000 then
             if r < 0xDC00 \<and> HasPrefix rest [CHR 0x5C, CHR ''u''] \<and> is_hex4 (drop 2 rest) \<and>
                0xDC00 \<le> hex4 (drop 2 rest) \<and> hex4 (drop 2 rest) < 0xE000
             then encode_rune ((r - 0xD800) * 1024 + (hex4 (drop 2 rest) - 0xDC00) + 0x10000) @
                  unquote (drop 6 rest)
             else replacement @ unquote rest
           else encode_rune r @ unquote rest)
        else unescape (hd cs) # unquote (tl cs)
      else (case utf8_width (c # cs) of
              None \<Rightarrow> replacement @ unquote cs
            | Some w \<Rightarrow> c # take (w - 1) cs @ unquote (drop (w - 1) cs)))"
  by pat_completeness auto
termination
  by (relation "measure length") (auto simp: neq_Nil_conv)

section \<open>The parser\<close>

definition all_digits :: "string \<Rightarrow> bool" where
  "all_digits s \<longleftrightarrow> s \<noteq> [] \<and> list_all is_digit s"

text \<open>The longest number at the head: sign, integer part, fraction, exponent.\<close>

definition scan_frac :: "string \<Rightarrow> (string \<times> string) option" where
  "scan_frac s =
     (if HasPrefix s ''.'' then
        (let ds = takeWhile is_digit (tl s) in
         if ds = [] then None else Some (CHR ''.'' # ds, dropWhile is_digit (tl s)))
      else Some ([], s))"

definition scan_exp :: "string \<Rightarrow> (string \<times> string) option" where
  "scan_exp s =
     (if HasPrefix s ''e'' \<or> HasPrefix s ''E'' then
        (let sg = (if HasPrefix (tl s) ''+'' \<or> HasPrefix (tl s) ''-'' then take 1 (tl s) else []);
             r = drop (length sg) (tl s); ds = takeWhile is_digit r in
         if ds = [] then None else Some (take 1 s @ sg @ ds, dropWhile is_digit r))
      else Some ([], s))"

definition scan_int :: "string \<Rightarrow> (string \<times> string) option" where
  "scan_int s =
     (if HasPrefix s ''0'' then Some (''0'', tl s)
      else (let ds = takeWhile is_digit s in
            if ds = [] then None else Some (ds, dropWhile is_digit s)))"

definition scan_number :: "string \<Rightarrow> (string \<times> string) option" where
  "scan_number s =
     (let sg = (if HasPrefix s ''-'' then ''-'' else []) in
      case scan_int (drop (length sg) s) of
        None \<Rightarrow> None
      | Some (i, r) \<Rightarrow>
          (case scan_frac r of
             None \<Rightarrow> None
           | Some (f, r') \<Rightarrow>
               (case scan_exp r' of
                  None \<Rightarrow> None
                | Some (x, r'') \<Rightarrow> Some (sg @ i @ f @ x, r''))))"

fun parse_value :: "nat \<Rightarrow> string \<Rightarrow> (json \<times> string) option"
and parse_elems :: "nat \<Rightarrow> string \<Rightarrow> (json list \<times> string) option"
and parse_members :: "nat \<Rightarrow> string \<Rightarrow> ((string \<times> json) list \<times> string) option" where
  "parse_value 0 s = None"
| "parse_value (Suc n) s =
     (case skip_ws s of
        [] \<Rightarrow> None
      | c # cs \<Rightarrow>
          if c = CHR ''{'' then
            if HasPrefix (skip_ws cs) ''}'' then Some (JObj [], tl (skip_ws cs))
            else map_option (\<lambda>(ms, r). (JObj ms, r)) (parse_members n cs)
          else if c = CHR ''['' then
            if HasPrefix (skip_ws cs) '']'' then Some (JArr [], tl (skip_ws cs))
            else map_option (\<lambda>(es, r). (JArr es, r)) (parse_elems n cs)
          else if c = CHR 0x22 then map_option (\<lambda>(a, r). (JStr (unquote a), r)) (scan_string cs)
          else if HasPrefix (c # cs) ''null'' then Some (JNull, drop 3 cs)
          else if HasPrefix (c # cs) ''true'' then Some (JBool True, drop 3 cs)
          else if HasPrefix (c # cs) ''false'' then Some (JBool False, drop 4 cs)
          else map_option (\<lambda>(a, r). (JNum a, r)) (scan_number (c # cs)))"
| "parse_elems 0 s = None"
| "parse_elems (Suc n) s =
     (case parse_value n s of
        None \<Rightarrow> None
      | Some (v, r) \<Rightarrow>
          (case skip_ws r of
             [] \<Rightarrow> None
           | c # cs \<Rightarrow>
               if c = CHR '']'' then Some ([v], cs)
               else if c = CHR '','' then map_option (\<lambda>(vs, r'). (v # vs, r')) (parse_elems n cs)
               else None))"
| "parse_members 0 s = None"
| "parse_members (Suc n) s =
     (if HasPrefix (skip_ws s) [CHR 0x22] then
        (case scan_string (tl (skip_ws s)) of
           None \<Rightarrow> None
         | Some (k, r) \<Rightarrow>
             if HasPrefix (skip_ws r) '':'' then
               (case parse_value n (tl (skip_ws r)) of
                  None \<Rightarrow> None
                | Some (v, r') \<Rightarrow>
                    (case skip_ws r' of
                       [] \<Rightarrow> None
                     | c # cs \<Rightarrow>
                         if c = CHR ''}'' then Some ([(unquote k, v)], cs)
                         else if c = CHR '','' then
                           map_option (\<lambda>(ms, r''). ((unquote k, v) # ms, r'')) (parse_members n cs)
                         else None))
             else None)
      else None)"

fun json_depth :: "json \<Rightarrow> nat" where
  "json_depth (JArr es) = Suc (fold (\<lambda>e d. max (json_depth e) d) es 0)"
| "json_depth (JObj ms) = Suc (fold (\<lambda>m d. max (json_depth (snd m)) d) ms 0)"
| "json_depth j = 0"

text \<open>A whole text: one value, white space around it, at most ten thousand levels deep.\<close>

definition parse_json :: "string \<Rightarrow> json option" where
  "parse_json s =
     (case parse_value (2 * length s + 1) s of
        None \<Rightarrow> None
      | Some (j, r) \<Rightarrow> if skip_ws r \<noteq> [] \<or> 10000 < json_depth j then None else Some j)"

section \<open>Storing values\<close>

text \<open>Each decoder takes the variable's old value.\<close>

definition into_string :: "string \<Rightarrow> json \<Rightarrow> string option" where
  "into_string old j = (case j of JNull \<Rightarrow> Some old | JStr s \<Rightarrow> Some s | _ \<Rightarrow> None)"

definition into_uint :: "'a::len word \<Rightarrow> json \<Rightarrow> 'a word option" where
  "into_uint old j =
     (case j of
        JNull \<Rightarrow> Some old
      | JNum s \<Rightarrow>
          if all_digits s \<and> undec 0 s < 2 ^ LENGTH('a) then Some (of_nat (undec 0 s)) else None
      | _ \<Rightarrow> None)"

text \<open>A struct: \<open>field\<close> stores one member into it.\<close>

fun into_fields :: "(string \<Rightarrow> json \<Rightarrow> 'r \<Rightarrow> 'r option) \<Rightarrow> (string \<times> json) list \<Rightarrow> 'r \<Rightarrow> 'r option" where
  "into_fields field [] r = Some r"
| "into_fields field ((k, v) # ms) r =
     (case field k v r of None \<Rightarrow> None | Some r' \<Rightarrow> into_fields field ms r')"

definition into_struct :: "(string \<Rightarrow> json \<Rightarrow> 'r \<Rightarrow> 'r option) \<Rightarrow> 'r \<Rightarrow> json \<Rightarrow> 'r option" where
  "into_struct field old j =
     (case j of JNull \<Rightarrow> Some old | JObj ms \<Rightarrow> into_fields field ms old | _ \<Rightarrow> None)"

text \<open>A map whose elements are decoded into fresh variables, and a slice.\<close>

definition into_map ::
    "(json \<Rightarrow> 'v option) \<Rightarrow> (string, 'v) gomap \<Rightarrow> json \<Rightarrow> (string, 'v) gomap option" where
  "into_map elem old j =
     (case j of
        JNull \<Rightarrow> Some []
      | JObj ms \<Rightarrow>
          into_fields (\<lambda>k v m. case elem v of None \<Rightarrow> None | Some x \<Rightarrow> Some (gm_put m k x)) ms old
      | _ \<Rightarrow> None)"

fun into_elems :: "(json \<Rightarrow> 'v option) \<Rightarrow> json list \<Rightarrow> 'v list option" where
  "into_elems elem [] = Some []"
| "into_elems elem (e # es) =
     (case elem e of
        None \<Rightarrow> None
      | Some x \<Rightarrow> map_option (\<lambda>xs. x # xs) (into_elems elem es))"

definition into_slice :: "(json \<Rightarrow> 'v option) \<Rightarrow> json \<Rightarrow> 'v list option" where
  "into_slice elem j =
     (case j of JNull \<Rightarrow> Some [] | JArr es \<Rightarrow> into_elems elem es | _ \<Rightarrow> None)"

section \<open>Fuel\<close>

text \<open>What a parser returns is shorter than what it was given.\<close>

lemma length_skip_ws: "length (skip_ws s) \<le> length s"
  by (simp add: skip_ws_def length_dropWhile_le)

lemma skip_ws_Cons: "skip_ws s = c # cs \<Longrightarrow> length cs < length s"
  using length_skip_ws [of s] by simp

lemma scan_string_step:
  assumes "scan_string (c # cs) = Some (a, r)"
  shows "r = cs \<or> (\<exists>t a'. length t \<le> length cs \<and> scan_string t = Some (a', r))"
proof -
  have "\<exists>k a'. scan_string (drop k cs) = Some (a', r)" if "r \<noteq> cs"
    using assms that
    by (cases cs) (auto split: if_splits intro: exI [of _ 0] exI [of _ 1] exI [of _ 5])
  then show ?thesis by (metis length_drop diff_le_self)
qed

lemma scan_string_shorter: "scan_string s = Some (a, r) \<Longrightarrow> length r < length s"
proof (induction "length s" arbitrary: s a r rule: less_induct)
  case less
  then obtain c cs where s: "s = c # cs" by (cases s) auto
  from scan_string_step [OF less.prems [unfolded s]] show ?case
  proof (elim disjE exE conjE)
    assume "r = cs"
    then show ?thesis by (simp add: s)
  next
    fix t a'
    assume t: "length t \<le> length cs" "scan_string t = Some (a', r)"
    then have "length r < length t" using less.hyps by (simp add: s)
    with t show ?thesis by (simp add: s)
  qed
qed

lemma length_dropWhile_digits: "length (dropWhile is_digit s) \<le> length s"
  by (rule length_dropWhile_le)

lemma scan_int_shorter: "scan_int s = Some (a, r) \<Longrightarrow> length r < length s"
  by (cases s) (auto simp: scan_int_def Let_def HasPrefix_def less_Suc_eq_le length_dropWhile_digits
      split: if_splits)

lemma scan_frac_le: "scan_frac s = Some (a, r) \<Longrightarrow> length r \<le> length s"
  using length_dropWhile_digits [of "tl s"]
  by (auto simp: scan_frac_def Let_def split: if_splits)

lemma scan_exp_le: "scan_exp s = Some (a, r) \<Longrightarrow> length r \<le> length s"
proof -
  have k: "length (dropWhile is_digit (drop k (tl s))) \<le> length s" for k
    using length_dropWhile_digits [of "drop k (tl s)"] by simp
  with k [of 0] show "scan_exp s = Some (a, r) \<Longrightarrow> length r \<le> length s"
    by (auto simp: scan_exp_def Let_def split: if_splits)
qed

lemma scan_number_shorter: "scan_number s = Some (a, r) \<Longrightarrow> length r < length s"
  by (fastforce simp: scan_number_def Let_def split: if_splits option.splits
      dest!: scan_int_shorter scan_frac_le scan_exp_le)

lemma parse_shorter:
  "parse_value n s = Some (j, r) \<Longrightarrow> length r < length s"
  "parse_elems n s = Some (js, r) \<Longrightarrow> length r < length s"
  "parse_members n s = Some (ms, r) \<Longrightarrow> length r < length s"
proof (induction n s and n s and n s arbitrary: j r and js r and ms r
    rule: parse_value_parse_elems_parse_members.induct)
  case (2 n s)
  show ?case
  proof (cases "skip_ws s")
    case Nil
    with "2.prems" show ?thesis by simp
  next
    case (Cons c cs)
    then have "length cs < length s" by (rule skip_ws_Cons)
    with 2 Cons length_skip_ws [of cs] show ?thesis
      by (auto split: if_splits dest!: scan_string_shorter scan_number_shorter) (metis less_trans)+
  qed
next
  case (4 n s)
  then show ?case
    by (fastforce split: option.splits list.splits if_splits dest!: skip_ws_Cons)
next
  case (6 n s)
  have tl: "length (tl (skip_ws t)) \<le> length t" for t
    using length_skip_ws [of t] by simp
  from "6.prems" obtain k r1 v r2 c cs where
    h: "HasPrefix (skip_ws s) [CHR 0x22]" "scan_string (tl (skip_ws s)) = Some (k, r1)"
      "HasPrefix (skip_ws r1) '':''" "parse_value n (tl (skip_ws r1)) = Some (v, r2)"
      "skip_ws r2 = c # cs"
    and d: "r = cs \<or> (c \<noteq> CHR ''}'' \<and> c = CHR '','' \<and> (\<exists>ms'. parse_members n cs = Some (ms', r)))"
    by (auto split: option.splits list.splits if_splits prod.splits)
  have cs: "length cs < length s"
    using scan_string_shorter [OF h(2)] "6.IH"(1) [OF h(1,2) refl h(3,4)] skip_ws_Cons [OF h(5)]
      tl [of s] tl [of r1] by simp
  from d show ?case
  proof (elim disjE exE conjE)
    fix ms'
    assume "c \<noteq> CHR ''}''" "c = CHR '',''" "parse_members n cs = Some (ms', r)"
    with "6.IH"(2) [OF h(1,2) refl h(3,4) refl h(5)] cs show ?thesis by simp
  qed (use cs in simp)
qed simp_all

text \<open>Enough fuel is enough: beyond twice the length of the text, more changes nothing.\<close>

lemma parse_fuel:
  "2 * length s < n \<Longrightarrow> 2 * length s < m \<Longrightarrow> parse_value n s = parse_value m s"
  "Suc (2 * length s) < n \<Longrightarrow> Suc (2 * length s) < m \<Longrightarrow> parse_elems n s = parse_elems m s"
  "Suc (2 * length s) < n \<Longrightarrow> Suc (2 * length s) < m \<Longrightarrow> parse_members n s = parse_members m s"
proof (induction n s and n s and n s arbitrary: m and m and m
    rule: parse_value_parse_elems_parse_members.induct)
  case (2 n s)
  from "2.prems" obtain m' where m: "m = Suc m'" by (cases m) auto
  show ?case
  proof (cases "skip_ws s")
    case Nil
    then show ?thesis by (simp add: m)
  next
    case (Cons c cs)
    then have "length cs < length s" by (rule skip_ws_Cons)
    then have n: "Suc (2 * length cs) < n" "Suc (2 * length cs) < m'" using "2.prems" by (simp_all add: m)
    have "parse_members n cs = parse_members m' cs" if "c = CHR ''{''" "\<not> HasPrefix (skip_ws cs) ''}''"
      by (rule "2.IH"(1) [OF Cons]) (use that n in simp_all)
    moreover have "parse_elems n cs = parse_elems m' cs"
      if "c \<noteq> CHR ''{''" "c = CHR ''[''" "\<not> HasPrefix (skip_ws cs) '']''"
      by (rule "2.IH"(2) [OF Cons]) (use that n in simp_all)
    ultimately show ?thesis by (auto simp: m Cons)
  qed
next
  case (4 n s)
  from "4.prems" obtain m' where m: "m = Suc m'" by (cases m) auto
  have pv: "parse_value m' s = parse_value n s"
    by (rule sym, rule "4.IH"(1)) (use "4.prems" in \<open>simp_all add: m\<close>)
  have "parse_elems m' cs = parse_elems n cs"
    if "parse_value n s = Some (v, r)" "skip_ws r = c # cs" "c \<noteq> CHR '']''" "c = CHR '',''" for v r c cs
    by (rule sym, rule "4.IH"(2) [OF that(1) refl that(2-4)])
      (use "4.prems" parse_shorter(1) [OF that(1)] skip_ws_Cons [OF that(2)] in \<open>simp_all add: m\<close>)
  then show ?case by (auto simp: m pv split: option.splits list.splits)
next
  case (6 n s)
  from "6.prems" obtain m' where m: "m = Suc m'" by (cases m) auto
  have tl: "length (tl (skip_ws t)) \<le> length t" for t
    using length_skip_ws [of t] by simp
  have pv: "parse_value m' (tl (skip_ws r)) = parse_value n (tl (skip_ws r))"
    and pm: "parse_value n (tl (skip_ws r)) = Some (v, r') \<Longrightarrow> skip_ws r' = c # cs \<Longrightarrow>
      c \<noteq> CHR ''}'' \<Longrightarrow> c = CHR '','' \<Longrightarrow> parse_members m' cs = parse_members n cs"
    if "HasPrefix (skip_ws s) [CHR 0x22]" "scan_string (tl (skip_ws s)) = Some (k, r)"
      "HasPrefix (skip_ws r) '':''" for k r v r' c cs
  proof -
    have r: "length r < length s" using scan_string_shorter [OF that(2)] tl [of s] by simp
    then show "parse_value m' (tl (skip_ws r)) = parse_value n (tl (skip_ws r))"
      by (intro sym [OF "6.IH"(1) [OF that(1,2) refl that(3)]])
        (use "6.prems" tl [of r] in \<open>simp_all add: m\<close>)
    assume v: "parse_value n (tl (skip_ws r)) = Some (v, r')" "skip_ws r' = c # cs"
      "c \<noteq> CHR ''}''" "c = CHR '',''"
    have "length cs < length s"
      using r parse_shorter(1) [OF v(1)] skip_ws_Cons [OF v(2)] tl [of r] by simp
    then show "parse_members m' cs = parse_members n cs"
      by (intro sym [OF "6.IH"(2) [OF that(1,2) refl that(3) v(1) refl v(2-4)]])
        (use "6.prems" in \<open>simp_all add: m\<close>)
  qed
  then show ?case by (auto simp: m split: option.splits list.splits)
qed simp_all

theorem parse_value_fuel:
  assumes "2 * length s < n"
  shows "parse_value n s = parse_value (2 * length s + 1) s"
  using assms by (intro parse_fuel(1)) simp_all

end
