(* ===== verification/Frr_Show.thy ===== *)
theory Frr_Show
  imports Frr_Client Go_Json
begin

text \<open>
  FRR state queries (\<open>internal/frr/show.go\<close>): the three \<open>show ... json\<close> commands and the
  functions that turn their output into neighbor states.  A \<open>range\<close> over a decoded map
  takes a schedule; the sum over the address families does not depend on the order, so
  that loop has none.
\<close>

section \<open>Data\<close>

datatype show_error = ShowFailed frr_error | ErrShowParse

record BGPNeighborState =
  bn_Address :: string
  bn_RemoteAS :: uint32
  bn_State :: string
  bn_UpTime :: string
  bn_MsgRcvd :: uint64
  bn_MsgSent :: uint64
  bn_PrefixesReceived :: uint32
  bn_PrefixesSent :: uint32

record BFDPeerState =
  bp_PeerAddress :: string
  bp_Interface :: string
  bp_Status :: string
  bp_Uptime :: string

record OSPFNeighborState =
  on_NeighborID :: string
  on_Address :: string
  on_Interface :: string
  on_State :: string

text \<open>The structs the JSON is decoded into.\<close>

record addressFamilyEntry =
  af_AcceptedPrefixCounter :: uint32
  af_SentPrefixCounter :: uint32

record bgpNeighborJSON =
  bj_RemoteAS :: uint32
  bj_BGPState :: string
  bj_BGPTimerUpString :: string
  bj_MsgRcvd :: uint64
  bj_MsgSent :: uint64
  bj_AddressFamilyInfo :: "(string, addressFamilyEntry) gomap"

record bfdPeerJSON =
  bf_Peer :: string
  bf_Interface :: string
  bf_Status :: string
  bf_Uptime :: uint64

record ospfNeighborEntry =
  oe_NbrState :: string
  oe_IfaceName :: string
  oe_SrcAddress :: string

section \<open>Decoding\<close>

definition addressFamilyEntry_field ::
    "string \<Rightarrow> json \<Rightarrow> addressFamilyEntry \<Rightarrow> addressFamilyEntry option" where
  "addressFamilyEntry_field k v r =
     (if EqualFold k ''acceptedPrefixCounter'' then
        map_option (\<lambda>x. r\<lparr>af_AcceptedPrefixCounter := x\<rparr>) (into_uint (af_AcceptedPrefixCounter r) v)
      else if EqualFold k ''sentPrefixCounter'' then
        map_option (\<lambda>x. r\<lparr>af_SentPrefixCounter := x\<rparr>) (into_uint (af_SentPrefixCounter r) v)
      else Some r)"

definition decode_addressFamilyEntry :: "json \<Rightarrow> addressFamilyEntry option" where
  "decode_addressFamilyEntry =
     into_struct addressFamilyEntry_field \<lparr>af_AcceptedPrefixCounter = 0, af_SentPrefixCounter = 0\<rparr>"

definition bgpNeighborJSON_field ::
    "string \<Rightarrow> json \<Rightarrow> bgpNeighborJSON \<Rightarrow> bgpNeighborJSON option" where
  "bgpNeighborJSON_field k v r =
     (if EqualFold k ''remoteAs'' then
        map_option (\<lambda>x. r\<lparr>bj_RemoteAS := x\<rparr>) (into_uint (bj_RemoteAS r) v)
      else if EqualFold k ''bgpState'' then
        map_option (\<lambda>x. r\<lparr>bj_BGPState := x\<rparr>) (into_string (bj_BGPState r) v)
      else if EqualFold k ''bgpTimerUpString'' then
        map_option (\<lambda>x. r\<lparr>bj_BGPTimerUpString := x\<rparr>) (into_string (bj_BGPTimerUpString r) v)
      else if EqualFold k ''msgRcvd'' then
        map_option (\<lambda>x. r\<lparr>bj_MsgRcvd := x\<rparr>) (into_uint (bj_MsgRcvd r) v)
      else if EqualFold k ''msgSent'' then
        map_option (\<lambda>x. r\<lparr>bj_MsgSent := x\<rparr>) (into_uint (bj_MsgSent r) v)
      else if EqualFold k ''addressFamilyInfo'' then
        map_option (\<lambda>x. r\<lparr>bj_AddressFamilyInfo := x\<rparr>)
          (into_map decode_addressFamilyEntry (bj_AddressFamilyInfo r) v)
      else Some r)"

definition decode_bgpNeighborJSON :: "json \<Rightarrow> bgpNeighborJSON option" where
  "decode_bgpNeighborJSON =
     into_struct bgpNeighborJSON_field
       \<lparr>bj_RemoteAS = 0, bj_BGPState = [], bj_BGPTimerUpString = [], bj_MsgRcvd = 0, bj_MsgSent = 0,
        bj_AddressFamilyInfo = []\<rparr>"

definition bfdPeerJSON_field :: "string \<Rightarrow> json \<Rightarrow> bfdPeerJSON \<Rightarrow> bfdPeerJSON option" where
  "bfdPeerJSON_field k v r =
     (if EqualFold k ''peer'' then map_option (\<lambda>x. r\<lparr>bf_Peer := x\<rparr>) (into_string (bf_Peer r) v)
      else if EqualFold k ''interface'' then
        map_option (\<lambda>x. r\<lparr>bf_Interface := x\<rparr>) (into_string (bf_Interface r) v)
      else if EqualFold k ''status'' then
        map_option (\<lambda>x. r\<lparr>bf_Status := x\<rparr>) (into_string (bf_Status r) v)
      else if EqualFold k ''uptime'' then
        map_option (\<lambda>x. r\<lparr>bf_Uptime := x\<rparr>) (into_uint (bf_Uptime r) v)
      else Some r)"

definition decode_bfdPeerJSON :: "json \<Rightarrow> bfdPeerJSON option" where
  "decode_bfdPeerJSON =
     into_struct bfdPeerJSON_field \<lparr>bf_Peer = [], bf_Interface = [], bf_Status = [], bf_Uptime = 0\<rparr>"

definition ospfNeighborEntry_field ::
    "string \<Rightarrow> json \<Rightarrow> ospfNeighborEntry \<Rightarrow> ospfNeighborEntry option" where
  "ospfNeighborEntry_field k v r =
     (if EqualFold k ''nbrState'' then
        map_option (\<lambda>x. r\<lparr>oe_NbrState := x\<rparr>) (into_string (oe_NbrState r) v)
      else if EqualFold k ''ifaceName'' then
        map_option (\<lambda>x. r\<lparr>oe_IfaceName := x\<rparr>) (into_string (oe_IfaceName r) v)
      else if EqualFold k ''srcAddress'' then
        map_option (\<lambda>x. r\<lparr>oe_SrcAddress := x\<rparr>) (into_string (oe_SrcAddress r) v)
      else Some r)"

definition decode_ospfNeighborEntry :: "json \<Rightarrow> ospfNeighborEntry option" where
  "decode_ospfNeighborEntry =
     into_struct ospfNeighborEntry_field \<lparr>oe_NbrState = [], oe_IfaceName = [], oe_SrcAddress = []\<rparr>"

text \<open>\<open>ospfJSON\<close> has the one field \<open>Neighbors\<close>.\<close>

definition decode_ospfJSON :: "json \<Rightarrow> (string, ospfNeighborEntry list) gomap option" where
  "decode_ospfJSON =
     into_struct
       (\<lambda>k v m. if EqualFold k ''neighbors'' then into_map (into_slice decode_ospfNeighborEntry) m v
                else Some m) []"

section \<open>Parsing\<close>

definition neighbor_state :: "string \<Rightarrow> bgpNeighborJSON \<Rightarrow> BGPNeighborState" where
  "neighbor_state addr nbr =
     (let (recv, sent) = for_each
            (\<lambda>(_, afi) (a, b). (a + af_AcceptedPrefixCounter afi, b + af_SentPrefixCounter afi))
            (bj_AddressFamilyInfo nbr) (0, 0) in
      \<lparr>bn_Address = addr, bn_RemoteAS = bj_RemoteAS nbr, bn_State = bj_BGPState nbr,
       bn_UpTime = bj_BGPTimerUpString nbr, bn_MsgRcvd = bj_MsgRcvd nbr, bn_MsgSent = bj_MsgSent nbr,
       bn_PrefixesReceived = recv, bn_PrefixesSent = sent\<rparr>)"

text \<open>The loop over the raw entries, which ends at the first that does not decode.\<close>

fun decode_neighbors :: "(string \<times> json) list \<Rightarrow> BGPNeighborState list option" where
  "decode_neighbors [] = Some []"
| "decode_neighbors ((addr, rawVal) # rest) =
     (case decode_bgpNeighborJSON rawVal of
        None \<Rightarrow> None
      | Some nbr \<Rightarrow> map_option (\<lambda>xs. neighbor_state addr nbr # xs) (decode_neighbors rest))"

definition parseBGPNeighborsJSON :: "sched \<Rightarrow> string \<Rightarrow> show_error + BGPNeighborState list" where
  "parseBGPNeighborsJSON sch text' =
     (let data = TrimSpace text' in
      if data = [] \<or> data = ''{}'' then Inr []
      else case parse_json data of
        None \<Rightarrow> Inl ErrShowParse
      | Some j \<Rightarrow>
          (case into_map Some [] j of
             None \<Rightarrow> Inl ErrShowParse
           | Some raw \<Rightarrow>
               if length raw = 0 then Inr []
               else (case decode_neighbors (range_perm sch raw) of
                       None \<Rightarrow> Inl ErrShowParse
                     | Some result \<Rightarrow> Inr result)))"

definition dec64 :: "uint64 \<Rightarrow> string" where
  "dec64 w = dec (unat w)"

definition format_uptime :: "uint64 \<Rightarrow> string" where
  "format_uptime up =
     (if 0 < up then
        dec64 (up div 3600) @ ''h'' @ dec64 (up mod 3600 div 60) @ ''m'' @ dec64 (up mod 60) @ ''s''
      else [])"

definition parseBFDPeersJSON :: "string \<Rightarrow> show_error + BFDPeerState list" where
  "parseBFDPeersJSON text' =
     (let data = TrimSpace text' in
      if data = [] \<or> data = ''[]'' then Inr []
      else case parse_json data of
        None \<Rightarrow> Inl ErrShowParse
      | Some j \<Rightarrow>
          (case into_slice decode_bfdPeerJSON j of
             None \<Rightarrow> Inl ErrShowParse
           | Some peers \<Rightarrow>
               Inr (map (\<lambda>p. \<lparr>bp_PeerAddress = bf_Peer p, bp_Interface = bf_Interface p,
                 bp_Status = bf_Status p, bp_Uptime = format_uptime (bf_Uptime p)\<rparr>) peers)))"

definition ospf_state :: "string \<Rightarrow> ospfNeighborEntry \<Rightarrow> OSPFNeighborState" where
  "ospf_state nbrID entry =
     \<lparr>on_NeighborID = nbrID,
      on_Address = (if oe_SrcAddress entry = [] then nbrID else oe_SrcAddress entry),
      on_Interface = oe_IfaceName entry,
      on_State = takeWhile (\<lambda>c. c \<noteq> CHR ''/'') (oe_NbrState entry)\<rparr>"

definition parseOSPFNeighborsJSON :: "sched \<Rightarrow> string \<Rightarrow> show_error + OSPFNeighborState list" where
  "parseOSPFNeighborsJSON sch text' =
     (let data = TrimSpace text' in
      if data = [] \<or> data = ''{}'' then Inr []
      else case parse_json data of
        None \<Rightarrow> Inl ErrShowParse
      | Some j \<Rightarrow>
          (case decode_ospfJSON j of
             None \<Rightarrow> Inl ErrShowParse
           | Some neighbors \<Rightarrow>
               Inr (concat (map (\<lambda>(nbrID, entries). map (ospf_state nbrID) entries)
                      (range_perm sch neighbors)))))"

section \<open>Queries\<close>

definition GetBGPNeighbors ::
    "vtysh \<Rightarrow> sched \<Rightarrow> Client \<Rightarrow> (show_error + BGPNeighborState list) \<times> Client" where
  "GetBGPNeighbors vt sch c =
     (case runShow vt ''show bgp neighbors json'' c of
        (Inl e, c') \<Rightarrow> (Inl (ShowFailed e), c')
      | (Inr out, c') \<Rightarrow> (parseBGPNeighborsJSON sch out, c'))"

definition GetBFDPeers :: "vtysh \<Rightarrow> Client \<Rightarrow> (show_error + BFDPeerState list) \<times> Client" where
  "GetBFDPeers vt c =
     (case runShow vt ''show bfd peers json'' c of
        (Inl e, c') \<Rightarrow> (Inl (ShowFailed e), c')
      | (Inr out, c') \<Rightarrow> (parseBFDPeersJSON out, c'))"

definition GetOSPFNeighbors ::
    "vtysh \<Rightarrow> sched \<Rightarrow> Client \<Rightarrow> (show_error + OSPFNeighborState list) \<times> Client" where
  "GetOSPFNeighbors vt sch c =
     (case runShow vt ''show ip ospf neighbor json'' c of
        (Inl e, c') \<Rightarrow> (Inl (ShowFailed e), c')
      | (Inr out, c') \<Rightarrow> (parseOSPFNeighborsJSON sch out, c'))"

section \<open>Facts\<close>

lemma into_fields_keys:
  assumes "into_fields (\<lambda>k v m. case elem v of None \<Rightarrow> None | Some x \<Rightarrow> Some (gm_put m k x)) ms m = Some m'"
    and "gm_ok m"
  shows "gm_ok m'"
  using assms
  by (induction ms arbitrary: m) (auto split: option.splits)

lemma into_map_ok: "into_map elem m j = Some m' \<Longrightarrow> gm_ok m \<Longrightarrow> gm_ok m'"
  by (auto simp: into_map_def dest: into_fields_keys split: json.splits)

lemma decode_neighbors_addresses:
  "decode_neighbors es = Some xs \<Longrightarrow> map bn_Address xs = map fst es"
  by (induction es arbitrary: xs) (auto simp: neighbor_state_def Let_def split: option.splits prod.splits)

lemma parseBGPNeighborsJSON_distinct:
  assumes "parseBGPNeighborsJSON sch s = Inr xs"
  shows "distinct (map bn_Address xs)"
proof -
  consider "xs = []" | j raw where "into_map Some [] j = Some raw"
      "decode_neighbors (range_perm sch raw) = Some xs"
    using assms by (auto simp: parseBGPNeighborsJSON_def Let_def split: if_splits option.splits)
  then show ?thesis
  proof cases
    case 1
    then show ?thesis by simp
  next
    case (2 j raw)
    then have "gm_ok raw" by (simp add: into_map_ok)
    then have "gm_ok (range_perm sch raw)" by simp
    with decode_neighbors_addresses [OF 2(2)] show ?thesis by (simp add: gm_ok_def)
  qed
qed

text \<open>The queries only add a show run to the client's record.\<close>

lemma snd_show_case:
  "snd (case p of (Inl e, c') \<Rightarrow> (f e, c') | (Inr x, c') \<Rightarrow> (g x, c')) = snd p"
  by (simp split: prod.split sum.split)

lemma GetBGPNeighbors_client:
  "snd (GetBGPNeighbors vt sch c) = c\<lparr>cl_runs := cl_runs c @
     [VRun (cl_vtyshPath c) [''--vty_socket'', cl_socketDir c, ''-c'', ''show bgp neighbors json''] []]\<rparr>"
  by (simp only: GetBGPNeighbors_def snd_show_case runShow_client)

lemma GetBFDPeers_client:
  "snd (GetBFDPeers vt c) = c\<lparr>cl_runs := cl_runs c @
     [VRun (cl_vtyshPath c) [''--vty_socket'', cl_socketDir c, ''-c'', ''show bfd peers json''] []]\<rparr>"
  by (simp only: GetBFDPeers_def snd_show_case runShow_client)

lemma GetOSPFNeighbors_client:
  "snd (GetOSPFNeighbors vt sch c) = c\<lparr>cl_runs := cl_runs c @
     [VRun (cl_vtyshPath c) [''--vty_socket'', cl_socketDir c, ''-c'', ''show ip ospf neighbor json''] []]\<rparr>"
  by (simp only: GetOSPFNeighbors_def snd_show_case runShow_client)

end
