(* ===== verification/Metrics.thy ===== *)
theory Metrics
  imports Nova_Prelude
begin

text \<open>
  The metric helpers (\<open>internal/metrics/metrics.go\<close>).  A metric is a variable of the
  Prometheus library; what the program does to it is recorded, in order, as a list of
  updates: increments of a labelled counter, settings of a labelled gauge, observations
  of a histogram.  Durations are wall-clock readings and are not recorded.
\<close>

datatype metric =
    IntentsTotal string string string
  | FRRTransactionsTotal string
  | FRRTransactionDuration
  | PolicyViolationsTotal string string
  | EventsTotal string
  | ActivePeers string nat
  | ActivePrefixes string string nat
  | ActiveBFDSessions string nat
  | ActiveOSPFInterfaces string nat
  | RegisteredOwners nat
  | FRRConnected nat
  | GRPCRequestDuration string
  | ReconcileCycleDuration
  | EventsDropped
  | MonitoringErrors string

type_synonym metric_log = "metric list"

definition RecordIntent :: "string \<Rightarrow> string \<Rightarrow> string \<Rightarrow> metric_log \<Rightarrow> metric_log" where
  "RecordIntent owner intentType operation ms = ms @ [IntentsTotal owner intentType operation]"

definition RecordFRRTransaction :: "string \<Rightarrow> metric_log \<Rightarrow> metric_log" where
  "RecordFRRTransaction res ms = ms @ [FRRTransactionsTotal res, FRRTransactionDuration]"

definition RecordPolicyViolation :: "string \<Rightarrow> string \<Rightarrow> metric_log \<Rightarrow> metric_log" where
  "RecordPolicyViolation owner reason ms = ms @ [PolicyViolationsTotal owner reason]"

definition RecordEvent :: "string \<Rightarrow> metric_log \<Rightarrow> metric_log" where
  "RecordEvent eventType ms = ms @ [EventsTotal eventType]"

definition SetActivePeers :: "string \<Rightarrow> nat \<Rightarrow> metric_log \<Rightarrow> metric_log" where
  "SetActivePeers owner n ms = ms @ [ActivePeers owner n]"

definition SetActivePrefixes :: "string \<Rightarrow> string \<Rightarrow> nat \<Rightarrow> metric_log \<Rightarrow> metric_log" where
  "SetActivePrefixes owner protocol n ms = ms @ [ActivePrefixes owner protocol n]"

definition SetActiveBFDSessions :: "string \<Rightarrow> nat \<Rightarrow> metric_log \<Rightarrow> metric_log" where
  "SetActiveBFDSessions owner n ms = ms @ [ActiveBFDSessions owner n]"

definition SetActiveOSPFInterfaces :: "string \<Rightarrow> nat \<Rightarrow> metric_log \<Rightarrow> metric_log" where
  "SetActiveOSPFInterfaces owner n ms = ms @ [ActiveOSPFInterfaces owner n]"

definition SetRegisteredOwners :: "nat \<Rightarrow> metric_log \<Rightarrow> metric_log" where
  "SetRegisteredOwners n ms = ms @ [RegisteredOwners n]"

definition SetFRRConnected :: "bool \<Rightarrow> metric_log \<Rightarrow> metric_log" where
  "SetFRRConnected connected ms = ms @ [FRRConnected (if connected then 1 else 0)]"

definition ObserveGRPCDuration :: "string \<Rightarrow> metric_log \<Rightarrow> metric_log" where
  "ObserveGRPCDuration name ms = ms @ [GRPCRequestDuration name]"

definition RecordReconcileCycleDuration :: "metric_log \<Rightarrow> metric_log" where
  "RecordReconcileCycleDuration ms = ms @ [ReconcileCycleDuration]"

definition RecordEventDropped :: "metric_log \<Rightarrow> metric_log" where
  "RecordEventDropped ms = ms @ [EventsDropped]"

definition RecordMonitoringError :: "string \<Rightarrow> metric_log \<Rightarrow> metric_log" where
  "RecordMonitoringError protocol ms = ms @ [MonitoringErrors protocol]"

section \<open>The metrics as a scrape shows them\<close>

text \<open>
  Each variable is registered under a name, with the names of its labels; an update belongs to
  the series of its name and label values.
\<close>

datatype metric_kind = Counter | Gauge | Histogram

type_synonym series = "string \<times> (string \<times> string) list"

fun metric_desc :: "metric \<Rightarrow> metric_kind \<times> series" where
  "metric_desc (IntentsTotal owner type operation) =
     (Counter, ''novaroute_intents_total'', [(''owner'', owner), (''type'', type), (''operation'', operation)])"
| "metric_desc (FRRTransactionsTotal res) = (Counter, ''novaroute_frr_transactions_total'', [(''result'', res)])"
| "metric_desc (PolicyViolationsTotal owner reason) =
     (Counter, ''novaroute_policy_violations_total'', [(''owner'', owner), (''reason'', reason)])"
| "metric_desc (EventsTotal type) = (Counter, ''novaroute_events_total'', [(''type'', type)])"
| "metric_desc (ActivePeers owner n) = (Gauge, ''novaroute_active_peers'', [(''owner'', owner)])"
| "metric_desc (ActivePrefixes owner protocol n) =
     (Gauge, ''novaroute_active_prefixes'', [(''owner'', owner), (''protocol'', protocol)])"
| "metric_desc (ActiveBFDSessions owner n) = (Gauge, ''novaroute_active_bfd_sessions'', [(''owner'', owner)])"
| "metric_desc (ActiveOSPFInterfaces owner n) = (Gauge, ''novaroute_active_ospf_interfaces'', [(''owner'', owner)])"
| "metric_desc (RegisteredOwners n) = (Gauge, ''novaroute_registered_owners'', [])"
| "metric_desc (FRRConnected n) = (Gauge, ''novaroute_frr_connected'', [])"
| "metric_desc FRRTransactionDuration = (Histogram, ''novaroute_frr_transaction_duration_seconds'', [])"
| "metric_desc (GRPCRequestDuration rpcName) =
     (Histogram, ''novaroute_grpc_request_duration_seconds'', [(''method'', rpcName)])"
| "metric_desc ReconcileCycleDuration = (Histogram, ''novaroute_reconcile_cycle_duration_seconds'', [])"
| "metric_desc EventsDropped = (Counter, ''novaroute_events_dropped_total'', [])"
| "metric_desc (MonitoringErrors protocol) = (Counter, ''novaroute_monitoring_errors_total'', [(''protocol'', protocol)])"

text \<open>A counter shows its increments and a histogram its observations; a gauge shows the last value set.\<close>

fun set_value :: "metric \<Rightarrow> nat" where
  "set_value (ActivePeers owner n) = n"
| "set_value (ActivePrefixes owner protocol n) = n"
| "set_value (ActiveBFDSessions owner n) = n"
| "set_value (ActiveOSPFInterfaces owner n) = n"
| "set_value (RegisteredOwners n) = n"
| "set_value (FRRConnected n) = n"
| "set_value _ = 1"

definition scrape :: "series \<Rightarrow> metric_log \<Rightarrow> nat" where
  "scrape k ms =
     foldl (\<lambda>v m. case metric_desc m of
              (kind, k') \<Rightarrow> if k' \<noteq> k then v else if kind = Gauge then set_value m else Suc v) 0 ms"

text \<open>One update changes one series.\<close>

lemma scrape_Nil [simp]: "scrape k [] = 0"
  by (simp add: scrape_def)

lemma scrape_snoc:
  "scrape k (ms @ [m]) =
     (if snd (metric_desc m) \<noteq> k then scrape k ms
      else if fst (metric_desc m) = Gauge then set_value m else Suc (scrape k ms))"
  by (simp add: scrape_def case_prod_unfold)

lemma scrape_snoc2:
  "scrape k (ms @ [m, m']) =
     (if snd (metric_desc m') \<noteq> k then scrape k (ms @ [m])
      else if fst (metric_desc m') = Gauge then set_value m' else Suc (scrape k (ms @ [m])))"
  using scrape_snoc [of k "ms @ [m]" m'] by simp

end
