(* ===== verification/Reconcile_Loop.thy ===== *)
theory Reconcile_Loop
  imports Nova_Prelude
begin

text \<open>
  The shape the four reconciliation functions of \<open>internal/reconciler/reconciler.go\<close>
  share: range over the desired entries and add or update, then range over the applied
  entries and remove, collecting errors.  \<open>reconcile_loop\<close> is that shape; the locale
  \<open>reconcile_stage\<close> states what the two loop bodies promise, and proves from it that an
  error-free pass leaves the applied state in step with the desired one, and that a pass
  over a state already in step does nothing at all.
\<close>

definition reconcile_loop ::
    "('r \<Rightarrow> (string, 'i) gomap) \<Rightarrow>
     (string \<times> 'i \<Rightarrow> 'e list \<times> 'r \<Rightarrow> 'e list \<times> 'r) \<Rightarrow>
     ((string, 'i) gomap \<Rightarrow> string \<times> 'i \<Rightarrow> 'e list \<times> 'r \<Rightarrow> 'e list \<times> 'r) \<Rightarrow>
     sched \<Rightarrow> sched \<Rightarrow> (string, 'i) gomap \<Rightarrow> 'r \<Rightarrow> 'e option \<times> 'r" where
  "reconcile_loop applied add del schD schA desiredMap r =
     (let s1 = for_each add (range_perm schD desiredMap) ([], r);
          s2 = for_each (del desiredMap) (range_perm schA (applied (snd s1))) s1
      in (first_of (fst s2), snd s2))"

text \<open>The applied entries are the desired ones, up to \<open>equal\<close>; others are there only by leave
  of \<open>keep\<close>.\<close>

definition in_sync ::
    "('i \<Rightarrow> 'i \<Rightarrow> bool) \<Rightarrow> (string \<Rightarrow> bool) \<Rightarrow> (string, 'i) gomap \<Rightarrow> (string, 'i) gomap \<Rightarrow> bool" where
  "in_sync equal keep desired app \<longleftrightarrow>
     (\<forall>k. case map_of desired k of
            Some d \<Rightarrow> (\<exists>a. map_of app k = Some a \<and> equal a d)
          | None \<Rightarrow> map_of app k = None \<or> keep k)"

locale reconcile_stage =
  fixes applied :: "'r \<Rightarrow> (string, 'i) gomap"
    and add :: "string \<times> 'i \<Rightarrow> 'e list \<times> 'r \<Rightarrow> 'e list \<times> 'r"
    and del :: "(string, 'i) gomap \<Rightarrow> string \<times> 'i \<Rightarrow> 'e list \<times> 'r \<Rightarrow> 'e list \<times> 'r"
    and equal :: "'i \<Rightarrow> 'i \<Rightarrow> bool"
    and keep :: "'r \<Rightarrow> string \<Rightarrow> bool"
  assumes add_skip:
      "map_of (applied r) k = Some a \<Longrightarrow> equal a d \<Longrightarrow> add (k, d) (e, r) = (e, r)"
    and add_errs: "\<exists>xs. fst (add (k, d) (e, r)) = e @ xs"
    and add_frame:
      "k' \<noteq> k \<Longrightarrow> map_of (applied (snd (add (k, d) (e, r)))) k' = map_of (applied r) k'"
    and add_result:
      "fst (add (k, d) (e, r)) = e \<Longrightarrow>
       \<exists>a. map_of (applied (snd (add (k, d) (e, r)))) k = Some a \<and> equal a d"
    and add_wf: "gm_ok (applied r) \<Longrightarrow> gm_ok (applied (snd (add (k, d) (e, r))))"
    and del_skip: "map_of dm k \<noteq> None \<or> keep r k \<Longrightarrow> del dm (k, a) (e, r) = (e, r)"
    and del_errs: "\<exists>xs. fst (del dm (k, a) (e, r)) = e @ xs"
    and del_frame:
      "k' \<noteq> k \<Longrightarrow> map_of (applied (snd (del dm (k, a) (e, r)))) k' = map_of (applied r) k'"
    and del_result:
      "fst (del dm (k, a) (e, r)) = e \<Longrightarrow> map_of dm k = None \<Longrightarrow> \<not> keep r k \<Longrightarrow>
       map_of (applied (snd (del dm (k, a) (e, r)))) k = None"
    and del_keep: "keep (snd (del dm (k, a) (e, r))) = keep r"
    and del_wf: "gm_ok (applied r) \<Longrightarrow> gm_ok (applied (snd (del dm (k, a) (e, r))))"
begin

lemma loop_errs:
  assumes "\<And>k v e r. \<exists>xs. fst (f (k, v) (e, r)) = e @ xs"
  shows "\<exists>xs. fst (for_each f es (e, r)) = e @ xs"
proof (induction es arbitrary: e r)
  case (Cons x es)
  obtain k v e1 r1 where x: "x = (k, v)" "f x (e, r) = (e1, r1)" by (metis surj_pair)
  then obtain xs where "e1 = e @ xs" using assms [of k v e r] by auto
  then show ?case using Cons.IH [of e1 r1] x by auto
qed simp

text \<open>If the whole loop adds no error, neither does its first step.\<close>

lemma loop_step:
  assumes "\<And>k v e r. \<exists>xs. fst (f (k, v) (e, r)) = e @ xs"
    and "fst (for_each f ((k, v) # es) (e, r)) = e"
  shows "fst (f (k, v) (e, r)) = e"
    and "fst (for_each f es (e, snd (f (k, v) (e, r)))) = e"
proof -
  obtain e1 r1 where s: "f (k, v) (e, r) = (e1, r1)" by fastforce
  obtain xs where xs: "e1 = e @ xs" using assms(1) [of k v e r] s by auto
  obtain ys where ys: "fst (for_each f es (e1, r1)) = e1 @ ys" using loop_errs [where f = f, OF assms(1)] by blast
  have "e1 = e" using xs ys assms(2) s by simp
  then show "fst (f (k, v) (e, r)) = e"
    and "fst (for_each f es (e, snd (f (k, v) (e, r)))) = e"
    using s assms(2) by simp_all
qed

lemma add_loop_wf: "gm_ok (applied r) \<Longrightarrow> gm_ok (applied (snd (for_each add es (e, r))))"
  by (rule for_each_invariant [where P = "\<lambda>s. gm_ok (applied (snd s))"])
    (auto dest: add_wf)

lemma del_loop_wf: "gm_ok (applied r) \<Longrightarrow> gm_ok (applied (snd (for_each (del dm) es (e, r))))"
  by (rule for_each_invariant [where P = "\<lambda>s. gm_ok (applied (snd s))"])
    (auto dest: del_wf)

lemma del_loop_keep: "keep (snd (for_each (del dm) es (e, r))) = keep r"
  by (rule for_each_invariant [where P = "\<lambda>s. keep (snd s) = keep r"]) (auto simp: del_keep)

lemma add_loop_frame:
  "k \<notin> fst ` set es \<Longrightarrow> map_of (applied (snd (for_each add es (e, r)))) k = map_of (applied r) k"
  by (rule for_each_invariant [where P = "\<lambda>s. map_of (applied (snd s)) k = map_of (applied r) k"])
    (auto simp: add_frame, subst add_frame, auto simp: rev_image_eqI)

lemma del_loop_frame:
  "k \<notin> fst ` set es \<Longrightarrow> map_of (applied (snd (for_each (del dm) es (e, r)))) k = map_of (applied r) k"
  by (rule for_each_invariant [where P = "\<lambda>s. map_of (applied (snd s)) k = map_of (applied r) k"])
    (auto simp: del_frame, subst del_frame, auto simp: rev_image_eqI)

lemma add_loop_result:
  assumes "gm_ok es" and "fst (for_each add es (e, r)) = e" and "(k, d) \<in> set es"
  shows "\<exists>a. map_of (applied (snd (for_each add es (e, r)))) k = Some a \<and> equal a d"
  using assms
proof (induction es arbitrary: r)
  case (Cons x es)
  obtain k' d' where x: "x = (k', d')" by fastforce
  note st = loop_step [where f = add, OF add_errs, of k' d' es e r, OF Cons.prems(2) [unfolded x]]
  obtain r1 where r1: "add (k', d') (e, r) = (e, r1)" using st(1) by (metis prod.collapse)
  show ?case
  proof (cases "k = k'")
    case True
    then have "k \<notin> fst ` set es" "d = d'"
      using Cons.prems by (auto simp: x gm_ok_Cons rev_image_eqI)
    then show ?thesis using add_result [of k' d' e r] r1 True by (simp add: x add_loop_frame)
  next
    case False
    with Cons.prems(1,3) x have "gm_ok es" "(k, d) \<in> set es" by (auto simp: gm_ok_Cons)
    with Cons.IH [of r1] st(2) r1 show ?thesis by (simp add: x)
  qed
qed simp

lemma del_loop_result:
  assumes "gm_ok es" and "fst (for_each (del dm) es (e, r)) = e" and "(k, a) \<in> set es"
    and "map_of dm k = None" and "\<not> keep r k"
  shows "map_of (applied (snd (for_each (del dm) es (e, r)))) k = None"
  using assms
proof (induction es arbitrary: r)
  case (Cons x es)
  obtain k' d' where x: "x = (k', d')" by fastforce
  note st = loop_step [where f = "del dm", OF del_errs, of k' d' es e r, OF Cons.prems(2) [unfolded x]]
  obtain r1 where r1: "del dm (k', d') (e, r) = (e, r1)" using st(1) by (metis prod.collapse)
  show ?case
  proof (cases "k = k'")
    case True
    then have "k \<notin> fst ` set es" using Cons.prems by (auto simp: x gm_ok_Cons)
    then show ?thesis using del_result [of dm k' d' e r] Cons.prems(4,5) r1 True
      by (simp add: x del_loop_frame)
  next
    case False
    with Cons.prems(1,3) x have "gm_ok es" "(k, a) \<in> set es" by (auto simp: gm_ok_Cons)
    moreover have "\<not> keep r1 k" using del_keep [of dm k' d' e r] Cons.prems(5) r1 by simp
    ultimately show ?thesis using Cons.IH [of r1] st(2) r1 Cons.prems(4) by (simp add: x)
  qed
qed simp

lemma del_loop_desired:
  assumes "map_of dm k \<noteq> None"
  shows "map_of (applied (snd (for_each (del dm) es (e, r)))) k = map_of (applied r) k"
proof (rule for_each_invariant [where P = "\<lambda>s. map_of (applied (snd s)) k = map_of (applied r) k"])
  fix x and s :: "'e list \<times> 'r"
  assume "map_of (applied (snd s)) k = map_of (applied r) k"
  then show "map_of (applied (snd (del dm x s))) k = map_of (applied r) k"
    using del_skip [of dm k] del_frame [of k "fst x" dm "snd x" "fst s" "snd s"] assms
    by (cases x; cases s; cases "fst x = k") auto
qed simp

text \<open>An error-free pass brings the applied state in step.\<close>

lemma converges:
  assumes "gm_ok dm" and "gm_ok (applied r)"
    and "reconcile_loop applied add del schD schA dm r = (None, r')"
  shows "in_sync equal (keep r') dm (applied r')"
proof -
  define s1 where "s1 = for_each add (range_perm schD dm) ([], r)"
  define es where "es = range_perm schA (applied (snd s1))"
  define s2 where "s2 = for_each (del dm) es s1"
  have errs2: "fst s2 = []" and r': "snd s2 = r'"
    using assms(3) by (simp_all add: reconcile_loop_def Let_def s1_def s2_def es_def)
  obtain e1 r1 where s1: "s1 = (e1, r1)" by fastforce
  have e1: "e1 = []" using loop_errs [where f = "del dm", OF del_errs, of es e1 r1] errs2 by (auto simp: s2_def s1)
  have dm: "gm_ok (range_perm schD dm)" using assms(1) by simp
  have wf1: "gm_ok (applied r1)" using add_loop_wf [OF assms(2)] s1 by (metis s1_def snd_conv)
  have keep: "keep r' = keep r1" using del_loop_keep [of dm es e1 r1] r' by (simp add: s2_def s1)
  show ?thesis
    unfolding in_sync_def
  proof
    fix k
    show "case map_of dm k of
        Some d \<Rightarrow> (\<exists>a. map_of (applied r') k = Some a \<and> equal a d)
      | None \<Rightarrow> map_of (applied r') k = None \<or> keep r' k"
    proof (cases "map_of dm k")
      case (Some d)
      then have "(k, d) \<in> set (range_perm schD dm)" by (simp add: map_of_SomeD)
      moreover have "fst (for_each add (range_perm schD dm) ([], r)) = []"
        using s1 e1 by (simp add: s1_def)
      ultimately have "\<exists>a. map_of (applied r1) k = Some a \<and> equal a d"
        using add_loop_result [OF dm] s1 by (metis s1_def snd_conv)
      moreover have "map_of (applied r') k = map_of (applied r1) k"
        using del_loop_desired [of dm k es e1 r1] Some r' by (simp add: s2_def s1)
      ultimately show ?thesis using Some by simp
    next
      case None
      show ?thesis
      proof (cases "map_of (applied r1) k")
        case none1: None
        then have "k \<notin> fst ` set es" by (simp add: es_def s1 map_of_eq_None_iff)
        then show ?thesis using del_loop_frame [of k es dm e1 r1] none1 None r' by (simp add: s2_def s1)
      next
        case (Some a)
        then have "(k, a) \<in> set es" by (simp add: es_def s1 map_of_SomeD)
        moreover have "gm_ok es" using wf1 by (simp add: es_def s1)
        ultimately show ?thesis
          using del_loop_result [of es dm "[]" r1 k a] errs2 None r' keep by (auto simp: s2_def s1 e1)
      qed
    qed
  qed
qed

text \<open>A pass over a state in step does nothing.\<close>

lemma idle:
  assumes "gm_ok dm" and "gm_ok (applied r)" and "in_sync equal (keep r) dm (applied r)"
  shows "reconcile_loop applied add del schD schA dm r = (None, r)"
proof -
  have add1: "add x ([], r) = ([], r)" if "x \<in> set (range_perm schD dm)" for x
  proof -
    obtain k d where x: "x = (k, d)" by fastforce
    then have "map_of dm k = Some d" using that assms(1) by (simp add: gm_ok_lookup)
    then obtain a where "map_of (applied r) k = Some a" "equal a d"
      using assms(3) by (auto simp: in_sync_def split: option.splits dest!: spec [of _ k])
    then show ?thesis by (simp add: x add_skip)
  qed
  then have 1: "for_each add (range_perm schD dm) ([], r) = ([], r)"
    by (intro for_each_invariant [where P = "\<lambda>s. s = ([], r)"]) auto
  have "del dm x ([], r) = ([], r)" if "x \<in> set (range_perm schA (applied r))" for x
  proof -
    obtain k a where x: "x = (k, a)" by fastforce
    then have "map_of (applied r) k = Some a" using that assms(2) by (simp add: gm_ok_lookup)
    then have "map_of dm k \<noteq> None \<or> keep r k"
      using assms(3) by (auto simp: in_sync_def split: option.splits dest!: spec [of _ k])
    then show ?thesis unfolding x by (rule del_skip)
  qed
  then have "for_each (del dm) (range_perm schA (applied r)) ([], r) = ([], r)"
    by (intro for_each_invariant [where P = "\<lambda>s. s = ([], r)"]) auto
  with 1 show ?thesis by (simp add: reconcile_loop_def Let_def first_of_def)
qed

text \<open>Whatever both loop bodies preserve, the pass preserves.\<close>

lemma loop_invariant:
  assumes "P r"
    and "\<And>k d e r. map_of dm k = Some d \<Longrightarrow> P r \<Longrightarrow> P (snd (add (k, d) (e, r)))"
    and "\<And>k a e r. P r \<Longrightarrow> P (snd (del dm (k, a) (e, r)))" and "gm_ok dm"
  shows "P (snd (reconcile_loop applied add del schD schA dm r))"
proof -
  have "P (snd (for_each add (range_perm schD dm) ([], r)))"
  proof (rule for_each_invariant [where P = "\<lambda>s. P (snd s)"])
    fix x and s :: "'e list \<times> 'r"
    assume "x \<in> set (range_perm schD dm)" "P (snd s)"
    then show "P (snd (add x s))"
      using assms(2) [of "fst x" "snd x" "snd s" "fst s"] assms(4) by (simp add: gm_ok_lookup)
  qed (use assms(1) in simp)
  then show ?thesis
    using assms(3) unfolding reconcile_loop_def Let_def
    by (auto intro!: for_each_invariant [where P = "\<lambda>s. P (snd s)"])
qed

end

end
