(* ===== verification/Reconciler.thy ===== *)
theory Reconciler
  imports Intent_Store Frr_Show Metrics Reconcile_Loop
begin

text \<open>
  The reconciler (\<open>internal/reconciler/reconciler.go\<close>): it brings FRR, through the client
  of \<open>Frr_Client\<close>, in step with the intent store, and turns changes of FRR's state into
  events.  Every method that takes the reconciler's lock is one function on the state
  \<open>Reconciler\<close>; a \<open>range\<close> over a Go map takes a schedule.

  Besides the fields of the struct the state has three ghost fields: the metric updates,
  the events handed to the publisher, and \<open>r_crashed\<close>, which is set when a method is called
  on a nil client pointer, where the program would panic.  The intent store belongs to the
  server as well, so the methods take it as an argument, once for each time they read it.
\<close>

section \<open>Data\<close>

datatype rec_error =
    ErrFRRClientNotAvailable
  | ErrBGPGlobalNotSet
  | ErrUnexpectedIntentType
  | ErrUnknownIntentType
  | Rec_ErrIntentNotFound
  | ErrUnspecifiedProtocol
  | ErrUnsupportedProtocol
  | FRRError frr_error
  | NilClient

record ospfLastState =
  ls_State :: string
  ls_Interface :: string

record BGPGlobalConfig =
  bg_LocalAS :: uint32
  bg_RouterID :: string

text \<open>A call of \<open>PublishRouteEvent\<close>: type, owner, detail and metadata.\<close>

record PublishedEvent =
  pe_Type :: EventType
  pe_Owner :: string
  pe_Detail :: string
  pe_Metadata :: "(string, string) gomap"

record Reconciler =
  r_frrClient :: "Client option"
  r_bgpGlobal :: "BGPGlobalConfig option"
  appliedPeers :: "(string, PeerIntent) gomap"
  appliedPrefixes :: "(string, PrefixIntent) gomap"
  appliedBFD :: "(string, BFDIntent) gomap"
  appliedOSPF :: "(string, OSPFIntent) gomap"
  peerManagedBFD :: "(string, bool) gomap"
  bgpConfigured :: bool
  r_hasPublisher :: bool
  lastBGPStates :: "(string, string) gomap"
  lastBFDStates :: "(string, string) gomap"
  lastOSPFStates :: "(string, ospfLastState) gomap"
  r_triggerPending :: bool
  r_metrics :: metric_log
  r_published :: "PublishedEvent list"
  r_crashed :: bool

definition NewReconciler :: "Client option \<Rightarrow> BGPGlobalConfig option \<Rightarrow> Reconciler" where
  "NewReconciler frrClient bgpGlobal =
     \<lparr>r_frrClient = frrClient, r_bgpGlobal = bgpGlobal,
      appliedPeers = [], appliedPrefixes = [], appliedBFD = [], appliedOSPF = [],
      peerManagedBFD = [], bgpConfigured = False, r_hasPublisher = False,
      lastBGPStates = [], lastBFDStates = [], lastOSPFStates = [], r_triggerPending = False,
      r_metrics = [], r_published = [], r_crashed = False\<rparr>"

section \<open>Keys, enumerations and comparison\<close>

definition peerKey_r :: "string \<Rightarrow> string" where
  "peerKey_r neighborAddr = ''peer:'' @ neighborAddr"

fun protocolString_r :: "Protocol \<Rightarrow> string" where
  "protocolString_r PROTOCOL_UNSPECIFIED = ''unknown''"
| "protocolString_r PROTOCOL_BGP = ''bgp''"
| "protocolString_r PROTOCOL_OSPF = ''ospf''"
| "protocolString_r (PROTOCOL_OTHER n) = ''unknown''"

definition prefixKey_r :: "Protocol \<Rightarrow> string \<Rightarrow> string" where
  "prefixKey_r protocol prefix = ''prefix:'' @ protocolString_r protocol @ '':'' @ prefix"

definition bfdKey_r :: "string \<Rightarrow> string" where
  "bfdKey_r peerAddr = ''bfd:'' @ peerAddr"

definition ospfKey_r :: "string \<Rightarrow> string" where
  "ospfKey_r ifaceName = ''ospf:'' @ ifaceName"

fun resolvePeerType :: "PeerType \<Rightarrow> string" where
  "resolvePeerType PEER_TYPE_UNSPECIFIED = ''external''"
| "resolvePeerType PEER_TYPE_INTERNAL = ''internal''"
| "resolvePeerType PEER_TYPE_EXTERNAL = ''external''"
| "resolvePeerType (PEER_TYPE_OTHER n) = ''external''"

fun resolveAddressFamily :: "AddressFamily \<Rightarrow> string" where
  "resolveAddressFamily ADDRESS_FAMILY_UNSPECIFIED = []"
| "resolveAddressFamily ADDRESS_FAMILY_IPV4_UNICAST = ''ipv4-unicast''"
| "resolveAddressFamily ADDRESS_FAMILY_IPV6_UNICAST = ''ipv6-unicast''"
| "resolveAddressFamily (ADDRESS_FAMILY_OTHER n) = []"

definition detectAFI :: "string \<Rightarrow> string" where
  "detectAFI prefix = (if CHR '':'' \<in> set prefix then ''ipv6-unicast'' else ''ipv4-unicast'')"

definition peerEqual :: "PeerIntent \<Rightarrow> PeerIntent \<Rightarrow> bool" where
  "peerEqual a b \<longleftrightarrow>
     peer_NeighborAddress a = peer_NeighborAddress b \<and>
     peer_RemoteAS a = peer_RemoteAS b \<and>
     peer_PeerType a = peer_PeerType b \<and>
     peer_Keepalive a = peer_Keepalive b \<and>
     peer_HoldTime a = peer_HoldTime b \<and>
     peer_BFDEnabled a = peer_BFDEnabled b \<and>
     peer_BFDMinRxMs a = peer_BFDMinRxMs b \<and>
     peer_BFDMinTxMs a = peer_BFDMinTxMs b \<and>
     peer_BFDDetectMultiplier a = peer_BFDDetectMultiplier b \<and>
     peer_EBGPMultihop a = peer_EBGPMultihop b \<and>
     peer_Password a = peer_Password b \<and>
     peer_SourceAddress a = peer_SourceAddress b \<and>
     peer_MaxPrefixes a = peer_MaxPrefixes b \<and>
     peer_Description a = peer_Description b \<and>
     length (peer_AddressFamilies a) = length (peer_AddressFamilies b) \<and>
     list_all (\<lambda>i. peer_AddressFamilies a ! i = peer_AddressFamilies b ! i)
       [0..<length (peer_AddressFamilies a)]"

definition prefixEqual :: "PrefixIntent \<Rightarrow> PrefixIntent \<Rightarrow> bool" where
  "prefixEqual a b \<longleftrightarrow>
     pfx_Prefix a = pfx_Prefix b \<and>
     pfx_Protocol a = pfx_Protocol b \<and>
     pfx_LocalPreference a = pfx_LocalPreference b \<and>
     pfx_MED a = pfx_MED b \<and>
     pfx_NextHop a = pfx_NextHop b \<and>
     length (pfx_Communities a) = length (pfx_Communities b) \<and>
     list_all (\<lambda>i. pfx_Communities a ! i = pfx_Communities b ! i) [0..<length (pfx_Communities a)]"

definition bfdEqual :: "BFDIntent \<Rightarrow> BFDIntent \<Rightarrow> bool" where
  "bfdEqual a b \<longleftrightarrow>
     bfd_PeerAddress a = bfd_PeerAddress b \<and>
     bfd_MinRxMs a = bfd_MinRxMs b \<and>
     bfd_MinTxMs a = bfd_MinTxMs b \<and>
     bfd_DetectMultiplier a = bfd_DetectMultiplier b \<and>
     bfd_InterfaceName a = bfd_InterfaceName b"

definition ospfEqual :: "OSPFIntent \<Rightarrow> OSPFIntent \<Rightarrow> bool" where
  "ospfEqual a b \<longleftrightarrow>
     ospf_InterfaceName a = ospf_InterfaceName b \<and>
     ospf_AreaID a = ospf_AreaID b \<and>
     ospf_Passive a = ospf_Passive b \<and>
     ospf_Cost a = ospf_Cost b \<and>
     ospf_HelloInterval a = ospf_HelloInterval b \<and>
     ospf_DeadInterval a = ospf_DeadInterval b \<and>
     ospf_IPv6 a = ospf_IPv6 b"

section \<open>Calling the client\<close>

text \<open>A method call on \<open>r.frrClient\<close>.\<close>

definition frr_call ::
    "(Client \<Rightarrow> frr_error option \<times> Client) \<Rightarrow> Reconciler \<Rightarrow> rec_error option \<times> Reconciler" where
  "frr_call f r =
     (case r_frrClient r of
        None \<Rightarrow> (Some NilClient, r\<lparr>r_crashed := True\<rparr>)
      | Some c \<Rightarrow> (case f c of (e, c') \<Rightarrow> (map_option FRRError e, r\<lparr>r_frrClient := Some c'\<rparr>)))"

text \<open>A call whose outcome is recorded as an FRR transaction.\<close>

definition frr_tx ::
    "(Client \<Rightarrow> frr_error option \<times> Client) \<Rightarrow> Reconciler \<Rightarrow> rec_error option \<times> Reconciler" where
  "frr_tx f r =
     (case frr_call f r of
        (Some e, r') \<Rightarrow> (Some e, r'\<lparr>r_metrics := RecordFRRTransaction ''failure'' (r_metrics r')\<rparr>)
      | (None, r') \<Rightarrow> (None, r'\<lparr>r_metrics := RecordFRRTransaction ''success'' (r_metrics r')\<rparr>))"

definition record_intent :: "string \<Rightarrow> string \<Rightarrow> string \<Rightarrow> Reconciler \<Rightarrow> Reconciler" where
  "record_intent owner ty oper r = r\<lparr>r_metrics := RecordIntent owner ty oper (r_metrics r)\<rparr>"

section \<open>Applying and removing intents\<close>

definition isPeerManaged :: "Reconciler \<Rightarrow> string \<Rightarrow> bool" where
  "isPeerManaged r k \<longleftrightarrow> map_of (peerManagedBFD r) k = Some True"

text \<open>The parts of \<open>applyPeerIntent\<close>: activating the address families, limiting the prefixes,
  and linking or unlinking the BFD session.\<close>

definition activateAFIs ::
    "vtysh \<Rightarrow> PeerIntent \<Rightarrow> Reconciler \<Rightarrow> rec_error option \<times> Reconciler" where
  "activateAFIs vt p =
     for_err (\<lambda>af r.
       let afiName = resolveAddressFamily af in
       if afiName = [] then (None, r)
       else frr_tx (ActivateNeighborAFI vt (peer_NeighborAddress p) afiName) r)
     (peer_AddressFamilies p)"

definition setMaxPrefixes ::
    "vtysh \<Rightarrow> PeerIntent \<Rightarrow> Reconciler \<Rightarrow> rec_error option \<times> Reconciler" where
  "setMaxPrefixes vt p =
     for_err (\<lambda>af r.
       let afiName = resolveAddressFamily af;
           maxPfx = (if peer_MaxPrefixes p = 0 then 1000 else peer_MaxPrefixes p) in
       if afiName = [] then (None, r)
       else frr_tx (SetNeighborMaxPrefix vt (peer_NeighborAddress p) maxPfx True afiName) r)
     (peer_AddressFamilies p)"

definition peerBFDIntent :: "PeerIntent \<Rightarrow> BFDIntent" where
  "peerBFDIntent p =
     \<lparr>bfd_Owner = peer_Owner p, bfd_PeerAddress = peer_NeighborAddress p,
      bfd_MinRxMs = peer_BFDMinRxMs p, bfd_MinTxMs = peer_BFDMinTxMs p,
      bfd_DetectMultiplier = peer_BFDDetectMultiplier p,
      bfd_InterfaceName = [], bfd_CreatedAt = 0, bfd_UpdatedAt = 0\<rparr>"

definition linkPeerBFD ::
    "vtysh \<Rightarrow> PeerIntent \<Rightarrow> Reconciler \<Rightarrow> rec_error option \<times> Reconciler" where
  "linkPeerBFD vt p r =
     (let addr = peer_NeighborAddress p; bfdK = bfdKey_r addr in
      if peer_BFDEnabled p then
        seq (frr_tx (AddBFDPeer vt addr (peer_BFDMinRxMs p) (peer_BFDMinTxMs p)
               (peer_BFDDetectMultiplier p) []) r) (\<lambda>r.
          frr_tx (SetNeighborBFD vt addr True)
            (r\<lparr>peerManagedBFD := gm_put (peerManagedBFD r) bfdK True,
               appliedBFD := gm_put (appliedBFD r) bfdK (peerBFDIntent p)\<rparr>))
      else
        seq (frr_tx (SetNeighborBFD vt addr False) r) (\<lambda>r.
          if isPeerManaged r bfdK then
            seq (frr_tx (RemoveBFDPeer vt addr []) r) (\<lambda>r.
              (None, r\<lparr>peerManagedBFD := gm_del (peerManagedBFD r) bfdK,
                       appliedBFD := gm_del (appliedBFD r) bfdK\<rparr>))
          else (None, r)))"

definition applyPeerIntent ::
    "vtysh \<Rightarrow> PeerIntent \<Rightarrow> Reconciler \<Rightarrow> rec_error option \<times> Reconciler" where
  "applyPeerIntent vt p r =
     (let nbrCfg = \<lparr>nc_SourceAddress = peer_SourceAddress p, nc_EBGPMultihop = peer_EBGPMultihop p,
                    nc_Password = peer_Password p, nc_Description = peer_Description p\<rparr> in
      seq (frr_tx (AddNeighbor vt (peer_NeighborAddress p) (peer_RemoteAS p)
             (resolvePeerType (peer_PeerType p)) (peer_Keepalive p) (peer_HoldTime p) (Some nbrCfg)) r) (\<lambda>r.
      seq (activateAFIs vt p r) (\<lambda>r.
      seq (setMaxPrefixes vt p r) (linkPeerBFD vt p))))"

definition removePeerFromFRR :: "vtysh \<Rightarrow> string \<Rightarrow> Reconciler \<Rightarrow> rec_error option \<times> Reconciler" where
  "removePeerFromFRR vt addr r = frr_tx (RemoveNeighbor vt addr) r"

definition hasAttributes :: "PrefixIntent \<Rightarrow> bool" where
  "hasAttributes p \<longleftrightarrow>
     0 < pfx_LocalPreference p \<or> 0 < length (pfx_Communities p) \<or> 0 < pfx_MED p \<or> pfx_NextHop p \<noteq> []"

definition routeMapName :: "string \<Rightarrow> string" where
  "routeMapName prefix =
     ''NR-PFX-'' @ ReplaceAll (CHR '':'') (CHR ''-'') (ReplaceAll (CHR ''/'') (CHR ''-'') prefix)"

definition routeMapSetCmds :: "PrefixIntent \<Rightarrow> string list" where
  "routeMapSetCmds p =
     (if 0 < pfx_LocalPreference p
      then [''set local-preference '' @ dec32 (pfx_LocalPreference p)] else []) @
     (if 0 < length (pfx_Communities p)
      then [''set community '' @ Join (pfx_Communities p) '' ''] else []) @
     (if 0 < pfx_MED p then [''set metric '' @ dec32 (pfx_MED p)] else []) @
     (if pfx_NextHop p \<noteq> [] then [''set ip next-hop '' @ pfx_NextHop p] else [])"

definition applyPrefixIntent ::
    "vtysh \<Rightarrow> PrefixIntent \<Rightarrow> Reconciler \<Rightarrow> rec_error option \<times> Reconciler" where
  "applyPrefixIntent vt p r =
     (case pfx_Protocol p of
        PROTOCOL_BGP \<Rightarrow>
          (let afi = detectAFI (pfx_Prefix p); rmName = routeMapName (pfx_Prefix p) in
           if hasAttributes p then
             seq (frr_tx (ConfigureRouteMap vt rmName (routeMapSetCmds p)) r) (\<lambda>r.
               frr_tx (AdvertiseNetworkWithRouteMap vt (pfx_Prefix p) afi rmName) r)
           else frr_tx (AdvertiseNetwork vt (pfx_Prefix p) afi) r)
      | PROTOCOL_OSPF \<Rightarrow> (None, r)
      | PROTOCOL_UNSPECIFIED \<Rightarrow> (Some ErrUnspecifiedProtocol, r)
      | PROTOCOL_OTHER n \<Rightarrow> (Some ErrUnsupportedProtocol, r))"

definition removePrefixFromFRR ::
    "vtysh \<Rightarrow> PrefixIntent \<Rightarrow> Reconciler \<Rightarrow> rec_error option \<times> Reconciler" where
  "removePrefixFromFRR vt p r =
     (case pfx_Protocol p of
        PROTOCOL_UNSPECIFIED \<Rightarrow> (Some ErrUnspecifiedProtocol, r)
      | PROTOCOL_BGP \<Rightarrow>
          seq (frr_tx (WithdrawNetwork vt (pfx_Prefix p) (detectAFI (pfx_Prefix p))) r) (\<lambda>r.
            if hasAttributes p
            then (None, snd (frr_tx (RemoveRouteMap vt (routeMapName (pfx_Prefix p))) r))
            else (None, r))
      | PROTOCOL_OSPF \<Rightarrow> (None, r)
      | PROTOCOL_OTHER n \<Rightarrow> (Some ErrUnsupportedProtocol, r))"

definition applyBFDIntent ::
    "vtysh \<Rightarrow> BFDIntent \<Rightarrow> Reconciler \<Rightarrow> rec_error option \<times> Reconciler" where
  "applyBFDIntent vt b r =
     frr_tx (AddBFDPeer vt (bfd_PeerAddress b) (bfd_MinRxMs b) (bfd_MinTxMs b)
       (bfd_DetectMultiplier b) (bfd_InterfaceName b)) r"

definition removeBFDFromFRR ::
    "vtysh \<Rightarrow> string \<Rightarrow> string \<Rightarrow> Reconciler \<Rightarrow> rec_error option \<times> Reconciler" where
  "removeBFDFromFRR vt peerAddr iface r = frr_tx (RemoveBFDPeer vt peerAddr iface) r"

definition applyOSPFIntent ::
    "vtysh \<Rightarrow> OSPFIntent \<Rightarrow> Reconciler \<Rightarrow> rec_error option \<times> Reconciler" where
  "applyOSPFIntent vt i r =
     frr_tx
       (if ospf_IPv6 i
        then EnableOSPFv3Interface vt (ospf_InterfaceName i) (ospf_AreaID i) (ospf_Passive i) (ospf_Cost i)
        else EnableOSPFInterface vt (ospf_InterfaceName i) (ospf_AreaID i) (ospf_Passive i) (ospf_Cost i)
               (ospf_HelloInterval i) (ospf_DeadInterval i)) r"

definition disableOSPF :: "vtysh \<Rightarrow> OSPFIntent \<Rightarrow> Client \<Rightarrow> frr_error option \<times> Client" where
  "disableOSPF vt i =
     (if ospf_IPv6 i
      then DisableOSPFv3Interface vt (ospf_InterfaceName i) (ospf_AreaID i) (ospf_Passive i)
      else DisableOSPFInterface vt (ospf_InterfaceName i) (ospf_AreaID i) (ospf_Passive i))"

definition removeOSPFFromFRR ::
    "vtysh \<Rightarrow> OSPFIntent \<Rightarrow> Reconciler \<Rightarrow> rec_error option \<times> Reconciler" where
  "removeOSPFFromFRR vt i r = frr_tx (disableOSPF vt i) r"

section \<open>Reconciling\<close>

text \<open>The bodies of the two loops of each function: they take a map entry, the errors
  collected so far and the state.\<close>

definition addPeer ::
    "vtysh \<Rightarrow> string \<times> PeerIntent \<Rightarrow> rec_error list \<times> Reconciler \<Rightarrow> rec_error list \<times> Reconciler" where
  "addPeer vt = (\<lambda>(key, dp) (errs, r).
     if (case map_of (appliedPeers r) key of Some ex \<Rightarrow> peerEqual ex dp | None \<Rightarrow> False) then (errs, r)
     else
       (case applyPeerIntent vt dp r of
          (Some e, r) \<Rightarrow> (errs @ [e], r)
        | (None, r) \<Rightarrow> (errs, record_intent (peer_Owner dp) ''peer'' ''apply''
            (r\<lparr>appliedPeers := gm_put (appliedPeers r) key dp\<rparr>))))"

text \<open>Before a peer is removed, the BFD session it created is; failures are only logged.\<close>

definition dropPeerBFD :: "vtysh \<Rightarrow> string \<Rightarrow> Reconciler \<Rightarrow> Reconciler" where
  "dropPeerBFD vt addr r =
     (let bfdK = bfdKey_r addr in
      if isPeerManaged r bfdK then
        (let r = snd (frr_call (SetNeighborBFD vt addr False) r);
             r = snd (frr_call (RemoveBFDPeer vt addr []) r) in
         r\<lparr>peerManagedBFD := gm_del (peerManagedBFD r) bfdK,
           appliedBFD := gm_del (appliedBFD r) bfdK,
           lastBFDStates := gm_del (lastBFDStates r) addr\<rparr>)
      else r)"

definition delPeer ::
    "vtysh \<Rightarrow> (string, PeerIntent) gomap \<Rightarrow> string \<times> PeerIntent \<Rightarrow>
     rec_error list \<times> Reconciler \<Rightarrow> rec_error list \<times> Reconciler" where
  "delPeer vt desiredMap = (\<lambda>(key, ap) (errs, r).
     if map_of desiredMap key \<noteq> None then (errs, r)
     else
       (case removePeerFromFRR vt (peer_NeighborAddress ap) (dropPeerBFD vt (peer_NeighborAddress ap) r) of
          (Some e, r) \<Rightarrow> (errs @ [e], r)
        | (None, r) \<Rightarrow> (errs, record_intent (peer_Owner ap) ''peer'' ''remove''
            (r\<lparr>appliedPeers := gm_del (appliedPeers r) key,
               lastBGPStates := gm_del (lastBGPStates r) (peer_NeighborAddress ap)\<rparr>))))"

definition ReconcilePeers ::
    "vtysh \<Rightarrow> sched \<Rightarrow> sched \<Rightarrow> PeerIntent list \<Rightarrow> Reconciler \<Rightarrow> rec_error option \<times> Reconciler" where
  "ReconcilePeers vt schD schA desired r =
     reconcile_loop appliedPeers (addPeer vt) (delPeer vt) schD schA
       (index_by (\<lambda>p. peerKey_r (peer_NeighborAddress p)) desired) r"

text \<open>A stale route-map is removed before a BGP prefix is updated; failures are only logged.\<close>

definition dropStaleRouteMap :: "vtysh \<Rightarrow> PrefixIntent option \<Rightarrow> Reconciler \<Rightarrow> Reconciler" where
  "dropStaleRouteMap vt existing r =
     (case existing of
        None \<Rightarrow> r
      | Some ex \<Rightarrow>
          if pfx_Protocol ex = PROTOCOL_BGP \<and> hasAttributes ex
          then snd (frr_call (RemoveRouteMap vt (routeMapName (pfx_Prefix ex))) r)
          else r)"

definition addPrefix ::
    "vtysh \<Rightarrow> string \<times> PrefixIntent \<Rightarrow> rec_error list \<times> Reconciler \<Rightarrow> rec_error list \<times> Reconciler" where
  "addPrefix vt = (\<lambda>(key, dp) (errs, r).
     let existing = map_of (appliedPrefixes r) key in
     if (case existing of Some ex \<Rightarrow> prefixEqual ex dp | None \<Rightarrow> False) then (errs, r)
     else
       (case applyPrefixIntent vt dp (dropStaleRouteMap vt existing r) of
          (Some e, r) \<Rightarrow> (errs @ [e], r)
        | (None, r) \<Rightarrow> (errs, record_intent (pfx_Owner dp) ''prefix'' ''apply''
            (r\<lparr>appliedPrefixes := gm_put (appliedPrefixes r) key dp\<rparr>))))"

definition delPrefix ::
    "vtysh \<Rightarrow> (string, PrefixIntent) gomap \<Rightarrow> string \<times> PrefixIntent \<Rightarrow>
     rec_error list \<times> Reconciler \<Rightarrow> rec_error list \<times> Reconciler" where
  "delPrefix vt desiredMap = (\<lambda>(key, ap) (errs, r).
     if map_of desiredMap key \<noteq> None then (errs, r)
     else
       (case removePrefixFromFRR vt ap r of
          (Some e, r) \<Rightarrow> (errs @ [e], r)
        | (None, r) \<Rightarrow> (errs, record_intent (pfx_Owner ap) ''prefix'' ''remove''
            (r\<lparr>appliedPrefixes := gm_del (appliedPrefixes r) key\<rparr>))))"

definition ReconcilePrefixes ::
    "vtysh \<Rightarrow> sched \<Rightarrow> sched \<Rightarrow> PrefixIntent list \<Rightarrow> Reconciler \<Rightarrow> rec_error option \<times> Reconciler" where
  "ReconcilePrefixes vt schD schA desired r =
     reconcile_loop appliedPrefixes (addPrefix vt) (delPrefix vt) schD schA
       (index_by (\<lambda>p. prefixKey_r (pfx_Protocol p) (pfx_Prefix p)) desired) r"

definition addBFD ::
    "vtysh \<Rightarrow> string \<times> BFDIntent \<Rightarrow> rec_error list \<times> Reconciler \<Rightarrow> rec_error list \<times> Reconciler" where
  "addBFD vt = (\<lambda>(key, db) (errs, r).
     if (case map_of (appliedBFD r) key of Some ex \<Rightarrow> bfdEqual ex db | None \<Rightarrow> False) then (errs, r)
     else
       (case applyBFDIntent vt db r of
          (Some e, r) \<Rightarrow> (errs @ [e], r)
        | (None, r) \<Rightarrow> (errs, record_intent (bfd_Owner db) ''bfd'' ''apply''
            (r\<lparr>appliedBFD := gm_put (appliedBFD r) key db\<rparr>))))"

definition delBFD ::
    "vtysh \<Rightarrow> (string, BFDIntent) gomap \<Rightarrow> string \<times> BFDIntent \<Rightarrow>
     rec_error list \<times> Reconciler \<Rightarrow> rec_error list \<times> Reconciler" where
  "delBFD vt desiredMap = (\<lambda>(key, ab) (errs, r).
     if map_of desiredMap key \<noteq> None \<or> isPeerManaged r key then (errs, r)
     else
       (case removeBFDFromFRR vt (bfd_PeerAddress ab) (bfd_InterfaceName ab) r of
          (Some e, r) \<Rightarrow> (errs @ [e], r)
        | (None, r) \<Rightarrow> (errs, record_intent (bfd_Owner ab) ''bfd'' ''remove''
            (r\<lparr>appliedBFD := gm_del (appliedBFD r) key,
               lastBFDStates := gm_del (lastBFDStates r) (bfd_PeerAddress ab)\<rparr>))))"

definition ReconcileBFD ::
    "vtysh \<Rightarrow> sched \<Rightarrow> sched \<Rightarrow> BFDIntent list \<Rightarrow> Reconciler \<Rightarrow> rec_error option \<times> Reconciler" where
  "ReconcileBFD vt schD schA desired r =
     reconcile_loop appliedBFD (addBFD vt) (delBFD vt) schD schA
       (index_by (\<lambda>b. bfdKey_r (bfd_PeerAddress b)) desired) r"

definition addOSPF ::
    "vtysh \<Rightarrow> string \<times> OSPFIntent \<Rightarrow> rec_error list \<times> Reconciler \<Rightarrow> rec_error list \<times> Reconciler" where
  "addOSPF vt = (\<lambda>(key, di) (errs, r).
     if (case map_of (appliedOSPF r) key of Some ex \<Rightarrow> ospfEqual ex di | None \<Rightarrow> False) then (errs, r)
     else
       (case applyOSPFIntent vt di r of
          (Some e, r) \<Rightarrow> (errs @ [e], r)
        | (None, r) \<Rightarrow> (errs, record_intent (ospf_Owner di) ''ospf'' ''apply''
            (r\<lparr>appliedOSPF := gm_put (appliedOSPF r) key di\<rparr>))))"

definition delOSPF ::
    "vtysh \<Rightarrow> (string, OSPFIntent) gomap \<Rightarrow> string \<times> OSPFIntent \<Rightarrow>
     rec_error list \<times> Reconciler \<Rightarrow> rec_error list \<times> Reconciler" where
  "delOSPF vt desiredMap = (\<lambda>(key, ai) (errs, r).
     if map_of desiredMap key \<noteq> None then (errs, r)
     else
       (case removeOSPFFromFRR vt ai r of
          (Some e, r) \<Rightarrow> (errs @ [e], r)
        | (None, r) \<Rightarrow> (errs, record_intent (ospf_Owner ai) ''ospf'' ''remove''
            (r\<lparr>appliedOSPF := gm_del (appliedOSPF r) key\<rparr>))))"

definition ReconcileOSPF ::
    "vtysh \<Rightarrow> sched \<Rightarrow> sched \<Rightarrow> OSPFIntent list \<Rightarrow> Reconciler \<Rightarrow> rec_error option \<times> Reconciler" where
  "ReconcileOSPF vt schD schA desired r =
     reconcile_loop appliedOSPF (addOSPF vt) (delOSPF vt) schD schA
       (index_by (\<lambda>i. ospfKey_r (ospf_InterfaceName i)) desired) r"

section \<open>Single intents\<close>

text \<open>The argument of \<open>ApplyIntent\<close> is an \<open>interface{}\<close>: one of the four pointers or a value
  of some other type.\<close>

datatype intent_value =
    PeerValue PeerIntent
  | PrefixValue PrefixIntent
  | BFDValue BFDIntent
  | OSPFValue OSPFIntent
  | OtherValue

definition ApplyIntent ::
    "vtysh \<Rightarrow> string \<Rightarrow> intent_value \<Rightarrow> Reconciler \<Rightarrow> rec_error option \<times> Reconciler" where
  "ApplyIntent vt intentType val r =
     (if intentType = ''peer'' then
        (case val of
           PeerValue pi \<Rightarrow> seq (applyPeerIntent vt pi r) (\<lambda>r.
             (None, r\<lparr>appliedPeers := gm_put (appliedPeers r) (peerKey_r (peer_NeighborAddress pi)) pi\<rparr>))
         | _ \<Rightarrow> (Some ErrUnexpectedIntentType, r))
      else if intentType = ''prefix'' then
        (case val of
           PrefixValue pi \<Rightarrow> seq (applyPrefixIntent vt pi r) (\<lambda>r.
             (None, r\<lparr>appliedPrefixes :=
               gm_put (appliedPrefixes r) (prefixKey_r (pfx_Protocol pi) (pfx_Prefix pi)) pi\<rparr>))
         | _ \<Rightarrow> (Some ErrUnexpectedIntentType, r))
      else if intentType = ''bfd'' then
        (case val of
           BFDValue bi \<Rightarrow> seq (applyBFDIntent vt bi r) (\<lambda>r.
             (None, r\<lparr>appliedBFD := gm_put (appliedBFD r) (bfdKey_r (bfd_PeerAddress bi)) bi\<rparr>))
         | _ \<Rightarrow> (Some ErrUnexpectedIntentType, r))
      else if intentType = ''ospf'' then
        (case val of
           OSPFValue oi \<Rightarrow> seq (applyOSPFIntent vt oi r) (\<lambda>r.
             (None, r\<lparr>appliedOSPF := gm_put (appliedOSPF r) (ospfKey_r (ospf_InterfaceName oi)) oi\<rparr>))
         | _ \<Rightarrow> (Some ErrUnexpectedIntentType, r))
      else (Some ErrUnknownIntentType, r))"

definition RemoveIntent ::
    "vtysh \<Rightarrow> string \<Rightarrow> string \<Rightarrow> Reconciler \<Rightarrow> rec_error option \<times> Reconciler" where
  "RemoveIntent vt intentType key r =
     (if intentType = ''peer'' then
        (case map_of (appliedPeers r) (peerKey_r key) of
           None \<Rightarrow> (Some Rec_ErrIntentNotFound, r)
         | Some ap \<Rightarrow> seq (removePeerFromFRR vt (peer_NeighborAddress ap) r) (\<lambda>r.
             (None, r\<lparr>appliedPeers := gm_del (appliedPeers r) (peerKey_r key)\<rparr>)))
      else if intentType = ''prefix'' then
        (case map_of (appliedPrefixes r) (''prefix:'' @ key) of
           None \<Rightarrow> (Some Rec_ErrIntentNotFound, r)
         | Some ap \<Rightarrow> seq (removePrefixFromFRR vt ap r) (\<lambda>r.
             (None, r\<lparr>appliedPrefixes := gm_del (appliedPrefixes r) (''prefix:'' @ key)\<rparr>)))
      else if intentType = ''bfd'' then
        (case map_of (appliedBFD r) (bfdKey_r key) of
           None \<Rightarrow> (Some Rec_ErrIntentNotFound, r)
         | Some ab \<Rightarrow> seq (removeBFDFromFRR vt key (bfd_InterfaceName ab) r) (\<lambda>r.
             (None, r\<lparr>appliedBFD := gm_del (appliedBFD r) (bfdKey_r key)\<rparr>)))
      else if intentType = ''ospf'' then
        (case map_of (appliedOSPF r) (ospfKey_r key) of
           None \<Rightarrow> (Some Rec_ErrIntentNotFound, r)
         | Some ao \<Rightarrow> seq (removeOSPFFromFRR vt ao r) (\<lambda>r.
             (None, r\<lparr>appliedOSPF := gm_del (appliedOSPF r) (ospfKey_r key)\<rparr>)))
      else (Some ErrUnknownIntentType, r))"

section \<open>Settings\<close>

text \<open>The trigger channel holds one signal; a send to the full channel is dropped.\<close>

definition TriggerReconcile :: "Reconciler \<Rightarrow> Reconciler" where
  "TriggerReconcile r = (if r_triggerPending r then r else r\<lparr>r_triggerPending := True\<rparr>)"

definition SetFRRClient :: "Client option \<Rightarrow> Reconciler \<Rightarrow> Reconciler" where
  "SetFRRClient client r =
     r\<lparr>r_frrClient := client, appliedPeers := [], appliedPrefixes := [], appliedBFD := [],
       appliedOSPF := [], peerManagedBFD := []\<rparr>"

definition SetEventPublisher :: "bool \<Rightarrow> Reconciler \<Rightarrow> Reconciler" where
  "SetEventPublisher isSet r = r\<lparr>r_hasPublisher := isSet\<rparr>"

definition UpdateBGPGlobal :: "uint32 \<Rightarrow> string \<Rightarrow> Reconciler \<Rightarrow> (uint32 \<times> string) \<times> Reconciler" where
  "UpdateBGPGlobal localAS routerID r =
     (let g = (case r_bgpGlobal r of Some g \<Rightarrow> g | None \<Rightarrow> \<lparr>bg_LocalAS = 0, bg_RouterID = []\<rparr>) in
      ((bg_LocalAS g, bg_RouterID g),
       r\<lparr>r_bgpGlobal := Some (g\<lparr>bg_LocalAS := localAS, bg_RouterID := routerID\<rparr>),
         bgpConfigured := False\<rparr>))"

definition ensureBGPGlobal :: "vtysh \<Rightarrow> Reconciler \<Rightarrow> rec_error option \<times> Reconciler" where
  "ensureBGPGlobal vt r =
     (if bgpConfigured r then (None, r)
      else case r_frrClient r of
        None \<Rightarrow> (Some ErrFRRClientNotAvailable, r)
      | Some c \<Rightarrow>
          (case r_bgpGlobal r of
             None \<Rightarrow> (Some ErrBGPGlobalNotSet, r)
           | Some g \<Rightarrow>
               if bg_LocalAS g = 0 then (Some ErrBGPGlobalNotSet, r)
               else
                 (let oldAS = GetLocalAS c in
                  seq (frr_call (ReconfigureBGPGlobal vt oldAS (bg_LocalAS g) (bg_RouterID g)) r) (\<lambda>r.
                    let r = (if oldAS \<noteq> 0 \<and> oldAS \<noteq> bg_LocalAS g
                             then r\<lparr>appliedPeers := [], appliedPrefixes := [], lastBGPStates := [],
                                    lastBFDStates := []\<rparr>
                             else r) in
                    (None, r\<lparr>bgpConfigured := True\<rparr>)))))"

section \<open>Monitoring\<close>

text \<open>
  What the rest of the world decides during one cycle: the store at each read (the four
  getters are reads 0 to 3, the owner lookup of the \<open>n\<close>-th event is read \<open>4 + n\<close>), the
  orders of the getters' loops, and the order of each \<open>range\<close> over a map.
\<close>

record Env =
  env_store :: "nat \<Rightarrow> Store"
  env_outer :: "nat \<Rightarrow> sched"
  env_inner :: "nat \<Rightarrow> string \<Rightarrow> sched"
  env_range :: "nat \<Rightarrow> sched"

definition findPeerOwner :: "Env \<Rightarrow> string \<Rightarrow> Reconciler \<Rightarrow> string" where
  "findPeerOwner env addr r =
     (let i = 4 + length (r_published r) in
      case find (\<lambda>pi. peer_NeighborAddress pi = addr)
             (GetPeerIntents (env_outer env i) (env_inner env i) (env_store env i)) of
        Some pi \<Rightarrow> peer_Owner pi
      | None \<Rightarrow> [])"

definition findBFDOwner :: "Env \<Rightarrow> string \<Rightarrow> Reconciler \<Rightarrow> string" where
  "findBFDOwner env addr r =
     (let i = 4 + length (r_published r) in
      case find (\<lambda>bi. bfd_PeerAddress bi = addr)
             (GetBFDIntents (env_outer env i) (env_inner env i) (env_store env i)) of
        Some bi \<Rightarrow> bfd_Owner bi
      | None \<Rightarrow> [])"

definition findOSPFOwnerByNeighbor :: "Env \<Rightarrow> string \<Rightarrow> Reconciler \<Rightarrow> string" where
  "findOSPFOwnerByNeighbor env iface r =
     (let i = 4 + length (r_published r) in
      case find (\<lambda>oi. ospf_InterfaceName oi = iface)
             (GetOSPFIntents (env_outer env i) (env_inner env i) (env_store env i)) of
        Some oi \<Rightarrow> ospf_Owner oi
      | None \<Rightarrow> [])"

definition publish ::
    "EventType \<Rightarrow> string \<Rightarrow> string \<Rightarrow> (string, string) gomap \<Rightarrow> Reconciler \<Rightarrow> Reconciler" where
  "publish ty owner detail meta r =
     r\<lparr>r_published := r_published r @
       [\<lparr>pe_Type = ty, pe_Owner = owner, pe_Detail = detail, pe_Metadata = meta\<rparr>]\<rparr>"

text \<open>A query of the client.\<close>

definition frr_query :: "(Client \<Rightarrow> 'a \<times> Client) \<Rightarrow> Reconciler \<Rightarrow> 'a option \<times> Reconciler" where
  "frr_query f r =
     (case r_frrClient r of
        None \<Rightarrow> (None, r\<lparr>r_crashed := True\<rparr>)
      | Some c \<Rightarrow> (case f c of (x, c') \<Rightarrow> (Some x, r\<lparr>r_frrClient := Some c'\<rparr>)))"

definition monitoring_error :: "string \<Rightarrow> Reconciler \<Rightarrow> Reconciler" where
  "monitoring_error protocol r = r\<lparr>r_metrics := RecordMonitoringError protocol (r_metrics r)\<rparr>"

definition bgpStateEstablished :: string where
  "bgpStateEstablished = ''Established''"

definition ospfStateFull :: string where
  "ospfStateFull = ''Full''"

definition seeBGPNeighbor :: "Env \<Rightarrow> BGPNeighborState \<Rightarrow> Reconciler \<Rightarrow> Reconciler" where
  "seeBGPNeighbor env nbr r =
     (let addr = bn_Address nbr; st = bn_State nbr;
          changed = (\<lambda>prev. ''BGP peer '' @ addr @ '' is now '' @ st @ '' (was '' @ prev @ '')'');
          meta = (\<lambda>prev. [(''peer'', addr), (''state'', st), (''previous_state'', prev)]);
          r = (case map_of (lastBGPStates r) addr of
                 Some prev \<Rightarrow>
                   if prev \<noteq> st then
                     if st = bgpStateEstablished
                     then publish EVENT_TYPE_PEER_UP (findPeerOwner env addr r) (changed prev) (meta prev) r
                     else if prev = bgpStateEstablished
                     then publish EVENT_TYPE_PEER_DOWN (findPeerOwner env addr r) (changed prev) (meta prev) r
                     else r
                   else r
               | None \<Rightarrow>
                   if st = bgpStateEstablished
                   then publish EVENT_TYPE_PEER_UP (findPeerOwner env addr r)
                     (''BGP peer '' @ addr @ '' is Established'') [(''peer'', addr), (''state'', st)] r
                   else r)
      in r\<lparr>lastBGPStates := gm_put (lastBGPStates r) addr st\<rparr>)"

definition missBGPNeighbor :: "Env \<Rightarrow> string set \<Rightarrow> string \<times> string \<Rightarrow> Reconciler \<Rightarrow> Reconciler" where
  "missBGPNeighbor env current = (\<lambda>(addr, prevState) r.
     if addr \<in> current then r
     else
       (let r = (if prevState = bgpStateEstablished
                 then publish EVENT_TYPE_PEER_DOWN (findPeerOwner env addr r)
                   (''BGP peer '' @ addr @ '' disappeared from FRR (was '' @ prevState @ '')'')
                   [(''peer'', addr), (''state'', ''gone''), (''previous_state'', prevState)] r
                 else r)
        in r\<lparr>lastBGPStates := gm_del (lastBGPStates r) addr\<rparr>))"

definition monitorBGPNeighbors :: "vtysh \<Rightarrow> Env \<Rightarrow> Reconciler \<Rightarrow> Reconciler" where
  "monitorBGPNeighbors vt env r =
     (case frr_query (GetBGPNeighbors vt (env_range env 8)) r of
        (None, r) \<Rightarrow> r
      | (Some (Inl e), r) \<Rightarrow> monitoring_error ''bgp'' r
      | (Some (Inr bgpNeighbors), r) \<Rightarrow>
          (let r = for_each (seeBGPNeighbor env) bgpNeighbors r in
           for_each (missBGPNeighbor env (bn_Address ` set bgpNeighbors))
             (range_perm (env_range env 9) (lastBGPStates r)) r))"

definition seeBFDPeer :: "Env \<Rightarrow> BFDPeerState \<Rightarrow> Reconciler \<Rightarrow> Reconciler" where
  "seeBFDPeer env peer r =
     (let addr = bp_PeerAddress peer; st = bp_Status peer;
          meta = (\<lambda>prev. [(''peer'', addr), (''status'', st), (''previous_status'', prev)]);
          r = (case map_of (lastBFDStates r) addr of
                 Some prev \<Rightarrow>
                   if prev \<noteq> st then
                     if st = ''up''
                     then publish EVENT_TYPE_BFD_UP (findBFDOwner env addr r)
                       (''BFD peer '' @ addr @ '' is now up (was '' @ prev @ '')'') (meta prev) r
                     else publish EVENT_TYPE_BFD_DOWN (findBFDOwner env addr r)
                       (''BFD peer '' @ addr @ '' is now '' @ st @ '' (was '' @ prev @ '')'') (meta prev) r
                   else r
               | None \<Rightarrow>
                   if st = ''up''
                   then publish EVENT_TYPE_BFD_UP (findBFDOwner env addr r)
                     (''BFD peer '' @ addr @ '' is up'') [(''peer'', addr), (''status'', st)] r
                   else r)
      in r\<lparr>lastBFDStates := gm_put (lastBFDStates r) addr st\<rparr>)"

definition missBFDPeer :: "Env \<Rightarrow> string set \<Rightarrow> string \<times> string \<Rightarrow> Reconciler \<Rightarrow> Reconciler" where
  "missBFDPeer env current = (\<lambda>(addr, prevStatus) r.
     if addr \<in> current then r
     else
       (let r = (if prevStatus = ''up''
                 then publish EVENT_TYPE_BFD_DOWN (findBFDOwner env addr r)
                   (''BFD peer '' @ addr @ '' disappeared from FRR (was '' @ prevStatus @ '')'')
                   [(''peer'', addr), (''status'', ''gone''), (''previous_status'', prevStatus)] r
                 else r)
        in r\<lparr>lastBFDStates := gm_del (lastBFDStates r) addr\<rparr>))"

definition monitorBFDPeers :: "vtysh \<Rightarrow> Env \<Rightarrow> Reconciler \<Rightarrow> Reconciler" where
  "monitorBFDPeers vt env r =
     (case frr_query (GetBFDPeers vt) r of
        (None, r) \<Rightarrow> r
      | (Some (Inl e), r) \<Rightarrow> monitoring_error ''bfd'' r
      | (Some (Inr bfdPeers), r) \<Rightarrow>
          (let r = for_each (seeBFDPeer env) bfdPeers r in
           for_each (missBFDPeer env (bp_PeerAddress ` set bfdPeers))
             (range_perm (env_range env 10) (lastBFDStates r)) r))"

definition seeOSPFNeighbor :: "Env \<Rightarrow> OSPFNeighborState \<Rightarrow> Reconciler \<Rightarrow> Reconciler" where
  "seeOSPFNeighbor env nbr r =
     (let nid = on_NeighborID nbr; st = on_State nbr; iface = on_Interface nbr;
          changed = (\<lambda>prev. ''OSPF neighbor '' @ nid @ '' is now '' @ st @ '' (was '' @ prev @ '')'');
          meta = (\<lambda>prev. [(''neighbor_id'', nid), (''state'', st), (''previous_state'', prev)]);
          r = (case map_of (lastOSPFStates r) nid of
                 Some prevInfo \<Rightarrow>
                   (let prev = ls_State prevInfo in
                    if prev \<noteq> st then
                      if st = ospfStateFull
                      then publish EVENT_TYPE_OSPF_NEIGHBOR_UP (findOSPFOwnerByNeighbor env iface r)
                        (changed prev) (meta prev) r
                      else if prev = ospfStateFull
                      then publish EVENT_TYPE_OSPF_NEIGHBOR_DOWN (findOSPFOwnerByNeighbor env iface r)
                        (changed prev) (meta prev) r
                      else r
                    else r)
               | None \<Rightarrow>
                   if st = ospfStateFull
                   then publish EVENT_TYPE_OSPF_NEIGHBOR_UP (findOSPFOwnerByNeighbor env iface r)
                     (''OSPF neighbor '' @ nid @ '' is Full'') [(''neighbor_id'', nid), (''state'', st)] r
                   else r)
      in r\<lparr>lastOSPFStates :=
             gm_put (lastOSPFStates r) nid \<lparr>ls_State = st, ls_Interface = iface\<rparr>\<rparr>)"

definition missOSPFNeighbor ::
    "Env \<Rightarrow> string set \<Rightarrow> string \<times> ospfLastState \<Rightarrow> Reconciler \<Rightarrow> Reconciler" where
  "missOSPFNeighbor env current = (\<lambda>(nid, prevInfo) r.
     if nid \<in> current then r
     else
       (let prev = ls_State prevInfo;
            r = (if prev = ospfStateFull
                 then publish EVENT_TYPE_OSPF_NEIGHBOR_DOWN
                   (findOSPFOwnerByNeighbor env (ls_Interface prevInfo) r)
                   (''OSPF neighbor '' @ nid @ '' disappeared from FRR (was '' @ prev @ '')'')
                   [(''neighbor_id'', nid), (''state'', ''gone''), (''previous_state'', prev)] r
                 else r)
        in r\<lparr>lastOSPFStates := gm_del (lastOSPFStates r) nid\<rparr>))"

definition monitorOSPFNeighbors :: "vtysh \<Rightarrow> Env \<Rightarrow> Reconciler \<Rightarrow> Reconciler" where
  "monitorOSPFNeighbors vt env r =
     (case frr_query (GetOSPFNeighbors vt (env_range env 11)) r of
        (None, r) \<Rightarrow> r
      | (Some (Inl e), r) \<Rightarrow> monitoring_error ''ospf'' r
      | (Some (Inr ospfNeighbors), r) \<Rightarrow>
          (let r = for_each (seeOSPFNeighbor env) ospfNeighbors r in
           for_each (missOSPFNeighbor env (on_NeighborID ` set ospfNeighbors))
             (range_perm (env_range env 12) (lastOSPFStates r)) r))"

definition monitorFRRState :: "vtysh \<Rightarrow> Env \<Rightarrow> Reconciler \<Rightarrow> Reconciler" where
  "monitorFRRState vt env r =
     (if r_frrClient r = None \<or> \<not> r_hasPublisher r then r
      else monitorOSPFNeighbors vt env (monitorBFDPeers vt env (monitorBGPNeighbors vt env r)))"

section \<open>Withdrawing\<close>

text \<open>The four loops of \<open>WithdrawAll\<close>: a failure is collected and the entry stays.\<close>

definition withdrawPrefix ::
    "vtysh \<Rightarrow> string \<times> PrefixIntent \<Rightarrow> rec_error list \<times> Reconciler \<Rightarrow> rec_error list \<times> Reconciler" where
  "withdrawPrefix vt = (\<lambda>(key, p) (errs, r).
     if pfx_Protocol p = PROTOCOL_BGP then
       (case frr_call (WithdrawNetwork vt (pfx_Prefix p) (detectAFI (pfx_Prefix p))) r of
          (Some e, r) \<Rightarrow> (errs @ [e], r)
        | (None, r) \<Rightarrow>
            (let (errs, r) =
               (if hasAttributes p then
                  (case frr_call (RemoveRouteMap vt (routeMapName (pfx_Prefix p))) r of
                     (Some e, r) \<Rightarrow> (errs @ [e], r)
                   | (None, r) \<Rightarrow> (errs, r))
                else (errs, r))
             in (errs, r\<lparr>appliedPrefixes := gm_del (appliedPrefixes r) key\<rparr>)))
     else (errs, r\<lparr>appliedPrefixes := gm_del (appliedPrefixes r) key\<rparr>))"

definition withdrawBFD ::
    "vtysh \<Rightarrow> string \<times> BFDIntent \<Rightarrow> rec_error list \<times> Reconciler \<Rightarrow> rec_error list \<times> Reconciler" where
  "withdrawBFD vt = (\<lambda>(key, b) (errs, r).
     case frr_call (RemoveBFDPeer vt (bfd_PeerAddress b) (bfd_InterfaceName b)) r of
       (Some e, r) \<Rightarrow> (errs @ [e], r)
     | (None, r) \<Rightarrow> (errs, r\<lparr>appliedBFD := gm_del (appliedBFD r) key\<rparr>))"

definition withdrawOSPF ::
    "vtysh \<Rightarrow> string \<times> OSPFIntent \<Rightarrow> rec_error list \<times> Reconciler \<Rightarrow> rec_error list \<times> Reconciler" where
  "withdrawOSPF vt = (\<lambda>(key, i) (errs, r).
     case frr_call (disableOSPF vt i) r of
       (Some e, r) \<Rightarrow> (errs @ [e], r)
     | (None, r) \<Rightarrow> (errs, r\<lparr>appliedOSPF := gm_del (appliedOSPF r) key\<rparr>))"

definition withdrawPeer ::
    "vtysh \<Rightarrow> string \<times> PeerIntent \<Rightarrow> rec_error list \<times> Reconciler \<Rightarrow> rec_error list \<times> Reconciler" where
  "withdrawPeer vt = (\<lambda>(key, p) (errs, r).
     case frr_call (RemoveNeighbor vt (peer_NeighborAddress p)) r of
       (Some e, r) \<Rightarrow> (errs @ [e], r)
     | (None, r) \<Rightarrow> (errs, r\<lparr>appliedPeers := gm_del (appliedPeers r) key\<rparr>))"

text \<open>The returned error joins all the collected ones, so the list is returned.\<close>

definition WithdrawAll ::
    "vtysh \<Rightarrow> (nat \<Rightarrow> sched) \<Rightarrow> Reconciler \<Rightarrow> rec_error list \<times> Reconciler" where
  "WithdrawAll vt order r =
     (if r_frrClient r = None then ([], r)
      else
        (let s = for_each (withdrawPrefix vt) (range_perm (order 0) (appliedPrefixes r)) ([], r);
             s = for_each (withdrawBFD vt) (range_perm (order 1) (appliedBFD (snd s))) s;
             s = for_each (withdrawOSPF vt) (range_perm (order 2) (appliedOSPF (snd s))) s;
             s = for_each (withdrawPeer vt) (range_perm (order 3) (appliedPeers (snd s))) s in
         if fst s \<noteq> [] then s
         else ([], (snd s)\<lparr>lastBGPStates := [], lastBFDStates := [], lastOSPFStates := []\<rparr>)))"

section \<open>The cycle\<close>

definition Reconcile :: "vtysh \<Rightarrow> Env \<Rightarrow> Reconciler \<Rightarrow> rec_error option \<times> Reconciler" where
  "Reconcile vt env r =
     (if r_frrClient r = None then (None, r)
      else
        seq (ensureBGPGlobal vt r) (\<lambda>r.
          let desiredPeers = GetPeerIntents (env_outer env 0) (env_inner env 0) (env_store env 0);
              desiredPrefixes = GetPrefixIntents (env_outer env 1) (env_inner env 1) (env_store env 1);
              desiredBFD = GetBFDIntents (env_outer env 2) (env_inner env 2) (env_store env 2);
              desiredOSPF = GetOSPFIntents (env_outer env 3) (env_inner env 3) (env_store env 3);
              (e1, r) = ReconcilePeers vt (env_range env 0) (env_range env 1) desiredPeers r;
              (e2, r) = ReconcilePrefixes vt (env_range env 2) (env_range env 3) desiredPrefixes r;
              (e3, r) = ReconcileBFD vt (env_range env 4) (env_range env 5) desiredBFD r;
              (e4, r) = ReconcileOSPF vt (env_range env 6) (env_range env 7) desiredOSPF r;
              r = r\<lparr>r_metrics := RecordReconcileCycleDuration (r_metrics r)\<rparr>;
              r = monitorFRRState vt env r
          in (first_of (List.map_filter (\<lambda>e. e) [e1, e2, e3, e4]), r)))"

end
