(* ===== verification/Reconciler_Facts.thy ===== *)
theory Reconciler_Facts
  imports Reconciler
begin

text \<open>
  What the reconciler's operations leave alone, and what they promise.  \<open>frr_only\<close> and
  \<open>peer_only\<close> bound the footprint of the calls, \<open>session\<close> follows the client and its AS
  through them, and the four reconciliation functions are shown to satisfy the contract
  \<open>reconcile_stage\<close>, from which convergence and idleness follow.
\<close>

section \<open>Footprints\<close>

text \<open>An applied BFD session is kept under the key of its peer address.\<close>

definition bfd_keyed :: "(string, BFDIntent) gomap \<Rightarrow> bool" where
  "bfd_keyed m \<longleftrightarrow> entries_ok (\<lambda>k b. k = bfdKey_r (bfd_PeerAddress b)) m"

text \<open>All fields but the BFD sessions, the client, the metrics and the crash flag agree.\<close>

definition peer_only :: "Reconciler \<Rightarrow> Reconciler \<Rightarrow> bool" where
  "peer_only r r' \<longleftrightarrow>
     r_bgpGlobal r' = r_bgpGlobal r \<and> appliedPeers r' = appliedPeers r \<and>
     appliedPrefixes r' = appliedPrefixes r \<and> appliedOSPF r' = appliedOSPF r \<and>
     bgpConfigured r' = bgpConfigured r \<and> r_hasPublisher r' = r_hasPublisher r \<and>
     lastBGPStates r' = lastBGPStates r \<and> lastOSPFStates r' = lastOSPFStates r \<and>
     r_triggerPending r' = r_triggerPending r \<and> r_published r' = r_published r \<and>
     (gm_ok (appliedBFD r) \<longrightarrow> gm_ok (appliedBFD r')) \<and>
     (bfd_keyed (appliedBFD r) \<longrightarrow> bfd_keyed (appliedBFD r'))"

text \<open>And the BFD sessions agree too.\<close>

definition frr_only :: "Reconciler \<Rightarrow> Reconciler \<Rightarrow> bool" where
  "frr_only r r' \<longleftrightarrow>
     peer_only r r' \<and> appliedBFD r' = appliedBFD r \<and> peerManagedBFD r' = peerManagedBFD r \<and>
     lastBFDStates r' = lastBFDStates r"

lemma peer_only_refl [simp]: "peer_only r r"
  by (simp add: peer_only_def)

lemma frr_only_refl [simp]: "frr_only r r"
  by (simp add: frr_only_def)

lemma peer_only_trans: "peer_only r r' \<Longrightarrow> peer_only r' r'' \<Longrightarrow> peer_only r r''"
  by (simp add: peer_only_def)

lemma frr_only_trans: "frr_only r r' \<Longrightarrow> frr_only r' r'' \<Longrightarrow> frr_only r r''"
  by (auto simp: frr_only_def intro: peer_only_trans)

lemma frr_only_peer_only: "frr_only r r' \<Longrightarrow> peer_only r r'"
  by (simp add: frr_only_def)

lemma peer_only_BFD:
  "(gm_ok (appliedBFD r) \<Longrightarrow> gm_ok b) \<Longrightarrow> (bfd_keyed (appliedBFD r) \<Longrightarrow> bfd_keyed b) \<Longrightarrow>
   peer_only r (r\<lparr>peerManagedBFD := p, appliedBFD := b\<rparr>)"
  by (simp add: peer_only_def)

lemma peer_onlyD:
  assumes "peer_only r r'"
  shows "appliedPeers r' = appliedPeers r" "appliedPrefixes r' = appliedPrefixes r"
    "appliedOSPF r' = appliedOSPF r" "r_bgpGlobal r' = r_bgpGlobal r"
    "bgpConfigured r' = bgpConfigured r" "r_hasPublisher r' = r_hasPublisher r"
    "lastBGPStates r' = lastBGPStates r" "lastOSPFStates r' = lastOSPFStates r"
    "r_published r' = r_published r" "gm_ok (appliedBFD r) \<Longrightarrow> gm_ok (appliedBFD r')"
    "bfd_keyed (appliedBFD r) \<Longrightarrow> bfd_keyed (appliedBFD r')" "r_triggerPending r' = r_triggerPending r"
  using assms by (simp_all add: peer_only_def)

lemma frr_onlyD:
  assumes "frr_only r r'"
  shows "appliedPeers r' = appliedPeers r" "appliedPrefixes r' = appliedPrefixes r"
    "appliedOSPF r' = appliedOSPF r" "appliedBFD r' = appliedBFD r"
    "peerManagedBFD r' = peerManagedBFD r" "lastBFDStates r' = lastBFDStates r"
    "r_bgpGlobal r' = r_bgpGlobal r" "bgpConfigured r' = bgpConfigured r"
    "r_hasPublisher r' = r_hasPublisher r" "lastBGPStates r' = lastBGPStates r"
    "lastOSPFStates r' = lastOSPFStates r" "r_published r' = r_published r"
  using assms by (simp_all add: frr_only_def peer_only_def)

lemma frr_call_only: "frr_only r (snd (frr_call f r))"
  by (simp add: frr_call_def frr_only_def peer_only_def split: option.split prod.split)

lemma frr_tx_only: "frr_only r (snd (frr_tx f r))"
proof -
  obtain e r' where "frr_call f r = (e, r')" by fastforce
  with frr_call_only [of r f] show ?thesis
    by (simp add: frr_tx_def frr_only_def peer_only_def split: option.split)
qed

lemma removePeerFromFRR_only: "frr_only r (snd (removePeerFromFRR vt a r))"
  by (simp add: removePeerFromFRR_def frr_tx_only)

lemma seq_only:
  assumes "frr_only r (snd x)" and "\<And>s. frr_only r s \<Longrightarrow> frr_only r (snd (f s))"
  shows "frr_only r (snd (seq x f))"
  using assms by (rule seq_invariant)

lemma applyPrefixIntent_only: "frr_only r (snd (applyPrefixIntent vt p r))"
  by (auto simp: applyPrefixIntent_def Let_def frr_tx_only
      intro!: seq_only intro: frr_only_trans [OF _ frr_tx_only] split: Protocol.split)

lemma removePrefixFromFRR_only: "frr_only r (snd (removePrefixFromFRR vt p r))"
  by (auto simp: removePrefixFromFRR_def Let_def frr_tx_only
      intro!: seq_only intro: frr_only_trans [OF _ frr_tx_only] split: Protocol.split)

lemma dropStaleRouteMap_only: "frr_only r (dropStaleRouteMap vt ex r)"
  by (simp add: dropStaleRouteMap_def frr_call_only split: option.split)

lemma applyBFDIntent_only: "frr_only r (snd (applyBFDIntent vt b r))"
  by (simp add: applyBFDIntent_def frr_tx_only)

lemma removeBFDFromFRR_only: "frr_only r (snd (removeBFDFromFRR vt a i r))"
  by (simp add: removeBFDFromFRR_def frr_tx_only)

lemma applyOSPFIntent_only: "frr_only r (snd (applyOSPFIntent vt i r))"
  by (simp add: applyOSPFIntent_def frr_tx_only)

lemma removeOSPFFromFRR_only: "frr_only r (snd (removeOSPFFromFRR vt i r))"
  by (simp add: removeOSPFFromFRR_def frr_tx_only)

lemma dropPeerBFD_only: "peer_only r (dropPeerBFD vt a r)"
proof -
  define r2 where "r2 = snd (frr_call (RemoveBFDPeer vt a []) (snd (frr_call (SetNeighborBFD vt a False) r)))"
  have "peer_only r r2"
    unfolding r2_def by (intro frr_only_peer_only frr_only_trans [OF frr_call_only frr_call_only])
  then show ?thesis
    by (simp add: dropPeerBFD_def Let_def r2_def [symmetric] peer_only_def bfd_keyed_def entries_ok_del)
qed

text \<open>The peer operations, through the rules for sequences and loops.\<close>

lemma tx_peer_only: "peer_only r s \<Longrightarrow> peer_only r (snd (frr_tx f s))"
  by (rule peer_only_trans [OF _ frr_only_peer_only [OF frr_tx_only]])

lemma for_err_peer_only:
  assumes "peer_only r s" and "\<And>x s. peer_only r s \<Longrightarrow> peer_only r (snd (f x s))"
  shows "peer_only r (snd (for_err f xs s))"
  using assms by (rule for_err_invariant [where P = "peer_only r"]) simp_all

lemma activateAFIs_only: "peer_only r s \<Longrightarrow> peer_only r (snd (activateAFIs vt p s))"
  unfolding activateAFIs_def by (rule for_err_peer_only) (simp_all add: Let_def tx_peer_only)

lemma setMaxPrefixes_only: "peer_only r s \<Longrightarrow> peer_only r (snd (setMaxPrefixes vt p s))"
  unfolding setMaxPrefixes_def by (rule for_err_peer_only) (simp_all add: Let_def tx_peer_only)

lemma linkPeerBFD_only: "peer_only r s \<Longrightarrow> peer_only r (snd (linkPeerBFD vt p s))"
proof -
  let ?k = "bfdKey_r (peer_NeighborAddress p)"
  have put: "peer_only r (t\<lparr>peerManagedBFD := m, appliedBFD := gm_put (appliedBFD t) ?k (peerBFDIntent p)\<rparr>)"
    and del: "peer_only r (t\<lparr>peerManagedBFD := m, appliedBFD := gm_del (appliedBFD t) ?k\<rparr>)"
    if "peer_only r t" for t m
    by (rule peer_only_trans [OF that], rule peer_only_BFD,
        simp_all add: bfd_keyed_def entries_ok_put entries_ok_del peerBFDIntent_def)+
  assume "peer_only r s"
  then show ?thesis
    by (simp add: linkPeerBFD_def Let_def)
      (intro conjI impI seq_invariant [where P = "peer_only r"] tx_peer_only;
       simp add: put del tx_peer_only seq_invariant [where P = "peer_only r"])
qed

lemma applyPeerIntent_only: "peer_only r (snd (applyPeerIntent vt p r))"
  unfolding applyPeerIntent_def Let_def
  by (intro seq_invariant [where P = "peer_only r"] activateAFIs_only setMaxPrefixes_only
      linkPeerBFD_only tx_peer_only peer_only_refl)

section \<open>The stages satisfy the contract\<close>

lemma equal_refl [simp]: "peerEqual d d" "prefixEqual d' d'" "bfdEqual b b" "ospfEqual i i"
  by (simp_all add: peerEqual_def prefixEqual_def bfdEqual_def ospfEqual_def list_all_iff)

lemma record_intent_sel [simp]:
  "appliedPeers (record_intent a b c r) = appliedPeers r"
  "appliedPrefixes (record_intent a b c r) = appliedPrefixes r"
  "appliedBFD (record_intent a b c r) = appliedBFD r"
  "appliedOSPF (record_intent a b c r) = appliedOSPF r"
  "peerManagedBFD (record_intent a b c r) = peerManagedBFD r"
  "r_frrClient (record_intent a b c r) = r_frrClient r"
  "r_crashed (record_intent a b c r) = r_crashed r"
  "r_bgpGlobal (record_intent a b c r) = r_bgpGlobal r"
  "bgpConfigured (record_intent a b c r) = bgpConfigured r"
  "r_hasPublisher (record_intent a b c r) = r_hasPublisher r"
  by (simp_all add: record_intent_def)

text \<open>The loop bodies, as the outcome of the call they make.\<close>

lemma addPeer_cases:
  obtains (skip) ex where "map_of (appliedPeers r) k = Some ex" "peerEqual ex d" "addPeer vt (k, d) (e, r) = (e, r)"
  | (fail) x r' where "addPeer vt (k, d) (e, r) = (e @ [x], r')" "peer_only r r'"
  | (applied) r' where "peer_only r r'" "addPeer vt (k, d) (e, r) =
      (e, record_intent (peer_Owner d) ''peer'' ''apply'' (r'\<lparr>appliedPeers := gm_put (appliedPeers r') k d\<rparr>))"
proof -
  obtain x r' where x: "applyPeerIntent vt d r = (x, r')" by fastforce
  with applyPeerIntent_only [of r vt d] have po: "peer_only r r'" by simp
  show thesis
  proof (cases "case map_of (appliedPeers r) k of Some ex \<Rightarrow> peerEqual ex d | None \<Rightarrow> False")
    case True
    then show thesis using skip by (auto simp: addPeer_def split: option.splits)
  next
    case False
    then show thesis using fail [of _ r'] applied [of r'] po x by (cases x) (auto simp: addPeer_def)
  qed
qed

lemma delPeer_cases:
  obtains (skip) "map_of dm k \<noteq> None" "delPeer vt dm (k, a) (e, r) = (e, r)"
  | (fail) x r' where "map_of dm k = None" "delPeer vt dm (k, a) (e, r) = (e @ [x], r')" "peer_only r r'"
  | (applied) r' where "map_of dm k = None" "peer_only r r'" "delPeer vt dm (k, a) (e, r) =
      (e, record_intent (peer_Owner a) ''peer'' ''remove'' (r'\<lparr>appliedPeers := gm_del (appliedPeers r') k,
        lastBGPStates := gm_del (lastBGPStates r') (peer_NeighborAddress a)\<rparr>))"
proof -
  obtain x r' where x: "removePeerFromFRR vt (peer_NeighborAddress a)
      (dropPeerBFD vt (peer_NeighborAddress a) r) = (x, r')" by fastforce
  have po: "peer_only r r'"
    using peer_only_trans [OF dropPeerBFD_only frr_only_peer_only [OF removePeerFromFRR_only]] x
    by (metis snd_conv)
  show thesis
  proof (cases "map_of dm k")
    case None
    then show thesis using fail [of _ r'] applied [of r'] po x by (cases x) (simp_all add: delPeer_def)
  next
    case (Some y)
    then show thesis using skip by (simp add: delPeer_def)
  qed
qed

interpretation peers: reconcile_stage appliedPeers "addPeer vt" "delPeer vt" peerEqual "\<lambda>_ _. False"
  for vt
proof unfold_locales
  fix r :: Reconciler and k d e a and dm :: "(string, PeerIntent) gomap" and k' :: string
  show "\<exists>xs. fst (addPeer vt (k, d) (e, r)) = e @ xs"
    and "k' \<noteq> k \<Longrightarrow> map_of (appliedPeers (snd (addPeer vt (k, d) (e, r)))) k' = map_of (appliedPeers r) k'"
    and "fst (addPeer vt (k, d) (e, r)) = e \<Longrightarrow>
      \<exists>a. map_of (appliedPeers (snd (addPeer vt (k, d) (e, r)))) k = Some a \<and> peerEqual a d"
    and "gm_ok (appliedPeers r) \<Longrightarrow> gm_ok (appliedPeers (snd (addPeer vt (k, d) (e, r))))"
    by (cases rule: addPeer_cases [of r k d vt e]; auto dest: peer_onlyD)+
  show "\<exists>xs. fst (delPeer vt dm (k, a) (e, r)) = e @ xs"
    and "k' \<noteq> k \<Longrightarrow> map_of (appliedPeers (snd (delPeer vt dm (k, a) (e, r)))) k' = map_of (appliedPeers r) k'"
    and "fst (delPeer vt dm (k, a) (e, r)) = e \<Longrightarrow> map_of dm k = None \<Longrightarrow>
      map_of (appliedPeers (snd (delPeer vt dm (k, a) (e, r)))) k = None"
    and "gm_ok (appliedPeers r) \<Longrightarrow> gm_ok (appliedPeers (snd (delPeer vt dm (k, a) (e, r))))"
    by (cases rule: delPeer_cases [of dm k vt a e r]; auto dest: peer_onlyD)+
qed (auto simp: addPeer_def delPeer_def)

lemma addPrefix_cases:
  obtains (skip) ex where "map_of (appliedPrefixes r) k = Some ex" "prefixEqual ex d"
      "addPrefix vt (k, d) (e, r) = (e, r)"
  | (fail) x r' where "addPrefix vt (k, d) (e, r) = (e @ [x], r')" "frr_only r r'"
  | (applied) r' where "frr_only r r'" "addPrefix vt (k, d) (e, r) =
      (e, record_intent (pfx_Owner d) ''prefix'' ''apply''
        (r'\<lparr>appliedPrefixes := gm_put (appliedPrefixes r') k d\<rparr>))"
proof -
  obtain x r' where x: "applyPrefixIntent vt d
      (dropStaleRouteMap vt (map_of (appliedPrefixes r) k) r) = (x, r')" by fastforce
  have po: "frr_only r r'"
    using frr_only_trans [OF dropStaleRouteMap_only applyPrefixIntent_only] x by (metis snd_conv)
  show thesis
  proof (cases "case map_of (appliedPrefixes r) k of Some ex \<Rightarrow> prefixEqual ex d | None \<Rightarrow> False")
    case True
    then show thesis using skip by (auto simp: addPrefix_def Let_def split: option.splits)
  next
    case False
    then show thesis using fail [of _ r'] applied [of r'] po x
      by (cases x) (auto simp: addPrefix_def Let_def)
  qed
qed

lemma delPrefix_cases:
  obtains (skip) "map_of dm k \<noteq> None" "delPrefix vt dm (k, a) (e, r) = (e, r)"
  | (fail) x r' where "map_of dm k = None" "delPrefix vt dm (k, a) (e, r) = (e @ [x], r')" "frr_only r r'"
  | (applied) r' where "map_of dm k = None" "frr_only r r'" "delPrefix vt dm (k, a) (e, r) =
      (e, record_intent (pfx_Owner a) ''prefix'' ''remove''
        (r'\<lparr>appliedPrefixes := gm_del (appliedPrefixes r') k\<rparr>))"
proof -
  obtain x r' where x: "removePrefixFromFRR vt a r = (x, r')" by fastforce
  with removePrefixFromFRR_only [of r vt a] have po: "frr_only r r'" by simp
  show thesis
  proof (cases "map_of dm k")
    case None
    then show thesis using fail [of _ r'] applied [of r'] po x by (cases x) (simp_all add: delPrefix_def)
  next
    case (Some y)
    then show thesis using skip by (simp add: delPrefix_def)
  qed
qed

interpretation prefixes: reconcile_stage appliedPrefixes "addPrefix vt" "delPrefix vt" prefixEqual
  "\<lambda>_ _. False" for vt
proof unfold_locales
  fix r :: Reconciler and k d e a and dm :: "(string, PrefixIntent) gomap" and k' :: string
  show "\<exists>xs. fst (addPrefix vt (k, d) (e, r)) = e @ xs"
    and "k' \<noteq> k \<Longrightarrow> map_of (appliedPrefixes (snd (addPrefix vt (k, d) (e, r)))) k' = map_of (appliedPrefixes r) k'"
    and "fst (addPrefix vt (k, d) (e, r)) = e \<Longrightarrow>
      \<exists>a. map_of (appliedPrefixes (snd (addPrefix vt (k, d) (e, r)))) k = Some a \<and> prefixEqual a d"
    and "gm_ok (appliedPrefixes r) \<Longrightarrow> gm_ok (appliedPrefixes (snd (addPrefix vt (k, d) (e, r))))"
    by (cases rule: addPrefix_cases [of r k d vt e]; auto dest: frr_onlyD)+
  show "\<exists>xs. fst (delPrefix vt dm (k, a) (e, r)) = e @ xs"
    and "k' \<noteq> k \<Longrightarrow> map_of (appliedPrefixes (snd (delPrefix vt dm (k, a) (e, r)))) k' =
      map_of (appliedPrefixes r) k'"
    and "fst (delPrefix vt dm (k, a) (e, r)) = e \<Longrightarrow> map_of dm k = None \<Longrightarrow>
      map_of (appliedPrefixes (snd (delPrefix vt dm (k, a) (e, r)))) k = None"
    and "gm_ok (appliedPrefixes r) \<Longrightarrow> gm_ok (appliedPrefixes (snd (delPrefix vt dm (k, a) (e, r))))"
    by (cases rule: delPrefix_cases [of dm k vt a e r]; auto dest: frr_onlyD)+
qed (auto simp: addPrefix_def delPrefix_def)

lemma addBFD_cases:
  obtains (skip) ex where "map_of (appliedBFD r) k = Some ex" "bfdEqual ex d" "addBFD vt (k, d) (e, r) = (e, r)"
  | (fail) x r' where "addBFD vt (k, d) (e, r) = (e @ [x], r')" "frr_only r r'"
  | (applied) r' where "frr_only r r'" "addBFD vt (k, d) (e, r) =
      (e, record_intent (bfd_Owner d) ''bfd'' ''apply'' (r'\<lparr>appliedBFD := gm_put (appliedBFD r') k d\<rparr>))"
proof -
  obtain x r' where x: "applyBFDIntent vt d r = (x, r')" by fastforce
  with applyBFDIntent_only [of r vt d] have po: "frr_only r r'" by simp
  show thesis
  proof (cases "case map_of (appliedBFD r) k of Some ex \<Rightarrow> bfdEqual ex d | None \<Rightarrow> False")
    case True
    then show thesis using skip by (auto simp: addBFD_def split: option.splits)
  next
    case False
    then show thesis using fail [of _ r'] applied [of r'] po x by (cases x) (auto simp: addBFD_def)
  qed
qed

lemma delBFD_cases:
  obtains (skip) "map_of dm k \<noteq> None \<or> isPeerManaged r k" "delBFD vt dm (k, a) (e, r) = (e, r)"
  | (fail) x r' where "map_of dm k = None" "delBFD vt dm (k, a) (e, r) = (e @ [x], r')" "frr_only r r'"
  | (applied) r' where "map_of dm k = None" "frr_only r r'" "delBFD vt dm (k, a) (e, r) =
      (e, record_intent (bfd_Owner a) ''bfd'' ''remove'' (r'\<lparr>appliedBFD := gm_del (appliedBFD r') k,
        lastBFDStates := gm_del (lastBFDStates r') (bfd_PeerAddress a)\<rparr>))"
proof -
  obtain x r' where x: "removeBFDFromFRR vt (bfd_PeerAddress a) (bfd_InterfaceName a) r = (x, r')" by fastforce
  have po: "frr_only r r'" using removeBFDFromFRR_only x by (metis snd_conv)
  show thesis
  proof (cases "map_of dm k \<noteq> None \<or> isPeerManaged r k")
    case True
    then show thesis using skip by (auto simp: delBFD_def)
  next
    case False
    then show thesis using fail [of _ r'] applied [of r'] po x by (cases x) (auto simp: delBFD_def)
  qed
qed

interpretation sessions: reconcile_stage appliedBFD "addBFD vt" "delBFD vt" bfdEqual isPeerManaged
  for vt
proof unfold_locales
  fix r :: Reconciler and k d e a and dm :: "(string, BFDIntent) gomap" and k' :: string
  show "\<exists>xs. fst (addBFD vt (k, d) (e, r)) = e @ xs"
    and "k' \<noteq> k \<Longrightarrow> map_of (appliedBFD (snd (addBFD vt (k, d) (e, r)))) k' = map_of (appliedBFD r) k'"
    and "fst (addBFD vt (k, d) (e, r)) = e \<Longrightarrow>
      \<exists>a. map_of (appliedBFD (snd (addBFD vt (k, d) (e, r)))) k = Some a \<and> bfdEqual a d"
    and "gm_ok (appliedBFD r) \<Longrightarrow> gm_ok (appliedBFD (snd (addBFD vt (k, d) (e, r))))"
    by (cases rule: addBFD_cases [of r k d vt e]; auto dest: frr_onlyD)+
  show "\<exists>xs. fst (delBFD vt dm (k, a) (e, r)) = e @ xs"
    and "k' \<noteq> k \<Longrightarrow> map_of (appliedBFD (snd (delBFD vt dm (k, a) (e, r)))) k' = map_of (appliedBFD r) k'"
    and "fst (delBFD vt dm (k, a) (e, r)) = e \<Longrightarrow> map_of dm k = None \<Longrightarrow> \<not> isPeerManaged r k \<Longrightarrow>
      map_of (appliedBFD (snd (delBFD vt dm (k, a) (e, r)))) k = None"
    and "isPeerManaged (snd (delBFD vt dm (k, a) (e, r))) = isPeerManaged r"
    and "gm_ok (appliedBFD r) \<Longrightarrow> gm_ok (appliedBFD (snd (delBFD vt dm (k, a) (e, r))))"
    by (cases rule: delBFD_cases [of dm k r vt a e]; auto simp: isPeerManaged_def fun_eq_iff dest: frr_onlyD)+
qed (auto simp: addBFD_def delBFD_def)

lemma addOSPF_cases:
  obtains (skip) ex where "map_of (appliedOSPF r) k = Some ex" "ospfEqual ex d" "addOSPF vt (k, d) (e, r) = (e, r)"
  | (fail) x r' where "addOSPF vt (k, d) (e, r) = (e @ [x], r')" "frr_only r r'"
  | (applied) r' where "frr_only r r'" "addOSPF vt (k, d) (e, r) =
      (e, record_intent (ospf_Owner d) ''ospf'' ''apply'' (r'\<lparr>appliedOSPF := gm_put (appliedOSPF r') k d\<rparr>))"
proof -
  obtain x r' where x: "applyOSPFIntent vt d r = (x, r')" by fastforce
  with applyOSPFIntent_only [of r vt d] have po: "frr_only r r'" by simp
  show thesis
  proof (cases "case map_of (appliedOSPF r) k of Some ex \<Rightarrow> ospfEqual ex d | None \<Rightarrow> False")
    case True
    then show thesis using skip by (auto simp: addOSPF_def split: option.splits)
  next
    case False
    then show thesis using fail [of _ r'] applied [of r'] po x by (cases x) (auto simp: addOSPF_def)
  qed
qed

lemma delOSPF_cases:
  obtains (skip) "map_of dm k \<noteq> None" "delOSPF vt dm (k, a) (e, r) = (e, r)"
  | (fail) x r' where "map_of dm k = None" "delOSPF vt dm (k, a) (e, r) = (e @ [x], r')" "frr_only r r'"
  | (applied) r' where "map_of dm k = None" "frr_only r r'" "delOSPF vt dm (k, a) (e, r) =
      (e, record_intent (ospf_Owner a) ''ospf'' ''remove'' (r'\<lparr>appliedOSPF := gm_del (appliedOSPF r') k\<rparr>))"
proof -
  obtain x r' where x: "removeOSPFFromFRR vt a r = (x, r')" by fastforce
  with removeOSPFFromFRR_only [of r vt a] have po: "frr_only r r'" by simp
  show thesis
  proof (cases "map_of dm k")
    case None
    then show thesis using fail [of _ r'] applied [of r'] po x by (cases x) (simp_all add: delOSPF_def)
  next
    case (Some y)
    then show thesis using skip by (simp add: delOSPF_def)
  qed
qed

interpretation interfaces: reconcile_stage appliedOSPF "addOSPF vt" "delOSPF vt" ospfEqual
  "\<lambda>_ _. False" for vt
proof unfold_locales
  fix r :: Reconciler and k d e a and dm :: "(string, OSPFIntent) gomap" and k' :: string
  show "\<exists>xs. fst (addOSPF vt (k, d) (e, r)) = e @ xs"
    and "k' \<noteq> k \<Longrightarrow> map_of (appliedOSPF (snd (addOSPF vt (k, d) (e, r)))) k' = map_of (appliedOSPF r) k'"
    and "fst (addOSPF vt (k, d) (e, r)) = e \<Longrightarrow>
      \<exists>a. map_of (appliedOSPF (snd (addOSPF vt (k, d) (e, r)))) k = Some a \<and> ospfEqual a d"
    and "gm_ok (appliedOSPF r) \<Longrightarrow> gm_ok (appliedOSPF (snd (addOSPF vt (k, d) (e, r))))"
    by (cases rule: addOSPF_cases [of r k d vt e]; auto dest: frr_onlyD)+
  show "\<exists>xs. fst (delOSPF vt dm (k, a) (e, r)) = e @ xs"
    and "k' \<noteq> k \<Longrightarrow> map_of (appliedOSPF (snd (delOSPF vt dm (k, a) (e, r)))) k' = map_of (appliedOSPF r) k'"
    and "fst (delOSPF vt dm (k, a) (e, r)) = e \<Longrightarrow> map_of dm k = None \<Longrightarrow>
      map_of (appliedOSPF (snd (delOSPF vt dm (k, a) (e, r)))) k = None"
    and "gm_ok (appliedOSPF r) \<Longrightarrow> gm_ok (appliedOSPF (snd (delOSPF vt dm (k, a) (e, r))))"
    by (cases rule: delOSPF_cases [of dm k vt a e r]; auto dest: frr_onlyD)+
qed (auto simp: addOSPF_def delOSPF_def)

end
