(* ===== verification/Reconciler_Sessions.thy ===== *)
theory Reconciler_Sessions
  imports Reconciler_Facts
begin

text \<open>
  Properties of the client that every reconciler operation keeps.  An invariant that the
  single FRR operations keep and that looks at the client and the crash flag only is kept
  by everything built from them: the locale \<open>client_invariant\<close> proves this once, for any
  such invariant, and it is used for \<open>alive\<close> (there is a client, no crash) and \<open>session\<close>
  (there is a client, and its AS is a given one).
\<close>

section \<open>Client invariants\<close>

interpretation op_disableOSPF: frr_op "\<lambda>vt. disableOSPF vt i" "\<lambda>_. True" for i
  by (cases "ospf_IPv6 i")
    (simp_all add: disableOSPF_def op_DisableOSPFv3Interface.frr_op_axioms
      op_DisableOSPFInterface.frr_op_axioms)

definition enableOSPF :: "vtysh \<Rightarrow> OSPFIntent \<Rightarrow> Client \<Rightarrow> frr_error option \<times> Client" where
  "enableOSPF vt i =
     (if ospf_IPv6 i
      then EnableOSPFv3Interface vt (ospf_InterfaceName i) (ospf_AreaID i) (ospf_Passive i) (ospf_Cost i)
      else EnableOSPFInterface vt (ospf_InterfaceName i) (ospf_AreaID i) (ospf_Passive i) (ospf_Cost i)
             (ospf_HelloInterval i) (ospf_DeadInterval i))"

lemma applyOSPFIntent_enable: "applyOSPFIntent vt i r = frr_tx (enableOSPF vt i) r"
  by (simp add: applyOSPFIntent_def enableOSPF_def)

interpretation op_enableOSPF: frr_op "\<lambda>vt. enableOSPF vt i" "\<lambda>_. True" for i
  by (cases "ospf_IPv6 i")
    (simp_all add: enableOSPF_def op_EnableOSPFv3Interface.frr_op_axioms
      op_EnableOSPFInterface.frr_op_axioms)

locale client_invariant =
  fixes Inv :: "Reconciler \<Rightarrow> bool" and vt :: vtysh
  assumes inv_call: "frr_op op g \<Longrightarrow> Inv r \<Longrightarrow> Inv (snd (frr_call (op vt) r))"
    and inv_other:
      "Inv r \<Longrightarrow> r_frrClient r' = r_frrClient r \<Longrightarrow> r_crashed r' = r_crashed r \<Longrightarrow> Inv r'"
begin

lemma inv_same: "r_frrClient r' = r_frrClient r \<Longrightarrow> r_crashed r' = r_crashed r \<Longrightarrow> Inv r' = Inv r"
  using inv_other [of r r'] inv_other [of r' r] by auto

lemma inv_updates [simp]:
  "Inv (r\<lparr>appliedPeers := pm\<rparr>) = Inv r" "Inv (r\<lparr>appliedPrefixes := xm\<rparr>) = Inv r"
  "Inv (r\<lparr>appliedBFD := bm\<rparr>) = Inv r" "Inv (r\<lparr>appliedOSPF := im\<rparr>) = Inv r"
  "Inv (r\<lparr>peerManagedBFD := mm\<rparr>) = Inv r" "Inv (r\<lparr>lastBGPStates := l1\<rparr>) = Inv r"
  "Inv (r\<lparr>lastBFDStates := l2\<rparr>) = Inv r" "Inv (r\<lparr>lastOSPFStates := l3\<rparr>) = Inv r"
  "Inv (r\<lparr>r_metrics := ms\<rparr>) = Inv r" "Inv (r\<lparr>r_published := ev\<rparr>) = Inv r"
  "Inv (r\<lparr>bgpConfigured := c\<rparr>) = Inv r" "Inv (record_intent a b d r) = Inv r"
  by (rule inv_same; simp)+

lemma inv_tx: "frr_op op g \<Longrightarrow> Inv r \<Longrightarrow> Inv (snd (frr_tx (op vt) r))"
proof -
  assume "frr_op op g" "Inv r"
  then have *: "Inv (snd (frr_call (op vt) r))" by (rule inv_call)
  obtain e r' where "frr_call (op vt) r = (e, r')" by fastforce
  with * show ?thesis
    by (simp add: frr_tx_def split: option.split)
qed

lemmas inv_calls =
  inv_call [OF op_SetNeighborBFD.frr_op_axioms] inv_call [OF op_RemoveBFDPeer.frr_op_axioms]
  inv_call [OF op_RemoveRouteMap.frr_op_axioms] inv_call [OF op_WithdrawNetwork.frr_op_axioms]
  inv_call [OF op_disableOSPF.frr_op_axioms] inv_call [OF op_RemoveNeighbor.frr_op_axioms]

lemmas inv_txs =
  inv_tx [OF op_AddNeighbor.frr_op_axioms] inv_tx [OF op_RemoveNeighbor.frr_op_axioms]
  inv_tx [OF op_ActivateNeighborAFI.frr_op_axioms] inv_tx [OF op_AdvertiseNetwork.frr_op_axioms]
  inv_tx [OF op_WithdrawNetwork.frr_op_axioms] inv_tx [OF op_SetNeighborMaxPrefix.frr_op_axioms]
  inv_tx [OF op_ConfigureRouteMap.frr_op_axioms] inv_tx [OF op_AdvertiseNetworkWithRouteMap.frr_op_axioms]
  inv_tx [OF op_RemoveRouteMap.frr_op_axioms] inv_tx [OF op_SetNeighborBFD.frr_op_axioms]
  inv_tx [OF op_AddBFDPeer.frr_op_axioms] inv_tx [OF op_RemoveBFDPeer.frr_op_axioms]
  inv_tx [OF op_disableOSPF.frr_op_axioms] inv_tx [OF op_enableOSPF.frr_op_axioms]

lemma inv_activateAFIs: "Inv r \<Longrightarrow> Inv (snd (activateAFIs vt p r))"
  unfolding activateAFIs_def by (rule for_err_invariant [where P = Inv]) (simp_all add: Let_def inv_txs)

lemma inv_setMaxPrefixes: "Inv r \<Longrightarrow> Inv (snd (setMaxPrefixes vt p r))"
  unfolding setMaxPrefixes_def by (rule for_err_invariant [where P = Inv]) (simp_all add: Let_def inv_txs)

lemma inv_linkPeerBFD: "Inv r \<Longrightarrow> Inv (snd (linkPeerBFD vt p r))"
  unfolding linkPeerBFD_def Let_def
  by (auto intro!: seq_invariant [where P = Inv] inv_txs)

lemma inv_applyPeerIntent: "Inv r \<Longrightarrow> Inv (snd (applyPeerIntent vt p r))"
  unfolding applyPeerIntent_def Let_def
  by (intro seq_invariant [where P = Inv] inv_txs inv_activateAFIs inv_setMaxPrefixes inv_linkPeerBFD)

lemma inv_applyPrefixIntent: "Inv r \<Longrightarrow> Inv (snd (applyPrefixIntent vt p r))"
  by (auto simp: applyPrefixIntent_def Let_def
      intro!: seq_invariant [where P = Inv] inv_txs split: Protocol.split)

lemma inv_removePrefixFromFRR: "Inv r \<Longrightarrow> Inv (snd (removePrefixFromFRR vt p r))"
  by (auto simp: removePrefixFromFRR_def Let_def
      intro!: seq_invariant [where P = Inv] inv_txs split: Protocol.split)

lemma inv_dropStaleRouteMap: "Inv r \<Longrightarrow> Inv (dropStaleRouteMap vt ex r)"
  by (simp add: dropStaleRouteMap_def inv_calls split: option.split)

lemma inv_dropPeerBFD: "Inv r \<Longrightarrow> Inv (dropPeerBFD vt a r)"
proof -
  assume "Inv r"
  then have "Inv (snd (frr_call (RemoveBFDPeer vt a []) (snd (frr_call (SetNeighborBFD vt a False) r))))"
    by (intro inv_calls)
  with \<open>Inv r\<close> show ?thesis by (simp add: dropPeerBFD_def Let_def)
qed

text \<open>The loop bodies and the stages.\<close>

lemma inv_body:
  assumes "Inv (snd x)" and "\<And>r. Inv r \<Longrightarrow> Inv (g r)"
  shows "Inv (snd (case x of (Some e, r) \<Rightarrow> (errs @ [e], r) | (None, r) \<Rightarrow> (errs, g r)))"
  using assms by (auto split: prod.splits option.splits)

lemma inv_bodies:
  assumes "Inv r"
  shows "Inv (snd (addPeer vt (k, p) (e, r)))" "Inv (snd (delPeer vt dm (k, p) (e, r)))"
    "Inv (snd (addPrefix vt (k, x) (e, r)))" "Inv (snd (delPrefix vt xm (k, x) (e, r)))"
    "Inv (snd (addBFD vt (k, b) (e, r)))" "Inv (snd (delBFD vt bm (k, b) (e, r)))"
    "Inv (snd (addOSPF vt (k, i) (e, r)))" "Inv (snd (delOSPF vt im (k, i) (e, r)))"
  using assms
  by (auto simp: addPeer_def delPeer_def addPrefix_def delPrefix_def addBFD_def delBFD_def addOSPF_def
      delOSPF_def removePeerFromFRR_def applyBFDIntent_def removeBFDFromFRR_def applyOSPFIntent_enable
      removeOSPFFromFRR_def Let_def
      intro!: inv_body inv_applyPeerIntent inv_applyPrefixIntent inv_removePrefixFromFRR
        inv_dropStaleRouteMap inv_dropPeerBFD inv_txs)

lemma inv_stages:
  assumes "Inv r"
  shows "Inv (snd (ReconcilePeers vt sd sa ps r))" "Inv (snd (ReconcilePrefixes vt sd sa xs r))"
    "Inv (snd (ReconcileBFD vt sd sa bs r))" "Inv (snd (ReconcileOSPF vt sd sa is r))"
proof -
  show "Inv (snd (ReconcilePeers vt sd sa ps r))"
    unfolding ReconcilePeers_def
    by (rule peers.loop_invariant [where P = Inv]) (simp_all add: assms inv_bodies)
  show "Inv (snd (ReconcilePrefixes vt sd sa xs r))"
    unfolding ReconcilePrefixes_def
    by (rule prefixes.loop_invariant [where P = Inv]) (simp_all add: assms inv_bodies)
  show "Inv (snd (ReconcileBFD vt sd sa bs r))"
    unfolding ReconcileBFD_def
    by (rule sessions.loop_invariant [where P = Inv]) (simp_all add: assms inv_bodies)
  show "Inv (snd (ReconcileOSPF vt sd sa is r))"
    unfolding ReconcileOSPF_def
    by (rule interfaces.loop_invariant [where P = Inv]) (simp_all add: assms inv_bodies)
qed

text \<open>Withdrawing.\<close>

lemma inv_withdraw_bodies:
  assumes "Inv r"
  shows "Inv (snd (withdrawPrefix vt (k, x) (e, r)))" "Inv (snd (withdrawBFD vt (k, b) (e, r)))"
    "Inv (snd (withdrawOSPF vt (k, i) (e, r)))" "Inv (snd (withdrawPeer vt (k, p) (e, r)))"
proof -
  note c = inv_calls [OF assms]
  show "Inv (snd (withdrawBFD vt (k, b) (e, r)))" "Inv (snd (withdrawOSPF vt (k, i) (e, r)))"
    "Inv (snd (withdrawPeer vt (k, p) (e, r)))"
    by (auto simp: withdrawBFD_def withdrawOSPF_def withdrawPeer_def intro!: inv_body c)
  obtain x1 r1 where r1: "frr_call (WithdrawNetwork vt (pfx_Prefix x) (detectAFI (pfx_Prefix x))) r = (x1, r1)"
    by fastforce
  then have "Inv r1" using c by (metis snd_conv)
  obtain x2 r2 where r2: "frr_call (RemoveRouteMap vt (routeMapName (pfx_Prefix x))) r1 = (x2, r2)"
    by fastforce
  then have "Inv r2" using inv_calls(3) [OF \<open>Inv r1\<close>] by (metis snd_conv)
  with \<open>Inv r1\<close> assms r1 r2 show "Inv (snd (withdrawPrefix vt (k, x) (e, r)))"
    by (auto simp: withdrawPrefix_def split: option.split)
qed

lemma inv_withdraw_loops:
  assumes "Inv (snd s)"
  shows "Inv (snd (for_each (withdrawPrefix vt) es s))" "Inv (snd (for_each (withdrawBFD vt) bs s))"
    "Inv (snd (for_each (withdrawOSPF vt) is s))" "Inv (snd (for_each (withdrawPeer vt) ps s))"
  by (rule for_each_invariant [where P = "\<lambda>s. Inv (snd s)"],
      auto simp: assms inv_withdraw_bodies)+

lemma inv_WithdrawAll: "Inv r \<Longrightarrow> Inv (snd (WithdrawAll vt order r))"
  by (simp add: WithdrawAll_def Let_def inv_withdraw_loops)

end

section \<open>The client stays, and stays usable\<close>

definition alive :: "Reconciler \<Rightarrow> bool" where
  "alive r \<longleftrightarrow> r_frrClient r \<noteq> None \<and> \<not> r_crashed r"

definition session :: "uint32 \<Rightarrow> Reconciler \<Rightarrow> bool" where
  "session as r \<longleftrightarrow> (\<exists>c. r_frrClient r = Some c \<and> cl_localAS c = as)"

interpretation alive: client_invariant alive vt for vt
  by unfold_locales (auto simp: alive_def frr_call_def split: prod.splits)

interpretation session: client_invariant "session as" vt for as vt
proof unfold_locales
  fix op g r
  assume op: "frr_op op g" and s: "session as r"
  obtain c where c: "r_frrClient r = Some c" "cl_localAS c = as" using s by (auto simp: session_def)
  have "cl_localAS (snd (op vt c)) = cl_localAS c" using frr_op.op_localAS [OF op] .
  then show "session as (snd (frr_call (op vt) r))"
    using c by (auto simp: frr_call_def session_def split: prod.splits)
qed (simp add: session_def)

context frr_op
begin

text \<open>With an accepting \<open>vtysh\<close> and the guard of the operation, a call succeeds.\<close>

lemma call_ok:
  assumes "vtysh_accepts vt" and "session as r" and "\<And>c. cl_localAS c = as \<Longrightarrow> guard c"
  shows "fst (frr_call (op vt) r) = None"
proof -
  obtain c where c: "r_frrClient r = Some c" "cl_localAS c = as"
    using assms(2) by (auto simp: session_def)
  have "fst (op vt c) = None" using op_accepted [OF assms(1) assms(3) [OF c(2)]] .
  then show ?thesis using c by (auto simp: frr_call_def split: prod.splits)
qed

lemma tx_ok:
  assumes "vtysh_accepts vt" and "session as r" and "\<And>c. cl_localAS c = as \<Longrightarrow> guard c"
  shows "fst (frr_tx (op vt) r) = None"
  using call_ok [OF assms] by (auto simp: frr_tx_def split: prod.splits option.splits)

end

lemmas txs_ok =
  op_RemoveNeighbor.tx_ok op_ActivateNeighborAFI.tx_ok op_AdvertiseNetwork.tx_ok
  op_WithdrawNetwork.tx_ok op_SetNeighborMaxPrefix.tx_ok op_ConfigureRouteMap.tx_ok
  op_AdvertiseNetworkWithRouteMap.tx_ok op_SetNeighborBFD.tx_ok op_AddBFDPeer.tx_ok
  op_RemoveBFDPeer.tx_ok op_disableOSPF.tx_ok op_enableOSPF.tx_ok

lemma activateAFIs_ok:
  assumes "vtysh_accepts vt" and "session as r"
  shows "fst (activateAFIs vt p r) = None"
  unfolding activateAFIs_def
  by (rule for_err_None [where P = "session as"])
    (auto simp: assms Let_def session.inv_txs intro: txs_ok [OF assms(1)])

lemma setMaxPrefixes_ok:
  assumes "vtysh_accepts vt" and "session as r"
  shows "fst (setMaxPrefixes vt p r) = None"
  unfolding setMaxPrefixes_def
  by (rule for_err_None [where P = "session as"])
    (auto simp: assms Let_def session.inv_txs intro: txs_ok [OF assms(1)])

lemma linkPeerBFD_ok:
  assumes "vtysh_accepts vt" and "session as r"
  shows "fst (linkPeerBFD vt p r) = None"
  using assms session.inv_txs [OF assms(2)]
  by (auto simp: linkPeerBFD_def Let_def seq_None intro!: txs_ok [OF assms(1), of as])

lemma applyPeerIntent_ok:
  assumes "vtysh_accepts vt" and "session as r" and "as \<noteq> 0"
  shows "fst (applyPeerIntent vt p r) = None"
  using assms
  by (auto simp: applyPeerIntent_def Let_def seq_None
      intro!: op_AddNeighbor.tx_ok [of vt as] activateAFIs_ok [of vt as] setMaxPrefixes_ok [of vt as]
        linkPeerBFD_ok [of vt as] session.inv_txs session.inv_activateAFIs session.inv_setMaxPrefixes)

text \<open>The prefixes the reconciler can advertise.\<close>

definition routable :: "PrefixIntent \<Rightarrow> bool" where
  "routable p \<longleftrightarrow> pfx_Protocol p = PROTOCOL_BGP \<or> pfx_Protocol p = PROTOCOL_OSPF"

lemma applyPrefixIntent_ok:
  assumes "vtysh_accepts vt" and "session as r" and "routable p"
  shows "fst (applyPrefixIntent vt p r) = None"
  using assms
  by (auto simp: applyPrefixIntent_def routable_def Let_def seq_None
      intro!: txs_ok [OF assms(1), of as] session.inv_txs)

lemma removePrefixFromFRR_ok:
  assumes "vtysh_accepts vt" and "session as r" and "routable p"
  shows "fst (removePrefixFromFRR vt p r) = None"
  using assms
  by (auto simp: removePrefixFromFRR_def routable_def Let_def seq_None
      intro!: txs_ok [OF assms(1), of as] session.inv_txs)

text \<open>With an accepting \<open>vtysh\<close> no loop body reports an error.\<close>

lemma body_ok:
  assumes "fst x = None"
  shows "fst (case x of (Some e, r) \<Rightarrow> (errs @ [e], r) | (None, r) \<Rightarrow> (errs, g r)) = errs"
  using assms by (auto split: prod.splits option.splits)

lemma bodies_ok:
  assumes v: "vtysh_accepts vt" and s: "session as r" and "as \<noteq> 0"
  shows "fst (addPeer vt (k, p) (e, r)) = e" "fst (delPeer vt dm (k, p) (e, r)) = e"
    "routable x \<Longrightarrow> fst (addPrefix vt (k, x) (e, r)) = e"
    "routable x \<Longrightarrow> fst (delPrefix vt xm (k, x) (e, r)) = e"
    "fst (addBFD vt (k, b) (e, r)) = e" "fst (delBFD vt bm (k, b) (e, r)) = e"
    "fst (addOSPF vt (k, i) (e, r)) = e" "fst (delOSPF vt im (k, i) (e, r)) = e"
  using assms session.inv_dropPeerBFD [OF s] session.inv_dropStaleRouteMap [OF s]
  by (auto simp: addPeer_def delPeer_def addPrefix_def delPrefix_def addBFD_def delBFD_def addOSPF_def
      delOSPF_def removePeerFromFRR_def applyBFDIntent_def removeBFDFromFRR_def applyOSPFIntent_enable
      removeOSPFFromFRR_def Let_def
      intro!: body_ok applyPeerIntent_ok [of vt as] applyPrefixIntent_ok [of vt as]
        removePrefixFromFRR_ok [of vt as] txs_ok [OF v, of as])

text \<open>So each stage succeeds.\<close>

lemma for_each_no_errs:
  assumes "\<And>x e s. x \<in> set xs \<Longrightarrow> P s \<Longrightarrow> fst (f x (e, s)) = e \<and> P (snd (f x (e, s)))" and "P s"
  shows "fst (for_each f xs (e, s)) = e"
proof -
  have "(\<lambda>t. fst t = e \<and> P (snd t)) (for_each f xs (e, s))"
    by (rule for_each_invariant) (use assms in \<open>auto simp: prod_eq_iff\<close>)
  then show ?thesis by simp
qed

lemma reconcile_loop_ok:
  assumes "P r" and "gm_ok dm"
    and "\<And>k d e r. map_of dm k = Some d \<Longrightarrow> P r \<Longrightarrow> fst (add (k, d) (e, r)) = e \<and> P (snd (add (k, d) (e, r)))"
    and "\<And>k a e r. P r \<Longrightarrow> good a \<Longrightarrow> fst (del dm (k, a) (e, r)) = e \<and> P (snd (del dm (k, a) (e, r)))"
    and "\<And>r. P r \<Longrightarrow> \<forall>x \<in> set (applied r). good (snd x)"
  shows "fst (reconcile_loop applied add del schD schA dm r) = None"
proof -
  define s1 where "s1 = for_each add (range_perm schD dm) ([], r)"
  have step: "fst (add x (e, s)) = e \<and> P (snd (add x (e, s)))"
    if "x \<in> set (range_perm schD dm)" "P s" for x e s
    using that assms(2) assms(3) [of "fst x" "snd x" s e] by (simp add: gm_ok_lookup)
  have "P (snd s1)"
    unfolding s1_def
    by (rule for_each_invariant [where P = "\<lambda>t. P (snd t)"]) (use step assms(1) in \<open>auto simp: prod_eq_iff\<close>)
  have "fst s1 = []" unfolding s1_def by (rule for_each_no_errs [where P = P]) (use step assms(1) in auto)
  have "fst (for_each (del dm) (range_perm schA (applied (snd s1))) ([], snd s1)) = []"
    by (rule for_each_no_errs [where P = P])
      (use assms(4,5) \<open>P (snd s1)\<close> in fastforce)+
  then show ?thesis
    using \<open>fst s1 = []\<close> unfolding reconcile_loop_def Let_def s1_def [symmetric]
    by (metis first_of_None fst_conv prod.collapse)
qed

section \<open>Monitoring only looks\<close>

text \<open>The applied state is the same, and the client only made show runs.\<close>

definition mon_only :: "Reconciler \<Rightarrow> Reconciler \<Rightarrow> bool" where
  "mon_only r r' \<longleftrightarrow>
     appliedPeers r' = appliedPeers r \<and> appliedPrefixes r' = appliedPrefixes r \<and>
     appliedBFD r' = appliedBFD r \<and> appliedOSPF r' = appliedOSPF r \<and>
     peerManagedBFD r' = peerManagedBFD r \<and> bgpConfigured r' = bgpConfigured r \<and>
     r_bgpGlobal r' = r_bgpGlobal r \<and> r_hasPublisher r' = r_hasPublisher r \<and>
     r_triggerPending r' = r_triggerPending r \<and> r_crashed r' = r_crashed r \<and>
     (\<exists>c rs. r_frrClient r = Some c \<and> r_frrClient r' = Some (c\<lparr>cl_runs := cl_runs c @ rs\<rparr>) \<and>
        list_all (\<lambda>x. \<not> is_config_run x) rs)"

lemma mon_only_refl: "r_frrClient r = Some c \<Longrightarrow> mon_only r r"
  by (auto simp: mon_only_def intro: exI [of _ "[]"])

lemma mon_only_query:
  assumes "mon_only r s"
    and "\<And>c. \<exists>run. snd (f c) = c\<lparr>cl_runs := cl_runs c @ [run]\<rparr> \<and> \<not> is_config_run run"
  shows "mon_only r (snd (frr_query f s))" and "fst (frr_query f s) \<noteq> None"
proof -
  obtain c rs where c: "r_frrClient r = Some c" "r_frrClient s = Some (c\<lparr>cl_runs := cl_runs c @ rs\<rparr>)"
    "list_all (\<lambda>x. \<not> is_config_run x) rs" using assms(1) by (auto simp: mon_only_def)
  obtain run where "snd (f (c\<lparr>cl_runs := cl_runs c @ rs\<rparr>)) = c\<lparr>cl_runs := cl_runs c @ rs @ [run]\<rparr>"
    "\<not> is_config_run run" using assms(2) [of "c\<lparr>cl_runs := cl_runs c @ rs\<rparr>"] by auto
  with c assms(1) show "mon_only r (snd (frr_query f s))"
    by (auto simp: mon_only_def frr_query_def split: prod.splits intro!: exI [of _ "rs @ [run]"])
  show "fst (frr_query f s) \<noteq> None" using c(2) by (simp add: frr_query_def split: prod.split)
qed

lemma show_queries:
  "\<exists>run. snd (GetBGPNeighbors vt sch c) = c\<lparr>cl_runs := cl_runs c @ [run]\<rparr> \<and> \<not> is_config_run run"
  "\<exists>run. snd (GetBFDPeers vt c) = c\<lparr>cl_runs := cl_runs c @ [run]\<rparr> \<and> \<not> is_config_run run"
  "\<exists>run. snd (GetOSPFNeighbors vt sch c) = c\<lparr>cl_runs := cl_runs c @ [run]\<rparr> \<and> \<not> is_config_run run"
  by (simp_all only: GetBGPNeighbors_client GetBFDPeers_client GetOSPFNeighbors_client)
    (auto simp: is_config_run_def)

lemma mon_only_looks:
  assumes "mon_only r s"
  shows "mon_only r (seeBGPNeighbor env n s)" "mon_only r (missBGPNeighbor env cur (a, st) s)"
    "mon_only r (seeBFDPeer env b s)" "mon_only r (missBFDPeer env cur (a, st) s)"
    "mon_only r (seeOSPFNeighbor env q s)" "mon_only r (missOSPFNeighbor env cur (a, os) s)"
    "mon_only r (monitoring_error pr s)"
  using assms
  by (simp_all add: mon_only_def seeBGPNeighbor_def missBGPNeighbor_def seeBFDPeer_def missBFDPeer_def
      seeOSPFNeighbor_def missOSPFNeighbor_def monitoring_error_def publish_def Let_def split: option.split)

lemma mon_only_loops:
  assumes "mon_only r s"
  shows "mon_only r (for_each (seeBGPNeighbor env) ns s)"
    "mon_only r (for_each (missBGPNeighbor env cur) gs s)"
    "mon_only r (for_each (seeBFDPeer env) bs s)" "mon_only r (for_each (missBFDPeer env cur) hs s)"
    "mon_only r (for_each (seeOSPFNeighbor env) qs s)" "mon_only r (for_each (missOSPFNeighbor env cur) os s)"
  by (rule for_each_invariant [where P = "mon_only r"], auto simp: assms mon_only_looks)+

lemma mon_only_monitors:
  assumes "mon_only r s"
  shows "mon_only r (monitorBGPNeighbors vt env s)" "mon_only r (monitorBFDPeers vt env s)"
    "mon_only r (monitorOSPFNeighbors vt env s)"
proof -
  note q = mon_only_query(1) [OF assms, of "GetBGPNeighbors vt (env_range env 8)", OF show_queries(1)]
    mon_only_query(1) [OF assms, of "GetBFDPeers vt", OF show_queries(2)]
    mon_only_query(1) [OF assms, of "GetOSPFNeighbors vt (env_range env 11)", OF show_queries(3)]
  show "mon_only r (monitorBGPNeighbors vt env s)"
    using q(1) unfolding monitorBGPNeighbors_def
    by (auto simp: Let_def mon_only_loops mon_only_looks split: prod.split option.split sum.split)
  show "mon_only r (monitorBFDPeers vt env s)"
    using q(2) unfolding monitorBFDPeers_def
    by (auto simp: Let_def mon_only_loops mon_only_looks split: prod.split option.split sum.split)
  show "mon_only r (monitorOSPFNeighbors vt env s)"
    using q(3) unfolding monitorOSPFNeighbors_def
    by (auto simp: Let_def mon_only_loops mon_only_looks split: prod.split option.split sum.split)
qed

lemma monitorFRRState_only: "r_frrClient r = Some c \<Longrightarrow> mon_only r (monitorFRRState vt env r)"
  by (simp add: monitorFRRState_def mon_only_refl mon_only_monitors)

end
