(* ===== verification/Reconciler_Stages.thy ===== *)
theory Reconciler_Stages
  imports Reconciler_Sessions
begin

text \<open>
  The reconciliation cycle stage by stage: what each stage leaves alone, that the applied
  state stays well formed, that four error-free stages bring it in step with what was read
  from the store, and that stages over a state in step do nothing.
\<close>

section \<open>What each stage leaves alone\<close>

lemma ReconcilePeers_frame:
  "appliedPrefixes (snd (ReconcilePeers vt sd sa ps r)) = appliedPrefixes r \<and>
   appliedOSPF (snd (ReconcilePeers vt sd sa ps r)) = appliedOSPF r \<and>
   bgpConfigured (snd (ReconcilePeers vt sd sa ps r)) = bgpConfigured r \<and>
   (gm_ok (appliedBFD r) \<longrightarrow> gm_ok (appliedBFD (snd (ReconcilePeers vt sd sa ps r)))) \<and>
   (bfd_keyed (appliedBFD r) \<longrightarrow> bfd_keyed (appliedBFD (snd (ReconcilePeers vt sd sa ps r))))"
  (is "?P (snd (ReconcilePeers vt sd sa ps r))")
  unfolding ReconcilePeers_def
proof (rule peers.loop_invariant [where P = ?P])
  fix k d e s
  assume "?P s"
  then show "?P (snd (addPeer vt (k, d) (e, s)))"
    by (cases rule: addPeer_cases [of s k d vt e]) (auto dest: peer_onlyD)
next
  fix k a e s
  assume "?P s"
  then show "?P (snd (delPeer vt (index_by (\<lambda>p. peerKey_r (peer_NeighborAddress p)) ps) (k, a) (e, s)))"
    by (cases rule: delPeer_cases [of "index_by (\<lambda>p. peerKey_r (peer_NeighborAddress p)) ps" k vt a e s])
      (auto dest: peer_onlyD)
qed simp_all

lemma ReconcilePrefixes_frame:
  "appliedPeers (snd (ReconcilePrefixes vt sd sa xs r)) = appliedPeers r \<and>
   appliedOSPF (snd (ReconcilePrefixes vt sd sa xs r)) = appliedOSPF r \<and>
   appliedBFD (snd (ReconcilePrefixes vt sd sa xs r)) = appliedBFD r \<and>
   peerManagedBFD (snd (ReconcilePrefixes vt sd sa xs r)) = peerManagedBFD r \<and>
   bgpConfigured (snd (ReconcilePrefixes vt sd sa xs r)) = bgpConfigured r"
  (is "?P (snd (ReconcilePrefixes vt sd sa xs r))")
  unfolding ReconcilePrefixes_def
proof (rule prefixes.loop_invariant [where P = ?P])
  fix k d e s
  assume "?P s"
  then show "?P (snd (addPrefix vt (k, d) (e, s)))"
    by (cases rule: addPrefix_cases [of s k d vt e]) (auto dest: frr_onlyD)
next
  fix k a e s
  let ?dm = "index_by (\<lambda>p. prefixKey_r (pfx_Protocol p) (pfx_Prefix p)) xs"
  assume "?P s"
  then show "?P (snd (delPrefix vt ?dm (k, a) (e, s)))"
    by (cases rule: delPrefix_cases [of ?dm k vt a e s]) (auto dest: frr_onlyD)
qed simp_all

lemma ReconcileBFD_frame:
  "appliedPeers (snd (ReconcileBFD vt sd sa bs r)) = appliedPeers r \<and>
   appliedPrefixes (snd (ReconcileBFD vt sd sa bs r)) = appliedPrefixes r \<and>
   appliedOSPF (snd (ReconcileBFD vt sd sa bs r)) = appliedOSPF r \<and>
   peerManagedBFD (snd (ReconcileBFD vt sd sa bs r)) = peerManagedBFD r \<and>
   bgpConfigured (snd (ReconcileBFD vt sd sa bs r)) = bgpConfigured r"
  (is "?P (snd (ReconcileBFD vt sd sa bs r))")
  unfolding ReconcileBFD_def
proof (rule sessions.loop_invariant [where P = ?P])
  fix k d e s
  assume "?P s"
  then show "?P (snd (addBFD vt (k, d) (e, s)))"
    by (cases rule: addBFD_cases [of s k d vt e]) (auto dest: frr_onlyD)
next
  fix k a e s
  let ?dm = "index_by (\<lambda>b. bfdKey_r (bfd_PeerAddress b)) bs"
  assume "?P s"
  then show "?P (snd (delBFD vt ?dm (k, a) (e, s)))"
    by (cases rule: delBFD_cases [of ?dm k s vt a e]) (auto dest: frr_onlyD)
qed simp_all

lemma ReconcileOSPF_frame:
  "appliedPeers (snd (ReconcileOSPF vt sd sa os r)) = appliedPeers r \<and>
   appliedPrefixes (snd (ReconcileOSPF vt sd sa os r)) = appliedPrefixes r \<and>
   appliedBFD (snd (ReconcileOSPF vt sd sa os r)) = appliedBFD r \<and>
   peerManagedBFD (snd (ReconcileOSPF vt sd sa os r)) = peerManagedBFD r \<and>
   bgpConfigured (snd (ReconcileOSPF vt sd sa os r)) = bgpConfigured r"
  (is "?P (snd (ReconcileOSPF vt sd sa os r))")
  unfolding ReconcileOSPF_def
proof (rule interfaces.loop_invariant [where P = ?P])
  fix k d e s
  assume "?P s"
  then show "?P (snd (addOSPF vt (k, d) (e, s)))"
    by (cases rule: addOSPF_cases [of s k d vt e]) (auto dest: frr_onlyD)
next
  fix k a e s
  let ?dm = "index_by (\<lambda>i. ospfKey_r (ospf_InterfaceName i)) os"
  assume "?P s"
  then show "?P (snd (delOSPF vt ?dm (k, a) (e, s)))"
    by (cases rule: delOSPF_cases [of ?dm k vt a e s]) (auto dest: frr_onlyD)
qed simp_all

section \<open>Well-formed reconciler states\<close>

text \<open>Every applied intent is kept under its own key, once.\<close>

definition rec_ok :: "Reconciler \<Rightarrow> bool" where
  "rec_ok r \<longleftrightarrow>
     entries_ok (\<lambda>k p. k = peerKey_r (peer_NeighborAddress p)) (appliedPeers r) \<and>
     entries_ok (\<lambda>k p. k = prefixKey_r (pfx_Protocol p) (pfx_Prefix p)) (appliedPrefixes r) \<and>
     bfd_keyed (appliedBFD r) \<and>
     entries_ok (\<lambda>k i. k = ospfKey_r (ospf_InterfaceName i)) (appliedOSPF r)"

lemma rec_ok_gm_ok:
  "rec_ok r \<Longrightarrow> gm_ok (appliedPeers r) \<and> gm_ok (appliedPrefixes r) \<and> gm_ok (appliedBFD r) \<and>
   gm_ok (appliedOSPF r)"
  by (auto simp: rec_ok_def bfd_keyed_def dest: entries_ok_gm_ok)

lemma rec_ok_peer_only: "peer_only r r' \<Longrightarrow> rec_ok r \<Longrightarrow> rec_ok r'"
  by (simp add: rec_ok_def peer_only_def)

lemma rec_ok_same:
  assumes "rec_ok r"
    and "appliedPeers r' = appliedPeers r" "appliedPrefixes r' = appliedPrefixes r"
      "appliedBFD r' = appliedBFD r" "appliedOSPF r' = appliedOSPF r"
  shows "rec_ok r'"
  using assms by (simp add: rec_ok_def)

lemma rec_ok_record [simp]: "rec_ok (record_intent a b c r) = rec_ok r"
  by (simp add: rec_ok_def)

lemma rec_ok_put:
  assumes "rec_ok r"
  shows "k = peerKey_r (peer_NeighborAddress p) \<Longrightarrow> rec_ok (r\<lparr>appliedPeers := gm_put (appliedPeers r) k p\<rparr>)"
    "k = prefixKey_r (pfx_Protocol x) (pfx_Prefix x) \<Longrightarrow>
       rec_ok (r\<lparr>appliedPrefixes := gm_put (appliedPrefixes r) k x\<rparr>)"
    "k = bfdKey_r (bfd_PeerAddress b) \<Longrightarrow> rec_ok (r\<lparr>appliedBFD := gm_put (appliedBFD r) k b\<rparr>)"
    "k = ospfKey_r (ospf_InterfaceName i) \<Longrightarrow> rec_ok (r\<lparr>appliedOSPF := gm_put (appliedOSPF r) k i\<rparr>)"
  using assms by (simp_all add: rec_ok_def bfd_keyed_def entries_ok_put)

lemma rec_ok_del:
  assumes "rec_ok r"
  shows "rec_ok (r\<lparr>appliedPeers := gm_del (appliedPeers r) k\<rparr>)"
    "rec_ok (r\<lparr>appliedPrefixes := gm_del (appliedPrefixes r) k\<rparr>)"
    "rec_ok (r\<lparr>appliedBFD := gm_del (appliedBFD r) k\<rparr>)"
    "rec_ok (r\<lparr>appliedOSPF := gm_del (appliedOSPF r) k\<rparr>)"
  using assms by (simp_all add: rec_ok_def bfd_keyed_def entries_ok_del)

lemma rec_ok_last [simp]:
  "rec_ok (r\<lparr>lastBGPStates := a\<rparr>) = rec_ok r" "rec_ok (r\<lparr>lastBFDStates := a\<rparr>) = rec_ok r"
  "rec_ok (r\<lparr>lastOSPFStates := b\<rparr>) = rec_ok r" "rec_ok (r\<lparr>r_metrics := m\<rparr>) = rec_ok r"
  by (simp_all add: rec_ok_def)

lemma rec_ok_adds:
  assumes "rec_ok r"
  shows "k = peerKey_r (peer_NeighborAddress p) \<Longrightarrow> rec_ok (snd (addPeer vt (k, p) (e, r)))"
    "k = prefixKey_r (pfx_Protocol x) (pfx_Prefix x) \<Longrightarrow> rec_ok (snd (addPrefix vt (k, x) (e, r)))"
    "k = bfdKey_r (bfd_PeerAddress b) \<Longrightarrow> rec_ok (snd (addBFD vt (k, b) (e, r)))"
    "k = ospfKey_r (ospf_InterfaceName i) \<Longrightarrow> rec_ok (snd (addOSPF vt (k, i) (e, r)))"
proof -
  note po = rec_ok_peer_only [OF _ assms] rec_ok_peer_only [OF frr_only_peer_only assms]
  show "k = peerKey_r (peer_NeighborAddress p) \<Longrightarrow> rec_ok (snd (addPeer vt (k, p) (e, r)))"
    by (cases rule: addPeer_cases [of r k p vt e]) (simp_all add: assms po rec_ok_put)
  show "k = prefixKey_r (pfx_Protocol x) (pfx_Prefix x) \<Longrightarrow> rec_ok (snd (addPrefix vt (k, x) (e, r)))"
    by (cases rule: addPrefix_cases [of r k x vt e]) (simp_all add: assms po rec_ok_put)
  show "k = bfdKey_r (bfd_PeerAddress b) \<Longrightarrow> rec_ok (snd (addBFD vt (k, b) (e, r)))"
    by (cases rule: addBFD_cases [of r k b vt e]) (simp_all add: assms po rec_ok_put)
  show "k = ospfKey_r (ospf_InterfaceName i) \<Longrightarrow> rec_ok (snd (addOSPF vt (k, i) (e, r)))"
    by (cases rule: addOSPF_cases [of r k i vt e]) (simp_all add: assms po rec_ok_put)
qed

lemma rec_ok_dels:
  assumes "rec_ok r"
  shows "rec_ok (snd (delPeer vt dm (k, p) (e, r)))" "rec_ok (snd (delPrefix vt xm (k, x) (e, r)))"
    "rec_ok (snd (delBFD vt bm (k, b) (e, r)))" "rec_ok (snd (delOSPF vt im (k, i) (e, r)))"
proof -
  note po = rec_ok_peer_only [OF _ assms] rec_ok_peer_only [OF frr_only_peer_only assms]
  show "rec_ok (snd (delPeer vt dm (k, p) (e, r)))"
    by (cases rule: delPeer_cases [of dm k vt p e r]) (simp_all add: assms po rec_ok_del)
  show "rec_ok (snd (delPrefix vt xm (k, x) (e, r)))"
    by (cases rule: delPrefix_cases [of xm k vt x e r]) (simp_all add: assms po rec_ok_del)
  show "rec_ok (snd (delBFD vt bm (k, b) (e, r)))"
    by (cases rule: delBFD_cases [of bm k r vt b e]) (simp_all add: assms po rec_ok_del)
  show "rec_ok (snd (delOSPF vt im (k, i) (e, r)))"
    by (cases rule: delOSPF_cases [of im k vt i e r]) (simp_all add: assms po rec_ok_del)
qed

lemma rec_ok_stages:
  assumes "rec_ok r"
  shows "rec_ok (snd (ReconcilePeers vt sd sa ps r))" "rec_ok (snd (ReconcilePrefixes vt sd sa xs r))"
    "rec_ok (snd (ReconcileBFD vt sd sa bs r))" "rec_ok (snd (ReconcileOSPF vt sd sa os r))"
proof -
  show "rec_ok (snd (ReconcilePeers vt sd sa ps r))"
    unfolding ReconcilePeers_def
    by (rule peers.loop_invariant [where P = rec_ok]) 
      (simp_all add: assms rec_ok_dels, auto dest!: index_by_key simp: rec_ok_adds)
  show "rec_ok (snd (ReconcilePrefixes vt sd sa xs r))"
    unfolding ReconcilePrefixes_def
    by (rule prefixes.loop_invariant [where P = rec_ok]) 
      (simp_all add: assms rec_ok_dels, auto dest!: index_by_key simp: rec_ok_adds)
  show "rec_ok (snd (ReconcileBFD vt sd sa bs r))"
    unfolding ReconcileBFD_def
    by (rule sessions.loop_invariant [where P = rec_ok]) 
      (simp_all add: assms rec_ok_dels, auto dest!: index_by_key simp: rec_ok_adds)
  show "rec_ok (snd (ReconcileOSPF vt sd sa os r))"
    unfolding ReconcileOSPF_def
    by (rule interfaces.loop_invariant [where P = rec_ok]) 
      (simp_all add: assms rec_ok_dels, auto dest!: index_by_key simp: rec_ok_adds)
qed

section \<open>The cycle, stage by stage\<close>

definition desired_peers :: "Env \<Rightarrow> (string, PeerIntent) gomap" where
  "desired_peers env = index_by (\<lambda>p. peerKey_r (peer_NeighborAddress p))
     (GetPeerIntents (env_outer env 0) (env_inner env 0) (env_store env 0))"

definition desired_prefixes :: "Env \<Rightarrow> (string, PrefixIntent) gomap" where
  "desired_prefixes env = index_by (\<lambda>p. prefixKey_r (pfx_Protocol p) (pfx_Prefix p))
     (GetPrefixIntents (env_outer env 1) (env_inner env 1) (env_store env 1))"

definition desired_bfd :: "Env \<Rightarrow> (string, BFDIntent) gomap" where
  "desired_bfd env = index_by (\<lambda>b. bfdKey_r (bfd_PeerAddress b))
     (GetBFDIntents (env_outer env 2) (env_inner env 2) (env_store env 2))"

definition desired_ospf :: "Env \<Rightarrow> (string, OSPFIntent) gomap" where
  "desired_ospf env = index_by (\<lambda>i. ospfKey_r (ospf_InterfaceName i))
     (GetOSPFIntents (env_outer env 3) (env_inner env 3) (env_store env 3))"

lemma gm_ok_desired [simp]:
  "gm_ok (desired_peers env)" "gm_ok (desired_prefixes env)" "gm_ok (desired_bfd env)"
  "gm_ok (desired_ospf env)"
  by (simp_all add: desired_peers_def desired_prefixes_def desired_bfd_def desired_ospf_def)

text \<open>The applied state agrees with what the cycle read from the store.\<close>

definition synced :: "Env \<Rightarrow> Reconciler \<Rightarrow> bool" where
  "synced env r \<longleftrightarrow>
     in_sync peerEqual (\<lambda>_. False) (desired_peers env) (appliedPeers r) \<and>
     in_sync prefixEqual (\<lambda>_. False) (desired_prefixes env) (appliedPrefixes r) \<and>
     in_sync bfdEqual (isPeerManaged r) (desired_bfd env) (appliedBFD r) \<and>
     in_sync ospfEqual (\<lambda>_. False) (desired_ospf env) (appliedOSPF r)"

definition stage1 :: "vtysh \<Rightarrow> Env \<Rightarrow> Reconciler \<Rightarrow> rec_error option \<times> Reconciler" where
  "stage1 vt env r = reconcile_loop appliedPeers (addPeer vt) (delPeer vt)
     (env_range env 0) (env_range env 1) (desired_peers env) r"

definition stage2 :: "vtysh \<Rightarrow> Env \<Rightarrow> Reconciler \<Rightarrow> rec_error option \<times> Reconciler" where
  "stage2 vt env r = reconcile_loop appliedPrefixes (addPrefix vt) (delPrefix vt)
     (env_range env 2) (env_range env 3) (desired_prefixes env) r"

definition stage3 :: "vtysh \<Rightarrow> Env \<Rightarrow> Reconciler \<Rightarrow> rec_error option \<times> Reconciler" where
  "stage3 vt env r = reconcile_loop appliedBFD (addBFD vt) (delBFD vt)
     (env_range env 4) (env_range env 5) (desired_bfd env) r"

definition stage4 :: "vtysh \<Rightarrow> Env \<Rightarrow> Reconciler \<Rightarrow> rec_error option \<times> Reconciler" where
  "stage4 vt env r = reconcile_loop appliedOSPF (addOSPF vt) (delOSPF vt)
     (env_range env 6) (env_range env 7) (desired_ospf env) r"

lemma stage_eqs:
  "stage1 vt env r = ReconcilePeers vt (env_range env 0) (env_range env 1)
     (GetPeerIntents (env_outer env 0) (env_inner env 0) (env_store env 0)) r"
  "stage2 vt env r = ReconcilePrefixes vt (env_range env 2) (env_range env 3)
     (GetPrefixIntents (env_outer env 1) (env_inner env 1) (env_store env 1)) r"
  "stage3 vt env r = ReconcileBFD vt (env_range env 4) (env_range env 5)
     (GetBFDIntents (env_outer env 2) (env_inner env 2) (env_store env 2)) r"
  "stage4 vt env r = ReconcileOSPF vt (env_range env 6) (env_range env 7)
     (GetOSPFIntents (env_outer env 3) (env_inner env 3) (env_store env 3)) r"
  by (simp_all add: stage1_def stage2_def stage3_def stage4_def ReconcilePeers_def ReconcilePrefixes_def
      ReconcileBFD_def ReconcileOSPF_def desired_peers_def desired_prefixes_def desired_bfd_def desired_ospf_def)

definition after_stages :: "vtysh \<Rightarrow> Env \<Rightarrow> Reconciler \<Rightarrow> Reconciler" where
  "after_stages vt env r =
     snd (stage4 vt env (snd (stage3 vt env (snd (stage2 vt env (snd (stage1 vt env r)))))))"

definition stage_errors :: "vtysh \<Rightarrow> Env \<Rightarrow> Reconciler \<Rightarrow> rec_error option list" where
  "stage_errors vt env r =
     (let r1 = snd (stage1 vt env r); r2 = snd (stage2 vt env r1); r3 = snd (stage3 vt env r2) in
      [fst (stage1 vt env r), fst (stage2 vt env r1), fst (stage3 vt env r2), fst (stage4 vt env r3)])"

lemma Reconcile_stages:
  assumes "r_frrClient r \<noteq> None"
  shows "Reconcile vt env r = seq (ensureBGPGlobal vt r) (\<lambda>r.
    (first_of (List.map_filter (\<lambda>e. e) (stage_errors vt env r)),
     monitorFRRState vt env (after_stages vt env r
       \<lparr>r_metrics := RecordReconcileCycleDuration (r_metrics (after_stages vt env r))\<rparr>)))"
  using assms
  by (auto simp only: Reconcile_def stage_eqs stage_errors_def after_stages_def Let_def
      case_prod_unfold if_False)

lemma map_filter_None: "List.map_filter (\<lambda>e. e) es = [] \<longleftrightarrow> (\<forall>e \<in> set es. e = None)"
  by (induction es) (auto simp: List.map_filter_simps split: option.splits)

lemma stage_frames:
  "appliedPrefixes (snd (stage1 vt env r)) = appliedPrefixes r"
  "appliedOSPF (snd (stage1 vt env r)) = appliedOSPF r"
  "bgpConfigured (snd (stage1 vt env r)) = bgpConfigured r"
  "appliedPeers (snd (stage2 vt env r)) = appliedPeers r"
  "appliedOSPF (snd (stage2 vt env r)) = appliedOSPF r"
  "appliedBFD (snd (stage2 vt env r)) = appliedBFD r"
  "peerManagedBFD (snd (stage2 vt env r)) = peerManagedBFD r"
  "bgpConfigured (snd (stage2 vt env r)) = bgpConfigured r"
  "appliedPeers (snd (stage3 vt env r)) = appliedPeers r"
  "appliedPrefixes (snd (stage3 vt env r)) = appliedPrefixes r"
  "appliedOSPF (snd (stage3 vt env r)) = appliedOSPF r"
  "peerManagedBFD (snd (stage3 vt env r)) = peerManagedBFD r"
  "bgpConfigured (snd (stage3 vt env r)) = bgpConfigured r"
  "appliedPeers (snd (stage4 vt env r)) = appliedPeers r"
  "appliedPrefixes (snd (stage4 vt env r)) = appliedPrefixes r"
  "appliedBFD (snd (stage4 vt env r)) = appliedBFD r"
  "peerManagedBFD (snd (stage4 vt env r)) = peerManagedBFD r"
  "bgpConfigured (snd (stage4 vt env r)) = bgpConfigured r"
  using ReconcilePeers_frame ReconcilePrefixes_frame ReconcileBFD_frame ReconcileOSPF_frame
  by (simp_all add: stage_eqs)

lemma stage_ok:
  assumes "rec_ok r"
  shows "rec_ok (snd (stage1 vt env r))" "rec_ok (snd (stage2 vt env r))"
    "rec_ok (snd (stage3 vt env r))" "rec_ok (snd (stage4 vt env r))"
  using rec_ok_stages [OF assms] by (simp_all add: stage_eqs)

lemma isPeerManaged_cong: "peerManagedBFD r' = peerManagedBFD r \<Longrightarrow> isPeerManaged r' = isPeerManaged r"
  by (simp add: isPeerManaged_def fun_eq_iff)

text \<open>Four error-free stages bring the state in step.\<close>

lemma stages_converge:
  assumes "rec_ok r" and "\<forall>e \<in> set (stage_errors vt env r). e = None"
  shows "synced env (after_stages vt env r)"
proof -
  define r1 where "r1 = snd (stage1 vt env r)"
  define r2 where "r2 = snd (stage2 vt env r1)"
  define r3 where "r3 = snd (stage3 vt env r2)"
  define r4 where "r4 = snd (stage4 vt env r3)"
  have e: "stage1 vt env r = (None, r1)" "stage2 vt env r1 = (None, r2)"
    "stage3 vt env r2 = (None, r3)" "stage4 vt env r3 = (None, r4)"
    using assms(2) by (simp_all add: stage_errors_def Let_def r1_def r2_def r3_def r4_def prod_eq_iff)
  have ok: "rec_ok r1" "rec_ok r2" "rec_ok r3"
    using assms(1) stage_ok by (simp_all add: r1_def r2_def r3_def)
  have "in_sync peerEqual (\<lambda>_. False) (desired_peers env) (appliedPeers r1)"
    using peers.converges [OF gm_ok_desired(1) _ e(1) [unfolded stage1_def]] rec_ok_gm_ok [OF assms(1)] by simp
  moreover have "in_sync prefixEqual (\<lambda>_. False) (desired_prefixes env) (appliedPrefixes r2)"
    using prefixes.converges [OF gm_ok_desired(2) _ e(2) [unfolded stage2_def]] rec_ok_gm_ok [OF ok(1)] by simp
  moreover have "in_sync bfdEqual (isPeerManaged r3) (desired_bfd env) (appliedBFD r3)"
    using sessions.converges [OF gm_ok_desired(3) _ e(3) [unfolded stage3_def]] rec_ok_gm_ok [OF ok(2)] by simp
  moreover have "in_sync ospfEqual (\<lambda>_. False) (desired_ospf env) (appliedOSPF r4)"
    using interfaces.converges [OF gm_ok_desired(4) _ e(4) [unfolded stage4_def]] rec_ok_gm_ok [OF ok(3)] by simp
  ultimately show ?thesis
    by (simp add: synced_def after_stages_def r1_def r2_def r3_def r4_def stage_frames
        isPeerManaged_cong [OF stage_frames(17)])
qed

text \<open>Stages over a state in step do nothing.\<close>

lemma stages_idle:
  assumes "rec_ok r" and "synced env r"
  shows "stage_errors vt env r = [None, None, None, None]" and "after_stages vt env r = r"
proof -
  note ok = rec_ok_gm_ok [OF assms(1)]
  have "stage1 vt env r = (None, r)" "stage2 vt env r = (None, r)" "stage3 vt env r = (None, r)"
    "stage4 vt env r = (None, r)"
    using ok assms(2) peers.idle prefixes.idle sessions.idle interfaces.idle
    by (simp_all add: stage1_def stage2_def stage3_def stage4_def synced_def)
  then show "stage_errors vt env r = [None, None, None, None]" and "after_stages vt env r = r"
    by (simp_all add: stage_errors_def after_stages_def Let_def)
qed

lemma ensureBGPGlobal_ok: "rec_ok r \<Longrightarrow> rec_ok (snd (ensureBGPGlobal vt r))"
proof (cases "r_frrClient r")
  case (Some c)
  assume "rec_ok r"
  obtain g where g: "r_bgpGlobal r = Some g \<or> r_bgpGlobal r = None" by (cases "r_bgpGlobal r") auto
  obtain x r' where x: "frr_call (ReconfigureBGPGlobal vt (GetLocalAS c) (bg_LocalAS g) (bg_RouterID g)) r = (x, r')"
    by fastforce
  have "rec_ok r'"
    using rec_ok_peer_only [OF frr_only_peer_only [OF frr_call_only] \<open>rec_ok r\<close>] x by (metis snd_conv)
  with Some g x \<open>rec_ok r\<close> show ?thesis
    by (cases x) (auto simp: ensureBGPGlobal_def Let_def rec_ok_def)
qed (simp add: ensureBGPGlobal_def)

lemma ensureBGPGlobal_configured:
  assumes "ensureBGPGlobal vt r = (None, r')"
  shows "bgpConfigured r'"
  using assms
  by (auto simp: ensureBGPGlobal_def Let_def seq_def split: if_splits option.splits prod.splits)

lemma synced_mon_only: "mon_only r r' \<Longrightarrow> synced env r' = synced env r"
  using isPeerManaged_cong [of r' r] by (simp add: synced_def mon_only_def)

end
