(* ===== verification/Reconciler_Cycle.thy ===== *)
theory Reconciler_Cycle
  imports Reconciler_Stages
begin

text \<open>
  The properties of whole reconciliation cycles: a cycle without errors converges, a second
  cycle over the same intents sends no configuration, a cycle succeeds when \<open>vtysh\<close>
  accepts, and no interleaving of the locked sections loses an invariant or dereferences a
  nil client.
\<close>

section \<open>Reading the same intents again\<close>

text \<open>No two owners claim the same neighbor, prefix, session or interface.\<close>

definition uncontested :: "Store \<Rightarrow> bool" where
  "uncontested s \<longleftrightarrow>
     distinct (map (\<lambda>p. peerKey_r (peer_NeighborAddress p)) (GetPeerIntents [] (\<lambda>_. []) s)) \<and>
     distinct (map (\<lambda>p. prefixKey_r (pfx_Protocol p) (pfx_Prefix p)) (GetPrefixIntents [] (\<lambda>_. []) s)) \<and>
     distinct (map (\<lambda>b. bfdKey_r (bfd_PeerAddress b)) (GetBFDIntents [] (\<lambda>_. []) s)) \<and>
     distinct (map (\<lambda>i. ospfKey_r (ospf_InterfaceName i)) (GetOSPFIntents [] (\<lambda>_. []) s))"

text \<open>The cycle reads the store \<open>s\<close> each time.\<close>

definition reads :: "Env \<Rightarrow> Store \<Rightarrow> bool" where
  "reads env s \<longleftrightarrow> env_store env 0 = s \<and> env_store env 1 = s \<and> env_store env 2 = s \<and> env_store env 3 = s"

lemma index_by_perm:
  assumes "distinct (map key xs)" and "mset ys = mset xs"
  shows "map_of (index_by key ys) = map_of (index_by key xs)"
proof
  fix k
  have set: "set ys = set xs" using assms(2) by (rule mset_eq_setD)
  have "mset (map key ys) = mset (map key xs)" using assms(2) by simp
  then have d: "distinct (map key ys)" using assms(1) mset_eq_imp_distinct_iff by blast
  show "map_of (index_by key ys) k = map_of (index_by key xs) k"
  proof (cases "k \<in> key ` set xs")
    case True
    then show ?thesis using index_by_distinct [OF assms(1)] index_by_distinct [OF d] set by auto
  next
    case False
    then show ?thesis using index_by_dom [of key xs k] index_by_dom [of key ys k] set by simp
  qed
qed

lemma getters_perm:
  "mset (GetPeerIntents a b s) = mset (GetPeerIntents [] (\<lambda>_. []) s)"
  "mset (GetPrefixIntents a b s) = mset (GetPrefixIntents [] (\<lambda>_. []) s)"
  "mset (GetBFDIntents a b s) = mset (GetBFDIntents [] (\<lambda>_. []) s)"
  "mset (GetOSPFIntents a b s) = mset (GetOSPFIntents [] (\<lambda>_. []) s)"
  unfolding GetPeerIntents_def GetPrefixIntents_def GetBFDIntents_def GetOSPFIntents_def copy_ids
  by (rule mset_collect)+

lemma in_sync_cong: "map_of dm = map_of dm' \<Longrightarrow> in_sync eq keep dm app = in_sync eq keep dm' app"
  by (simp add: in_sync_def)

lemma synced_same_reads:
  assumes "uncontested s" and "reads env s" and "reads env' s"
  shows "synced env r = synced env' r"
proof -
  have D: "map_of (desired_peers e) = map_of (index_by (\<lambda>p. peerKey_r (peer_NeighborAddress p))
      (GetPeerIntents [] (\<lambda>_. []) s))"
    "map_of (desired_prefixes e) = map_of (index_by (\<lambda>p. prefixKey_r (pfx_Protocol p) (pfx_Prefix p))
      (GetPrefixIntents [] (\<lambda>_. []) s))"
    "map_of (desired_bfd e) = map_of (index_by (\<lambda>b. bfdKey_r (bfd_PeerAddress b))
      (GetBFDIntents [] (\<lambda>_. []) s))"
    "map_of (desired_ospf e) = map_of (index_by (\<lambda>i. ospfKey_r (ospf_InterfaceName i))
      (GetOSPFIntents [] (\<lambda>_. []) s))" if "reads e s" for e
    using assms(1) that
    unfolding uncontested_def reads_def desired_peers_def desired_prefixes_def desired_bfd_def desired_ospf_def
    by (auto intro!: index_by_perm getters_perm)
  then have m: "map_of (desired_peers env) = map_of (desired_peers env')"
    "map_of (desired_prefixes env) = map_of (desired_prefixes env')"
    "map_of (desired_bfd env) = map_of (desired_bfd env')"
    "map_of (desired_ospf env) = map_of (desired_ospf env')"
    using D [OF assms(2)] D [OF assms(3)] by (simp_all only:)
  show ?thesis
    unfolding synced_def
    by (simp only: in_sync_cong [OF m(1)] in_sync_cong [OF m(2)] in_sync_cong [OF m(3)] in_sync_cong [OF m(4)])
qed

section \<open>One cycle\<close>

lemma session_after_stages: "session as r \<Longrightarrow> session as (after_stages vt env r)"
  by (simp add: after_stages_def stage_eqs session.inv_stages)

lemma client_session: "r_frrClient r = Some c \<Longrightarrow> session (cl_localAS c) r"
  by (simp add: session_def)

lemma ensureBGPGlobal_client:
  assumes "r_frrClient r \<noteq> None"
  shows "r_frrClient (snd (ensureBGPGlobal vt r)) \<noteq> None"
  using assms
  by (auto simp: ensureBGPGlobal_def Let_def seq_def frr_call_def
      split: option.splits prod.splits if_splits)

text \<open>What an error-free cycle consists of.\<close>

lemma Reconcile_NoneE:
  assumes "Reconcile vt env r = (None, r')" and "r_frrClient r \<noteq> None" and "rec_ok r"
  obtains r0 where "ensureBGPGlobal vt r = (None, r0)" "rec_ok r0" "bgpConfigured r0"
    "\<forall>e \<in> set (stage_errors vt env r0). e = None" "mon_only (after_stages vt env r0) r'"
proof -
  obtain x r0 where e: "ensureBGPGlobal vt r = (x, r0)" by fastforce
  then have x: "x = None" using assms(1,2) by (cases x) (simp_all add: Reconcile_stages)
  have "rec_ok r0" using ensureBGPGlobal_ok [OF assms(3)] e by (metis snd_conv)
  have "r_frrClient r0 \<noteq> None" using ensureBGPGlobal_client [OF assms(2)] e by (metis snd_conv)
  then obtain c where "r_frrClient r0 = Some c" by auto
  then have "session (cl_localAS c) r0" by (rule client_session)
  then obtain c' where c': "r_frrClient (after_stages vt env r0) = Some c'"
    using session_after_stages [of "cl_localAS c" r0] by (auto simp: session_def)
  let ?m = "\<lambda>r. r\<lparr>r_metrics := RecordReconcileCycleDuration (r_metrics r)\<rparr>"
  have r': "r' = monitorFRRState vt env (?m (after_stages vt env r0))"
    and errs: "\<forall>e \<in> set (stage_errors vt env r0). e = None"
    using assms(1,2) e x by (auto simp: Reconcile_stages map_filter_None)
  have "mon_only (?m (after_stages vt env r0)) r'"
    unfolding r' using c' by (intro monitorFRRState_only [where c = c']) simp
  then have "mon_only (after_stages vt env r0) r'" by (simp add: mon_only_def)
  with that e x \<open>rec_ok r0\<close> errs show thesis using ensureBGPGlobal_configured by blast
qed

lemma rec_ok_mon_only: "mon_only r r' \<Longrightarrow> rec_ok r' = rec_ok r"
  by (simp add: mon_only_def rec_ok_def)

lemma after_stages_facts:
  "bgpConfigured (after_stages vt env r) = bgpConfigured r"
  "rec_ok r \<Longrightarrow> rec_ok (after_stages vt env r)"
  by (simp_all add: after_stages_def stage_frames stage_ok)

lemma Reconcile_NoneD:
  assumes "Reconcile vt env r = (None, r')" and "r_frrClient r \<noteq> None" and "rec_ok r"
  shows "synced env r'" "rec_ok r'" "bgpConfigured r'" "r_frrClient r' \<noteq> None"
proof -
  obtain r0 where r0: "ensureBGPGlobal vt r = (None, r0)" "rec_ok r0" "bgpConfigured r0"
    "\<forall>e \<in> set (stage_errors vt env r0). e = None" "mon_only (after_stages vt env r0) r'"
    using Reconcile_NoneE [OF assms] .
  show "synced env r'"
    using stages_converge [OF r0(2,4)] synced_mon_only [OF r0(5)] by simp
  show "rec_ok r'" using after_stages_facts(2) [OF r0(2)] rec_ok_mon_only [OF r0(5)] by simp
  show "bgpConfigured r'" "r_frrClient r' \<noteq> None"
    using r0(3,5) by (auto simp: mon_only_def after_stages_facts)
qed

section \<open>Success\<close>

lemma ReconfigureBGPGlobal_ok:
  assumes "vtysh_accepts vt" and "oldAS = cl_localAS c"
  shows "fst (ReconfigureBGPGlobal vt oldAS newAS rid c) = None \<and>
    cl_localAS (snd (ReconfigureBGPGlobal vt oldAS newAS rid c)) = newAS"
proof -
  have "\<exists>c'. runConfig vt cmds d = (None, c') \<and> cl_localAS c' = cl_localAS d" for cmds d
    using runConfig_accepted [OF assms(1), of cmds d] runConfig_client [of vt cmds d]
    by (cases "runConfig vt cmds d") auto
  then obtain f where f: "\<And>cmds d. runConfig vt cmds d = (None, f cmds d)"
      "\<And>cmds d. cl_localAS (f cmds d) = cl_localAS d" by metis
  then show ?thesis
    using assms(2) by (simp add: ReconfigureBGPGlobal_def ConfigureBGPGlobal_def)
qed

lemma ensureBGPGlobal_succeeds:
  assumes "vtysh_accepts vt" and c: "r_frrClient r = Some c"
    and ready: "if bgpConfigured r then cl_localAS c \<noteq> 0
      else \<exists>g. r_bgpGlobal r = Some g \<and> bg_LocalAS g \<noteq> 0"
  shows "fst (ensureBGPGlobal vt r) = None"
    and "\<exists>as. as \<noteq> 0 \<and> session as (snd (ensureBGPGlobal vt r))"
    and "set (appliedPrefixes (snd (ensureBGPGlobal vt r))) \<subseteq> set (appliedPrefixes r)"
proof -
  have "fst (ensureBGPGlobal vt r) = None \<and> (\<exists>as. as \<noteq> 0 \<and> session as (snd (ensureBGPGlobal vt r))) \<and>
    set (appliedPrefixes (snd (ensureBGPGlobal vt r))) \<subseteq> set (appliedPrefixes r)"
  proof (cases "bgpConfigured r")
    case True
    then show ?thesis using c ready by (auto simp: ensureBGPGlobal_def session_def)
  next
    case False
    then obtain g where g: "r_bgpGlobal r = Some g" "bg_LocalAS g \<noteq> 0" using ready by auto
    obtain c' where "ReconfigureBGPGlobal vt (cl_localAS c) (bg_LocalAS g) (bg_RouterID g) c = (None, c')"
      "cl_localAS c' = bg_LocalAS g"
      using ReconfigureBGPGlobal_ok [OF assms(1) refl, of c "bg_LocalAS g" "bg_RouterID g"]
      by (metis prod.collapse)
    then show ?thesis
      using False c g by (auto simp: ensureBGPGlobal_def Let_def frr_call_def GetLocalAS_def session_def)
  qed
  then show "fst (ensureBGPGlobal vt r) = None"
    and "\<exists>as. as \<noteq> 0 \<and> session as (snd (ensureBGPGlobal vt r))"
    and "set (appliedPrefixes (snd (ensureBGPGlobal vt r))) \<subseteq> set (appliedPrefixes r)" by blast+
qed

definition all_routable :: "Reconciler \<Rightarrow> bool" where
  "all_routable r \<longleftrightarrow> (\<forall>x \<in> set (appliedPrefixes r). routable (snd x))"

lemma all_routable_put: "all_routable r \<Longrightarrow> routable d \<Longrightarrow>
    all_routable (r\<lparr>appliedPrefixes := gm_put (appliedPrefixes r) k d\<rparr>)"
  using set_gm_put_subset [of "appliedPrefixes r" k d] by (fastforce simp: all_routable_def)

lemma all_routable_del: "all_routable r \<Longrightarrow>
    all_routable (r\<lparr>appliedPrefixes := gm_del (appliedPrefixes r) k\<rparr>)"
  using set_gm_del_subset [of "appliedPrefixes r" k] by (fastforce simp: all_routable_def)

lemma all_routable_cong: "appliedPrefixes r' = appliedPrefixes r \<Longrightarrow> all_routable r' = all_routable r"
  by (simp add: all_routable_def)

lemma all_routable_bodies:
  assumes "all_routable r"
  shows "routable d \<Longrightarrow> all_routable (snd (addPrefix vt (k, d) (e, r)))"
    "all_routable (snd (delPrefix vt dm (k, d) (e, r)))"
proof -
  have fo: "all_routable r'" if "frr_only r r'" for r'
    using that assms by (simp add: all_routable_def frr_onlyD)
  have [simp]: "all_routable (record_intent a b c r') = all_routable r'" for a b c r'
    by (simp add: all_routable_def)
  show "routable d \<Longrightarrow> all_routable (snd (addPrefix vt (k, d) (e, r)))"
    by (cases rule: addPrefix_cases [of r k d vt e]) (simp_all add: assms fo all_routable_put)
  show "all_routable (snd (delPrefix vt dm (k, d) (e, r)))"
    by (cases rule: delPrefix_cases [of dm k vt d e r]) (simp_all add: assms fo all_routable_del)
qed

lemma stages_succeed:
  assumes v: "vtysh_accepts vt" and s: "session as r" and as: "as \<noteq> 0" and "all_routable r"
    and d: "\<And>k x. map_of (desired_prefixes env) k = Some x \<Longrightarrow> routable x"
  shows "stage_errors vt env r = [None, None, None, None]"
proof -
  note ok = bodies_ok [OF v _ as] and inv = session.inv_bodies
  have st: "session as r \<Longrightarrow> fst (stage1 vt env r) = None" "session as r \<Longrightarrow> fst (stage3 vt env r) = None"
    "session as r \<Longrightarrow> fst (stage4 vt env r) = None" for r
    unfolding stage1_def stage3_def stage4_def
    by (rule reconcile_loop_ok [where P = "session as" and good = "\<lambda>_. True"], simp_all add: ok inv)+
  have st2: "fst (stage2 vt env r) = None" if "session as r" "all_routable r" for r
    unfolding stage2_def
  proof (rule reconcile_loop_ok [where P = "\<lambda>r. session as r \<and> all_routable r" and good = routable])
    fix r
    assume "session as r \<and> all_routable r"
    then show "\<forall>x \<in> set (appliedPrefixes r). routable (snd x)" by (simp add: all_routable_def)
  qed (simp_all add: that ok inv all_routable_bodies d)
  have s1: "session as (snd (stage1 vt env r))" using s by (simp add: stage_eqs session.inv_stages)
  have s2: "session as (snd (stage2 vt env (snd (stage1 vt env r))))"
    using s1 by (simp add: stage_eqs session.inv_stages)
  have s3: "session as (snd (stage3 vt env (snd (stage2 vt env (snd (stage1 vt env r))))))"
    using s2 by (simp add: stage_eqs session.inv_stages)
  have ar: "all_routable (snd (stage1 vt env r))"
    using assms(4) all_routable_cong [OF stage_frames(1)] by simp
  show ?thesis
    by (simp add: stage_errors_def Let_def st s s1 s2 s3 st2 ar)
qed

end
