(* ===== verification/Reconciler_Withdraw.thy ===== *)
theory Reconciler_Withdraw
  imports Reconciler_Stages
begin

text \<open>
  Graceful shutdown, \<open>WithdrawAll\<close> of \<open>internal/reconciler/reconciler.go\<close>.  The locale
  \<open>removal_loop\<close> states what its four loop bodies promise, an entry is deleted or an error
  is collected, and proves that what is left after a loop is accounted for by an error.
\<close>

section \<open>The contract of a removal loop\<close>

locale removal_loop =
  fixes applied :: "'r \<Rightarrow> (string, 'i) gomap"
    and remove :: "string \<times> 'i \<Rightarrow> 'e list \<times> 'r \<Rightarrow> 'e list \<times> 'r"
  assumes remove_step:
    "\<exists>xs. fst (remove (k, a) (e, r)) = e @ xs \<and>
       (applied (snd (remove (k, a) (e, r))) = gm_del (applied r) k \<or>
        applied (snd (remove (k, a) (e, r))) = applied r \<and> xs \<noteq> [])"
begin

lemma remove_cases:
  obtains xs where "fst (remove x (e, r)) = e @ xs"
    "applied (snd (remove x (e, r))) = gm_del (applied r) (fst x)"
  | xs where "fst (remove x (e, r)) = e @ xs" "xs \<noteq> []" "applied (snd (remove x (e, r))) = applied r"
  using remove_step [of "fst x" "snd x" e r] by auto

lemma loop_wf: "gm_ok (applied r) \<Longrightarrow> gm_ok (applied (snd (for_each remove es (e, r))))"
proof (rule for_each_invariant [where P = "\<lambda>s. gm_ok (applied (snd s))"])
  fix x and s :: "'e list \<times> 'r"
  assume "gm_ok (applied (snd s))"
  then show "gm_ok (applied (snd (remove x s)))"
    by (cases s; cases rule: remove_cases [of x "fst s" "snd s"]) simp_all
qed simp

lemma loop_frame:
  "k \<notin> fst ` set es \<Longrightarrow> map_of (applied (snd (for_each remove es (e, r)))) k = map_of (applied r) k"
proof (induction es arbitrary: e r)
  case (Cons x es)
  obtain e1 r1 where s: "remove x (e, r) = (e1, r1)" by fastforce
  have "map_of (applied r1) k = map_of (applied r) k"
    using Cons.prems by (cases rule: remove_cases [of x e r]) (simp_all add: s)
  then show ?case using Cons s by simp
qed simp

lemma loop_subset:
  "map_of (applied (snd (for_each remove es (e, r)))) k \<noteq> None \<Longrightarrow> map_of (applied r) k \<noteq> None"
proof (induction es arbitrary: e r)
  case (Cons x es)
  obtain e1 r1 where s: "remove x (e, r) = (e1, r1)" by fastforce
  have "map_of (applied r1) k \<noteq> None" using Cons s by simp
  then show ?case by (cases rule: remove_cases [of x e r]) (simp_all add: s split: if_splits)
qed simp

text \<open>Every key that the loop leaves behind has an error.\<close>

lemma loop_accounts:
  assumes "distinct (map fst es)"
  shows "card {k \<in> fst ` set es. map_of (applied (snd (for_each remove es (e, r)))) k \<noteq> None} + length e
    \<le> length (fst (for_each remove es (e, r)))"
  using assms
proof (induction es arbitrary: e r)
  case (Cons x es)
  obtain e1 r1 where s: "remove x (e, r) = (e1, r1)" by fastforce
  let ?left = "\<lambda>xs. {k \<in> fst ` set xs. map_of (applied (snd (for_each remove es (e1, r1)))) k \<noteq> None}"
  have "card (?left es) + length e1 \<le> length (fst (for_each remove es (e1, r1)))"
    using Cons by simp
  moreover have "card (?left (x # es)) + length e \<le> card (?left es) + length e1"
  proof (cases rule: remove_cases [of x e r])
    case (1 xs)
    have "map_of (applied (snd (for_each remove es (e1, r1)))) (fst x) = None"
      using 1(2) Cons.prems by (subst loop_frame) (auto simp: s)
    then have "?left (x # es) = ?left es" by auto
    then show ?thesis using 1(1) s by simp
  next
    case (2 xs)
    have "?left (x # es) \<subseteq> insert (fst x) (?left es)" by auto
    then have "card (?left (x # es)) \<le> Suc (card (?left es))"
      using card_mono [of "insert (fst x) (?left es)" "?left (x # es)"] card_insert_le_m1
      by (simp add: card_insert_if split: if_splits)
    then show ?thesis using 2(1,2) s by (cases xs) simp_all
  qed
  ultimately show ?case using s by simp
qed simp

lemma range_accounts:
  assumes "gm_ok (applied r)"
  shows "length (applied (snd (for_each remove (range_perm sch (applied r)) (e, r)))) + length e
    \<le> length (fst (for_each remove (range_perm sch (applied r)) (e, r)))"
proof -
  let ?es = "range_perm sch (applied r)"
  let ?fin = "applied (snd (for_each remove ?es (e, r)))"
  have "gm_ok ?fin" using loop_wf [OF assms] .
  then have "length ?fin = card (fst ` set ?fin)"
    using distinct_card [of "map fst ?fin"] by (simp add: gm_ok_def)
  also have "fst ` set ?fin = {k \<in> fst ` set ?es. map_of ?fin k \<noteq> None}"
  proof -
    have "k \<in> fst ` set ?es" if "k \<in> fst ` set ?fin" for k
      using that loop_subset [of ?es e r k] by (simp add: map_of_eq_None_iff)
    then show ?thesis by (auto simp: map_of_eq_None_iff)
  qed
  finally show ?thesis
    using loop_accounts [of ?es e r] gm_ok_range_perm [of sch "applied r"] assms unfolding gm_ok_def by simp
qed

end

section \<open>The four loops\<close>

lemma withdraw_frame:
  "appliedBFD (snd (withdrawPrefix vt x (e, r))) = appliedBFD r"
  "appliedOSPF (snd (withdrawPrefix vt x (e, r))) = appliedOSPF r"
  "appliedPeers (snd (withdrawPrefix vt x (e, r))) = appliedPeers r"
  "appliedPrefixes (snd (withdrawBFD vt b (e, r))) = appliedPrefixes r"
  "appliedOSPF (snd (withdrawBFD vt b (e, r))) = appliedOSPF r"
  "appliedPeers (snd (withdrawBFD vt b (e, r))) = appliedPeers r"
  "appliedPrefixes (snd (withdrawOSPF vt i (e, r))) = appliedPrefixes r"
  "appliedBFD (snd (withdrawOSPF vt i (e, r))) = appliedBFD r"
  "appliedPeers (snd (withdrawOSPF vt i (e, r))) = appliedPeers r"
  "appliedPrefixes (snd (withdrawPeer vt p (e, r))) = appliedPrefixes r"
  "appliedBFD (snd (withdrawPeer vt p (e, r))) = appliedBFD r"
  "appliedOSPF (snd (withdrawPeer vt p (e, r))) = appliedOSPF r"
  by (auto simp: withdrawPrefix_def withdrawBFD_def withdrawOSPF_def withdrawPeer_def frr_call_def
      split: prod.splits option.splits)

interpretation prefix_removal: removal_loop appliedPrefixes "withdrawPrefix vt" for vt
  by unfold_locales (auto simp: withdrawPrefix_def frr_call_def split: prod.splits option.splits)

interpretation bfd_removal: removal_loop appliedBFD "withdrawBFD vt" for vt
  by unfold_locales (auto simp: withdrawBFD_def frr_call_def split: prod.splits option.splits)

interpretation ospf_removal: removal_loop appliedOSPF "withdrawOSPF vt" for vt
  by unfold_locales (auto simp: withdrawOSPF_def frr_call_def split: prod.splits option.splits)

interpretation peer_removal: removal_loop appliedPeers "withdrawPeer vt" for vt
  by unfold_locales (auto simp: withdrawPeer_def frr_call_def split: prod.splits option.splits)

lemma withdraw_loop_frames:
  "appliedBFD (snd (for_each (withdrawPrefix vt) xs s)) = appliedBFD (snd s)"
  "appliedOSPF (snd (for_each (withdrawPrefix vt) xs s)) = appliedOSPF (snd s)"
  "appliedPeers (snd (for_each (withdrawPrefix vt) xs s)) = appliedPeers (snd s)"
  "appliedPrefixes (snd (for_each (withdrawBFD vt) bs s)) = appliedPrefixes (snd s)"
  "appliedOSPF (snd (for_each (withdrawBFD vt) bs s)) = appliedOSPF (snd s)"
  "appliedPeers (snd (for_each (withdrawBFD vt) bs s)) = appliedPeers (snd s)"
  "appliedPrefixes (snd (for_each (withdrawOSPF vt) is s)) = appliedPrefixes (snd s)"
  "appliedBFD (snd (for_each (withdrawOSPF vt) is s)) = appliedBFD (snd s)"
  "appliedPeers (snd (for_each (withdrawOSPF vt) is s)) = appliedPeers (snd s)"
  "appliedPrefixes (snd (for_each (withdrawPeer vt) ps s)) = appliedPrefixes (snd s)"
  "appliedBFD (snd (for_each (withdrawPeer vt) ps s)) = appliedBFD (snd s)"
  "appliedOSPF (snd (for_each (withdrawPeer vt) ps s)) = appliedOSPF (snd s)"
proof -
  have frame: "f (snd (for_each body ys s)) = f (snd s)"
    if "\<And>y e r. f (snd (body y (e, r))) = f r"
    for f :: "Reconciler \<Rightarrow> 'f" and body :: "'y \<Rightarrow> rec_error list \<times> Reconciler \<Rightarrow> rec_error list \<times> Reconciler" and ys
    by (rule for_each_invariant [where P = "\<lambda>t. f (snd t) = f (snd s)"]) (auto simp: that)
  show "appliedBFD (snd (for_each (withdrawPrefix vt) xs s)) = appliedBFD (snd s)"
    "appliedOSPF (snd (for_each (withdrawPrefix vt) xs s)) = appliedOSPF (snd s)"
    "appliedPeers (snd (for_each (withdrawPrefix vt) xs s)) = appliedPeers (snd s)"
    "appliedPrefixes (snd (for_each (withdrawBFD vt) bs s)) = appliedPrefixes (snd s)"
    "appliedOSPF (snd (for_each (withdrawBFD vt) bs s)) = appliedOSPF (snd s)"
    "appliedPeers (snd (for_each (withdrawBFD vt) bs s)) = appliedPeers (snd s)"
    "appliedPrefixes (snd (for_each (withdrawOSPF vt) is s)) = appliedPrefixes (snd s)"
    "appliedBFD (snd (for_each (withdrawOSPF vt) is s)) = appliedBFD (snd s)"
    "appliedPeers (snd (for_each (withdrawOSPF vt) is s)) = appliedPeers (snd s)"
    "appliedPrefixes (snd (for_each (withdrawPeer vt) ps s)) = appliedPrefixes (snd s)"
    "appliedBFD (snd (for_each (withdrawPeer vt) ps s)) = appliedBFD (snd s)"
    "appliedOSPF (snd (for_each (withdrawPeer vt) ps s)) = appliedOSPF (snd s)"
    by (rule frame, rule withdraw_frame)+
qed

text \<open>What is still applied, in all.\<close>

definition applied_count :: "Reconciler \<Rightarrow> nat" where
  "applied_count r = length (appliedPrefixes r) + length (appliedBFD r) + length (appliedOSPF r) + length (appliedPeers r)"

lemma WithdrawAll_count:
  assumes "rec_ok r" and "r_frrClient r \<noteq> None"
  shows "applied_count (snd (WithdrawAll vt order r)) \<le> length (fst (WithdrawAll vt order r))"
proof -
  note ok = rec_ok_gm_ok [OF assms(1)]
  define s1 where "s1 = for_each (withdrawPrefix vt) (range_perm (order 0) (appliedPrefixes r)) ([], r)"
  define s2 where "s2 = for_each (withdrawBFD vt) (range_perm (order 1) (appliedBFD (snd s1))) s1"
  define s3 where "s3 = for_each (withdrawOSPF vt) (range_perm (order 2) (appliedOSPF (snd s2))) s2"
  define s4 where "s4 = for_each (withdrawPeer vt) (range_perm (order 3) (appliedPeers (snd s3))) s3"
  note f = withdraw_loop_frames
  have "length (appliedPrefixes (snd s1)) \<le> length (fst s1)"
    using prefix_removal.range_accounts [where e = "[]", of r vt "order 0"] ok by (simp add: s1_def)
  moreover have "length (appliedBFD (snd s2)) + length (fst s1) \<le> length (fst s2)"
    using bfd_removal.range_accounts [where e = "fst s1" and r = "snd s1", of vt "order 1"] ok
    by (simp add: s2_def s1_def f)
  moreover have "length (appliedOSPF (snd s3)) + length (fst s2) \<le> length (fst s3)"
    using ospf_removal.range_accounts [where e = "fst s2" and r = "snd s2", of vt "order 2"] ok
    by (simp add: s3_def s2_def s1_def f)
  moreover have "length (appliedPeers (snd s4)) + length (fst s3) \<le> length (fst s4)"
    using peer_removal.range_accounts [where e = "fst s3" and r = "snd s3", of vt "order 3"] ok
    by (simp add: s4_def s3_def s2_def s1_def f)
  moreover have "WithdrawAll vt order r = (if fst s4 \<noteq> [] then s4
      else ([], (snd s4)\<lparr>lastBGPStates := [], lastBFDStates := [], lastOSPFStates := []\<rparr>))"
    unfolding WithdrawAll_def Let_def s4_def s3_def s2_def s1_def using assms(2) by (simp only: if_False)
  ultimately show ?thesis
    by (auto simp: applied_count_def s2_def s3_def s4_def f)
qed

lemma withdraw_bodies_ok:
  assumes v: "vtysh_accepts vt" and s: "session as r"
  shows "fst (withdrawPrefix vt x (e, r)) = e" "fst (withdrawBFD vt b (e, r)) = e"
    "fst (withdrawOSPF vt i (e, r)) = e" "fst (withdrawPeer vt p (e, r)) = e"
proof -
  have call: "fst (frr_call (RemoveBFDPeer vt a f) r) = None" "fst (frr_call (disableOSPF vt j) r) = None"
    "fst (frr_call (RemoveNeighbor vt a) r) = None" "fst (frr_call (WithdrawNetwork vt a g) r) = None"
    "fst (frr_call (RemoveRouteMap vt a) r) = None"
    if "session as r" for a f j g r
    using that by (auto intro!: op_RemoveBFDPeer.call_ok [OF v] op_disableOSPF.call_ok [OF v]
        op_RemoveNeighbor.call_ok [OF v] op_WithdrawNetwork.call_ok [OF v] op_RemoveRouteMap.call_ok [OF v])
  show "fst (withdrawBFD vt b (e, r)) = e" "fst (withdrawOSPF vt i (e, r)) = e"
    "fst (withdrawPeer vt p (e, r)) = e"
    using call [OF s]
    by (cases b; cases i; cases p; simp add: withdrawBFD_def withdrawOSPF_def withdrawPeer_def body_ok)+
  obtain y r' where y: "frr_call (WithdrawNetwork vt (pfx_Prefix (snd x)) (detectAFI (pfx_Prefix (snd x)))) r = (y, r')"
    by fastforce
  have "y = None" using call(4) [OF s] y by (metis fst_conv)
  moreover have "session as r'" using session.inv_calls [OF s] y by (metis snd_conv)
  ultimately show "fst (withdrawPrefix vt x (e, r)) = e"
    using call(5) [of r' "routeMapName (pfx_Prefix (snd x))"] y
    by (auto simp: withdrawPrefix_def split: prod.splits option.splits)
qed

lemma WithdrawAll_no_errors:
  assumes v: "vtysh_accepts vt" and s: "session as r"
  shows "fst (WithdrawAll vt order r) = []"
proof -
  have "fst (for_each (withdrawPrefix vt) es (e, r)) = e" "fst (for_each (withdrawBFD vt) bs (e, r)) = e"
    "fst (for_each (withdrawOSPF vt) is (e, r)) = e" "fst (for_each (withdrawPeer vt) ps (e, r)) = e"
    if "session as r" for es bs "is" ps e r
    by (rule for_each_no_errs [where P = "session as"];
        auto simp: that withdraw_bodies_ok [OF v] session.inv_withdraw_bodies)+
  then have loop: "fst (for_each (withdrawPrefix vt) es t) = fst t" "fst (for_each (withdrawBFD vt) bs t) = fst t"
    "fst (for_each (withdrawOSPF vt) is t) = fst t" "fst (for_each (withdrawPeer vt) ps t) = fst t"
    if "session as (snd t)" for es bs "is" ps t
    using that by (cases t; simp)+
  show ?thesis
    using s by (auto simp: WithdrawAll_def Let_def loop session.inv_withdraw_loops)
qed

end
