(* ===== verification/Reconciler_Properties.thy ===== *)
theory Reconciler_Properties
  imports Reconciler_Cycle Reconciler_Withdraw
begin

text \<open>
  The properties of the reconciler, over the lemmas of \<open>Reconciler_Stages\<close> and
  \<open>Reconciler_Cycle\<close>, with a concrete store, client and reconciler for the witnesses.
\<close>

section \<open>The locked sections as a transition system\<close>

text \<open>
  \<open>Reconcile\<close> takes and releases the lock several times, so other methods may run between
  its stages.  Each step is one locked section; the stages of a cycle run only after
  \<open>Reconcile\<close> has seen a client, and a client is never taken away.  \<open>received\<close> is the
  receive from the trigger channel in \<open>RunLoop\<close>.
\<close>

inductive rec_step :: "vtysh \<Rightarrow> Reconciler \<Rightarrow> Reconciler \<Rightarrow> bool" for vt where
  ensure: "rec_step vt r (snd (ensureBGPGlobal vt r))"
| peers: "r_frrClient r \<noteq> None \<Longrightarrow> rec_step vt r (snd (ReconcilePeers vt sd sa ps r))"
| prefixes: "r_frrClient r \<noteq> None \<Longrightarrow> rec_step vt r (snd (ReconcilePrefixes vt sd sa xs r))"
| bfd: "r_frrClient r \<noteq> None \<Longrightarrow> rec_step vt r (snd (ReconcileBFD vt sd sa bs r))"
| ospf: "r_frrClient r \<noteq> None \<Longrightarrow> rec_step vt r (snd (ReconcileOSPF vt sd sa os r))"
| monitor: "rec_step vt r (monitorFRRState vt env r)"
| withdraw: "rec_step vt r (snd (WithdrawAll vt order r))"
| set_client: "rec_step vt r (SetFRRClient (Some c) r)"
| set_publisher: "rec_step vt r (SetEventPublisher p r)"
| update: "rec_step vt r (snd (UpdateBGPGlobal as rid r))"
| trigger: "rec_step vt r (TriggerReconcile r)"
| received: "rec_step vt r (r\<lparr>r_triggerPending := False\<rparr>)"

inductive rec_reachable :: "vtysh \<Rightarrow> Reconciler \<Rightarrow> bool" for vt where
  start: "rec_reachable vt (NewReconciler c g)"
| step: "rec_reachable vt r \<Longrightarrow> rec_step vt r r' \<Longrightarrow> rec_reachable vt r'"

lemma rec_ok_withdraw_bodies:
  assumes "rec_ok r"
  shows "rec_ok (snd (withdrawPrefix vt (k, x) (e, r)))" "rec_ok (snd (withdrawBFD vt (k, b) (e, r)))"
    "rec_ok (snd (withdrawOSPF vt (k, i) (e, r)))" "rec_ok (snd (withdrawPeer vt (k, p) (e, r)))"
proof -
  have call: "rec_ok r'" if "frr_call f s = (y, r')" "rec_ok s" for f s y r'
    using rec_ok_peer_only [OF frr_only_peer_only [OF frr_call_only] that(2)] that(1) by (metis snd_conv)
  show "rec_ok (snd (withdrawBFD vt (k, b) (e, r)))" "rec_ok (snd (withdrawOSPF vt (k, i) (e, r)))"
    "rec_ok (snd (withdrawPeer vt (k, p) (e, r)))"
    using assms
    by (auto simp: withdrawBFD_def withdrawOSPF_def withdrawPeer_def split: prod.splits option.splits
        dest: call intro!: rec_ok_del)
  show "rec_ok (snd (withdrawPrefix vt (k, x) (e, r)))"
    using assms
    by (auto simp: withdrawPrefix_def split: prod.splits option.splits dest!: call intro!: rec_ok_del)
qed

lemma rec_ok_WithdrawAll: "rec_ok r \<Longrightarrow> rec_ok (snd (WithdrawAll vt order r))"
proof -
  assume r: "rec_ok r"
  have loop: "rec_ok (snd (for_each (withdrawPrefix vt) es s))" "rec_ok (snd (for_each (withdrawBFD vt) bs s))"
    "rec_ok (snd (for_each (withdrawOSPF vt) is s))" "rec_ok (snd (for_each (withdrawPeer vt) ps s))"
    if "rec_ok (snd s)" for es bs "is" ps s
    by (rule for_each_invariant [where P = "\<lambda>s. rec_ok (snd s)"],
        auto simp: that rec_ok_withdraw_bodies)+
  show ?thesis by (simp add: WithdrawAll_def Let_def r loop)
qed

lemma rec_step_ok: "rec_step vt r r' \<Longrightarrow> rec_ok r \<Longrightarrow> rec_ok r'"
proof (induction rule: rec_step.induct)
  case (monitor r env)
  then show ?case
    using rec_ok_mon_only [OF monitorFRRState_only]
    by (cases "r_frrClient r") (simp_all add: monitorFRRState_def)
qed (simp_all add: ensureBGPGlobal_ok rec_ok_stages rec_ok_WithdrawAll, simp_all add: rec_ok_def bfd_keyed_def
    SetFRRClient_def SetEventPublisher_def UpdateBGPGlobal_def TriggerReconcile_def Let_def)

lemma ensureBGPGlobal_crashed: "r_crashed (snd (ensureBGPGlobal vt r)) = r_crashed r"
  by (auto simp: ensureBGPGlobal_def Let_def frr_call_def seq_def split: option.splits prod.splits)

lemma rec_step_crashed:
  assumes "rec_step vt r r'" and "\<not> r_crashed r"
  shows "\<not> r_crashed r'"
  using assms
proof (induction rule: rec_step.induct)
  case (peers r sd sa ps)
  then have "alive r" by (simp add: alive_def)
  then show ?case using alive.inv_stages(1) by (auto simp: alive_def)
next
  case (prefixes r sd sa xs)
  then have "alive r" by (simp add: alive_def)
  then show ?case using alive.inv_stages(2) by (auto simp: alive_def)
next
  case (bfd r sd sa bs)
  then have "alive r" by (simp add: alive_def)
  then show ?case using alive.inv_stages(3) by (auto simp: alive_def)
next
  case (ospf r sd sa os)
  then have "alive r" by (simp add: alive_def)
  then show ?case using alive.inv_stages(4) by (auto simp: alive_def)
next
  case (monitor r env)
  then show ?case
    using monitorFRRState_only [of r _ vt env]
    by (cases "r_frrClient r") (auto simp: monitorFRRState_def mon_only_def)
next
  case (withdraw r order)
  then show ?case
    using alive.inv_WithdrawAll [of r vt order]
    by (cases "r_frrClient r") (auto simp: alive_def WithdrawAll_def)
qed (simp_all add: ensureBGPGlobal_crashed SetFRRClient_def SetEventPublisher_def UpdateBGPGlobal_def
    TriggerReconcile_def Let_def)

section \<open>Examples\<close>

definition ex_store :: Store where
  "ex_store = snd (SetPrefixIntent ''nova'' (Some ex_prefix) 8 (snd (SetPeerIntent ''nova'' (Some ex_peer) 7 NewStore)))"

definition ex_env :: Env where
  "ex_env = \<lparr>env_store = \<lambda>_. ex_store, env_outer = \<lambda>_. [], env_inner = \<lambda>_ _. [], env_range = \<lambda>_. []\<rparr>"

definition ex_env2 :: Env where
  "ex_env2 = ex_env\<lparr>env_outer := \<lambda>i. [i], env_range := \<lambda>i. [Suc i]\<rparr>"

definition ex_rec :: Reconciler where
  "ex_rec = NewReconciler (Some (ex_client\<lparr>cl_localAS := 0\<rparr>)) (Some \<lparr>bg_LocalAS = 65000, bg_RouterID = ''1.1.1.1''\<rparr>)"

lemma ex_rec_facts: "rec_ok ex_rec" "r_frrClient ex_rec = Some (ex_client\<lparr>cl_localAS := 0\<rparr>)"
  "\<not> bgpConfigured ex_rec" "r_bgpGlobal ex_rec = Some \<lparr>bg_LocalAS = 65000, bg_RouterID = ''1.1.1.1''\<rparr>"
  "appliedPrefixes ex_rec = []"
  by (simp_all add: ex_rec_def NewReconciler_def rec_ok_def bfd_keyed_def)

lemma ex_env_facts: "reads ex_env ex_store" "reads ex_env2 ex_store"
  by (simp_all add: reads_def ex_env_def ex_env2_def)

lemma ex_store_uncontested: "uncontested ex_store"
  unfolding uncontested_def by code_simp

section \<open>Success of a cycle\<close>

text \<open>The session is ready, or can be made so.\<close>

definition bgp_ready :: "Reconciler \<Rightarrow> bool" where
  "bgp_ready r \<longleftrightarrow> (\<exists>c. r_frrClient r = Some c \<and>
     (if bgpConfigured r then cl_localAS c \<noteq> 0
      else \<exists>g. r_bgpGlobal r = Some g \<and> bg_LocalAS g \<noteq> 0))"

lemma Reconcile_None:
  assumes "vtysh_accepts vt" and "bgp_ready r" and "all_routable r"
    and "\<And>k x. map_of (desired_prefixes env) k = Some x \<Longrightarrow> routable x"
  shows "fst (Reconcile vt env r) = None"
proof -
  obtain c where c: "r_frrClient r = Some c"
    "if bgpConfigured r then cl_localAS c \<noteq> 0 else \<exists>g. r_bgpGlobal r = Some g \<and> bg_LocalAS g \<noteq> 0"
    using assms(2) by (auto simp: bgp_ready_def)
  note e = ensureBGPGlobal_succeeds [OF assms(1) c]
  obtain r0 where r0: "ensureBGPGlobal vt r = (None, r0)" using e(1) by (metis prod.collapse)
  obtain as where as: "as \<noteq> 0" "session as r0" using e(2) r0 by auto
  have "all_routable r0" using e(3) assms(3) r0 by (auto simp: all_routable_def)
  from stages_succeed [OF assms(1) as(2,1) this assms(4)]
  show ?thesis using c(1) r0 by (simp add: Reconcile_stages List.map_filter_simps)
qed

text \<open>The configuration blocks sent so far.\<close>

definition config_runs :: "Reconciler \<Rightarrow> vrun list" where
  "config_runs r = (case r_frrClient r of None \<Rightarrow> [] | Some c \<Rightarrow> filter is_config_run (cl_runs c))"

lemma config_runs_mon_only: "mon_only r r' \<Longrightarrow> config_runs r' = config_runs r"
  by (auto simp: mon_only_def config_runs_def list_all_iff)

lemma Reconcile_idle:
  assumes "rec_ok r" and "synced env r" and "bgpConfigured r" and c: "r_frrClient r = Some c"
  shows "fst (Reconcile vt env r) = None" and "mon_only r (snd (Reconcile vt env r))"
proof -
  let ?m = "r\<lparr>r_metrics := RecordReconcileCycleDuration (r_metrics r)\<rparr>"
  have R: "Reconcile vt env r = (None, monitorFRRState vt env ?m)"
    using assms
    by (simp add: Reconcile_stages ensureBGPGlobal_def stages_idle [OF assms(1,2)] List.map_filter_simps)
  have "mon_only ?m (monitorFRRState vt env ?m)" using c by (intro monitorFRRState_only [where c = c]) simp
  then show "fst (Reconcile vt env r) = None" and "mon_only r (snd (Reconcile vt env r))"
    by (simp_all add: R mon_only_def)
qed

lemma ex_ready: "bgp_ready ex_rec" "all_routable ex_rec"
  by (simp_all add: bgp_ready_def ex_rec_facts all_routable_def)

lemma ex_routable: "map_of (desired_prefixes ex_env) k = Some x \<Longrightarrow> routable x"
proof -
  have "\<forall>p \<in> set (map snd (desired_prefixes ex_env)). pfx_Protocol p = PROTOCOL_BGP"
    by code_simp
  then show "map_of (desired_prefixes ex_env) k = Some x \<Longrightarrow> routable x"
    using map_of_SomeD [of "desired_prefixes ex_env" k x] by (fastforce simp: routable_def)
qed

lemma ex_Reconcile: "fst (Reconcile vtysh_ok ex_env ex_rec) = None"
  by (rule Reconcile_None [OF vtysh_ok_accepts ex_ready ex_routable])

definition ex_applied :: Reconciler where
  "ex_applied = ex_rec\<lparr>appliedPeers := [(''peer:10.0.0.1'', ex_peer)]\<rparr>"

lemma ex_applied_facts: "rec_ok ex_applied" "r_frrClient ex_applied \<noteq> None" "bgp_ready ex_applied"
  "appliedPeers ex_applied \<noteq> []"
  by (simp_all add: ex_applied_def ex_rec_def NewReconciler_def rec_ok_def bfd_keyed_def gm_ok_def bgp_ready_def
      ex_peer_def peerKey_r_def entries_ok_def)

section \<open>Properties\<close>

text \<open>
  Whatever the order in which the locked sections of reconciliation cycles,
  monitoring, withdrawal and the setters interleave, and however \<open>vtysh\<close> answers, every
  applied intent is tracked once and under its own key, and no method is ever called on a
  nil client.
\<close>

theorem rec_reachable_safe:
  assumes "rec_reachable vt r"
  shows "rec_ok r \<and> \<not> r_crashed r"
  using assms
proof (induction rule: rec_reachable.induct)
  case (start c g)
  show ?case by (simp add: NewReconciler_def rec_ok_def bfd_keyed_def)
next
  case (step r r')
  then show ?case using rec_step_ok rec_step_crashed by blast
qed

theorem rec_reachable_safe_witness:
  "rec_ok (snd (ReconcilePeers vtysh_ok [] [] [ex_peer] (SetFRRClient (Some ex_client) (NewReconciler None None))))"
proof -
  have "rec_reachable vtysh_ok (SetFRRClient (Some ex_client) (NewReconciler None None))"
    by (rule rec_reachable.step [OF rec_reachable.start rec_step.set_client])
  then have "rec_reachable vtysh_ok
      (snd (ReconcilePeers vtysh_ok [] [] [ex_peer] (SetFRRClient (Some ex_client) (NewReconciler None None))))"
    by (rule rec_reachable.step [OF _ rec_step.peers]) (simp add: SetFRRClient_def)
  then show ?thesis using rec_reachable_safe by blast
qed

text \<open>
  C4 (functional).  A cycle that reports no error has converged: the applied peers,
  prefixes and OSPF interfaces are exactly those read from the store, with the same
  settings, and so are the BFD sessions, apart from those that peers created; this
  whatever \<open>vtysh\<close> is, in any iteration order, and even if the store changes between the
  reads.
\<close>

theorem Reconcile_converges:
  assumes "Reconcile vt env r = (None, r')" and "r_frrClient r \<noteq> None" and "rec_ok r"
  shows "synced env r'"
  using assms by (rule Reconcile_NoneD(1))

theorem Reconcile_converges_witness:
  "\<exists>r'. Reconcile vtysh_ok ex_env ex_rec = (None, r') \<and> synced ex_env r'"
proof -
  obtain r' where r': "Reconcile vtysh_ok ex_env ex_rec = (None, r')"
    using ex_Reconcile by (metis prod.collapse)
  from Reconcile_converges [OF r'] ex_rec_facts r' show ?thesis by auto
qed

text \<open>
  C5 (functional).  Reconciliation is idempotent: when no two owners claim the same thing,
  a second cycle over the same store, after a cycle without errors, succeeds and sends
  \<open>vtysh\<close> no configuration at all, in whatever order it ranges over the maps.
\<close>

theorem second_cycle_idle:
  assumes "rec_ok r" and "r_frrClient r \<noteq> None" and "uncontested s"
    and "reads env s" and "reads env2 s"
    and "Reconcile vt env r = (None, r1)" and "Reconcile vt env2 r1 = (e, r2)"
  shows "e = None \<and> config_runs r2 = config_runs r1 \<and> appliedPeers r2 = appliedPeers r1 \<and>
    appliedPrefixes r2 = appliedPrefixes r1 \<and> appliedBFD r2 = appliedBFD r1 \<and> appliedOSPF r2 = appliedOSPF r1"
proof -
  note d = Reconcile_NoneD [OF assms(6,2,1)]
  have "synced env2 r1" using d(1) synced_same_reads [OF assms(3-5)] by simp
  obtain c where "r_frrClient r1 = Some c" using d(4) by auto
  from Reconcile_idle [OF d(2) \<open>synced env2 r1\<close> d(3) this, of vt] assms(7)
  have "e = None" and "mon_only r1 r2" by simp_all
  then show ?thesis using config_runs_mon_only by (simp add: mon_only_def)
qed

theorem second_cycle_idle_witness:
  "\<exists>r1 r2. Reconcile vtysh_ok ex_env ex_rec = (None, r1) \<and> Reconcile vtysh_ok ex_env2 r1 = (None, r2) \<and>
     config_runs r2 = config_runs r1"
proof -
  obtain r1 where r1: "Reconcile vtysh_ok ex_env ex_rec = (None, r1)"
    using ex_Reconcile by (metis prod.collapse)
  obtain e r2 where r2: "Reconcile vtysh_ok ex_env2 r1 = (e, r2)" by fastforce
  have "r_frrClient ex_rec \<noteq> None" by (simp add: ex_rec_facts)
  from second_cycle_idle [OF ex_rec_facts(1) this ex_store_uncontested ex_env_facts r1 r2] r1 r2
  show ?thesis by auto
qed

text \<open>
  When \<open>vtysh\<close> accepts, the client is connected, the BGP instance is
  configured or can be (a local AS number is known), and every prefix, desired or applied,
  is of protocol BGP or OSPF, one cycle converges.
\<close>

theorem Reconcile_succeeds:
  assumes "rec_ok r" and "vtysh_accepts vt" and "bgp_ready r" and "all_routable r"
    and "\<forall>x \<in> set (GetPrefixIntents (env_outer env 1) (env_inner env 1) (env_store env 1)). routable x"
  shows "\<exists>r'. Reconcile vt env r = (None, r') \<and> synced env r'"
proof -
  have "routable x" if "map_of (desired_prefixes env) k = Some x" for k x
    using that assms(5) by (auto simp: desired_prefixes_def dest!: index_by_lookup)
  then have "fst (Reconcile vt env r) = None" by (rule Reconcile_None [OF assms(2-4)])
  then obtain r' where r': "Reconcile vt env r = (None, r')" by (cases "Reconcile vt env r") simp
  have "r_frrClient r \<noteq> None" using assms(3) by (auto simp: bgp_ready_def)
  from Reconcile_NoneD(1) [OF r' this assms(1)] r' show ?thesis by simp
qed

theorem Reconcile_succeeds_witness:
  "\<exists>r'. Reconcile vtysh_ok ex_env ex_rec = (None, r') \<and> synced ex_env r'"
proof -
  have "\<forall>x \<in> set (GetPrefixIntents (env_outer ex_env 1) (env_inner ex_env 1) (env_store ex_env 1)). routable x"
    unfolding routable_def by code_simp
  from Reconcile_succeeds [OF ex_rec_facts(1) vtysh_ok_accepts ex_ready this] show ?thesis .
qed

text \<open>
  Shutdown loses track of nothing: whatever \<open>vtysh\<close> answers, after
  \<open>WithdrawAll\<close> there are at most as many entries left as errors returned, so a shutdown
  that reports no error has withdrawn every peer, prefix, BFD session and OSPF interface.
\<close>

theorem WithdrawAll_accounts:
  assumes "rec_ok r" and "r_frrClient r \<noteq> None"
  shows "length (appliedPrefixes (snd (WithdrawAll vt order r))) + length (appliedBFD (snd (WithdrawAll vt order r))) +
    length (appliedOSPF (snd (WithdrawAll vt order r))) + length (appliedPeers (snd (WithdrawAll vt order r)))
    \<le> length (fst (WithdrawAll vt order r))"
  using WithdrawAll_count [OF assms] by (simp add: applied_count_def)

theorem WithdrawAll_accounts_witness:
  "length (appliedPeers (snd (WithdrawAll vtysh_ok (\<lambda>_. []) ex_applied)))
    \<le> length (fst (WithdrawAll vtysh_ok (\<lambda>_. []) ex_applied))"
  using WithdrawAll_accounts [OF ex_applied_facts(1,2), of vtysh_ok "\<lambda>_. []"] by linarith

text \<open>
  When \<open>vtysh\<close> accepts, shutdown succeeds: no error, nothing left
  applied, and the monitored states forgotten.
\<close>

theorem WithdrawAll_succeeds:
  assumes "rec_ok r" and "r_frrClient r \<noteq> None" and "vtysh_accepts vt"
  shows "\<exists>r'. WithdrawAll vt order r = ([], r') \<and> appliedPrefixes r' = [] \<and> appliedBFD r' = [] \<and>
    appliedOSPF r' = [] \<and> appliedPeers r' = [] \<and>
    lastBGPStates r' = [] \<and> lastBFDStates r' = [] \<and> lastOSPFStates r' = []"
proof -
  obtain c where "r_frrClient r = Some c" using assms(2) by auto
  from WithdrawAll_no_errors [OF assms(3) client_session [OF this], of order]
  obtain r' where r': "WithdrawAll vt order r = ([], r')" by (cases "WithdrawAll vt order r") simp
  then have "applied_count r' = 0" using WithdrawAll_count [OF assms(1,2), of vt order] by simp
  moreover have "lastBGPStates r' = [] \<and> lastBFDStates r' = [] \<and> lastOSPFStates r' = []"
    using r' assms(2) by (auto simp: WithdrawAll_def Let_def split: if_splits)
  ultimately show ?thesis using r' by (simp add: applied_count_def)
qed

theorem WithdrawAll_succeeds_witness:
  "\<exists>r'. WithdrawAll vtysh_ok (\<lambda>_. []) ex_applied = ([], r') \<and> appliedPeers r' = []"
  using WithdrawAll_succeeds [OF ex_applied_facts(1,2) vtysh_ok_accepts, of "\<lambda>_. []"] by auto

end
