(* ===== verification/Api_Messages.thy ===== *)
theory Api_Messages
  imports Api_Types Nova_Prelude
begin

text \<open>
  The messages of the RouteControl service (\<open>api/v1/novaroute.pb.go\<close>), field by field.  A
  message-typed field may be absent.  The event message is in \<open>Event_Bus\<close>.
\<close>

record RegisterRequest =
  regq_Owner :: string
  regq_Token :: string
  regq_ReassertIntents :: bool

record RegisterResponse =
  regr_SessionId :: string
  regr_CurrentPrefixes :: "string list"
  regr_CurrentPeers :: "string list"

record DeregisterRequest =
  derq_Owner :: string
  derq_Token :: string
  derq_WithdrawAll :: bool

record ConfigureBGPRequest =
  cfgq_Owner :: string
  cfgq_Token :: string
  cfgq_LocalAs :: uint32
  cfgq_RouterId :: string

record ConfigureBGPResponse =
  cfgr_PreviousAs :: uint32
  cfgr_PreviousRouterId :: string

record BGPPeer =
  bp_NeighborAddress :: string
  bp_RemoteAs :: uint32
  bp_PeerType :: PeerType
  bp_Keepalive :: uint32
  bp_HoldTime :: uint32
  bp_BfdEnabled :: bool
  bp_Description :: string
  bp_AddressFamilies :: "AddressFamily list"
  bp_SourceAddress :: string
  bp_EbgpMultihop :: uint32
  bp_Password :: string
  bp_MaxPrefix :: uint32
  bp_BfdMinRxMs :: uint32
  bp_BfdMinTxMs :: uint32
  bp_BfdDetectMultiplier :: uint32

record ApplyPeerRequest =
  appq_Owner :: string
  appq_Token :: string
  appq_Peer :: "BGPPeer option"

record RemovePeerRequest =
  remq_Owner :: string
  remq_Token :: string
  remq_NeighborAddress :: string

record PrefixAttributes =
  pa_LocalPreference :: uint32
  pa_Communities :: "string list"
  pa_Med :: uint32
  pa_NextHop :: string

record AdvertisePrefixRequest =
  advq_Owner :: string
  advq_Token :: string
  advq_Prefix :: string
  advq_Protocol :: Protocol
  advq_Attributes :: "PrefixAttributes option"

record WithdrawPrefixRequest =
  wdrq_Owner :: string
  wdrq_Token :: string
  wdrq_Prefix :: string
  wdrq_Protocol :: Protocol

record EnableBFDRequest =
  ebfq_Owner :: string
  ebfq_Token :: string
  ebfq_PeerAddress :: string
  ebfq_MinRxMs :: uint32
  ebfq_MinTxMs :: uint32
  ebfq_DetectMultiplier :: uint32
  ebfq_InterfaceName :: string

record DisableBFDRequest =
  dbfq_Owner :: string
  dbfq_Token :: string
  dbfq_PeerAddress :: string

record EnableOSPFRequest =
  eosq_Owner :: string
  eosq_Token :: string
  eosq_InterfaceName :: string
  eosq_AreaId :: string
  eosq_Passive :: bool
  eosq_Cost :: uint32
  eosq_HelloInterval :: uint32
  eosq_DeadInterval :: uint32
  eosq_Ipv6 :: bool

record DisableOSPFRequest =
  dosq_Owner :: string
  dosq_Token :: string
  dosq_InterfaceName :: string

record PeerStatus =
  ps_NeighborAddress :: string
  ps_RemoteAs :: uint32
  ps_State :: string
  ps_Owner :: string
  ps_PrefixesReceived :: uint32
  ps_PrefixesSent :: uint32
  ps_Uptime :: string
  ps_BfdEnabled :: bool
  ps_BfdStatus :: string
  ps_Description :: string

record PrefixStatus =
  xs_Prefix :: string
  xs_Protocol :: Protocol
  xs_Owner :: string
  xs_State :: string

record BFDSessionStatus =
  bs_PeerAddress :: string
  bs_State :: string
  bs_Owner :: string
  bs_MinRxMs :: uint32
  bs_MinTxMs :: uint32
  bs_DetectMultiplier :: uint32
  bs_Uptime :: string

record OSPFInterfaceStatus =
  os_InterfaceName :: string
  os_AreaId :: string
  os_State :: string
  os_Owner :: string
  os_NeighborCount :: uint32
  os_Cost :: uint32
  os_Ipv6 :: bool

record FRRStatus =
  fs_Version :: string
  fs_Connected :: bool
  fs_Uptime :: string

record GetStatusResponse =
  sr_Peers :: "PeerStatus list"
  sr_Prefixes :: "PrefixStatus list"
  sr_BfdSessions :: "BFDSessionStatus list"
  sr_OspfInterfaces :: "OSPFInterfaceStatus list"
  sr_FrrStatus :: "FRRStatus option"

end
