(* ===== verification/Event_Bus.thy ===== *)
theory Event_Bus
  imports Api_Types Metrics "HOL-Library.Sublist"
begin

text \<open>
  The event bus (\<open>internal/server/events.go\<close>) and the streaming call that drains it
  (\<open>StreamEvents\<close> of \<open>internal/server/server.go\<close>).  Channels are objects that the publisher
  and the subscriber share, so they live in a store \<open>eb_chans\<close>, and a channel value is an
  index into it.  Sending on a closed channel and closing one twice make the program panic;
  \<open>eb_panicked\<close> records that.

  The lemmas show that neither panic can happen, that no buffer grows beyond its capacity,
  and that what a subscriber receives is the published events that match its filter, in
  order and without repetition, the ones dropped on a full buffer apart.
\<close>

section \<open>Data\<close>

record RouteEvent =
  ev_Type :: EventType
  ev_Owner :: string
  ev_Detail :: string
  ev_TimestampUnix :: time
  ev_Metadata :: "(string, string) gomap"

record channel =
  ch_buffer :: "RouteEvent list"
  ch_closed :: bool

type_synonym chan = nat

record subscription =
  sub_ch :: chan
  sub_ownerFilter :: string
  sub_typeFilter :: "(string, unit) gomap"

record EventBus =
  eb_subscribers :: "(uint64, subscription) gomap"
  eb_nextID :: uint64
  eb_chans :: "channel list"
  eb_panicked :: bool

definition NewEventBus :: EventBus where
  "NewEventBus = \<lparr>eb_subscribers = [], eb_nextID = 0, eb_chans = [], eb_panicked = False\<rparr>"

text \<open>The capacity \<open>Subscribe\<close> gives its channels.\<close>

definition ch_capacity :: nat where
  "ch_capacity = 256"

section \<open>Channels\<close>

definition upd_chan :: "chan \<Rightarrow> (channel \<Rightarrow> channel) \<Rightarrow> EventBus \<Rightarrow> EventBus" where
  "upd_chan ch f eb = eb\<lparr>eb_chans := (eb_chans eb)[ch := f (eb_chans eb ! ch)]\<rparr>"

text \<open>\<open>select { case ch <- ev: default: }\<close>, and whether the event was sent.\<close>

definition try_send :: "chan \<Rightarrow> RouteEvent \<Rightarrow> EventBus \<Rightarrow> bool \<times> EventBus" where
  "try_send ch ev eb =
     (if ch_closed (eb_chans eb ! ch) then (False, eb\<lparr>eb_panicked := True\<rparr>)
      else if length (ch_buffer (eb_chans eb ! ch)) < ch_capacity
      then (True, upd_chan ch (\<lambda>c. c\<lparr>ch_buffer := ch_buffer c @ [ev]\<rparr>) eb)
      else (False, eb))"

definition close_chan :: "chan \<Rightarrow> EventBus \<Rightarrow> EventBus" where
  "close_chan ch eb =
     (if ch_closed (eb_chans eb ! ch) then eb\<lparr>eb_panicked := True\<rparr>
      else upd_chan ch (\<lambda>c. c\<lparr>ch_closed := True\<rparr>) eb)"

text \<open>\<open>event, ok := <-ch\<close>: not ready, an event, or the end of a closed channel.\<close>

datatype recv_result = RecvBlocked | RecvEvent RouteEvent | RecvClosed

definition recv :: "chan \<Rightarrow> EventBus \<Rightarrow> recv_result \<times> EventBus" where
  "recv ch eb =
     (case ch_buffer (eb_chans eb ! ch) of
        [] \<Rightarrow> (if ch_closed (eb_chans eb ! ch) then RecvClosed else RecvBlocked, eb)
      | ev # rest \<Rightarrow> (RecvEvent ev, upd_chan ch (\<lambda>c. c\<lparr>ch_buffer := rest\<rparr>) eb))"

section \<open>Operations\<close>

definition normalizeType :: "string \<Rightarrow> string" where
  "normalizeType t =
     (let normalized = ToUpper (TrimSpace t) in
      if \<not> HasPrefix normalized ''EVENT_TYPE_'' then ''EVENT_TYPE_'' @ normalized else normalized)"

definition Subscribe :: "string \<Rightarrow> string list \<Rightarrow> EventBus \<Rightarrow> chan \<times> EventBus" where
  "Subscribe ownerFilter types eb =
     (let ch = length (eb_chans eb);
          typeFilter = for_each (\<lambda>t m. gm_put m (normalizeType t) ()) types [];
          i = eb_nextID eb
      in (ch, eb\<lparr>eb_chans := eb_chans eb @ [\<lparr>ch_buffer = [], ch_closed = False\<rparr>],
                 eb_nextID := eb_nextID eb + 1,
                 eb_subscribers := gm_put (eb_subscribers eb) i
                   \<lparr>sub_ch = ch, sub_ownerFilter = ownerFilter, sub_typeFilter = typeFilter\<rparr>\<rparr>))"

definition Unsubscribe :: "sched \<Rightarrow> chan \<Rightarrow> EventBus \<Rightarrow> EventBus" where
  "Unsubscribe order ch eb =
     (case find (\<lambda>(i, sub). sub_ch sub = ch) (range_perm order (eb_subscribers eb)) of
        None \<Rightarrow> eb
      | Some (i, sub) \<Rightarrow>
          (let eb = close_chan (sub_ch sub) eb
           in eb\<lparr>eb_subscribers := gm_del (eb_subscribers eb) i\<rparr>))"

definition matches :: "subscription \<Rightarrow> RouteEvent \<Rightarrow> bool" where
  "matches sub event =
     (if sub_ownerFilter sub \<noteq> [] \<and> ev_Owner event \<noteq> sub_ownerFilter sub then False
      else if 0 < length (sub_typeFilter sub) \<and>
        map_of (sub_typeFilter sub) (EventType_String (ev_Type event)) = None then False
      else True)"

definition deliver ::
    "RouteEvent \<Rightarrow> uint64 \<times> subscription \<Rightarrow> EventBus \<times> metric_log \<Rightarrow> EventBus \<times> metric_log" where
  "deliver event = (\<lambda>(i, sub) (eb, ms).
     if \<not> matches sub event then (eb, ms)
     else
       (case try_send (sub_ch sub) event eb of
          (True, eb) \<Rightarrow> (eb, ms)
        | (False, eb) \<Rightarrow> (eb, RecordEventDropped ms)))"

definition Publish :: "sched \<Rightarrow> RouteEvent \<Rightarrow> EventBus \<times> metric_log \<Rightarrow> EventBus \<times> metric_log" where
  "Publish order event s = for_each (deliver event) (range_perm order (eb_subscribers (fst s))) s"

text \<open>\<open>pb.EventType(eventType)\<close>, a conversion to \<open>int32\<close>.\<close>

definition EventType_of_uint32 :: "uint32 \<Rightarrow> EventType" where
  "EventType_of_uint32 w =
     (let names = [EVENT_TYPE_UNSPECIFIED, EVENT_TYPE_PEER_UP, EVENT_TYPE_PEER_DOWN,
        EVENT_TYPE_PREFIX_ADVERTISED, EVENT_TYPE_PREFIX_WITHDRAWN, EVENT_TYPE_BFD_UP, EVENT_TYPE_BFD_DOWN,
        EVENT_TYPE_OSPF_NEIGHBOR_UP, EVENT_TYPE_OSPF_NEIGHBOR_DOWN, EVENT_TYPE_FRR_CONNECTED,
        EVENT_TYPE_FRR_DISCONNECTED, EVENT_TYPE_OWNER_REGISTERED, EVENT_TYPE_OWNER_DEREGISTERED,
        EVENT_TYPE_POLICY_VIOLATION, EVENT_TYPE_BGP_CONFIG_CHANGED]
      in if unat w < length names then names ! unat w else EVENT_TYPE_OTHER (sint w))"

definition PublishRouteEvent ::
    "sched \<Rightarrow> time \<Rightarrow> uint32 \<Rightarrow> string \<Rightarrow> string \<Rightarrow> (string, string) gomap \<Rightarrow>
     EventBus \<times> metric_log \<Rightarrow> EventBus \<times> metric_log" where
  "PublishRouteEvent order now eventType owner detail meta = (\<lambda>(eb, ms).
     let evt = \<lparr>ev_Type = EventType_of_uint32 eventType, ev_Owner = owner, ev_Detail = detail,
                ev_TimestampUnix = now, ev_Metadata = meta\<rparr>
     in Publish order evt (eb, RecordEvent (EventType_String (ev_Type evt)) ms))"

section \<open>The bus as a transition system\<close>

text \<open>The operations of all the goroutines that share the bus, each a locked section or a
  channel operation.\<close>

datatype bus_op =
    BSubscribe string "string list"
  | BUnsubscribe sched chan
  | BPublish sched RouteEvent
  | BReceive chan

fun bus_step :: "bus_op \<Rightarrow> EventBus \<Rightarrow> EventBus" where
  "bus_step (BSubscribe ow ts) eb = snd (Subscribe ow ts eb)"
| "bus_step (BUnsubscribe order ch) eb = Unsubscribe order ch eb"
| "bus_step (BPublish order ev) eb = fst (Publish order ev (eb, []))"
| "bus_step (BReceive ch) eb = (if ch < length (eb_chans eb) then snd (recv ch eb) else eb)"

definition run_bus :: "bus_op list \<Rightarrow> EventBus \<Rightarrow> EventBus" where
  "run_bus ops eb = fold bus_step ops eb"

section \<open>The invariant\<close>

text \<open>
  A subscriber's identifier is the number of its channel, up to the wrap-around of the
  64-bit counter; its channel is open; no buffer is over capacity; nothing has panicked.
\<close>

definition bus_ok :: "EventBus \<Rightarrow> bool" where
  "bus_ok eb \<longleftrightarrow>
     entries_ok (\<lambda>i sub. i = of_nat (sub_ch sub) \<and> sub_ch sub < length (eb_chans eb) \<and>
       \<not> ch_closed (eb_chans eb ! sub_ch sub)) (eb_subscribers eb) \<and>
     eb_nextID eb = of_nat (length (eb_chans eb)) \<and>
     (\<forall>ch < length (eb_chans eb). length (ch_buffer (eb_chans eb ! ch)) \<le> ch_capacity) \<and> \<not> eb_panicked eb"

lemma bus_ok_sub:
  assumes "bus_ok eb" and "(i, sub) \<in> set (eb_subscribers eb)"
  shows "i = of_nat (sub_ch sub)" "sub_ch sub < length (eb_chans eb)" "\<not> ch_closed (eb_chans eb ! sub_ch sub)"
  using assms by (auto simp: bus_ok_def entries_ok_def)

text \<open>So no two subscribers share a channel.\<close>

lemma bus_ok_sub_unique:
  assumes "bus_ok eb" and "(i, sub) \<in> set (eb_subscribers eb)" and "(j, sub') \<in> set (eb_subscribers eb)"
    and "sub_ch sub = sub_ch sub'"
  shows "i = j \<and> sub = sub'"
proof -
  have "i = j" using bus_ok_sub(1) [OF assms(1,2)] bus_ok_sub(1) [OF assms(1,3)] assms(4) by simp
  moreover have "gm_ok (eb_subscribers eb)" using assms(1) by (auto simp: bus_ok_def entries_ok_gm_ok)
  ultimately show ?thesis using assms(2,3) by (metis gm_entry_lookup option.inject)
qed

definition push :: "RouteEvent \<Rightarrow> channel \<Rightarrow> channel" where
  "push ev c = c\<lparr>ch_buffer := (if length (ch_buffer c) < ch_capacity then ch_buffer c @ [ev] else ch_buffer c)\<rparr>"

lemma ch_closed_push [simp]: "ch_closed (push ev c) = ch_closed c"
  by (simp add: push_def)

lemma upd_chan_sel [simp]:
  "eb_chans (upd_chan ch f eb) = (eb_chans eb)[ch := f (eb_chans eb ! ch)]"
  "eb_subscribers (upd_chan ch f eb) = eb_subscribers eb" "eb_nextID (upd_chan ch f eb) = eb_nextID eb"
  "eb_panicked (upd_chan ch f eb) = eb_panicked eb"
  by (simp_all add: upd_chan_def)

lemma upd_chan_same: "f (eb_chans eb ! ch) = eb_chans eb ! ch \<Longrightarrow> upd_chan ch f eb = eb"
  by (simp add: upd_chan_def)

lemma fst_deliver:
  assumes "\<not> ch_closed (eb_chans eb ! sub_ch sub)"
  shows "fst (deliver ev (i, sub) (eb, ms)) =
    (if matches sub ev then upd_chan (sub_ch sub) (push ev) eb else eb)"
  using assms upd_chan_same [of "push ev" eb "sub_ch sub"]
  by (auto simp: deliver_def try_send_def push_def upd_chan_def)

lemma snd_deliver:
  assumes "\<not> ch_closed (eb_chans eb ! sub_ch sub)"
  shows "snd (deliver ev (i, sub) (eb, ms)) =
    (if matches sub ev \<and> length (ch_buffer (eb_chans eb ! sub_ch sub)) \<ge> ch_capacity
     then ms @ [EventsDropped] else ms)"
  using assms by (auto simp: deliver_def try_send_def RecordEventDropped_def)

text \<open>What publishing does to the subscriber with channel \<open>ch\<close>.\<close>

definition addressed :: "(uint64 \<times> subscription) list \<Rightarrow> RouteEvent \<Rightarrow> chan \<Rightarrow> bool" where
  "addressed es ev ch \<longleftrightarrow> (\<exists>e \<in> set es. sub_ch (snd e) = ch \<and> matches (snd e) ev)"

lemma addressed_simps [simp]:
  "\<not> addressed [] ev ch"
  "addressed (e # es) ev ch \<longleftrightarrow> sub_ch (snd e) = ch \<and> matches (snd e) ev \<or> addressed es ev ch"
  "addressed (range_perm order es) ev ch = addressed es ev ch"
  by (auto simp: addressed_def)

definition pushed :: "(uint64 \<times> subscription) list \<Rightarrow> RouteEvent \<Rightarrow> EventBus \<Rightarrow> EventBus" where
  "pushed es ev eb = eb\<lparr>eb_chans :=
     map (\<lambda>ch. if addressed es ev ch then push ev (eb_chans eb ! ch) else eb_chans eb ! ch)
       [0..<length (eb_chans eb)]\<rparr>"

lemma pushed_sel [simp]:
  "eb_subscribers (pushed es ev eb) = eb_subscribers eb" "eb_nextID (pushed es ev eb) = eb_nextID eb"
  "eb_panicked (pushed es ev eb) = eb_panicked eb" "length (eb_chans (pushed es ev eb)) = length (eb_chans eb)"
  "ch < length (eb_chans eb) \<Longrightarrow> eb_chans (pushed es ev eb) ! ch =
     (if addressed es ev ch then push ev (eb_chans eb ! ch) else eb_chans eb ! ch)"
  by (simp_all add: pushed_def)

lemma pushed_Nil: "pushed [] ev eb = eb"
  by (simp add: pushed_def map_nth)

lemma pushed_Cons:
  assumes "sub_ch (snd e) \<notin> (\<lambda>e. sub_ch (snd e)) ` set es" and "sub_ch (snd e) < length (eb_chans eb)"
  shows "pushed es ev (if matches (snd e) ev then upd_chan (sub_ch (snd e)) (push ev) eb else eb) = pushed (e # es) ev eb"
    (is "pushed es ev ?eb = _")
proof (rule EventBus.equality)
  have "\<not> addressed es ev (sub_ch (snd e))" using assms(1) by (metis (no_types, lifting) addressed_def image_eqI)
  then show "eb_chans (pushed es ev ?eb) = eb_chans (pushed (e # es) ev eb)"
    using assms(2) by (intro nth_equalityI) (auto simp: nth_list_update split: if_splits)
qed simp_all

lemma deliver_loop:
  assumes "distinct (map (\<lambda>e. sub_ch (snd e)) es)"
    and "\<forall>e \<in> set es. sub_ch (snd e) < length (eb_chans eb) \<and> \<not> ch_closed (eb_chans eb ! sub_ch (snd e))"
  shows "fst (for_each (deliver ev) es (eb, ms)) = pushed es ev eb"
    and "snd (for_each (deliver ev) es (eb, ms)) = ms @ replicate (length (filter (\<lambda>e. matches (snd e) ev \<and>
      length (ch_buffer (eb_chans eb ! sub_ch (snd e))) \<ge> ch_capacity) es)) EventsDropped"
proof -
  have "fst (for_each (deliver ev) es (eb, ms)) = pushed es ev eb \<and>
    snd (for_each (deliver ev) es (eb, ms)) = ms @ replicate (length (filter (\<lambda>e. matches (snd e) ev \<and>
      length (ch_buffer (eb_chans eb ! sub_ch (snd e))) \<ge> ch_capacity) es)) EventsDropped"
    using assms
  proof (induction es arbitrary: eb ms)
    case (Cons e es)
    obtain i sub where e: "e = (i, sub)" by fastforce
    have c: "sub_ch sub < length (eb_chans eb)" "\<not> ch_closed (eb_chans eb ! sub_ch sub)"
      using Cons.prems(2) e by auto
    let ?eb = "if matches sub ev then upd_chan (sub_ch sub) (push ev) eb else eb"
    obtain ms' where d: "deliver ev e (eb, ms) = (?eb, ms')" and ms': "ms' = snd (deliver ev (i, sub) (eb, ms))"
      using fst_deliver [OF c(2), of ev i ms] e by (metis prod.collapse)
    have other: "eb_chans ?eb ! sub_ch (snd e') = eb_chans eb ! sub_ch (snd e')" if "e' \<in> set es" for e'
    proof -
      have "sub_ch (snd e') \<noteq> sub_ch sub" using Cons.prems(1) that e by (auto simp: image_iff)
      then show ?thesis by simp
    qed
    have IH: "fst (for_each (deliver ev) es (?eb, ms')) = pushed es ev ?eb"
      "snd (for_each (deliver ev) es (?eb, ms')) = ms' @ replicate (length (filter (\<lambda>e. matches (snd e) ev \<and>
        length (ch_buffer (eb_chans ?eb ! sub_ch (snd e))) \<ge> ch_capacity) es)) EventsDropped"
      using Cons.IH [of ?eb ms'] Cons.prems other by (auto simp: upd_chan_def)
    have "filter (\<lambda>e. matches (snd e) ev \<and> length (ch_buffer (eb_chans ?eb ! sub_ch (snd e))) \<ge> ch_capacity) es =
      filter (\<lambda>e. matches (snd e) ev \<and> length (ch_buffer (eb_chans eb ! sub_ch (snd e))) \<ge> ch_capacity) es"
      using other by (intro filter_cong) auto
    moreover have "pushed es ev ?eb = pushed (e # es) ev eb"
      using pushed_Cons [of e es eb ev] Cons.prems(1) c(1) by (simp add: e split: if_splits)
    ultimately show ?case using IH d ms' snd_deliver [OF c(2), of ev i ms] e by simp
  qed (simp add: pushed_Nil)
  then show "fst (for_each (deliver ev) es (eb, ms)) = pushed es ev eb"
    and "snd (for_each (deliver ev) es (eb, ms)) = ms @ replicate (length (filter (\<lambda>e. matches (snd e) ev \<and>
      length (ch_buffer (eb_chans eb ! sub_ch (snd e))) \<ge> ch_capacity) es)) EventsDropped" by blast+
qed

lemma Publish_pushed:
  assumes "bus_ok eb"
  shows "fst (Publish order ev (eb, ms)) = pushed (eb_subscribers eb) ev eb"
    and "snd (Publish order ev (eb, ms)) = ms @ replicate (length (filter (\<lambda>e. matches (snd e) ev \<and>
      length (ch_buffer (eb_chans eb ! sub_ch (snd e))) \<ge> ch_capacity) (eb_subscribers eb))) EventsDropped"
proof -
  let ?es = "range_perm order (eb_subscribers eb)"
  have ok: "\<forall>e \<in> set ?es. sub_ch (snd e) < length (eb_chans eb) \<and> \<not> ch_closed (eb_chans eb ! sub_ch (snd e))"
    using bus_ok_sub [OF assms] by fastforce
  have "gm_ok ?es" using assms by (auto simp: bus_ok_def dest: entries_ok_gm_ok)
  then have d: "distinct (map (\<lambda>e. sub_ch (snd e)) ?es)"
    using bus_ok_sub_unique [OF assms]
    by (auto simp: distinct_map gm_ok_def inj_on_def intro: distinct_map [THEN iffD1, THEN conjunct1])
  have "pushed ?es ev eb = pushed (eb_subscribers eb) ev eb" by (simp add: pushed_def)
  moreover have "length (filter P ?es) = length (filter P (eb_subscribers eb))" for P
    using mset_range_perm [of order "eb_subscribers eb"] by (metis mset_filter size_mset)
  ultimately show "fst (Publish order ev (eb, ms)) = pushed (eb_subscribers eb) ev eb"
    and "snd (Publish order ev (eb, ms)) = ms @ replicate (length (filter (\<lambda>e. matches (snd e) ev \<and>
      length (ch_buffer (eb_chans eb ! sub_ch (snd e))) \<ge> ch_capacity) (eb_subscribers eb))) EventsDropped"
    using deliver_loop [OF d ok, of ev ms] by (simp_all add: Publish_def)
qed

lemma pushed_ok: "bus_ok eb \<Longrightarrow> bus_ok (pushed es ev eb)"
  by (auto simp: bus_ok_def entries_ok_def push_def)

lemma Publish_ok: "bus_ok eb \<Longrightarrow> bus_ok (fst (Publish order ev (eb, ms)))"
  by (simp add: Publish_pushed pushed_ok)

lemma Subscribe_ok: "bus_ok eb \<Longrightarrow> bus_ok (snd (Subscribe ow ts eb))"
  by (auto simp: bus_ok_def Subscribe_def Let_def nth_append
      intro!: entries_ok_put elim!: entries_ok_mono)

lemma Unsubscribe_cases:
  assumes "bus_ok eb"
  obtains (gone) "Unsubscribe order ch eb = eb" "\<forall>(i, sub) \<in> set (eb_subscribers eb). sub_ch sub \<noteq> ch"
  | (found) sub where "(of_nat ch, sub) \<in> set (eb_subscribers eb)" "sub_ch sub = ch"
      "Unsubscribe order ch eb = (upd_chan ch (\<lambda>c. c\<lparr>ch_closed := True\<rparr>) eb)
         \<lparr>eb_subscribers := gm_del (eb_subscribers eb) (of_nat ch)\<rparr>"
proof (cases "find (\<lambda>(i, sub). sub_ch sub = ch) (range_perm order (eb_subscribers eb))")
  case None
  then have "\<forall>(i, sub) \<in> set (eb_subscribers eb). sub_ch sub \<noteq> ch" by (auto simp: find_None_iff)
  then show thesis using gone None by (simp add: Unsubscribe_def)
next
  case (Some e)
  obtain i sub where e: "e = (i, sub)" by fastforce
  with Some have s: "(i, sub) \<in> set (eb_subscribers eb)" "sub_ch sub = ch"
    using find_SomeD [OF Some] by auto
  note sub = bus_ok_sub [OF assms s(1)]
  show thesis
    using found [of sub] s sub Some e by (simp add: Unsubscribe_def close_chan_def)
qed

lemma Unsubscribe_ok:
  assumes "bus_ok eb"
  shows "bus_ok (Unsubscribe order ch eb)"
proof (cases rule: Unsubscribe_cases [OF assms, of order ch])
  case (2 sub)
  have "s \<in> set (eb_subscribers eb) \<and> sub_ch (snd s) \<noteq> ch"
    if "s \<in> set (gm_del (eb_subscribers eb) (of_nat ch))" for s
    using bus_ok_sub(1) [OF assms, of "fst s" "snd s"] that by (auto simp: gm_del_def)
  moreover have "gm_ok (gm_del (eb_subscribers eb) (of_nat ch))"
    using assms by (auto simp: bus_ok_def entries_ok_def)
  ultimately have "entries_ok (\<lambda>i s. i = of_nat (sub_ch s) \<and> sub_ch s < length (eb_chans eb) \<and>
      \<not> ch_closed (eb_chans eb ! sub_ch s) \<and> sub_ch s \<noteq> ch) (gm_del (eb_subscribers eb) (of_nat ch))"
    using assms by (simp add: bus_ok_def entries_ok_def)
  then show ?thesis
    using assms 2 bus_ok_sub(2) [OF assms 2(1)] by (auto simp: bus_ok_def nth_list_update elim!: entries_ok_mono)
qed (simp add: assms)

lemma recv_ok:
  assumes "bus_ok eb" and "ch < length (eb_chans eb)"
  shows "bus_ok (snd (recv ch eb))"
proof (cases "ch_buffer (eb_chans eb ! ch)")
  case (Cons ev rest)
  moreover have "length (ch_buffer (eb_chans eb ! ch)) \<le> ch_capacity" using assms by (auto simp: bus_ok_def)
  ultimately show ?thesis
    using assms by (auto simp: recv_def bus_ok_def nth_list_update elim!: entries_ok_mono)
qed (simp add: recv_def assms)

lemma bus_step_ok: "bus_ok eb \<Longrightarrow> bus_ok (bus_step op eb)"
  by (cases op) (simp_all add: Subscribe_ok Unsubscribe_ok Publish_ok recv_ok)

lemma run_bus_simps [simp]: "run_bus [] eb = eb" "run_bus (op # ops) eb = run_bus ops (bus_step op eb)"
  by (simp_all add: run_bus_def)

lemma run_bus_ok: "bus_ok eb \<Longrightarrow> bus_ok (run_bus ops eb)"
  by (induction ops arbitrary: eb) (simp_all add: bus_step_ok)

section \<open>What a subscriber receives\<close>

text \<open>The events that receives from \<open>ch\<close> return, and the events published, in a run.\<close>

fun received :: "chan \<Rightarrow> bus_op list \<Rightarrow> EventBus \<Rightarrow> RouteEvent list" where
  "received ch [] eb = []"
| "received ch (op # ops) eb =
     (case op of
        BReceive c \<Rightarrow> if c = ch then (case fst (recv ch eb) of RecvEvent ev \<Rightarrow> [ev] | _ \<Rightarrow> []) else []
      | _ \<Rightarrow> []) @ received ch ops (bus_step op eb)"

fun published :: "bus_op list \<Rightarrow> RouteEvent list" where
  "published [] = []"
| "published (BPublish order ev # ops) = ev # published ops"
| "published (op # ops) = published ops"

fun subscribes :: "bus_op list \<Rightarrow> nat" where
  "subscribes [] = 0"
| "subscribes (BSubscribe ow ts # ops) = Suc (subscribes ops)"
| "subscribes (op # ops) = subscribes ops"

fun unsubscribes :: "chan \<Rightarrow> bus_op \<Rightarrow> bool" where
  "unsubscribes ch (BUnsubscribe order c) = (c = ch)"
| "unsubscribes ch op = False"

definition subscribed :: "EventBus \<Rightarrow> chan \<Rightarrow> subscription \<Rightarrow> bool" where
  "subscribed eb ch sub \<longleftrightarrow> map_of (eb_subscribers eb) (of_nat ch) = Some sub \<and> sub_ch sub = ch"

definition buffered :: "EventBus \<Rightarrow> chan \<Rightarrow> RouteEvent list" where
  "buffered eb ch = ch_buffer (eb_chans eb ! ch)"

lemma subscribed_entry: "subscribed eb ch sub \<Longrightarrow> (of_nat ch, sub) \<in> set (eb_subscribers eb)"
  by (auto simp: subscribed_def dest: map_of_SomeD)

lemma subscribed_step:
  assumes "bus_ok eb" and "subscribed eb ch sub" and "\<not> unsubscribes ch op"
    and "length (eb_chans eb) < 2 ^ 64"
  shows "subscribed (bus_step op eb) ch sub"
proof (cases op)
  case (BSubscribe ow ts)
  have "sub_ch sub < length (eb_chans eb)" using bus_ok_sub(2) [OF assms(1) subscribed_entry [OF assms(2)]] .
  then have "(of_nat ch :: uint64) \<noteq> of_nat (length (eb_chans eb))"
    using assms(2,4) by (auto simp: subscribed_def word_of_nat_eq_iff take_bit_nat_eq_self)
  then show ?thesis
    using assms(1,2) BSubscribe by (simp add: subscribed_def Subscribe_def Let_def bus_ok_def)
next
  case (BUnsubscribe order c)
  then have "c \<noteq> ch" using assms(3) by simp
  show ?thesis
  proof (cases rule: Unsubscribe_cases [OF assms(1), of order c])
    case (2 sub')
    have "map_of (eb_subscribers eb) (of_nat c) = Some sub'"
      using assms(1) 2(1) by (auto simp: bus_ok_def dest: entries_ok_gm_ok intro: gm_entry_lookup)
    then have "(of_nat ch :: uint64) \<noteq> of_nat c"
      using assms(2) 2(2) \<open>c \<noteq> ch\<close> by (auto simp: subscribed_def)
    then show ?thesis using assms(2) BUnsubscribe 2 by (simp add: subscribed_def)
  qed (use assms(2) BUnsubscribe in simp)
next
  case (BPublish order ev)
  then show ?thesis using assms(1,2) by (simp add: subscribed_def Publish_pushed)
next
  case (BReceive c)
  then show ?thesis using assms(2) by (auto simp: subscribed_def recv_def split: list.split)
qed

lemma addressed_subscribed:
  assumes "bus_ok eb" and "subscribed eb ch sub"
  shows "addressed (eb_subscribers eb) ev ch \<longleftrightarrow> matches sub ev"
proof
  assume "addressed (eb_subscribers eb) ev ch"
  then obtain i s where s: "(i, s) \<in> set (eb_subscribers eb)" "sub_ch s = ch" "matches s ev"
    by (auto simp: addressed_def)
  with bus_ok_sub_unique [OF assms(1) s(1) subscribed_entry [OF assms(2)]] assms(2)
  show "matches sub ev" by (simp add: subscribed_def)
next
  assume "matches sub ev"
  then show "addressed (eb_subscribers eb) ev ch"
    using subscribed_entry [OF assms(2)] assms(2) by (force simp: addressed_def subscribed_def)
qed

lemma recv_events:
  "(case fst (recv ch eb) of RecvBlocked \<Rightarrow> [] | RecvEvent ev \<Rightarrow> [ev] | RecvClosed \<Rightarrow> []) = take 1 (buffered eb ch)"
  by (simp add: recv_def buffered_def split: list.split)

text \<open>One step, seen from the subscriber.\<close>

lemma buffered_step:
  assumes "bus_ok eb" and "subscribed eb ch sub"
  shows "buffered (bus_step op eb) ch = (case op of
      BPublish order ev \<Rightarrow> if matches sub ev \<and> length (buffered eb ch) < ch_capacity
        then buffered eb ch @ [ev] else buffered eb ch
    | BReceive c \<Rightarrow> if c = ch then tl (buffered eb ch) else buffered eb ch
    | _ \<Rightarrow> buffered eb ch)"
proof -
  have ch: "ch < length (eb_chans eb)"
    using bus_ok_sub(2) [OF assms(1) subscribed_entry [OF assms(2)]] assms(2) by (simp add: subscribed_def)
  show ?thesis
  proof (cases op)
    case (BSubscribe ow ts)
    then show ?thesis using ch by (simp add: Subscribe_def Let_def buffered_def nth_append)
  next
    case (BUnsubscribe order c)
    show ?thesis
      by (cases rule: Unsubscribe_cases [OF assms(1), of order c]; cases "c = ch")
        (use ch BUnsubscribe in \<open>simp_all add: buffered_def\<close>)
  next
    case (BPublish order ev)
    then show ?thesis
      using ch assms by (simp add: Publish_pushed addressed_subscribed buffered_def push_def)
  next
    case (BReceive c)
    then show ?thesis
      using ch by (auto simp: buffered_def recv_def nth_list_update split: list.split)
  qed
qed

lemma eb_chans_step:
  "bus_ok eb \<Longrightarrow> length (eb_chans (bus_step op eb)) = length (eb_chans eb) + subscribes [op]"
proof (cases op)
  case (BUnsubscribe order c)
  assume "bus_ok eb"
  then show ?thesis by (cases rule: Unsubscribe_cases [of eb order c]) (simp_all add: BUnsubscribe)
qed (auto simp: Subscribe_def Let_def Publish_pushed recv_def split: list.split)

lemma received_buffered:
  assumes "bus_ok eb" and "subscribed eb ch sub" and "\<forall>op \<in> set ops. \<not> unsubscribes ch op"
    and "length (eb_chans eb) + subscribes ops < 2 ^ 64"
  shows "subseq (received ch ops eb @ buffered (run_bus ops eb) ch)
      (buffered eb ch @ filter (matches sub) (published ops))"
    and "length (buffered eb ch) + length (filter (matches sub) (published ops)) \<le> ch_capacity \<Longrightarrow>
      received ch ops eb @ buffered (run_bus ops eb) ch = buffered eb ch @ filter (matches sub) (published ops)"
proof -
  have "subseq (received ch ops eb @ buffered (run_bus ops eb) ch)
      (buffered eb ch @ filter (matches sub) (published ops)) \<and>
    (length (buffered eb ch) + length (filter (matches sub) (published ops)) \<le> ch_capacity \<longrightarrow>
      received ch ops eb @ buffered (run_bus ops eb) ch = buffered eb ch @ filter (matches sub) (published ops))"
    using assms
  proof (induction ops arbitrary: eb)
    case (Cons op ops)
    have s: "subscribed (bus_step op eb) ch sub"
      using subscribed_step [OF Cons.prems(1,2), of op] Cons.prems(3,4) by simp
    have l: "length (eb_chans (bus_step op eb)) + subscribes ops < 2 ^ 64"
      using eb_chans_step [OF Cons.prems(1), of op] Cons.prems(4) by (cases op) simp_all
    note IH = Cons.IH [OF bus_step_ok [OF Cons.prems(1)] s _ l] and b = buffered_step [OF Cons.prems(1,2), of op]
    show ?case
    proof (cases op)
      case (BPublish order ev)
      have "subseq (buffered eb ch @ filter (matches sub) (published ops))
        (buffered eb ch @ filter (matches sub) (published (op # ops)))"
        using BPublish by (auto intro: list_emb_append_mono)
      then show ?thesis using IH Cons.prems(3) b BPublish by (auto split: if_splits intro: subseq_order.trans)
    next
      case (BReceive c)
      then show ?thesis
        using IH Cons.prems(3) b by (cases "buffered eb ch") (auto simp: recv_events simp del: bus_step.simps)
    qed (use IH Cons.prems(3) b in auto)
  qed simp
  then show "subseq (received ch ops eb @ buffered (run_bus ops eb) ch)
      (buffered eb ch @ filter (matches sub) (published ops))"
    and "length (buffered eb ch) + length (filter (matches sub) (published ops)) \<le> ch_capacity \<Longrightarrow>
      received ch ops eb @ buffered (run_bus ops eb) ch = buffered eb ch @ filter (matches sub) (published ops)"
    by blast+
qed

section \<open>The streaming call\<close>

text \<open>
  What the \<open>select\<close> of \<open>StreamEvents\<close> does next: receive, with the outcome of \<open>stream.Send\<close>
  on the event, or see the client's context done; between two rounds, other goroutines use
  the bus.  The gRPC stream is code outside the program: whether a send fails, and with
  what, is a choice of the environment.
\<close>

datatype stream_act =
    SelectRecv "string option"
  | SelectDone string
  | OtherOp bus_op

datatype stream_result = StreamClosed | StreamSendError string | StreamContextErr string

text \<open>The loop: the result when it returned, and the events sent.\<close>

fun stream_loop ::
    "chan \<Rightarrow> stream_act list \<Rightarrow> EventBus \<Rightarrow> stream_result option \<times> RouteEvent list \<times> EventBus" where
  "stream_loop ch [] eb = (None, [], eb)"
| "stream_loop ch (SelectRecv err # acts) eb =
     (case recv ch eb of
        (RecvBlocked, eb) \<Rightarrow> stream_loop ch acts eb
      | (RecvClosed, eb) \<Rightarrow> (Some StreamClosed, [], eb)
      | (RecvEvent ev, eb) \<Rightarrow>
          (case err of
             Some e \<Rightarrow> (Some (StreamSendError e), [], eb)
           | None \<Rightarrow> (case stream_loop ch acts eb of (r, evs, eb) \<Rightarrow> (r, ev # evs, eb))))"
| "stream_loop ch (SelectDone e # acts) eb = (Some (StreamContextErr e), [], eb)"
| "stream_loop ch (OtherOp op # acts) eb = stream_loop ch acts (bus_step op eb)"

text \<open>When the loop returns, the deferred \<open>Unsubscribe\<close> runs.\<close>

definition StreamEvents ::
    "string \<Rightarrow> string list \<Rightarrow> sched \<Rightarrow> stream_act list \<Rightarrow> EventBus \<Rightarrow>
     stream_result option \<times> RouteEvent list \<times> EventBus" where
  "StreamEvents ownerFilter eventTypes order acts eb =
     (let (ch, eb) = Subscribe ownerFilter eventTypes eb;
          (r, evs, eb) = stream_loop ch acts eb
      in (r, evs, if r = None then eb else Unsubscribe order ch eb))"

text \<open>The stream as a run of the bus.\<close>

fun stream_ops :: "chan \<Rightarrow> stream_act list \<Rightarrow> bus_op list" where
  "stream_ops ch [] = []"
| "stream_ops ch (SelectRecv err # acts) = BReceive ch # stream_ops ch acts"
| "stream_ops ch (SelectDone e # acts) = []"
| "stream_ops ch (OtherOp op # acts) = op # stream_ops ch acts"

text \<open>Nobody but the stream itself has its channel.\<close>

definition exclusive :: "chan \<Rightarrow> stream_act list \<Rightarrow> bool" where
  "exclusive ch acts \<longleftrightarrow> (\<forall>op. OtherOp op \<in> set acts \<longrightarrow> \<not> unsubscribes ch op \<and> op \<noteq> BReceive ch)"

lemma exclusive_simps [simp]:
  "exclusive ch []" "exclusive ch (SelectRecv err # acts) = exclusive ch acts"
  "exclusive ch (OtherOp op # acts) = (\<not> unsubscribes ch op \<and> op \<noteq> BReceive ch \<and> exclusive ch acts)"
  by (auto simp: exclusive_def)

lemma stream_loop_ok:
  assumes "bus_ok eb" and "ch < length (eb_chans eb)"
  shows "bus_ok (snd (snd (stream_loop ch acts eb)))"
  using assms
proof (induction ch acts eb rule: stream_loop.induct)
  case (2 ch err acts eb)
  have "bus_ok (snd (recv ch eb))" "length (eb_chans (snd (recv ch eb))) = length (eb_chans eb)"
    using recv_ok [OF 2(3,4)] by (auto simp: recv_def split: list.split)
  then show ?case using 2 by (auto split: prod.splits recv_result.splits option.splits)
next
  case (4 ch op acts eb)
  then show ?case using bus_step_ok [of eb op] eb_chans_step [of eb op] by simp
qed simp_all

lemma stream_loop_sent:
  assumes "bus_ok eb" and "subscribed eb ch sub" and "exclusive ch acts"
    and "length (eb_chans eb) + subscribes (stream_ops ch acts) < 2 ^ 64"
  shows "prefix (fst (snd (stream_loop ch acts eb))) (received ch (stream_ops ch acts) eb)"
  using assms
proof (induction ch acts eb rule: stream_loop.induct)
  case (2 ch err acts eb)
  have ch: "ch < length (eb_chans eb)"
    using bus_ok_sub(2) [OF 2(3) subscribed_entry [OF 2(4)]] 2(4) by (simp add: subscribed_def)
  have s: "subscribed (snd (recv ch eb)) ch sub" "bus_ok (snd (recv ch eb))"
    "length (eb_chans (snd (recv ch eb))) = length (eb_chans eb)"
    using subscribed_step [OF 2(3,4), of "BReceive ch"] 2(6) ch recv_ok [OF 2(3) ch]
    by (simp_all, auto simp: recv_def split: list.split)
  show ?case
    using 2 s ch by (auto split: prod.splits recv_result.splits option.splits)
next
  case (4 ch op acts eb)
  have "subscribed (bus_step op eb) ch sub"
    using subscribed_step [OF 4(2,3), of op] 4(4,5) by simp
  moreover have "length (eb_chans (bus_step op eb)) + subscribes (stream_ops ch acts) < 2 ^ 64"
    using eb_chans_step [OF 4(2), of op] 4(5) by (cases op) simp_all
  ultimately have "prefix (fst (snd (stream_loop ch acts (bus_step op eb))))
      (received ch (stream_ops ch acts) (bus_step op eb))"
    using 4 bus_step_ok by simp
  moreover have "received ch (op # stream_ops ch acts) eb = received ch (stream_ops ch acts) (bus_step op eb)"
    using 4(4) by (cases op) auto
  ultimately show ?case by simp
qed simp_all

section \<open>Type filters\<close>

fun named :: "EventType \<Rightarrow> bool" where
  "named (EVENT_TYPE_OTHER n) = False"
| "named ty = True"

lemma hd_dec: "is_digit (hd (dec n))"
  using dec_digits [of n] dec_not_Nil [of n] by (cases "dec n") auto

lemma EventType_String_OTHER: "named ty \<Longrightarrow> EventType_String (EVENT_TYPE_OTHER n) \<noteq> EventType_String ty"
proof -
  have "hd (dec_int n) \<noteq> CHR ''E''"
    using hd_dec [of "nat n"] hd_dec [of "nat (- n)"] by (auto simp: dec_int_def is_digit_def)
  then show "named ty \<Longrightarrow> EventType_String (EVENT_TYPE_OTHER n) \<noteq> EventType_String ty"
    by (cases ty) auto
qed

lemma EventType_String_inject:
  assumes "named ty"
  shows "EventType_String ty' = EventType_String ty \<longleftrightarrow> ty' = ty"
proof (cases "named ty'")
  case True
  then show ?thesis using assms by (cases ty; cases ty'; simp)
next
  case False
  then obtain n where "ty' = EVENT_TYPE_OTHER n" by (cases ty') auto
  then show ?thesis using assms EventType_String_OTHER [OF assms] by (cases ty) auto
qed

text \<open>The short form of a name, as a client may send it.\<close>

definition short_name :: "EventType \<Rightarrow> string" where
  "short_name ty = ToLower (drop (length ''EVENT_TYPE_'') (EventType_String ty))"

text \<open>Visible ASCII characters are neither trimmed nor part of a longer letter.\<close>

definition graphic :: "char \<Rightarrow> bool" where
  "graphic c \<longleftrightarrow> 32 < (of_char c :: nat) \<and> (of_char c :: nat) < 127"

lemma strip_one_graphic:
  assumes "\<forall>p \<in> set ps. p \<noteq> [] \<longrightarrow> \<not> graphic (hd p)" and "list_all graphic s"
  shows "strip_one ps s = None"
  using assms
proof (induction ps)
  case (Cons p ps)
  then have "\<not> (p \<noteq> [] \<and> HasPrefix s p)" by (cases p; cases s) (auto simp: HasPrefix_def)
  then show ?case using Cons by auto
qed simp

lemma TrimSpace_graphic: "list_all graphic s \<Longrightarrow> TrimSpace s = s"
proof -
  have "\<forall>p \<in> set spaces. p \<noteq> [] \<longrightarrow> \<not> graphic (hd p)" "\<forall>p \<in> set (map rev spaces). p \<noteq> [] \<longrightarrow> \<not> graphic (hd p)"
    by code_simp+
  then show "list_all graphic s \<Longrightarrow> TrimSpace s = s"
    by (simp add: TrimSpace_def strip_all.simps strip_one_graphic)
qed

lemma graphic_bytes: "list_all graphic s \<Longrightarrow> ToUpper s = map upper_byte s"
  "list_all graphic s \<Longrightarrow> ToLower s = map lower_byte s"
  by (induction s) (auto simp: graphic_def)

lemma EventType_String_graphic:
  assumes "named ty"
  shows "list_all graphic (EventType_String ty)" "map upper_byte (EventType_String ty) = EventType_String ty"
    "HasPrefix (EventType_String ty) ''EVENT_TYPE_''"
    "list_all graphic (short_name ty)" "\<not> HasPrefix (ToUpper (short_name ty)) ''EVENT_TYPE_''"
    "''EVENT_TYPE_'' @ ToUpper (short_name ty) = EventType_String ty"
proof -
  show "list_all graphic (EventType_String ty)" using assms by (cases ty) (simp_all add: graphic_def)
  show "map upper_byte (EventType_String ty) = EventType_String ty"
    using assms by (cases ty) (simp_all add: upper_byte_def)
  show "HasPrefix (EventType_String ty) ''EVENT_TYPE_''" using assms by (cases ty) (simp_all add: HasPrefix_def)
  show g: "list_all graphic (short_name ty)"
    using assms by (cases ty) (simp_all add: short_name_def graphic_bytes graphic_def lower_byte_def)
  show "\<not> HasPrefix (ToUpper (short_name ty)) ''EVENT_TYPE_''"
    unfolding graphic_bytes(1) [OF g]
    using assms by (cases ty) (simp_all add: short_name_def lower_byte_def upper_byte_def HasPrefix_def)
  show "''EVENT_TYPE_'' @ ToUpper (short_name ty) = EventType_String ty"
    unfolding graphic_bytes(1) [OF g]
    using assms by (cases ty) (simp_all add: short_name_def lower_byte_def upper_byte_def)
qed

lemma normalize_names:
  assumes "named ty"
  shows "normalizeType (EventType_String ty) = EventType_String ty"
    and "normalizeType (short_name ty) = EventType_String ty"
  using EventType_String_graphic [OF assms]
  by (simp_all add: normalizeType_def TrimSpace_graphic graphic_bytes(1) [of "EventType_String ty"] Let_def)

section \<open>Properties\<close>

text \<open>
  C23 (safety).  Whatever the goroutines do, in whatever order, no event is sent on a closed
  channel and no channel is closed twice, which would panic, and no buffer holds more than
  256 events.
\<close>

theorem bus_never_panics:
  "\<not> eb_panicked (run_bus ops NewEventBus) \<and>
   list_all (\<lambda>c. length (ch_buffer c) \<le> 256) (eb_chans (run_bus ops NewEventBus))"
proof -
  have "bus_ok NewEventBus" by (simp add: bus_ok_def NewEventBus_def)
  then have "bus_ok (run_bus ops NewEventBus)" by (rule run_bus_ok)
  then show ?thesis by (auto simp: bus_ok_def ch_capacity_def list_all_iff in_set_conv_nth)
qed

text \<open>
  Publishing does not depend on the order in which the subscribers are
  visited: the event is appended to the buffers of exactly the subscribers whose filter
  matches and whose buffer has room, every other channel stays as it is, and each
  matching subscriber without room counts as one dropped event.
\<close>

theorem Publish_spec:
  assumes "bus_ok eb" and "ch < length (eb_chans eb)" and "Publish order ev (eb, ms) = (eb', ms')"
  shows "ch_buffer (eb_chans eb' ! ch) = ch_buffer (eb_chans eb ! ch) @
      (if (\<exists>(i, sub) \<in> set (eb_subscribers eb). sub_ch sub = ch \<and> matches sub ev) \<and>
          length (ch_buffer (eb_chans eb ! ch)) < 256 then [ev] else []) \<and>
    ms' = ms @ replicate (length (filter (\<lambda>(i, sub). matches sub ev \<and>
        length (ch_buffer (eb_chans eb ! sub_ch sub)) \<ge> 256) (eb_subscribers eb))) EventsDropped \<and>
    Publish order' ev (eb, ms) = Publish order ev (eb, ms)"
proof (intro conjI)
  note p = Publish_pushed [OF assms(1), where order = order and ev = ev and ms = ms]
  show "ch_buffer (eb_chans eb' ! ch) = ch_buffer (eb_chans eb ! ch) @
      (if (\<exists>(i, sub) \<in> set (eb_subscribers eb). sub_ch sub = ch \<and> matches sub ev) \<and>
          length (ch_buffer (eb_chans eb ! ch)) < 256 then [ev] else [])"
    using p(1) assms(2,3) by (auto simp: addressed_def push_def ch_capacity_def)
  show "ms' = ms @ replicate (length (filter (\<lambda>(i, sub). matches sub ev \<and>
        length (ch_buffer (eb_chans eb ! sub_ch sub)) \<ge> 256) (eb_subscribers eb))) EventsDropped"
    using p(2) assms(3) by (simp add: ch_capacity_def case_prod_unfold)
  show "Publish order' ev (eb, ms) = Publish order ev (eb, ms)"
    using p Publish_pushed [OF assms(1), where order = order' and ev = ev and ms = ms] by (simp add: prod_eq_iff)
qed

definition ex_event :: RouteEvent where
  "ex_event = \<lparr>ev_Type = EVENT_TYPE_PEER_UP, ev_Owner = ''nova'', ev_Detail = ''up'', ev_TimestampUnix = 7,
     ev_Metadata = []\<rparr>"

definition ex_bus :: EventBus where
  "ex_bus = snd (Subscribe ''nova'' [''peer_up''] NewEventBus)"

lemma ex_bus_ok: "bus_ok NewEventBus" "bus_ok ex_bus"
proof -
  show "bus_ok NewEventBus" by (simp add: bus_ok_def NewEventBus_def)
  then show "bus_ok ex_bus" unfolding ex_bus_def by (rule Subscribe_ok)
qed

theorem Publish_spec_witness:
  "ch_buffer (eb_chans (fst (Publish [] ex_event (ex_bus, []))) ! 0) = [ex_event]"
proof -
  have l: "0 < length (eb_chans ex_bus)" by code_simp
  obtain eb' ms' where p: "Publish [] ex_event (ex_bus, []) = (eb', ms')" by fastforce
  have "\<exists>(i, sub) \<in> set (eb_subscribers ex_bus). sub_ch sub = 0 \<and> matches sub ex_event" by code_simp
  moreover have "ch_buffer (eb_chans ex_bus ! 0) = []" by code_simp
  ultimately show ?thesis using Publish_spec [OF ex_bus_ok(2) l p] p by simp
qed



text \<open>
  A client of \<open>StreamEvents\<close> is sent only published events that match its
  filter, in order and none twice; and when the call returns, however it does, its
  subscription is gone from the bus.
\<close>

theorem StreamEvents_sound:
  assumes "bus_ok eb" and "StreamEvents ow ts order acts eb = (res, evs, eb')"
    and "ch = length (eb_chans eb)" and "exclusive ch acts"
    and "ch + subscribes (stream_ops ch acts) + 1 < 2 ^ 64"
    and "sub = \<lparr>sub_ch = ch, sub_ownerFilter = ow,
      sub_typeFilter = for_each (\<lambda>t m. gm_put m (normalizeType t) ()) ts []\<rparr>"
  shows "subseq evs (filter (matches sub) (published (stream_ops ch acts))) \<and>
    (res \<noteq> None \<longrightarrow> (\<forall>(i, sub) \<in> set (eb_subscribers eb'). sub_ch sub \<noteq> ch))"
proof (intro conjI impI)
  define eb1 where "eb1 = snd (Subscribe ow ts eb)"
  have sub1: "Subscribe ow ts eb = (ch, eb1)" using assms(3) by (simp add: eb1_def Subscribe_def Let_def)
  obtain eb2 where loop: "stream_loop ch acts eb1 = (res, evs, eb2)"
    and eb': "eb' = (if res = None then eb2 else Unsubscribe order ch eb2)"
    using assms(2) by (auto simp: StreamEvents_def sub1 Let_def split: prod.splits)
  have ok: "bus_ok eb1" using Subscribe_ok [OF assms(1)] by (simp add: eb1_def)
  have s: "subscribed eb1 ch sub" "buffered eb1 ch = []" "length (eb_chans eb1) = ch + 1"
    using assms(1,3,6) by (auto simp: eb1_def Subscribe_def Let_def subscribed_def buffered_def bus_ok_def)
  have l: "length (eb_chans eb1) + subscribes (stream_ops ch acts) < 2 ^ 64" using s(3) assms(5) by simp
  have "\<forall>op \<in> set (stream_ops ch acts). \<not> unsubscribes ch op"
    using assms(4) by (induction ch acts rule: stream_ops.induct) auto
  from received_buffered(1) [OF ok s(1) this l] s(2)
  have "subseq (received ch (stream_ops ch acts) eb1) (filter (matches sub) (published (stream_ops ch acts)))"
    by (auto intro: subseq_order.trans [OF list_emb_append2 [where ys = "[]", simplified]] dest: list_emb_appendD
        simp: subseq_rev_drop_many)
  moreover have "prefix evs (received ch (stream_ops ch acts) eb1)"
    using stream_loop_sent [OF ok s(1) assms(4) l] loop by simp
  ultimately show "subseq evs (filter (matches sub) (published (stream_ops ch acts)))"
    using prefix_imp_subseq subseq_order.trans by blast
  have "bus_ok eb2" using stream_loop_ok [OF ok, of ch acts] loop s(3) by simp
  then show "\<forall>(i, sub) \<in> set (eb_subscribers eb'). sub_ch sub \<noteq> ch" if "res \<noteq> None"
    using that eb' bus_ok_sub_unique [OF \<open>bus_ok eb2\<close>]
    by (cases rule: Unsubscribe_cases [OF \<open>bus_ok eb2\<close>, of order ch]) (auto simp: gm_del_def)
qed

theorem StreamEvents_sound_witness:
  "case StreamEvents ''nova'' [''peer_up''] [] [OtherOp (BPublish [] ex_event), SelectRecv None, SelectDone ''canceled''] NewEventBus
   of (res, evs, eb') \<Rightarrow> subseq evs [ex_event] \<and> (\<forall>(i, sub) \<in> set (eb_subscribers eb'). sub_ch sub \<noteq> 0)"
proof -
  let ?acts = "[OtherOp (BPublish [] ex_event), SelectRecv None, SelectDone ''canceled'']"
  obtain res evs eb' where s: "StreamEvents ''nova'' [''peer_up''] [] ?acts NewEventBus = (res, evs, eb')"
    by (metis prod_cases3)
  have res: "res \<noteq> None" using s by (auto simp: StreamEvents_def Subscribe_def Let_def split: prod.splits recv_result.splits)
  have x: "exclusive 0 ?acts" by (auto simp: exclusive_def)
  have l: "0 = length (eb_chans NewEventBus)" by (simp add: NewEventBus_def)
  have m: "matches \<lparr>sub_ch = 0, sub_ownerFilter = ''nova'',
      sub_typeFilter = for_each (\<lambda>t m. gm_put m (normalizeType t) ()) [''peer_up''] []\<rparr> ex_event" by code_simp
  from StreamEvents_sound [OF ex_bus_ok(1) s l x _ refl] res m
  show ?thesis by (simp add: s)
qed

text \<open>
  A type filter selects one type of event: subscribing with the name of
  an event type, in full or without the prefix and in lower case, lets through the events
  of that type and no others.
\<close>

theorem type_filter_exact:
  assumes "named ty" and "t = EventType_String ty \<or> t = short_name ty"
    and "Subscribe [] [t] eb = (ch, eb1)" and "map_of (eb_subscribers eb1) (eb_nextID eb) = Some sub"
  shows "matches sub ev \<longleftrightarrow> ev_Type ev = ty"
proof -
  have "normalizeType t = EventType_String ty" using normalize_names [OF assms(1)] assms(2) by auto
  then show ?thesis
    using assms(3,4) EventType_String_inject [OF assms(1), of "ev_Type ev"]
    by (auto simp: Subscribe_def Let_def matches_def)
qed

theorem type_filter_exact_witness:
  "\<exists>sub. map_of (eb_subscribers (snd (Subscribe [] [''peer_up''] NewEventBus))) 0 = Some sub \<and> matches sub ex_event"
proof -
  obtain ch eb1 where s: "Subscribe [] [''peer_up''] NewEventBus = (ch, eb1)" by fastforce
  then obtain sub where m: "map_of (eb_subscribers eb1) (eb_nextID NewEventBus) = Some sub"
    by (auto simp: Subscribe_def Let_def NewEventBus_def)
  have "''peer_up'' = short_name EVENT_TYPE_PEER_UP" by code_simp
  then have "matches sub ex_event"
    using type_filter_exact [OF _ _ s m, of EVENT_TYPE_PEER_UP ex_event] by (simp add: ex_event_def)
  then show ?thesis using s m by (simp add: NewEventBus_def)
qed

end
