(* ===== verification/Server.thy ===== *)
theory Server
  imports Api_Messages Event_Bus Policy_Engine Reconciler
begin

text \<open>
  The gRPC server (\<open>internal/server/server.go\<close>): registration, the configuration calls and
  the intent calls, each a function on the server's state with every check in the order
  of the code.  An error is a gRPC status; its text is the format string, without the
  arguments.  The dependencies are the modelled components: the intent store, the policy
  engine, the reconciler behind \<open>ReconcilerInterface\<close>, the event bus.

  A call takes its context \<open>Ctx\<close>: the clock readings in the order the call makes them, in
  nanoseconds, the orders in which it ranges over maps, and the texts of policy errors.
  Calls run to the end here; \<open>AdvertisePrefix\<close>, which reads the store and writes it later
  under separate locks, is also split in two for the interleaving of two calls.
\<close>

section \<open>State\<close>

datatype code =
    InvalidArgument | Unauthenticated | PermissionDenied | AlreadyExists | NotFound | Internal

datatype status = Status code string

fun status_code :: "status \<Rightarrow> code" where
  "status_code (Status c m) = c"

record Session =
  ses_Owner :: string
  ses_SessionID :: string
  ses_CreatedAt :: time

record Server =
  sv_intentStore :: Store
  sv_policy :: Engine
  sv_reconciler :: Reconciler
  sv_eventBus :: EventBus
  sv_frrClient :: "Client option"
  sv_frrConnectedAt :: time
  sv_sessions :: "(string, Session) gomap"
  sv_metrics :: metric_log

type_synonym 'a rpc = "(status + 'a) \<times> Server"

record Ctx =
  cx_now :: "nat \<Rightarrow> time"
  cx_order :: "nat \<Rightarrow> sched"
  cx_inner :: "nat \<Rightarrow> string \<Rightarrow> sched"
  cx_errText :: "policy_error \<Rightarrow> string"

definition NewServer :: "Store \<Rightarrow> Engine \<Rightarrow> Reconciler \<Rightarrow> Server" where
  "NewServer store policyEngine reconciler =
     \<lparr>sv_intentStore = store, sv_policy = policyEngine, sv_reconciler = reconciler,
      sv_eventBus = NewEventBus, sv_frrClient = None, sv_frrConnectedAt = 0, sv_sessions = [],
      sv_metrics = []\<rparr>"

definition SetFRRClient_s :: "Client option \<Rightarrow> time \<Rightarrow> Server \<Rightarrow> Server" where
  "SetFRRClient_s client now s = s\<lparr>sv_frrClient := client, sv_frrConnectedAt := now\<rparr>"

section \<open>Building blocks\<close>

text \<open>\<open>return nil, status.Error(...)\<close>.\<close>

definition reject :: "code \<Rightarrow> string \<Rightarrow> Server \<Rightarrow> 'a rpc" where
  "reject c msg s = (Inl (Status c msg), s)"

definition metered :: "(metric_log \<Rightarrow> metric_log) \<Rightarrow> Server \<Rightarrow> Server" where
  "metered f s = s\<lparr>sv_metrics := f (sv_metrics s)\<rparr>"

text \<open>The deferred duration metric, recorded on every path.\<close>

definition observed :: "string \<Rightarrow> 'a rpc \<Rightarrow> 'a rpc" where
  "observed rpcName x = (fst x, metered (ObserveGRPCDuration rpcName) (snd x))"

definition authenticated :: "string \<Rightarrow> string \<Rightarrow> (Server \<Rightarrow> 'a rpc) \<Rightarrow> Server \<Rightarrow> 'a rpc" where
  "authenticated owner token body s =
     (case ValidateToken (sv_policy s) owner token of
        Some err \<Rightarrow> reject Unauthenticated ''authentication failed: %v''
          (metered (RecordPolicyViolation owner ''invalid_token'') s)
      | None \<Rightarrow> body s)"

definition trigger :: "Server \<Rightarrow> Server" where
  "trigger s = s\<lparr>sv_reconciler := TriggerReconcile (sv_reconciler s)\<rparr>"

text \<open>\<open>time.Time.Unix\<close> of a reading in nanoseconds.\<close>

definition Unix :: "time \<Rightarrow> time" where
  "Unix t = t div 1000000000"

definition emit :: "sched \<Rightarrow> EventType \<Rightarrow> string \<Rightarrow> time \<Rightarrow> string \<Rightarrow> (string, string) gomap \<Rightarrow> Server \<Rightarrow> Server" where
  "emit order ty detail now owner meta s =
     (let (eb, ms) = Publish order
        \<lparr>ev_Type = ty, ev_Owner = owner, ev_Detail = detail, ev_TimestampUnix = Unix now, ev_Metadata = meta\<rparr>
        (sv_eventBus s, sv_metrics s)
      in s\<lparr>sv_eventBus := eb, sv_metrics := ms\<rparr>)"

definition updateOwnerPeerGauge :: "string \<Rightarrow> Server \<Rightarrow> Server" where
  "updateOwnerPeerGauge owner s =
     (case GetOwnerIntents owner (sv_intentStore s) of
        None \<Rightarrow> metered (SetActivePeers owner 0) s
      | Some oi \<Rightarrow> metered (SetActivePeers owner (length (Peers oi))) s)"

definition updateOwnerPrefixGauge :: "string \<Rightarrow> Server \<Rightarrow> Server" where
  "updateOwnerPrefixGauge owner s =
     (case GetOwnerIntents owner (sv_intentStore s) of
        None \<Rightarrow> metered (SetActivePrefixes owner ''all'' 0) s
      | Some oi \<Rightarrow>
          (let count = (\<lambda>pr. length (filter (\<lambda>e. pfx_Protocol (snd e) = pr) (Prefixes oi)));
               s = metered (SetActivePrefixes owner ''bgp'' (count PROTOCOL_BGP)) s
           in metered (SetActivePrefixes owner ''ospf'' (count PROTOCOL_OSPF)) s))"

definition updateOwnerBFDGauge :: "string \<Rightarrow> Server \<Rightarrow> Server" where
  "updateOwnerBFDGauge owner s =
     (case GetOwnerIntents owner (sv_intentStore s) of
        None \<Rightarrow> metered (SetActiveBFDSessions owner 0) s
      | Some oi \<Rightarrow> metered (SetActiveBFDSessions owner (length (BFD oi))) s)"

definition updateOwnerOSPFGauge :: "string \<Rightarrow> Server \<Rightarrow> Server" where
  "updateOwnerOSPFGauge owner s =
     (case GetOwnerIntents owner (sv_intentStore s) of
        None \<Rightarrow> metered (SetActiveOSPFInterfaces owner 0) s
      | Some oi \<Rightarrow> metered (SetActiveOSPFInterfaces owner (length (OSPF oi))) s)"

fun protocolString_s :: "Protocol \<Rightarrow> string" where
  "protocolString_s PROTOCOL_BGP = ''bgp''"
| "protocolString_s PROTOCOL_OSPF = ''ospf''"
| "protocolString_s PROTOCOL_UNSPECIFIED = ToLower (Protocol_String PROTOCOL_UNSPECIFIED)"
| "protocolString_s (PROTOCOL_OTHER n) = ToLower (Protocol_String (PROTOCOL_OTHER n))"

definition findPrefixOwner :: "sched \<Rightarrow> string \<Rightarrow> string \<Rightarrow> Server \<Rightarrow> string" where
  "findPrefixOwner order pfx protocol s =
     (case find (\<lambda>(owner, oi). list_ex (\<lambda>(k, p). pfx_Prefix p = pfx \<and>
              EqualFold (protocolString_s (pfx_Protocol p)) protocol) (Prefixes oi))
            (range_perm order (GetAllIntents (sv_intentStore s))) of
        Some (owner, oi) \<Rightarrow> owner
      | None \<Rightarrow> [])"

section \<open>Sessions\<close>

definition Register :: "Ctx \<Rightarrow> RegisterRequest \<Rightarrow> Server \<Rightarrow> RegisterResponse rpc" where
  "Register cx req s = observed ''Register''
     (let owner = regq_Owner req; token = regq_Token req in
      if owner = [] then reject InvalidArgument ''owner must not be empty'' s
      else if token = [] then reject InvalidArgument ''token must not be empty'' s
      else authenticated owner token (\<lambda>s.
        let sessionID = owner @ ''-'' @ dec_int (cx_now cx 0);
            s = s\<lparr>sv_sessions := gm_put (sv_sessions s) owner
                    \<lparr>ses_Owner = owner, ses_SessionID = sessionID, ses_CreatedAt = cx_now cx 1\<rparr>\<rparr>;
            s = metered (SetRegisteredOwners (length (sv_sessions s))) s;
            currentPrefixes = GetOwnerPrefixes (cx_order cx 0) owner (sv_intentStore s);
            currentPeers = GetOwnerPeers (cx_order cx 1) owner (sv_intentStore s);
            s = emit (cx_order cx 2) EVENT_TYPE_OWNER_REGISTERED
                  (''owner '' @ owner @ '' registered (session '' @ sessionID @ '')'')
                  (cx_now cx 2) owner [(''session_id'', sessionID)] s;
            s = metered (RecordEvent ''owner_registered'') s;
            s = (if regq_ReassertIntents req \<and> (0 < length currentPrefixes \<or> 0 < length currentPeers)
                 then trigger s else s)
        in (Inr \<lparr>regr_SessionId = sessionID, regr_CurrentPrefixes = currentPrefixes,
                 regr_CurrentPeers = currentPeers\<rparr>, s)) s)"

definition Deregister :: "Ctx \<Rightarrow> DeregisterRequest \<Rightarrow> Server \<Rightarrow> unit rpc" where
  "Deregister cx req s = observed ''Deregister''
     (let owner = derq_Owner req; token = derq_Token req in
      if owner = [] then reject InvalidArgument ''owner must not be empty'' s
      else if token = [] then reject InvalidArgument ''token must not be empty'' s
      else authenticated owner token (\<lambda>s.
        let s = (if derq_WithdrawAll req
                 then trigger (s\<lparr>sv_intentStore := RemoveAllByOwner owner (sv_intentStore s)\<rparr>) else s);
            s = s\<lparr>sv_sessions := gm_del (sv_sessions s) owner\<rparr>;
            s = metered (SetRegisteredOwners (length (sv_sessions s))) s;
            s = emit (cx_order cx 0) EVENT_TYPE_OWNER_DEREGISTERED
                  (''owner '' @ owner @ '' deregistered (withdraw_all='' @
                     (if derq_WithdrawAll req then ''true'' else ''false'') @ '')'')
                  (cx_now cx 0) owner [] s;
            s = metered (RecordEvent ''owner_deregistered'') s
        in (Inr (), s)) s)"

section \<open>BGP global configuration\<close>

definition ConfigureBGP :: "Ctx \<Rightarrow> ConfigureBGPRequest \<Rightarrow> Server \<Rightarrow> ConfigureBGPResponse rpc" where
  "ConfigureBGP cx req s = observed ''ConfigureBGP''
     (let owner = cfgq_Owner req; token = cfgq_Token req; routerIP = ParseIP (cfgq_RouterId req) in
      if owner = [] then reject InvalidArgument ''owner must not be empty'' s
      else if token = [] then reject InvalidArgument ''token must not be empty'' s
      else if cfgq_LocalAs req = 0 then reject InvalidArgument ''local_as must not be zero'' s
      else if cfgq_RouterId req = [] then reject InvalidArgument ''router_id must not be empty'' s
      else
        (case routerIP of
           None \<Rightarrow> reject InvalidArgument ''router_id must be a valid IPv4 address'' s
         | Some ip \<Rightarrow>
             if To4 ip = None then reject InvalidArgument ''router_id must be a valid IPv4 address'' s
             else if IsMulticast ip \<or> IsUnspecified ip
             then reject InvalidArgument ''router_id must be a unicast IPv4 address, got %s'' s
             else authenticated owner token (\<lambda>s.
               let ((prevAS, prevRouterID), r) =
                     UpdateBGPGlobal (cfgq_LocalAs req) (cfgq_RouterId req) (sv_reconciler s);
                   s = trigger (s\<lparr>sv_reconciler := r\<rparr>);
                   s = emit (cx_order cx 0) EVENT_TYPE_BGP_CONFIG_CHANGED
                         (''BGP global config updated: AS='' @ dec32 (cfgq_LocalAs req) @ '' router_id='' @
                          cfgq_RouterId req @ '' (was AS='' @ dec32 prevAS @ '' router_id='' @ prevRouterID @ '')'')
                         (cx_now cx 0) owner
                         [(''local_as'', dec32 (cfgq_LocalAs req)), (''router_id'', cfgq_RouterId req),
                          (''previous_as'', dec32 prevAS), (''previous_router_id'', prevRouterID)] s;
                   s = metered (RecordEvent ''bgp_configured'') s
               in (Inr \<lparr>cfgr_PreviousAs = prevAS, cfgr_PreviousRouterId = prevRouterID\<rparr>, s)) s))"

section \<open>Peers\<close>

definition validateApplyPeerRequest :: "ApplyPeerRequest \<Rightarrow> status option" where
  "validateApplyPeerRequest req =
     (if appq_Owner req = [] then Some (Status InvalidArgument ''owner must not be empty'')
      else if appq_Token req = [] then Some (Status InvalidArgument ''token must not be empty'')
      else
        (case appq_Peer req of
           None \<Rightarrow> Some (Status InvalidArgument ''peer must not be nil'')
         | Some peer \<Rightarrow>
             if bp_NeighborAddress peer = []
             then Some (Status InvalidArgument ''peer neighbor_address must not be empty'')
             else if ParseIP (bp_NeighborAddress peer) = None
             then Some (Status InvalidArgument ''peer neighbor_address is not a valid IP address: %s'')
             else if bp_SourceAddress peer \<noteq> [] \<and> ParseIP (bp_SourceAddress peer) = None
             then Some (Status InvalidArgument ''peer source_address is not a valid IP address: %s'')
             else if (0 < bp_Keepalive peer) \<noteq> (0 < bp_HoldTime peer)
             then Some (Status InvalidArgument ''keepalive and hold_time must both be set or both be zero'')
             else if 0 < bp_HoldTime peer \<and> bp_HoldTime peer < 3
             then Some (Status InvalidArgument ''hold_time must be at least 3 seconds, got %d'')
             else if 0 < bp_Keepalive peer \<and> bp_HoldTime peer < 3 * bp_Keepalive peer
             then Some (Status InvalidArgument ''hold_time (%d) must be at least 3x keepalive (%d) per RFC 4271'')
             else if bp_RemoteAs peer = 0
             then Some (Status InvalidArgument ''peer remote_as must not be zero'')
             else None))"

text \<open>The intent, with the defaults.\<close>

definition peerIntent_of :: "string \<Rightarrow> BGPPeer \<Rightarrow> PeerIntent" where
  "peerIntent_of owner peer =
     (let dflt = (\<lambda>v d. if bp_BfdEnabled peer \<and> v = 0 then d else v) in
      \<lparr>peer_Owner = owner, peer_NeighborAddress = bp_NeighborAddress peer, peer_RemoteAS = bp_RemoteAs peer,
       peer_PeerType = bp_PeerType peer, peer_Keepalive = bp_Keepalive peer, peer_HoldTime = bp_HoldTime peer,
       peer_BFDEnabled = bp_BfdEnabled peer, peer_BFDMinRxMs = dflt (bp_BfdMinRxMs peer) 300,
       peer_BFDMinTxMs = dflt (bp_BfdMinTxMs peer) 300,
       peer_BFDDetectMultiplier = dflt (bp_BfdDetectMultiplier peer) 3,
       peer_Description = bp_Description peer,
       peer_AddressFamilies =
         (if length (bp_AddressFamilies peer) = 0 then [ADDRESS_FAMILY_IPV4_UNICAST] else bp_AddressFamilies peer),
       peer_SourceAddress = bp_SourceAddress peer, peer_EBGPMultihop = bp_EbgpMultihop peer,
       peer_Password = bp_Password peer,
       peer_MaxPrefixes = (if bp_MaxPrefix peer = 0 then 1000 else bp_MaxPrefix peer),
       peer_CreatedAt = 0, peer_UpdatedAt = 0\<rparr>)"

definition ApplyPeer :: "Ctx \<Rightarrow> ApplyPeerRequest \<Rightarrow> Server \<Rightarrow> unit rpc" where
  "ApplyPeer cx req s = observed ''ApplyPeer''
     (case validateApplyPeerRequest req of
        Some err \<Rightarrow> (Inl err, s)
      | None \<Rightarrow>
          (case appq_Peer req of
             None \<Rightarrow> (Inl (Status InvalidArgument ''peer must not be nil''), s)
           | Some peer \<Rightarrow>
               (let owner = appq_Owner req in
                authenticated owner (appq_Token req) (\<lambda>s.
                  case ValidatePeerOperation (sv_policy s) owner of
                    Some err \<Rightarrow>
                      (let s = metered (RecordPolicyViolation owner ''peer_operation_denied'') s;
                           s = emit (cx_order cx 0) EVENT_TYPE_POLICY_VIOLATION
                                 (''peer operation denied for owner '' @ owner @ '': '' @ cx_errText cx err)
                                 (cx_now cx 0) owner
                                 [(''operation'', ''apply_peer''), (''neighbor'', bp_NeighborAddress peer)] s;
                           s = metered (RecordEvent ''policy_violation'') s
                       in reject PermissionDenied ''peer operation denied: %v'' s)
                  | None \<Rightarrow>
                      (case SetPeerIntent owner (Some (peerIntent_of owner peer)) (cx_now cx 0) (sv_intentStore s) of
                         (Some err, store) \<Rightarrow>
                           reject Internal ''failed to store peer intent: %v'' (s\<lparr>sv_intentStore := store\<rparr>)
                       | (None, store) \<Rightarrow>
                           (let s = s\<lparr>sv_intentStore := store\<rparr>;
                                s = metered (RecordIntent owner ''peer'' ''set'') s;
                                s = updateOwnerPeerGauge owner s;
                                s = trigger s;
                                s = metered (RecordEvent ''peer_applied'') s
                            in (Inr (), s)))) s)))"

text \<open>The branch without a peer is never taken: \<open>validateApplyPeerRequest\<close> excludes it.\<close>

record removeIntentConfig =
  ric_idFieldName :: string
  ric_idValue :: string
  ric_validateOp :: "Engine \<Rightarrow> string \<Rightarrow> policy_error option"
  ric_opDeniedKey :: string
  ric_opDeniedMsg :: string
  ric_removeIntent :: "string \<Rightarrow> string \<Rightarrow> Store \<Rightarrow> intent_error option \<times> Store"
  ric_intentType :: string
  ric_eventName :: string
  ric_updateGauge :: "string \<Rightarrow> Server \<Rightarrow> Server"

definition handleRemoveIntent :: "string \<Rightarrow> string \<Rightarrow> removeIntentConfig \<Rightarrow> Server \<Rightarrow> unit rpc" where
  "handleRemoveIntent owner token cfg s =
     (if owner = [] then reject InvalidArgument ''owner must not be empty'' s
      else if token = [] then reject InvalidArgument ''token must not be empty'' s
      else if ric_idValue cfg = [] then reject InvalidArgument (ric_idFieldName cfg @ '' must not be empty'') s
      else if ParseIP (ric_idValue cfg) = None
      then reject InvalidArgument (ric_idFieldName cfg @ '' is not a valid IP address: %s'') s
      else authenticated owner token (\<lambda>s.
        case ric_validateOp cfg (sv_policy s) owner of
          Some err \<Rightarrow> reject PermissionDenied (ric_opDeniedMsg cfg @ '': %v'')
            (metered (RecordPolicyViolation owner (ric_opDeniedKey cfg)) s)
        | None \<Rightarrow>
            (case ric_removeIntent cfg owner (ric_idValue cfg) (sv_intentStore s) of
               (Some err, store) \<Rightarrow>
                 reject NotFound (''failed to remove '' @ ric_intentType cfg @ '' intent: %v'')
                   (s\<lparr>sv_intentStore := store\<rparr>)
             | (None, store) \<Rightarrow>
                 (let s = s\<lparr>sv_intentStore := store\<rparr>;
                      s = metered (RecordIntent owner (ric_intentType cfg) ''remove'') s;
                      s = ric_updateGauge cfg owner s;
                      s = trigger s;
                      s = metered (RecordEvent (ric_eventName cfg)) s
                  in (Inr (), s)))) s)"

definition RemovePeer :: "Ctx \<Rightarrow> RemovePeerRequest \<Rightarrow> Server \<Rightarrow> unit rpc" where
  "RemovePeer cx req s = observed ''RemovePeer''
     (handleRemoveIntent (remq_Owner req) (remq_Token req)
        \<lparr>ric_idFieldName = ''neighbor_address'', ric_idValue = remq_NeighborAddress req,
         ric_validateOp = ValidatePeerOperation, ric_opDeniedKey = ''peer_operation_denied'',
         ric_opDeniedMsg = ''peer operation denied'', ric_removeIntent = RemovePeerIntent,
         ric_intentType = ''peer'', ric_eventName = ''peer_removed'',
         ric_updateGauge = updateOwnerPeerGauge\<rparr> s)"

section \<open>Prefixes\<close>

text \<open>\<open>AdvertisePrefix\<close> up to the point where it stores the intent \<dots>\<close>

definition advertiseCheck :: "Ctx \<Rightarrow> AdvertisePrefixRequest \<Rightarrow> Server \<Rightarrow> PrefixIntent rpc" where
  "advertiseCheck cx req s =
     (let owner = advq_Owner req; token = advq_Token req; pfx = advq_Prefix req; protocol = advq_Protocol req in
      if owner = [] then reject InvalidArgument ''owner must not be empty'' s
      else if token = [] then reject InvalidArgument ''token must not be empty'' s
      else if pfx = [] then reject InvalidArgument ''prefix must not be empty'' s
      else if ParseCIDR pfx = None then reject InvalidArgument ''prefix is not a valid CIDR: %s'' s
      else if protocol = PROTOCOL_UNSPECIFIED then reject InvalidArgument ''protocol must be specified'' s
      else authenticated owner token (\<lambda>s.
        case ValidatePrefix (sv_policy s) owner pfx of
          Some err \<Rightarrow>
            (let s = metered (RecordPolicyViolation owner ''prefix_policy'') s;
                 s = emit (cx_order cx 0) EVENT_TYPE_POLICY_VIOLATION
                       (''prefix policy violation: '' @ cx_errText cx err) (cx_now cx 0) owner
                       [(''prefix'', pfx), (''protocol'', Protocol_String protocol)] s;
                 s = metered (RecordEvent ''policy_violation'') s
             in reject PermissionDenied ''prefix policy check failed: %v'' s)
        | None \<Rightarrow>
            (let protocolStr = protocolString_s protocol;
                 existingOwner = findPrefixOwner (cx_order cx 1) pfx protocolStr s in
             case CheckConflict (sv_policy s) owner pfx protocolStr existingOwner of
               Some err \<Rightarrow>
                 (let s = metered (RecordPolicyViolation owner ''prefix_conflict'') s;
                      s = emit (cx_order cx 2) EVENT_TYPE_POLICY_VIOLATION
                            (''prefix conflict: '' @ cx_errText cx err) (cx_now cx 0) owner
                            [(''prefix'', pfx), (''protocol'', Protocol_String protocol),
                             (''existing_owner'', existingOwner)] s;
                      s = metered (RecordEvent ''policy_violation'') s
                  in reject AlreadyExists ''prefix conflict: %v'' s)
             | None \<Rightarrow>
                 (let prefixIntent = \<lparr>pfx_Owner = owner, pfx_Prefix = pfx, pfx_Protocol = protocol,
                        pfx_LocalPreference = 0, pfx_Communities = [], pfx_MED = 0, pfx_NextHop = [],
                        pfx_CreatedAt = 0, pfx_UpdatedAt = 0\<rparr> in
                  case advq_Attributes req of
                    None \<Rightarrow> (Inr prefixIntent, s)
                  | Some attrs \<Rightarrow>
                      if protocol = PROTOCOL_OSPF \<and>
                         (0 < pa_LocalPreference attrs \<or> 0 < length (pa_Communities attrs) \<or>
                          0 < pa_Med attrs \<or> pa_NextHop attrs \<noteq> [])
                      then reject InvalidArgument ''prefix attributes (local_preference, communities, med, next_hop) are not supported for OSPF protocol'' s
                      else if pa_NextHop attrs \<noteq> [] \<and> ParseIP (pa_NextHop attrs) = None
                      then reject InvalidArgument ''prefix attributes next_hop is not a valid IP address: %s'' s
                      else (Inr (prefixIntent\<lparr>pfx_LocalPreference := pa_LocalPreference attrs,
                                   pfx_Communities := pa_Communities attrs, pfx_MED := pa_Med attrs,
                                   pfx_NextHop := pa_NextHop attrs\<rparr>), s)))) s)"

text \<open>\<dots> and from there on.\<close>

definition advertiseCommit ::
    "Ctx \<Rightarrow> AdvertisePrefixRequest \<Rightarrow> PrefixIntent \<Rightarrow> Server \<Rightarrow> unit rpc" where
  "advertiseCommit cx req prefixIntent s =
     (let owner = advq_Owner req; pfx = advq_Prefix req; protocolStr = protocolString_s (advq_Protocol req) in
      case SetPrefixIntent owner (Some prefixIntent) (cx_now cx 1) (sv_intentStore s) of
        (Some err, store) \<Rightarrow> reject Internal ''failed to store prefix intent: %v'' (s\<lparr>sv_intentStore := store\<rparr>)
      | (None, store) \<Rightarrow>
          (let s = s\<lparr>sv_intentStore := store\<rparr>;
               s = metered (RecordIntent owner ''prefix'' ''set'') s;
               s = updateOwnerPrefixGauge owner s;
               s = emit (cx_order cx 3) EVENT_TYPE_PREFIX_ADVERTISED
                     (''prefix '' @ pfx @ '' advertised via '' @ protocolStr @ '' by '' @ owner)
                     (cx_now cx 2) owner [(''prefix'', pfx), (''protocol'', protocolStr)] s;
               s = metered (RecordEvent ''prefix_advertised'') s;
               s = trigger s
           in (Inr (), s)))"

definition AdvertisePrefix :: "Ctx \<Rightarrow> AdvertisePrefixRequest \<Rightarrow> Server \<Rightarrow> unit rpc" where
  "AdvertisePrefix cx req s = observed ''AdvertisePrefix''
     (case advertiseCheck cx req s of
        (Inl err, s) \<Rightarrow> (Inl err, s)
      | (Inr prefixIntent, s) \<Rightarrow> advertiseCommit cx req prefixIntent s)"

definition WithdrawPrefix :: "Ctx \<Rightarrow> WithdrawPrefixRequest \<Rightarrow> Server \<Rightarrow> unit rpc" where
  "WithdrawPrefix cx req s = observed ''WithdrawPrefix''
     (let owner = wdrq_Owner req; token = wdrq_Token req; pfx = wdrq_Prefix req; protocol = wdrq_Protocol req in
      if owner = [] then reject InvalidArgument ''owner must not be empty'' s
      else if token = [] then reject InvalidArgument ''token must not be empty'' s
      else if pfx = [] then reject InvalidArgument ''prefix must not be empty'' s
      else if ParseCIDR pfx = None then reject InvalidArgument ''prefix is not a valid CIDR: %s'' s
      else if protocol = PROTOCOL_UNSPECIFIED then reject InvalidArgument ''protocol must be specified'' s
      else authenticated owner token (\<lambda>s.
        let protocolStr = protocolString_s protocol in
        case RemovePrefixIntent owner pfx protocolStr (sv_intentStore s) of
          (Some err, store) \<Rightarrow> reject NotFound ''failed to remove prefix intent: %v'' (s\<lparr>sv_intentStore := store\<rparr>)
        | (None, store) \<Rightarrow>
            (let s = s\<lparr>sv_intentStore := store\<rparr>;
                 s = metered (RecordIntent owner ''prefix'' ''remove'') s;
                 s = updateOwnerPrefixGauge owner s;
                 s = emit (cx_order cx 0) EVENT_TYPE_PREFIX_WITHDRAWN
                       (''prefix '' @ pfx @ '' withdrawn from '' @ protocolStr @ '' by '' @ owner)
                       (cx_now cx 0) owner [(''prefix'', pfx), (''protocol'', protocolStr)] s;
                 s = metered (RecordEvent ''prefix_withdrawn'') s;
                 s = trigger s
             in (Inr (), s))) s)"

section \<open>BFD\<close>

text \<open>The intent, with the defaults.\<close>

definition bfdIntent_of :: "EnableBFDRequest \<Rightarrow> BFDIntent" where
  "bfdIntent_of req =
     \<lparr>bfd_Owner = ebfq_Owner req, bfd_PeerAddress = ebfq_PeerAddress req,
      bfd_MinRxMs = (if ebfq_MinRxMs req = 0 then 300 else ebfq_MinRxMs req),
      bfd_MinTxMs = (if ebfq_MinTxMs req = 0 then 300 else ebfq_MinTxMs req),
      bfd_DetectMultiplier = (if ebfq_DetectMultiplier req = 0 then 3 else ebfq_DetectMultiplier req),
      bfd_InterfaceName = ebfq_InterfaceName req, bfd_CreatedAt = 0, bfd_UpdatedAt = 0\<rparr>"

definition EnableBFD :: "Ctx \<Rightarrow> EnableBFDRequest \<Rightarrow> Server \<Rightarrow> unit rpc" where
  "EnableBFD cx req s = observed ''EnableBFD''
     (let owner = ebfq_Owner req; token = ebfq_Token req; addr = ebfq_PeerAddress req in
      if owner = [] then reject InvalidArgument ''owner must not be empty'' s
      else if token = [] then reject InvalidArgument ''token must not be empty'' s
      else if addr = [] then reject InvalidArgument ''peer_address must not be empty'' s
      else if ParseIP addr = None then reject InvalidArgument ''peer_address is not a valid IP address: %s'' s
      else authenticated owner token (\<lambda>s.
        case ValidateBFDOperation (sv_policy s) owner of
          Some err \<Rightarrow>
            (let s = metered (RecordPolicyViolation owner ''bfd_operation_denied'') s;
                 s = emit (cx_order cx 0) EVENT_TYPE_POLICY_VIOLATION
                       (''BFD operation denied for owner '' @ owner @ '': '' @ cx_errText cx err)
                       (cx_now cx 0) owner [(''operation'', ''enable_bfd''), (''peer_address'', addr)] s;
                 s = metered (RecordEvent ''policy_violation'') s
             in reject PermissionDenied ''BFD operation denied: %v'' s)
        | None \<Rightarrow>
            (case SetBFDIntent owner (Some (bfdIntent_of req)) (cx_now cx 0) (sv_intentStore s) of
               (Some err, store) \<Rightarrow> reject Internal ''failed to store BFD intent: %v'' (s\<lparr>sv_intentStore := store\<rparr>)
             | (None, store) \<Rightarrow>
                 (let s = s\<lparr>sv_intentStore := store\<rparr>;
                      s = metered (RecordIntent owner ''bfd'' ''set'') s;
                      s = updateOwnerBFDGauge owner s;
                      s = trigger s;
                      s = metered (RecordEvent ''bfd_enabled'') s
                  in (Inr (), s)))) s)"

definition DisableBFD :: "Ctx \<Rightarrow> DisableBFDRequest \<Rightarrow> Server \<Rightarrow> unit rpc" where
  "DisableBFD cx req s = observed ''DisableBFD''
     (handleRemoveIntent (dbfq_Owner req) (dbfq_Token req)
        \<lparr>ric_idFieldName = ''peer_address'', ric_idValue = dbfq_PeerAddress req,
         ric_validateOp = ValidateBFDOperation, ric_opDeniedKey = ''bfd_operation_denied'',
         ric_opDeniedMsg = ''BFD operation denied'', ric_removeIntent = RemoveBFDIntent,
         ric_intentType = ''bfd'', ric_eventName = ''bfd_disabled'',
         ric_updateGauge = updateOwnerBFDGauge\<rparr> s)"

section \<open>OSPF\<close>

text \<open>The intent of \<open>EnableOSPF\<close> with its defaults and range checks.\<close>

definition ospfIntent_of :: "EnableOSPFRequest \<Rightarrow> status + OSPFIntent" where
  "ospfIntent_of req =
     (let cost = eosq_Cost req;
          hello = (if eosq_Ipv6 req then 0 else if eosq_HelloInterval req = 0 then 10 else eosq_HelloInterval req);
          dead = (if eosq_Ipv6 req then 0 else if eosq_DeadInterval req = 0 then 40 else eosq_DeadInterval req) in
      if 65535 < cost then Inl (Status InvalidArgument ''OSPF cost must be between 1 and 65535, got %d'')
      else if \<not> eosq_Ipv6 req \<and> 0 < dead \<and> 0 < hello \<and> dead < hello
      then Inl (Status InvalidArgument ''dead_interval (%d) must be >= hello_interval (%d)'')
      else Inr \<lparr>ospf_Owner = eosq_Owner req, ospf_InterfaceName = eosq_InterfaceName req,
             ospf_AreaID = eosq_AreaId req, ospf_Passive = eosq_Passive req,
             ospf_Cost = (if cost = 0 then 10 else cost), ospf_HelloInterval = hello,
             ospf_DeadInterval = dead, ospf_IPv6 = eosq_Ipv6 req, ospf_CreatedAt = 0, ospf_UpdatedAt = 0\<rparr>)"

definition EnableOSPF :: "Ctx \<Rightarrow> EnableOSPFRequest \<Rightarrow> Server \<Rightarrow> unit rpc" where
  "EnableOSPF cx req s = observed ''EnableOSPF''
     (let owner = eosq_Owner req; token = eosq_Token req in
      if owner = [] then reject InvalidArgument ''owner must not be empty'' s
      else if token = [] then reject InvalidArgument ''token must not be empty'' s
      else if eosq_InterfaceName req = [] then reject InvalidArgument ''interface_name must not be empty'' s
      else if eosq_AreaId req = [] then reject InvalidArgument ''area_id must not be empty'' s
      else authenticated owner token (\<lambda>s.
        case ValidateOSPFOperation (sv_policy s) owner of
          Some err \<Rightarrow>
            (let s = metered (RecordPolicyViolation owner ''ospf_operation_denied'') s;
                 s = emit (cx_order cx 0) EVENT_TYPE_POLICY_VIOLATION
                       (''OSPF operation denied for owner '' @ owner @ '': '' @ cx_errText cx err)
                       (cx_now cx 0) owner
                       [(''operation'', ''enable_ospf''), (''interface_name'', eosq_InterfaceName req)] s;
                 s = metered (RecordEvent ''policy_violation'') s
             in reject PermissionDenied ''OSPF operation denied: %v'' s)
        | None \<Rightarrow>
            (case ospfIntent_of req of
               Inl err \<Rightarrow> (Inl err, s)
             | Inr ospfIntent \<Rightarrow>
                 (case SetOSPFIntent owner (Some ospfIntent) (cx_now cx 0) (sv_intentStore s) of
                    (Some err, store) \<Rightarrow> reject Internal ''failed to store OSPF intent: %v'' (s\<lparr>sv_intentStore := store\<rparr>)
                  | (None, store) \<Rightarrow>
                      (let s = s\<lparr>sv_intentStore := store\<rparr>;
                           s = metered (RecordIntent owner ''ospf'' ''set'') s;
                           s = updateOwnerOSPFGauge owner s;
                           s = trigger s;
                           s = metered (RecordEvent ''ospf_enabled'') s
                       in (Inr (), s))))) s)"

definition DisableOSPF :: "Ctx \<Rightarrow> DisableOSPFRequest \<Rightarrow> Server \<Rightarrow> unit rpc" where
  "DisableOSPF cx req s = observed ''DisableOSPF''
     (let owner = dosq_Owner req; token = dosq_Token req; ifaceName = dosq_InterfaceName req in
      if owner = [] then reject InvalidArgument ''owner must not be empty'' s
      else if token = [] then reject InvalidArgument ''token must not be empty'' s
      else if ifaceName = [] then reject InvalidArgument ''interface_name must not be empty'' s
      else authenticated owner token (\<lambda>s.
        case ValidateOSPFOperation (sv_policy s) owner of
          Some err \<Rightarrow> reject PermissionDenied ''OSPF operation denied: %v''
            (metered (RecordPolicyViolation owner ''ospf_operation_denied'') s)
        | None \<Rightarrow>
            (case RemoveOSPFIntent owner ifaceName (sv_intentStore s) of
               (Some err, store) \<Rightarrow> reject NotFound ''failed to remove OSPF intent: %v'' (s\<lparr>sv_intentStore := store\<rparr>)
             | (None, store) \<Rightarrow>
                 (let s = s\<lparr>sv_intentStore := store\<rparr>;
                      s = metered (RecordIntent owner ''ospf'' ''remove'') s;
                      s = updateOwnerOSPFGauge owner s;
                      s = trigger s;
                      s = metered (RecordEvent ''ospf_disabled'') s
                  in (Inr (), s)))) s)"

end
