(* ===== verification/Server_Facts.thy ===== *)
theory Server_Facts
  imports Server Reconciler_Properties
begin

text \<open>
  What the calls of the server promise.  The locale \<open>rpc_handler\<close> states it for one call:
  a successful call was authenticated, a refused one changes neither intents nor sessions
  nor the reconciler, other owners' intents stay as they are, the invariants of the
  components are kept, and a call that changes the store leaves a reconciliation pending.
  Each of the eleven calls is shown to be one, and so is the dispatcher \<open>serve\<close>; what holds
  for runs of calls is proved once, in the locale.
\<close>

section \<open>Footprints\<close>

text \<open>Only events and metrics.\<close>

definition quiet :: "Server \<Rightarrow> Server \<Rightarrow> bool" where
  "quiet s s' \<longleftrightarrow>
     sv_intentStore s' = sv_intentStore s \<and> sv_policy s' = sv_policy s \<and>
     sv_reconciler s' = sv_reconciler s \<and> sv_frrClient s' = sv_frrClient s \<and>
     sv_frrConnectedAt s' = sv_frrConnectedAt s \<and> sv_sessions s' = sv_sessions s \<and>
     (bus_ok (sv_eventBus s) \<longrightarrow> bus_ok (sv_eventBus s'))"

text \<open>The reconciler, but for its BGP settings and the pending trigger.\<close>

definition calm :: "Reconciler \<Rightarrow> Reconciler \<Rightarrow> bool" where
  "calm r r' \<longleftrightarrow>
     r_frrClient r' = r_frrClient r \<and> appliedPeers r' = appliedPeers r \<and> appliedPrefixes r' = appliedPrefixes r \<and>
     appliedBFD r' = appliedBFD r \<and> appliedOSPF r' = appliedOSPF r \<and> peerManagedBFD r' = peerManagedBFD r \<and>
     r_hasPublisher r' = r_hasPublisher r \<and> r_published r' = r_published r \<and> r_crashed r' = r_crashed r"

text \<open>What a call on behalf of \<open>owner\<close> may change.\<close>

definition moved :: "string \<Rightarrow> Server \<Rightarrow> Server \<Rightarrow> bool" where
  "moved owner s s' \<longleftrightarrow>
     sv_policy s' = sv_policy s \<and> sv_frrClient s' = sv_frrClient s \<and>
     sv_frrConnectedAt s' = sv_frrConnectedAt s \<and>
     (\<forall>ow. ow \<noteq> owner \<longrightarrow> map_of (intents (sv_intentStore s')) ow = map_of (intents (sv_intentStore s)) ow) \<and>
     (\<forall>ow. ow \<noteq> owner \<longrightarrow> map_of (sv_sessions s') ow = map_of (sv_sessions s) ow) \<and>
     (store_ok (sv_intentStore s) \<longrightarrow> store_ok (sv_intentStore s')) \<and>
     (rec_ok (sv_reconciler s) \<longrightarrow> rec_ok (sv_reconciler s')) \<and>
     calm (sv_reconciler s) (sv_reconciler s') \<and>
     (r_triggerPending (sv_reconciler s) \<longrightarrow> r_triggerPending (sv_reconciler s')) \<and>
     (bus_ok (sv_eventBus s) \<longrightarrow> bus_ok (sv_eventBus s'))"

text \<open>The reconciler is told about every change of the intents.\<close>

definition notified :: "Server \<Rightarrow> Server \<Rightarrow> bool" where
  "notified s s' \<longleftrightarrow> sv_intentStore s' = sv_intentStore s \<or> r_triggerPending (sv_reconciler s')"

lemma calm_refl [simp]: "calm r r"
  by (simp add: calm_def)

lemma calm_updates:
  "calm r r' \<Longrightarrow> calm r (TriggerReconcile r')" "calm r r' \<Longrightarrow> calm r (snd (UpdateBGPGlobal as rid r'))"
  by (simp_all add: calm_def TriggerReconcile_def UpdateBGPGlobal_def Let_def)

lemma quiet_refl [simp]: "quiet s s"
  by (simp add: quiet_def)

lemma moved_refl [simp]: "moved ow s s"
  by (simp add: moved_def)

lemma quiet_moved: "quiet s s' \<Longrightarrow> moved ow s s'"
  by (simp add: quiet_def moved_def)

lemma quiet_notified: "quiet s s' \<Longrightarrow> notified s s'"
  by (simp add: quiet_def notified_def)

named_theorems footprint

lemma emit_bus:
  "sv_intentStore (emit order ty d t ow m s) = sv_intentStore s" "sv_policy (emit order ty d t ow m s) = sv_policy s"
  "sv_reconciler (emit order ty d t ow m s) = sv_reconciler s" "sv_frrClient (emit order ty d t ow m s) = sv_frrClient s"
  "sv_frrConnectedAt (emit order ty d t ow m s) = sv_frrConnectedAt s"
  "sv_sessions (emit order ty d t ow m s) = sv_sessions s"
  "bus_ok (sv_eventBus s) \<Longrightarrow> bus_ok (sv_eventBus (emit order ty d t ow m s))"
proof -
  let ?ev = "\<lparr>ev_Type = ty, ev_Owner = ow, ev_Detail = d, ev_TimestampUnix = Unix t, ev_Metadata = m\<rparr>"
  obtain eb ms where p: "Publish order ?ev (sv_eventBus s, sv_metrics s) = (eb, ms)" by fastforce
  then show "sv_intentStore (emit order ty d t ow m s) = sv_intentStore s" "sv_policy (emit order ty d t ow m s) = sv_policy s"
    "sv_reconciler (emit order ty d t ow m s) = sv_reconciler s" "sv_frrClient (emit order ty d t ow m s) = sv_frrClient s"
    "sv_frrConnectedAt (emit order ty d t ow m s) = sv_frrConnectedAt s"
    "sv_sessions (emit order ty d t ow m s) = sv_sessions s"
    by (simp_all add: emit_def)
  show "bus_ok (sv_eventBus s) \<Longrightarrow> bus_ok (sv_eventBus (emit order ty d t ow m s))"
    using Publish_ok [of "sv_eventBus s" order ?ev "sv_metrics s"] p by (simp add: emit_def)
qed

lemma metered_sel [simp]:
  "sv_intentStore (metered f s) = sv_intentStore s" "sv_policy (metered f s) = sv_policy s"
  "sv_reconciler (metered f s) = sv_reconciler s" "sv_frrClient (metered f s) = sv_frrClient s"
  "sv_frrConnectedAt (metered f s) = sv_frrConnectedAt s" "sv_sessions (metered f s) = sv_sessions s"
  "sv_eventBus (metered f s) = sv_eventBus s"
  by (simp_all add: metered_def)

lemma gauges_metered:
  "\<exists>f. updateOwnerPeerGauge ow s = metered f s" "\<exists>f. updateOwnerBFDGauge ow s = metered f s"
  "\<exists>f. updateOwnerOSPFGauge ow s = metered f s" "\<exists>f. updateOwnerPrefixGauge ow s = metered f s"
proof -
  have "metered f (metered g s) = metered (f \<circ> g) s" for f g by (simp add: metered_def)
  then show "\<exists>f. updateOwnerPrefixGauge ow s = metered f s"
    by (auto simp: updateOwnerPrefixGauge_def Let_def split: option.split)
qed (auto simp: updateOwnerPeerGauge_def updateOwnerBFDGauge_def updateOwnerOSPFGauge_def split: option.split)

lemma trigger_sel [simp]:
  "sv_intentStore (trigger s) = sv_intentStore s" "sv_policy (trigger s) = sv_policy s"
  "sv_frrClient (trigger s) = sv_frrClient s" "sv_frrConnectedAt (trigger s) = sv_frrConnectedAt s"
  "sv_sessions (trigger s) = sv_sessions s" "sv_eventBus (trigger s) = sv_eventBus s"
  "r_triggerPending (sv_reconciler (trigger s))"
  "rec_ok (sv_reconciler (trigger s)) = rec_ok (sv_reconciler s)"
  "calm r (sv_reconciler (trigger s)) = calm r (sv_reconciler s)"
  by (simp_all add: trigger_def TriggerReconcile_def rec_ok_def calm_def)

lemma quiet_blocks [footprint]:
  "quiet s s' \<Longrightarrow> quiet s (metered f s')" "quiet s s' \<Longrightarrow> quiet s (emit order ty d t ow m s')"
  using emit_bus(7) by (auto simp: quiet_def emit_bus)

lemma moved_blocks [footprint]:
  assumes "moved ow s s'"
  shows "moved ow s (metered f s')" "moved ow s (emit order ty d t ow' m s')" "moved ow s (trigger s')"
    "moved ow s (updateOwnerPeerGauge ow' s')" "moved ow s (updateOwnerPrefixGauge ow' s')"
    "moved ow s (updateOwnerBFDGauge ow' s')" "moved ow s (updateOwnerOSPFGauge ow' s')"
proof -
  show m: "moved ow s (metered f s')" for f using assms by (simp add: moved_def)
  show "moved ow s (emit order ty d t ow' m s')" "moved ow s (trigger s')"
    using assms emit_bus(7) by (auto simp: moved_def emit_bus)
  show "moved ow s (updateOwnerPeerGauge ow' s')" "moved ow s (updateOwnerPrefixGauge ow' s')"
    "moved ow s (updateOwnerBFDGauge ow' s')" "moved ow s (updateOwnerOSPFGauge ow' s')"
    using gauges_metered m by metis+
qed

lemma notified_blocks [footprint]:
  "notified s (trigger s')" "notified s s' \<Longrightarrow> notified s (metered f s')"
  "notified s s' \<Longrightarrow> notified s (emit order ty d t ow m s')"
  by (simp_all add: notified_def emit_bus)

section \<open>The contract of a call\<close>

definition rpc_spec :: "string \<Rightarrow> string \<Rightarrow> Server \<Rightarrow> 'a rpc \<Rightarrow> bool" where
  "rpc_spec owner token s x \<longleftrightarrow>
     (case fst x of
        Inl e \<Rightarrow> quiet s (snd x)
      | Inr y \<Rightarrow> owner \<noteq> [] \<and> token \<noteq> [] \<and> ValidateToken (sv_policy s) owner token = None \<and>
          moved owner s (snd x) \<and> notified s (snd x))"

lemma rpc_spec_reject: "quiet s s' \<Longrightarrow> rpc_spec ow tk s (reject c m s')"
  by (simp add: rpc_spec_def reject_def)

lemma rpc_spec_Inl: "quiet s s' \<Longrightarrow> rpc_spec ow tk s (Inl e, s')"
  by (simp add: rpc_spec_def)

lemma rpc_spec_observed: "rpc_spec ow tk s x \<Longrightarrow> rpc_spec ow tk s (observed n x)"
  by (auto simp: rpc_spec_def observed_def footprint split: sum.splits)

lemma rpc_spec_authenticated:
  assumes "ValidateToken (sv_policy s) ow tk = None \<Longrightarrow> rpc_spec ow tk s (body s)"
  shows "rpc_spec ow tk s (authenticated ow tk body s)"
  using assms by (auto simp: authenticated_def footprint intro: rpc_spec_reject split: option.split)

lemma rpc_spec_Inr:
  assumes "ow \<noteq> []" and "tk \<noteq> []" and "ValidateToken (sv_policy s) ow tk = None" and "moved ow s s'" and "notified s s'"
  shows "rpc_spec ow tk s (Inr y, s')"
  using assms by (simp add: rpc_spec_def)

lemmas rpc_spec_intros = rpc_spec_reject rpc_spec_Inl rpc_spec_observed rpc_spec_authenticated rpc_spec_Inr

text \<open>Storing what an operation of the store returns.\<close>

lemma moved_store:
  assumes "snd (store_step op (sv_intentStore s)) = store" and "op_owner op = ow"
  shows "moved ow s (s\<lparr>sv_intentStore := store\<rparr>)"
  using assms store_step_frame [of _ op "sv_intentStore s"] store_step_ok [of "sv_intentStore s" op]
  by (auto simp: moved_def)

lemma store_ops_moved:
  "SetPeerIntent ow x t (sv_intentStore s) = (e, st) \<Longrightarrow> moved ow s (s\<lparr>sv_intentStore := st\<rparr>)"
  "SetPrefixIntent ow y t (sv_intentStore s) = (e, st) \<Longrightarrow> moved ow s (s\<lparr>sv_intentStore := st\<rparr>)"
  "SetBFDIntent ow b t (sv_intentStore s) = (e, st) \<Longrightarrow> moved ow s (s\<lparr>sv_intentStore := st\<rparr>)"
  "SetOSPFIntent ow i t (sv_intentStore s) = (e, st) \<Longrightarrow> moved ow s (s\<lparr>sv_intentStore := st\<rparr>)"
  "RemovePeerIntent ow a (sv_intentStore s) = (e, st) \<Longrightarrow> moved ow s (s\<lparr>sv_intentStore := st\<rparr>)"
  "RemovePrefixIntent ow a p (sv_intentStore s) = (e, st) \<Longrightarrow> moved ow s (s\<lparr>sv_intentStore := st\<rparr>)"
  "RemoveBFDIntent ow a (sv_intentStore s) = (e, st) \<Longrightarrow> moved ow s (s\<lparr>sv_intentStore := st\<rparr>)"
  "RemoveOSPFIntent ow a (sv_intentStore s) = (e, st) \<Longrightarrow> moved ow s (s\<lparr>sv_intentStore := st\<rparr>)"
  using moved_store [of "OpSetPeer ow x t" s] moved_store [of "OpSetPrefix ow y t" s]
    moved_store [of "OpSetBFD ow b t" s] moved_store [of "OpSetOSPF ow i t" s] moved_store [of "OpRemovePeer ow a" s]
    moved_store [of "OpRemovePrefix ow a p" s] moved_store [of "OpRemoveBFD ow a" s] moved_store [of "OpRemoveOSPF ow a" s]
  by simp_all

text \<open>A refused operation of the store leaves it as it was.\<close>

lemma store_ops_quiet:
  "SetPeerIntent ow x t (sv_intentStore s) = (Some e, st) \<Longrightarrow> quiet s (s\<lparr>sv_intentStore := st\<rparr>)"
  "SetPrefixIntent ow y t (sv_intentStore s) = (Some e, st) \<Longrightarrow> quiet s (s\<lparr>sv_intentStore := st\<rparr>)"
  "SetBFDIntent ow b t (sv_intentStore s) = (Some e, st) \<Longrightarrow> quiet s (s\<lparr>sv_intentStore := st\<rparr>)"
  "SetOSPFIntent ow i t (sv_intentStore s) = (Some e, st) \<Longrightarrow> quiet s (s\<lparr>sv_intentStore := st\<rparr>)"
  "RemovePeerIntent ow a (sv_intentStore s) = (Some e, st) \<Longrightarrow> quiet s (s\<lparr>sv_intentStore := st\<rparr>)"
  "RemovePrefixIntent ow a p (sv_intentStore s) = (Some e, st) \<Longrightarrow> quiet s (s\<lparr>sv_intentStore := st\<rparr>)"
  "RemoveBFDIntent ow a (sv_intentStore s) = (Some e, st) \<Longrightarrow> quiet s (s\<lparr>sv_intentStore := st\<rparr>)"
  "RemoveOSPFIntent ow a (sv_intentStore s) = (Some e, st) \<Longrightarrow> quiet s (s\<lparr>sv_intentStore := st\<rparr>)"
  using pk.set_rejects [of ow x t "sv_intentStore s"] xk.set_rejects [of ow y t "sv_intentStore s"]
    bk.set_rejects [of ow b t "sv_intentStore s"] ok.set_rejects [of ow i t "sv_intentStore s"]
    pk.remove_rejects [of ow a "sv_intentStore s"] xk.remove_rejects [of ow "(a, p)" "sv_intentStore s"]
    bk.remove_rejects [of ow a "sv_intentStore s"] ok.remove_rejects [of ow a "sv_intentStore s"]
  by simp_all

lemmas store_ops = store_ops_moved store_ops_quiet

section \<open>Every call meets the contract\<close>

lemma Register_spec: "rpc_spec (regq_Owner q) (regq_Token q) s (Register cx q s)"
proof -
  have "moved ow s (s\<lparr>sv_sessions := gm_put (sv_sessions s) ow x\<rparr>)"
    "notified s (s\<lparr>sv_sessions := gm_put (sv_sessions s) ow x\<rparr>)" for ow x
    by (simp_all add: moved_def notified_def)
  then show ?thesis
    unfolding Register_def Let_def by (auto intro!: rpc_spec_intros footprint)
qed

lemma Deregister_spec: "rpc_spec (derq_Owner q) (derq_Token q) s (Deregister cx q s)"
proof -
  let ?o = "derq_Owner q"
  have "moved ?o s (s\<lparr>sv_intentStore := RemoveAllByOwner ?o (sv_intentStore s)\<rparr>)"
    using moved_store [of "OpRemoveAll ?o" s] by simp
  then have m: "moved ?o s (trigger (s\<lparr>sv_intentStore := RemoveAllByOwner ?o (sv_intentStore s)\<rparr>))"
    by (rule footprint)
  have d: "moved ow s s' \<Longrightarrow> moved ow s (s'\<lparr>sv_sessions := gm_del (sv_sessions s) ow\<rparr>)"
    "notified s s' \<Longrightarrow> notified s (s'\<lparr>sv_sessions := x\<rparr>)" for s' ow x
    by (simp_all add: moved_def notified_def)
  from m show ?thesis
    unfolding Deregister_def Let_def
    by (auto intro!: rpc_spec_intros footprint d) (simp add: notified_def)
qed

lemma ConfigureBGP_spec: "rpc_spec (cfgq_Owner q) (cfgq_Token q) s (ConfigureBGP cx q s)"
proof -
  have "moved ow s (s\<lparr>sv_reconciler := snd (UpdateBGPGlobal as rid (sv_reconciler s))\<rparr>)" for ow as rid
    by (simp add: moved_def calm_updates, simp add: UpdateBGPGlobal_def Let_def rec_ok_def)
  then show ?thesis
    unfolding ConfigureBGP_def Let_def case_prod_unfold
    by (auto intro!: rpc_spec_intros footprint split: option.split)
qed

lemma validateApplyPeerRequest_None:
  "validateApplyPeerRequest q = None \<Longrightarrow> appq_Owner q \<noteq> [] \<and> appq_Token q \<noteq> [] \<and> appq_Peer q \<noteq> None"
  by (auto simp: validateApplyPeerRequest_def split: if_splits option.splits)

lemma ApplyPeer_spec: "rpc_spec (appq_Owner q) (appq_Token q) s (ApplyPeer cx q s)"
  unfolding ApplyPeer_def Let_def
  by (auto intro!: rpc_spec_intros footprint split: option.split prod.split
      dest!: validateApplyPeerRequest_None intro: store_ops)

lemma handleRemoveIntent_spec:
  assumes "\<And>e st. ric_removeIntent cfg ow (ric_idValue cfg) (sv_intentStore s) = (Some e, st) \<Longrightarrow>
      quiet s (s\<lparr>sv_intentStore := st\<rparr>)"
    and "\<And>st. ric_removeIntent cfg ow (ric_idValue cfg) (sv_intentStore s) = (None, st) \<Longrightarrow>
      moved ow s (s\<lparr>sv_intentStore := st\<rparr>)"
    and "\<And>s'. moved ow s s' \<Longrightarrow> moved ow s (ric_updateGauge cfg ow s')"
  shows "rpc_spec ow tk s (handleRemoveIntent ow tk cfg s)"
  unfolding handleRemoveIntent_def Let_def
  by (auto intro!: rpc_spec_intros footprint assms(3) split: option.split prod.split intro: assms(1,2))

lemma removal_specs:
  "rpc_spec (remq_Owner q) (remq_Token q) s (RemovePeer cx q s)"
  "rpc_spec (dbfq_Owner q') (dbfq_Token q') s (DisableBFD cx q' s)"
  unfolding RemovePeer_def DisableBFD_def
  by (intro rpc_spec_observed handleRemoveIntent_spec;
      auto intro: footprint store_ops)+

lemma advertiseCheck_spec:
  assumes "advertiseCheck cx q s = (y, s')"
  shows "quiet s s'" and "y = Inr i \<Longrightarrow> advq_Owner q \<noteq> [] \<and> advq_Token q \<noteq> [] \<and>
    ValidateToken (sv_policy s) (advq_Owner q) (advq_Token q) = None \<and>
    ValidatePrefix (sv_policy s) (advq_Owner q) (advq_Prefix q) = None \<and>
    CheckConflict (sv_policy s) (advq_Owner q) (advq_Prefix q) (protocolString_s (advq_Protocol q))
      (findPrefixOwner (cx_order cx 1) (advq_Prefix q) (protocolString_s (advq_Protocol q)) s) = None \<and>
    advq_Protocol q \<noteq> PROTOCOL_UNSPECIFIED \<and>
    pfx_Owner i = advq_Owner q \<and> pfx_Prefix i = advq_Prefix q \<and> pfx_Protocol i = advq_Protocol q \<and> s' = s"
  using assms unfolding advertiseCheck_def Let_def authenticated_def
  by (auto simp: reject_def split: if_splits option.splits intro!: footprint)

lemma AdvertisePrefix_spec: "rpc_spec (advq_Owner q) (advq_Token q) s (AdvertisePrefix cx q s)"
proof -
  obtain y s' where c: "advertiseCheck cx q s = (y, s')" by fastforce
  show ?thesis
  proof (cases y)
    case (Inl e)
    then show ?thesis
      using c advertiseCheck_spec(1) [OF c] by (auto simp: AdvertisePrefix_def intro!: rpc_spec_intros)
  next
    case (Inr i)
    then have i: "advq_Owner q \<noteq> []" "advq_Token q \<noteq> []"
      "ValidateToken (sv_policy s) (advq_Owner q) (advq_Token q) = None" "s' = s"
      using advertiseCheck_spec(2) [OF c] by auto
    show ?thesis
      unfolding AdvertisePrefix_def c Inr advertiseCommit_def Let_def
      by (auto simp: i intro!: rpc_spec_intros footprint split: option.split prod.split
          intro: store_ops)
  qed
qed

lemma WithdrawPrefix_spec: "rpc_spec (wdrq_Owner q) (wdrq_Token q) s (WithdrawPrefix cx q s)"
  unfolding WithdrawPrefix_def Let_def
  by (auto intro!: rpc_spec_intros footprint split: option.split prod.split
      intro: store_ops)

lemma EnableBFD_spec: "rpc_spec (ebfq_Owner q) (ebfq_Token q) s (EnableBFD cx q s)"
  unfolding EnableBFD_def Let_def
  by (auto intro!: rpc_spec_intros footprint split: option.split prod.split
      intro: store_ops)

lemma EnableOSPF_spec: "rpc_spec (eosq_Owner q) (eosq_Token q) s (EnableOSPF cx q s)"
  unfolding EnableOSPF_def Let_def
  by (auto intro!: rpc_spec_intros footprint split: option.split prod.split sum.split
      intro: store_ops)

lemma DisableOSPF_spec: "rpc_spec (dosq_Owner q) (dosq_Token q) s (DisableOSPF cx q s)"
  unfolding DisableOSPF_def Let_def
  by (auto intro!: rpc_spec_intros footprint split: option.split prod.split
      intro: store_ops)

section \<open>The interface of a call\<close>

definition server_ok :: "Server \<Rightarrow> bool" where
  "server_ok s \<longleftrightarrow> store_ok (sv_intentStore s) \<and> rec_ok (sv_reconciler s) \<and> bus_ok (sv_eventBus s)"

text \<open>A run of calls, each with its context.\<close>

fun run_calls :: "(Ctx \<Rightarrow> 'q \<Rightarrow> Server \<Rightarrow> 'a rpc) \<Rightarrow> (Ctx \<times> 'q) list \<Rightarrow> Server \<Rightarrow> Server" where
  "run_calls call [] s = s"
| "run_calls call ((cx, q) # qs) s = run_calls call qs (snd (call cx q s))"

locale rpc_handler =
  fixes call :: "Ctx \<Rightarrow> 'q \<Rightarrow> Server \<Rightarrow> 'a rpc"
    and owner_of :: "'q \<Rightarrow> string"
    and token_of :: "'q \<Rightarrow> string"
  assumes authentic: "fst (call cx q s) = Inr y \<Longrightarrow>
      owner_of q \<noteq> [] \<and> token_of q \<noteq> [] \<and> ValidateToken (sv_policy s) (owner_of q) (token_of q) = None"
    and refused: "fst (call cx q s) = Inl e \<Longrightarrow> quiet s (snd (call cx q s))"
    and moves: "moved (owner_of q) s (snd (call cx q s))"
    and notifies: "notified s (snd (call cx q s))"
begin

lemma run_ok: "server_ok s \<Longrightarrow> server_ok (run_calls call qs s)"
proof (induction qs arbitrary: s)
  case (Cons x qs)
  obtain cx q where "x = (cx, q)" by fastforce
  then show ?case using Cons moves [of q s cx] by (simp add: server_ok_def moved_def)
qed simp

lemma run_fixed: "sv_policy (run_calls call qs s) = sv_policy s"
proof (induction qs arbitrary: s)
  case (Cons x qs)
  obtain cx q where "x = (cx, q)" by fastforce
  then show ?case using Cons moves [of q s cx] by (simp add: moved_def)
qed simp

text \<open>Without the token, the intents of an owner cannot be changed.\<close>

lemma step_isolated:
  assumes "owner_of q = ow \<Longrightarrow> ValidateToken (sv_policy s) ow (token_of q) \<noteq> None"
  shows "map_of (intents (sv_intentStore (snd (call cx q s)))) ow = map_of (intents (sv_intentStore s)) ow"
proof (cases "owner_of q = ow")
  case True
  then obtain e where "fst (call cx q s) = Inl e"
    using assms authentic [of cx q s] by (cases "fst (call cx q s)") auto
  then show ?thesis using refused by (simp add: quiet_def)
next
  case False
  then show ?thesis using moves [of q s cx] by (simp add: moved_def)
qed

lemma run_isolated:
  assumes "\<forall>(cx, q) \<in> set qs. owner_of q = ow \<longrightarrow> ValidateToken (sv_policy s) ow (token_of q) \<noteq> None"
  shows "map_of (intents (sv_intentStore (run_calls call qs s))) ow = map_of (intents (sv_intentStore s)) ow"
  using assms
proof (induction qs arbitrary: s)
  case (Cons x qs)
  obtain cx q where x: "x = (cx, q)" by fastforce
  have "sv_policy (snd (call cx q s)) = sv_policy s" using moves [of q s cx] by (simp add: moved_def)
  then show ?case using Cons x step_isolated [of q ow s cx] by simp
qed simp

text \<open>No change of the intents goes unnoticed.\<close>

lemma run_pending:
  "r_triggerPending (sv_reconciler s) \<Longrightarrow> r_triggerPending (sv_reconciler (run_calls call qs s))"
proof (induction qs arbitrary: s)
  case (Cons x qs)
  obtain cx q where "x = (cx, q)" by fastforce
  then show ?case using Cons moves [of q s cx] by (simp add: moved_def)
qed simp

lemma run_notified: "notified s (run_calls call qs s)"
proof (induction qs arbitrary: s)
  case (Cons x qs)
  obtain cx q where x: "x = (cx, q)" by fastforce
  then show ?case
    using Cons [of "snd (call cx q s)"] notifies [of s cx q] run_pending [of "snd (call cx q s)" qs]
    by (auto simp: notified_def)
qed (simp add: notified_def)

end

lemma rpc_specI:
  assumes "\<And>cx q s. rpc_spec (ow q) (tk q) s (call cx q s)"
  shows "rpc_handler call ow tk"
proof
  fix cx q s y
  note sp = assms [of q s cx, unfolded rpc_spec_def]
  show "fst (call cx q s) = Inr y \<Longrightarrow> ow q \<noteq> [] \<and> tk q \<noteq> [] \<and> ValidateToken (sv_policy s) (ow q) (tk q) = None"
    "fst (call cx q s) = Inl e \<Longrightarrow> quiet s (snd (call cx q s))" for e
    using sp by auto
  show "moved (ow q) s (snd (call cx q s))" "notified s (snd (call cx q s))"
    using sp by (auto split: sum.splits intro: quiet_moved quiet_notified)
qed

interpretation register: rpc_handler Register regq_Owner regq_Token
  by (rule rpc_specI) (rule Register_spec)

interpretation deregister: rpc_handler Deregister derq_Owner derq_Token
  by (rule rpc_specI) (rule Deregister_spec)

interpretation configure_bgp: rpc_handler ConfigureBGP cfgq_Owner cfgq_Token
  by (rule rpc_specI) (rule ConfigureBGP_spec)

interpretation apply_peer: rpc_handler ApplyPeer appq_Owner appq_Token
  by (rule rpc_specI) (rule ApplyPeer_spec)

interpretation remove_peer: rpc_handler RemovePeer remq_Owner remq_Token
  by (rule rpc_specI) (rule removal_specs)

interpretation advertise: rpc_handler AdvertisePrefix advq_Owner advq_Token
  by (rule rpc_specI) (rule AdvertisePrefix_spec)

interpretation withdraw: rpc_handler WithdrawPrefix wdrq_Owner wdrq_Token
  by (rule rpc_specI) (rule WithdrawPrefix_spec)

interpretation enable_bfd: rpc_handler EnableBFD ebfq_Owner ebfq_Token
  by (rule rpc_specI) (rule EnableBFD_spec)

interpretation disable_bfd: rpc_handler DisableBFD dbfq_Owner dbfq_Token
  by (rule rpc_specI) (rule removal_specs)

interpretation enable_ospf: rpc_handler EnableOSPF eosq_Owner eosq_Token
  by (rule rpc_specI) (rule EnableOSPF_spec)

interpretation disable_ospf: rpc_handler DisableOSPF dosq_Owner dosq_Token
  by (rule rpc_specI) (rule DisableOSPF_spec)

section \<open>All calls\<close>

datatype request =
    QRegister RegisterRequest
  | QDeregister DeregisterRequest
  | QConfigureBGP ConfigureBGPRequest
  | QApplyPeer ApplyPeerRequest
  | QRemovePeer RemovePeerRequest
  | QAdvertisePrefix AdvertisePrefixRequest
  | QWithdrawPrefix WithdrawPrefixRequest
  | QEnableBFD EnableBFDRequest
  | QDisableBFD DisableBFDRequest
  | QEnableOSPF EnableOSPFRequest
  | QDisableOSPF DisableOSPFRequest

text \<open>A call of any kind, its response left out.\<close>

definition void :: "'a rpc \<Rightarrow> unit rpc" where
  "void x = (map_sum (\<lambda>e. e) (\<lambda>_. ()) (fst x), snd x)"

fun serve :: "Ctx \<Rightarrow> request \<Rightarrow> Server \<Rightarrow> unit rpc" where
  "serve cx (QRegister q) s = void (Register cx q s)"
| "serve cx (QDeregister q) s = Deregister cx q s"
| "serve cx (QConfigureBGP q) s = void (ConfigureBGP cx q s)"
| "serve cx (QApplyPeer q) s = ApplyPeer cx q s"
| "serve cx (QRemovePeer q) s = RemovePeer cx q s"
| "serve cx (QAdvertisePrefix q) s = AdvertisePrefix cx q s"
| "serve cx (QWithdrawPrefix q) s = WithdrawPrefix cx q s"
| "serve cx (QEnableBFD q) s = EnableBFD cx q s"
| "serve cx (QDisableBFD q) s = DisableBFD cx q s"
| "serve cx (QEnableOSPF q) s = EnableOSPF cx q s"
| "serve cx (QDisableOSPF q) s = DisableOSPF cx q s"

fun q_owner :: "request \<Rightarrow> string" where
  "q_owner (QRegister q) = regq_Owner q"
| "q_owner (QDeregister q) = derq_Owner q"
| "q_owner (QConfigureBGP q) = cfgq_Owner q"
| "q_owner (QApplyPeer q) = appq_Owner q"
| "q_owner (QRemovePeer q) = remq_Owner q"
| "q_owner (QAdvertisePrefix q) = advq_Owner q"
| "q_owner (QWithdrawPrefix q) = wdrq_Owner q"
| "q_owner (QEnableBFD q) = ebfq_Owner q"
| "q_owner (QDisableBFD q) = dbfq_Owner q"
| "q_owner (QEnableOSPF q) = eosq_Owner q"
| "q_owner (QDisableOSPF q) = dosq_Owner q"

fun q_token :: "request \<Rightarrow> string" where
  "q_token (QRegister q) = regq_Token q"
| "q_token (QDeregister q) = derq_Token q"
| "q_token (QConfigureBGP q) = cfgq_Token q"
| "q_token (QApplyPeer q) = appq_Token q"
| "q_token (QRemovePeer q) = remq_Token q"
| "q_token (QAdvertisePrefix q) = advq_Token q"
| "q_token (QWithdrawPrefix q) = wdrq_Token q"
| "q_token (QEnableBFD q) = ebfq_Token q"
| "q_token (QDisableBFD q) = dbfq_Token q"
| "q_token (QEnableOSPF q) = eosq_Token q"
| "q_token (QDisableOSPF q) = dosq_Token q"

lemma rpc_spec_void: "rpc_spec ow tk s x \<Longrightarrow> rpc_spec ow tk s (void x)"
  by (simp add: rpc_spec_def void_def split: sum.splits)

lemma serve_spec: "rpc_spec (q_owner q) (q_token q) s (serve cx q s)"
  by (cases q) (simp_all add: rpc_spec_void Register_spec Deregister_spec ConfigureBGP_spec ApplyPeer_spec
      removal_specs AdvertisePrefix_spec WithdrawPrefix_spec EnableBFD_spec EnableOSPF_spec DisableOSPF_spec)

interpretation server: rpc_handler serve q_owner q_token
  by (rule rpc_specI) (rule serve_spec)

end
