(* ===== verification/Server_Validity.thy ===== *)
theory Server_Validity
  imports Server_Facts
begin

text \<open>
  What every intent in the store has been through: the ranges and defaults the calls
  enforce, the policy of its owner for a prefix, and that no two owners but the
  administrator hold the same prefix.  Each is an invariant of every run of calls.
\<close>

section \<open>Valid intents\<close>

definition peer_valid :: "PeerIntent \<Rightarrow> bool" where
  "peer_valid p \<longleftrightarrow>
     ParseIP (peer_NeighborAddress p) \<noteq> None \<and> peer_RemoteAS p \<noteq> 0 \<and> peer_AddressFamilies p \<noteq> [] \<and>
     peer_MaxPrefixes p \<noteq> 0 \<and> (peer_SourceAddress p \<noteq> [] \<longrightarrow> ParseIP (peer_SourceAddress p) \<noteq> None) \<and>
     (peer_Keepalive p = 0 \<longleftrightarrow> peer_HoldTime p = 0) \<and> (peer_HoldTime p \<noteq> 0 \<longrightarrow> 3 \<le> peer_HoldTime p) \<and>
     (peer_BFDEnabled p \<longrightarrow> peer_BFDMinRxMs p \<noteq> 0 \<and> peer_BFDMinTxMs p \<noteq> 0 \<and> peer_BFDDetectMultiplier p \<noteq> 0)"

definition prefix_valid :: "Engine \<Rightarrow> string \<Rightarrow> PrefixIntent \<Rightarrow> bool" where
  "prefix_valid e ow x \<longleftrightarrow>
     ParseCIDR (pfx_Prefix x) \<noteq> None \<and> pfx_Protocol x \<noteq> PROTOCOL_UNSPECIFIED \<and>
     ValidatePrefix e ow (pfx_Prefix x) = None \<and>
     (pfx_NextHop x \<noteq> [] \<longrightarrow> ParseIP (pfx_NextHop x) \<noteq> None) \<and>
     (pfx_Protocol x = PROTOCOL_OSPF \<longrightarrow> pfx_LocalPreference x = 0 \<and> pfx_Communities x = [] \<and>
        pfx_MED x = 0 \<and> pfx_NextHop x = [])"

definition bfd_valid :: "BFDIntent \<Rightarrow> bool" where
  "bfd_valid b \<longleftrightarrow> ParseIP (bfd_PeerAddress b) \<noteq> None \<and> bfd_MinRxMs b \<noteq> 0 \<and> bfd_MinTxMs b \<noteq> 0 \<and>
     bfd_DetectMultiplier b \<noteq> 0"

definition ospf_valid :: "OSPFIntent \<Rightarrow> bool" where
  "ospf_valid i \<longleftrightarrow> ospf_InterfaceName i \<noteq> [] \<and> ospf_AreaID i \<noteq> [] \<and> 1 \<le> ospf_Cost i \<and> ospf_Cost i \<le> 65535 \<and>
     ospf_HelloInterval i \<le> ospf_DeadInterval i \<and>
     (ospf_HelloInterval i = 0 \<longleftrightarrow> ospf_IPv6 i) \<and> (ospf_DeadInterval i = 0 \<longleftrightarrow> ospf_IPv6 i)"

definition store_valid :: "Engine \<Rightarrow> Store \<Rightarrow> bool" where
  "store_valid e s \<longleftrightarrow>
     (\<forall>ow k p. look Peers s ow k = Some p \<longrightarrow> peer_valid p) \<and>
     (\<forall>ow k x. look Prefixes s ow k = Some x \<longrightarrow> prefix_valid e ow x) \<and>
     (\<forall>ow k b. look BFD s ow k = Some b \<longrightarrow> bfd_valid b) \<and>
     (\<forall>ow k i. look OSPF s ow k = Some i \<longrightarrow> ospf_valid i)"

text \<open>The time stamps do not matter.\<close>

lemma valid_stamp [simp]:
  "peer_valid (stampPeer ow c u p) = peer_valid p" "prefix_valid e ow' (stampPrefix ow c u x) = prefix_valid e ow' x"
  "bfd_valid (stampBFD ow c u b) = bfd_valid b" "ospf_valid (stampOSPF ow c u i) = ospf_valid i"
  by (simp_all add: peer_valid_def prefix_valid_def bfd_valid_def ospf_valid_def stampPeer_def stampPrefix_def
      stampBFD_def stampOSPF_def)

section \<open>Operations on one kind leave the others alone\<close>

lemma set_frames:
  "look Prefixes (snd (SetPeerIntent ow p t s)) ow' k = look Prefixes s ow' k"
  "look BFD (snd (SetPeerIntent ow p t s)) ow' k = look BFD s ow' k"
  "look OSPF (snd (SetPeerIntent ow p t s)) ow' k = look OSPF s ow' k"
  "look Peers (snd (SetPrefixIntent ow x t s)) ow' k = look Peers s ow' k"
  "look BFD (snd (SetPrefixIntent ow x t s)) ow' k = look BFD s ow' k"
  "look OSPF (snd (SetPrefixIntent ow x t s)) ow' k = look OSPF s ow' k"
  "look Peers (snd (SetBFDIntent ow b t s)) ow' k = look Peers s ow' k"
  "look Prefixes (snd (SetBFDIntent ow b t s)) ow' k = look Prefixes s ow' k"
  "look OSPF (snd (SetBFDIntent ow b t s)) ow' k = look OSPF s ow' k"
  "look Peers (snd (SetOSPFIntent ow i t s)) ow' k = look Peers s ow' k"
  "look Prefixes (snd (SetOSPFIntent ow i t s)) ow' k = look Prefixes s ow' k"
  "look BFD (snd (SetOSPFIntent ow i t s)) ow' k = look BFD s ow' k"
  by (auto simp: look_def SetPeerIntent_def SetPrefixIntent_def SetBFDIntent_def SetOSPFIntent_def setIntent_def
      ensureOwner_def newOwnerIntents_def Let_def split: option.splits)

text \<open>Removing never adds.\<close>

definition shrinks :: "Store \<Rightarrow> Store \<Rightarrow> bool" where
  "shrinks s st \<longleftrightarrow>
     (\<forall>ow k p. look Peers st ow k = Some p \<longrightarrow> look Peers s ow k = Some p) \<and>
     (\<forall>ow k x. look Prefixes st ow k = Some x \<longrightarrow> look Prefixes s ow k = Some x) \<and>
     (\<forall>ow k b. look BFD st ow k = Some b \<longrightarrow> look BFD s ow k = Some b) \<and>
     (\<forall>ow k i. look OSPF st ow k = Some i \<longrightarrow> look OSPF s ow k = Some i)"

lemma shrinks_update:
  assumes "map_of (intents s) ow = Some oi"
    and "\<And>k. map_of (Peers oi') k \<noteq> None \<Longrightarrow> map_of (Peers oi') k = map_of (Peers oi) k"
    and "\<And>k. map_of (Prefixes oi') k \<noteq> None \<Longrightarrow> map_of (Prefixes oi') k = map_of (Prefixes oi) k"
    and "\<And>k. map_of (BFD oi') k \<noteq> None \<Longrightarrow> map_of (BFD oi') k = map_of (BFD oi) k"
    and "\<And>k. map_of (OSPF oi') k \<noteq> None \<Longrightarrow> map_of (OSPF oi') k = map_of (OSPF oi) k"
  shows "shrinks s (s\<lparr>intents := gm_put (intents s) ow oi'\<rparr>)"
proof -
  have grow: "look sel (s\<lparr>intents := gm_put (intents s) ow oi'\<rparr>) ow' k = Some v \<Longrightarrow> look sel s ow' k = Some v"
    if "\<And>k. map_of (sel oi') k \<noteq> None \<Longrightarrow> map_of (sel oi') k = map_of (sel oi) k"
    for sel :: "OwnerIntents \<Rightarrow> (string, 'v) gomap" and ow' k v
    using assms(1) that [of k] by (auto simp: look_def split: option.splits if_splits)
  show ?thesis
    unfolding shrinks_def
    using grow [of Peers, OF assms(2)] grow [of Prefixes, OF assms(3)] grow [of BFD, OF assms(4)]
      grow [of OSPF, OF assms(5)] by simp
qed

lemma shrinks_refl [simp]: "shrinks s s"
  by (simp add: shrinks_def)

lemma remove_shrinks:
  "shrinks s (snd (RemovePeerIntent ow a s))" "shrinks s (snd (RemovePrefixIntent ow a pr s))"
  "shrinks s (snd (RemoveBFDIntent ow a s))" "shrinks s (snd (RemoveOSPFIntent ow a s))"
  by (auto simp: RemovePeerIntent_def RemovePrefixIntent_def RemoveBFDIntent_def RemoveOSPFIntent_def Let_def
      split: option.split intro!: shrinks_update split: if_splits)

lemma removeAll_shrinks: "shrinks s (RemoveAllByOwner ow s)"
  by (auto simp: shrinks_def look_def RemoveAllByOwner_def split: option.splits if_splits)

lemma valid_shrinks: "shrinks s st \<Longrightarrow> store_valid e s \<Longrightarrow> store_valid e st"
  unfolding shrinks_def store_valid_def by (elim conjE, intro conjI allI impI) metis+

lemma valid_sets:
  assumes "store_valid e s"
  shows "peer_valid p \<Longrightarrow> store_valid e (snd (SetPeerIntent ow (Some p) t s))"
    and "prefix_valid e ow x \<Longrightarrow> store_valid e (snd (SetPrefixIntent ow (Some x) t s))"
    and "bfd_valid b \<Longrightarrow> store_valid e (snd (SetBFDIntent ow (Some b) t s))"
    and "ospf_valid i \<Longrightarrow> store_valid e (snd (SetOSPFIntent ow (Some i) t s))"
proof -
  show "store_valid e (snd (SetPeerIntent ow (Some p) t s))" if "peer_valid p"
    using assms that pk.set_rejects [of ow "Some p" t s] pk.set_look [of ow p t s]
    by (cases "fst (SetPeerIntent ow (Some p) t s)") (auto simp: store_valid_def set_frames)
  show "store_valid e (snd (SetPrefixIntent ow (Some x) t s))" if "prefix_valid e ow x"
    using assms that xk.set_rejects [of ow "Some x" t s] xk.set_look [of ow x t s]
    by (cases "fst (SetPrefixIntent ow (Some x) t s)") (auto simp: store_valid_def set_frames)
  show "store_valid e (snd (SetBFDIntent ow (Some b) t s))" if "bfd_valid b"
    using assms that bk.set_rejects [of ow "Some b" t s] bk.set_look [of ow b t s]
    by (cases "fst (SetBFDIntent ow (Some b) t s)") (auto simp: store_valid_def set_frames)
  show "store_valid e (snd (SetOSPFIntent ow (Some i) t s))" if "ospf_valid i"
    using assms that ok.set_rejects [of ow "Some i" t s] ok.set_look [of ow i t s]
    by (cases "fst (SetOSPFIntent ow (Some i) t s)") (auto simp: store_valid_def set_frames)
qed

section \<open>What a call does to the store\<close>

inductive store_effect :: "string \<Rightarrow> Server \<Rightarrow> Store \<Rightarrow> bool" for ow s where
  shrink: "shrinks (sv_intentStore s) st \<Longrightarrow> store_effect ow s st"
| set_peer: "peer_valid p \<Longrightarrow> store_effect ow s (snd (SetPeerIntent ow (Some p) t (sv_intentStore s)))"
| set_prefix: "prefix_valid (sv_policy s) ow x \<Longrightarrow>
    CheckConflict (sv_policy s) ow (pfx_Prefix x) (protocolString_s (pfx_Protocol x))
      (findPrefixOwner order (pfx_Prefix x) (protocolString_s (pfx_Protocol x)) s) = None \<Longrightarrow>
    store_effect ow s (snd (SetPrefixIntent ow (Some x) t (sv_intentStore s)))"
| set_bfd: "bfd_valid b \<Longrightarrow> store_effect ow s (snd (SetBFDIntent ow (Some b) t (sv_intentStore s)))"
| set_ospf: "ospf_valid i \<Longrightarrow> store_effect ow s (snd (SetOSPFIntent ow (Some i) t (sv_intentStore s)))"

lemma store_effect_same: "st = sv_intentStore s \<Longrightarrow> store_effect ow s st"
  by (simp add: store_effect.shrink)

lemma gauges_store [simp]:
  "sv_intentStore (updateOwnerPeerGauge ow s) = sv_intentStore s"
  "sv_intentStore (updateOwnerPrefixGauge ow s) = sv_intentStore s"
  "sv_intentStore (updateOwnerBFDGauge ow s) = sv_intentStore s"
  "sv_intentStore (updateOwnerOSPFGauge ow s) = sv_intentStore s"
  "sv_policy (updateOwnerPrefixGauge ow s) = sv_policy s"
  using gauges_metered metered_sel(1,2) by metis+

lemma snd_blocks [simp]:
  "sv_intentStore (snd (observed n x)) = sv_intentStore (snd x)" "snd (reject c m s) = s"
  by (simp_all add: observed_def reject_def)

lemma store_effect_self [simp]: "store_effect ow s (sv_intentStore s)"
  by (simp add: store_effect_same)

lemma peerIntent_of_valid:
  assumes "validateApplyPeerRequest q = None" and "appq_Peer q = Some peer"
  shows "peer_valid (peerIntent_of ow peer)"
  using assms
  by (auto simp: validateApplyPeerRequest_def peer_valid_def peerIntent_of_def Let_def word_neq_0_conv not_less
      split: if_splits)

lemma bfdIntent_of_valid: "ParseIP (ebfq_PeerAddress q) = Some ip \<Longrightarrow> bfd_valid (bfdIntent_of q)"
  by (simp add: bfdIntent_of_def bfd_valid_def)

lemma ospfIntent_of_valid:
  assumes "ospfIntent_of q = Inr i" and "eosq_InterfaceName q \<noteq> []" and "eosq_AreaId q \<noteq> []"
  shows "ospf_valid i"
proof -
  have one: "1 \<le> c" if "c \<noteq> 0" for c :: uint32 using that by (simp add: word_le_nat_alt unat_gt_0 Suc_le_eq)
  show ?thesis
    using assms by (auto simp: ospfIntent_of_def ospf_valid_def Let_def not_less one word_neq_0_conv split: if_splits)
qed

lemma advertiseCheck_valid:
  assumes "advertiseCheck cx q s = (Inr i, s')"
  shows "prefix_valid (sv_policy s) (advq_Owner q) i"
  using assms unfolding advertiseCheck_def Let_def authenticated_def
  by (auto simp: reject_def prefix_valid_def word_gt_0 split: if_splits option.splits)

lemma register_effect: "store_effect ow s (sv_intentStore (snd (Register cx q s)))"
  by (rule store_effect_same) (simp add: Register_def Let_def authenticated_def emit_bus split: option.split)

lemma configure_effect: "store_effect ow s (sv_intentStore (snd (ConfigureBGP cx q s)))"
  by (rule store_effect_same)
    (simp add: ConfigureBGP_def Let_def authenticated_def emit_bus case_prod_unfold split: option.split)

lemma deregister_effect: "store_effect (derq_Owner q) s (sv_intentStore (snd (Deregister cx q s)))"
  by (rule store_effect.shrink)
    (simp add: Deregister_def Let_def authenticated_def emit_bus removeAll_shrinks split: option.split)

lemma apply_peer_effect: "store_effect (appq_Owner q) s (sv_intentStore (snd (ApplyPeer cx q s)))"
proof -
  have set: "store_effect ow s st" if "SetPeerIntent ow (Some p) u (sv_intentStore s) = (e, st)" "peer_valid p" for ow p u e st
    using store_effect.set_peer [OF that(2), of ow s u] that(1) by simp
  show ?thesis
    by (auto simp: ApplyPeer_def Let_def authenticated_def emit_bus split: option.split prod.split
        intro: set peerIntent_of_valid)
qed

lemma remove_peer_effect: "store_effect ow s (sv_intentStore (snd (RemovePeer cx q s)))"
  "store_effect ow s (sv_intentStore (snd (DisableBFD cx q' s)))"
proof -
  have "shrinks (sv_intentStore s) st" if "RemovePeerIntent ow a (sv_intentStore s) = (e, st) \<or>
      RemoveBFDIntent ow a (sv_intentStore s) = (e, st)" for ow a e st
    using remove_shrinks [of "sv_intentStore s"] that by (metis snd_conv)
  then show "store_effect ow s (sv_intentStore (snd (RemovePeer cx q s)))"
    "store_effect ow s (sv_intentStore (snd (DisableBFD cx q' s)))"
    by (auto simp: RemovePeer_def DisableBFD_def handleRemoveIntent_def authenticated_def Let_def
        intro!: store_effect.shrink split: option.split prod.split)
qed

lemma advertise_effect: "store_effect (advq_Owner q) s (sv_intentStore (snd (AdvertisePrefix cx q s)))"
proof -
  obtain y s' where c: "advertiseCheck cx q s = (y, s')" by fastforce
  show ?thesis
  proof (cases y)
    case (Inl e)
    then show ?thesis
      using c advertiseCheck_spec(1) [OF c] by (auto simp: AdvertisePrefix_def quiet_def intro!: store_effect_same)
  next
    case (Inr i)
    note v = advertiseCheck_valid [OF c [unfolded Inr]] and sp = advertiseCheck_spec(2) [OF c Inr]
    obtain e st where st: "SetPrefixIntent (advq_Owner q) (Some i) (cx_now cx 1) (sv_intentStore s) = (e, st)"
      by fastforce
    have "store_effect (advq_Owner q) s st"
      using store_effect.set_prefix [OF v, of "cx_order cx 1" "cx_now cx 1"] sp st by simp
    then show ?thesis
      using sp st by (simp add: AdvertisePrefix_def c Inr advertiseCommit_def Let_def emit_bus split: option.split)
  qed
qed

lemma withdraw_effect: "store_effect ow s (sv_intentStore (snd (WithdrawPrefix cx q s)))"
proof -
  have "shrinks (sv_intentStore s) st" if "RemovePrefixIntent ow a p (sv_intentStore s) = (e, st)" for ow a p e st
    using remove_shrinks(2) [of "sv_intentStore s" ow a p] that by simp
  then show ?thesis
    by (auto simp: WithdrawPrefix_def authenticated_def Let_def emit_bus
        intro!: store_effect.shrink split: option.split prod.split)
qed

lemma enable_bfd_effect: "store_effect (ebfq_Owner q) s (sv_intentStore (snd (EnableBFD cx q s)))"
proof -
  have set: "store_effect ow s st" if "SetBFDIntent ow (Some b) u (sv_intentStore s) = (e, st)" "bfd_valid b" for ow b u e st
    using store_effect.set_bfd [OF that(2), of ow s u] that(1) by simp
  show ?thesis
    by (auto simp: EnableBFD_def Let_def authenticated_def emit_bus split: option.split prod.split
        intro!: set bfdIntent_of_valid)
qed

lemma enable_ospf_effect: "store_effect (eosq_Owner q) s (sv_intentStore (snd (EnableOSPF cx q s)))"
proof -
  have set: "store_effect ow s st" if "SetOSPFIntent ow (Some i) u (sv_intentStore s) = (e, st)" "ospf_valid i" for ow i u e st
    using store_effect.set_ospf [OF that(2), of ow s u] that(1) by simp
  show ?thesis
    by (auto simp: EnableOSPF_def Let_def authenticated_def emit_bus split: option.split prod.split sum.split
        intro: set ospfIntent_of_valid)
qed

lemma disable_ospf_effect: "store_effect ow s (sv_intentStore (snd (DisableOSPF cx q s)))"
proof -
  have "shrinks (sv_intentStore s) st" if "RemoveOSPFIntent ow a (sv_intentStore s) = (e, st)" for ow a e st
    using remove_shrinks(4) [of "sv_intentStore s" ow a] that by simp
  then show ?thesis
    by (auto simp: DisableOSPF_def authenticated_def Let_def intro!: store_effect.shrink split: option.split prod.split)
qed

lemma serve_effect: "store_effect (q_owner q) s (sv_intentStore (snd (serve cx q s)))"
  by (cases q) (simp_all add: void_def register_effect deregister_effect configure_effect apply_peer_effect
      remove_peer_effect advertise_effect withdraw_effect enable_bfd_effect enable_ospf_effect disable_ospf_effect)

text \<open>So the intents in the store are always valid ones.\<close>

lemma effect_valid:
  assumes "store_effect ow s st" and "store_valid (sv_policy s) (sv_intentStore s)"
  shows "store_valid (sv_policy s) st"
  using assms
proof cases
  case shrink
  then show ?thesis using assms(2) by (rule valid_shrinks)
qed (simp_all add: valid_sets assms(2))

section \<open>Prefixes have one owner\<close>

text \<open>The administrator apart, no two owners hold the same prefix for the same protocol.\<close>

definition one_owner :: "Store \<Rightarrow> bool" where
  "one_owner s \<longleftrightarrow>
     (\<forall>ow ow' k k' x x'. ow \<noteq> adminOwner \<longrightarrow> ow' \<noteq> adminOwner \<longrightarrow>
        look Prefixes s ow k = Some x \<longrightarrow> look Prefixes s ow' k' = Some x' \<longrightarrow>
        pfx_Prefix x = pfx_Prefix x' \<longrightarrow> pfx_Protocol x = pfx_Protocol x' \<longrightarrow> ow = ow')"

lemma case_fold_graphic: "list_all graphic s \<Longrightarrow> case_fold s = map lower_byte s"
  by (induction s) (auto simp: graphic_def)

lemma ToLower_digits:
  assumes "\<forall>c \<in> set s. is_digit c \<or> c = CHR ''-''"
  shows "ToLower s = s" "case_fold s = s"
proof -
  have g: "list_all graphic s" using assms by (auto simp: list_all_iff graphic_def is_digit_def)
  have "map lower_byte s = s"
    using assms by (intro map_idI) (auto simp: lower_byte_def is_digit_def)
  then show "ToLower s = s" "case_fold s = s" using g by (simp_all add: graphic_bytes case_fold_graphic)
qed

lemma dec_int_chars: "\<forall>c \<in> set (dec_int n). is_digit c \<or> c = CHR ''-''"
  using dec_digits by (auto simp: dec_int_def)

lemma hd_dec_int: "hd (dec_int n) = CHR ''-'' \<longleftrightarrow> n < 0" "dec_int n \<noteq> []"
  using hd_dec [of "nat n"] dec_not_Nil by (auto simp: dec_int_def is_digit_def)

lemma dec_int_inject: "dec_int m = dec_int n \<longleftrightarrow> m = n"
proof
  assume e: "dec_int m = dec_int n"
  then have "m < 0 \<longleftrightarrow> n < 0" using hd_dec_int(1) [of m] hd_dec_int(1) [of n] by simp
  then show "m = n" using e by (auto simp: dec_int_def split: if_splits)
qed simp

lemma dec_int_first: "hd (dec_int n) \<notin> {CHR ''b'', CHR ''o'', CHR ''p'', CHR ''u''}"
  using dec_int_chars [of n] hd_in_set [OF hd_dec_int(2), of n] by (auto simp: is_digit_def)

lemma protocolString_s_fold:
  "case_fold (protocolString_s PROTOCOL_BGP) = ''bgp''" "case_fold (protocolString_s PROTOCOL_OSPF) = ''ospf''"
  "case_fold (protocolString_s PROTOCOL_UNSPECIFIED) = ''protocol_unspecified''"
  "case_fold (protocolString_s (PROTOCOL_OTHER n)) = dec_int n"
proof -
  show "case_fold (protocolString_s (PROTOCOL_OTHER n)) = dec_int n"
    using ToLower_digits [OF dec_int_chars] by simp
qed code_simp+

lemma EqualFold_protocol: "EqualFold (protocolString_s a) (protocolString_s b) \<longleftrightarrow> a = b"
proof -
  have d: "dec_int n \<noteq> ''bgp''" "dec_int n \<noteq> ''ospf''" "dec_int n \<noteq> ''protocol_unspecified''" for n
    using dec_int_first [of n] by auto
  show ?thesis
    by (cases a; cases b; simp only: EqualFold_def protocolString_s_fold)
      (simp_all add: dec_int_inject d d [symmetric])
qed

lemma findPrefixOwner_found:
  assumes "store_ok (sv_intentStore s)" and "look Prefixes (sv_intentStore s) ow k = Some x"
  obtains ow' k' x' where "findPrefixOwner order (pfx_Prefix x) (protocolString_s (pfx_Protocol x)) s = ow'"
    "ow' \<noteq> []" "look Prefixes (sv_intentStore s) ow' k' = Some x'"
    "pfx_Prefix x' = pfx_Prefix x" "pfx_Protocol x' = pfx_Protocol x"
proof -
  let ?st = "sv_intentStore s"
  let ?P = "\<lambda>(owner, oi). list_ex (\<lambda>(k, p). pfx_Prefix p = pfx_Prefix x \<and>
      EqualFold (protocolString_s (pfx_Protocol p)) (protocolString_s (pfx_Protocol x))) (Prefixes oi)"
  have ok: "gm_ok (intents ?st)" "GetAllIntents ?st = intents ?st"
    using assms(1) GetAllIntents_eq by (auto simp: store_ok_def entries_ok_def)
  obtain oi where oi: "map_of (intents ?st) ow = Some oi" "map_of (Prefixes oi) k = Some x"
    using assms(2) by (auto simp: look_def split: option.splits)
  then have "(ow, oi) \<in> set (range_perm order (intents ?st))" "?P (ow, oi)"
    by (auto simp: list_ex_iff EqualFold_protocol dest!: map_of_SomeD)
  then obtain e where e: "find ?P (range_perm order (intents ?st)) = Some e"
    by (cases "find ?P (range_perm order (intents ?st))") (auto simp: find_None_iff)
  obtain ow' oi' where p: "e = (ow', oi')" by fastforce
  from find_SomeD [OF e] p have f: "(ow', oi') \<in> set (intents ?st)" "?P (ow', oi')" by auto
  then obtain k' x' where x': "(k', x') \<in> set (Prefixes oi')" "pfx_Prefix x' = pfx_Prefix x"
    "pfx_Protocol x' = pfx_Protocol x" by (auto simp: list_ex_iff EqualFold_protocol)
  have m: "map_of (intents ?st) ow' = Some oi'" using f(1) ok(1) gm_entry_lookup by fastforce
  have "gm_ok (Prefixes oi')" "ow' \<noteq> []"
    using store_ok_owner [OF assms(1) m] by (auto simp: owner_ok_def entries_ok_def)
  then have "look Prefixes ?st ow' k' = Some x'" using m x'(1) gm_entry_lookup by (fastforce simp: look_def)
  with that [of ow' k' x'] \<open>ow' \<noteq> []\<close> x' show thesis by (simp add: findPrefixOwner_def ok(2) e p)
qed

lemma one_owner_shrinks: "shrinks s st \<Longrightarrow> one_owner s \<Longrightarrow> one_owner st"
  unfolding shrinks_def one_owner_def by metis

lemma effect_one_owner:
  assumes "store_effect ow s st" and "store_ok (sv_intentStore s)" and "one_owner (sv_intentStore s)"
  shows "one_owner st"
  using assms(1)
proof cases
  case shrink
  then show ?thesis using assms(3) by (rule one_owner_shrinks)
next
  case (set_prefix x order t)
  let ?st = "sv_intentStore s"
  show ?thesis
  proof (cases "fst (SetPrefixIntent ow (Some x) t ?st) = None")
    case False
    then show ?thesis using xk.set_rejects [of ow "Some x" t ?st] assms(3) set_prefix(1) by simp
  next
    case True
    note l = xk.set_look [OF True]
    have other: "ow' = ow" if prem: "ow \<noteq> adminOwner" "ow' \<noteq> adminOwner" "look Prefixes ?st ow' k' = Some x'"
      "pfx_Prefix x' = pfx_Prefix x" "pfx_Protocol x' = pfx_Protocol x" for ow' k' x'
    proof -
      obtain ow2 k2 x2 where f: "findPrefixOwner order (pfx_Prefix x) (protocolString_s (pfx_Protocol x)) s = ow2"
        "ow2 \<noteq> []" "look Prefixes ?st ow2 k2 = Some x2" "pfx_Prefix x2 = pfx_Prefix x" "pfx_Protocol x2 = pfx_Protocol x"
        using findPrefixOwner_found [OF assms(2) prem(3), of order] prem(4,5) by metis
      then have "ow2 = ow" using set_prefix(3) prem(1) by (auto simp: CheckConflict_def split: if_splits)
      then show ?thesis using assms(3) prem f unfolding one_owner_def by metis
    qed
    show ?thesis
      unfolding one_owner_def set_prefix(1) l
      using assms(3) other by (auto simp: one_owner_def stampPrefix_def split: if_splits)
  qed
qed (use assms(3) in \<open>simp_all add: one_owner_def set_frames\<close>)

end
