(* ===== verification/Server_Properties.thy ===== *)
theory Server_Properties
  imports Server_Validity
begin

text \<open>
  The properties of the server, over the contract of its calls (\<open>Server_Facts\<close>) and the
  validity of the stored intents (\<open>Server_Validity\<close>).
\<close>

section \<open>Runs of calls\<close>

lemma run_valid:
  assumes "store_valid (sv_policy s) (sv_intentStore s)"
  shows "store_valid (sv_policy s) (sv_intentStore (run_calls serve qs s))"
  using assms
proof (induction qs arbitrary: s)
  case (Cons x qs)
  obtain cx q where x: "x = (cx, q)" by fastforce
  have "sv_policy (snd (serve cx q s)) = sv_policy s" using server.moves [of q s cx] by (simp add: moved_def)
  then have "store_valid (sv_policy (snd (serve cx q s))) (sv_intentStore (snd (serve cx q s)))"
    using effect_valid [OF serve_effect Cons.prems] by simp
  from Cons.IH [OF this] show ?case using x \<open>sv_policy (snd (serve cx q s)) = sv_policy s\<close> by simp
qed simp


lemma NewServer_ok: "server_ok (NewServer NewStore e (NewReconciler c g))"
  by (simp add: server_ok_def NewServer_def NewStore_ok NewReconciler_def rec_ok_def bfd_keyed_def bus_ok_def
      NewEventBus_def)

lemma NewStore_valid: "store_valid e NewStore" "one_owner NewStore"
  by (simp_all add: store_valid_def one_owner_def look_def NewStore_def)

section \<open>Advertising a prefix\<close>

definition plain_intent :: "AdvertisePrefixRequest \<Rightarrow> PrefixIntent" where
  "plain_intent q = \<lparr>pfx_Owner = advq_Owner q, pfx_Prefix = advq_Prefix q, pfx_Protocol = advq_Protocol q,
     pfx_LocalPreference = 0, pfx_Communities = [], pfx_MED = 0, pfx_NextHop = [],
     pfx_CreatedAt = 0, pfx_UpdatedAt = 0\<rparr>"

text \<open>When the check of a request without attributes lets it through.\<close>

definition may_advertise :: "Ctx \<Rightarrow> AdvertisePrefixRequest \<Rightarrow> Server \<Rightarrow> bool" where
  "may_advertise cx q s \<longleftrightarrow>
     advq_Owner q \<noteq> [] \<and> advq_Token q \<noteq> [] \<and> advq_Prefix q \<noteq> [] \<and> ParseCIDR (advq_Prefix q) \<noteq> None \<and>
     advq_Protocol q \<noteq> PROTOCOL_UNSPECIFIED \<and> advq_Attributes q = None \<and>
     ValidateToken (sv_policy s) (advq_Owner q) (advq_Token q) = None \<and>
     ValidatePrefix (sv_policy s) (advq_Owner q) (advq_Prefix q) = None \<and>
     CheckConflict (sv_policy s) (advq_Owner q) (advq_Prefix q) (protocolString_s (advq_Protocol q))
       (findPrefixOwner (cx_order cx 1) (advq_Prefix q) (protocolString_s (advq_Protocol q)) s) = None"

lemma advertiseCheck_passes: "may_advertise cx q s \<Longrightarrow> advertiseCheck cx q s = (Inr (plain_intent q), s)"
  by (auto simp: advertiseCheck_def may_advertise_def authenticated_def plain_intent_def Let_def)

lemma commit_stores:
  assumes "advq_Owner q \<noteq> []" and "advq_Prefix q \<noteq> []" and "pfx_Prefix i = advq_Prefix q"
  shows "fst (advertiseCommit cx q i s) = Inr ()"
    and "sv_intentStore (snd (advertiseCommit cx q i s)) =
      snd (SetPrefixIntent (advq_Owner q) (Some i) (cx_now cx 1) (sv_intentStore s))"
    and "sv_policy (snd (advertiseCommit cx q i s)) = sv_policy s"
    and "look Prefixes (sv_intentStore (snd (advertiseCommit cx q i s))) (advq_Owner q)
      (prefixKey (protocolString (pfx_Protocol i)) (pfx_Prefix i)) \<noteq> None"
proof -
  have "fst (SetPrefixIntent (advq_Owner q) (Some i) (cx_now cx 1) (sv_intentStore s)) = None"
    using assms xk.set_accepts by simp
  then obtain st where st: "SetPrefixIntent (advq_Owner q) (Some i) (cx_now cx 1) (sv_intentStore s) = (None, st)"
    by (metis prod.collapse)
  show "fst (advertiseCommit cx q i s) = Inr ()"
    and s: "sv_intentStore (snd (advertiseCommit cx q i s)) =
      snd (SetPrefixIntent (advq_Owner q) (Some i) (cx_now cx 1) (sv_intentStore s))"
    and "sv_policy (snd (advertiseCommit cx q i s)) = sv_policy s"
    using st by (simp_all add: advertiseCommit_def Let_def emit_bus)
  show "look Prefixes (sv_intentStore (snd (advertiseCommit cx q i s))) (advq_Owner q)
      (prefixKey (protocolString (pfx_Protocol i)) (pfx_Prefix i)) \<noteq> None"
    using xk.set_look [of "advq_Owner q" i "cx_now cx 1" "sv_intentStore s"] st by (simp add: s)
qed

section \<open>Examples\<close>

definition ex_cx :: Ctx where
  "ex_cx = \<lparr>cx_now = \<lambda>i. int i, cx_order = \<lambda>_. [], cx_inner = \<lambda>_ _. [], cx_errText = \<lambda>_. ''denied''\<rparr>"

definition ex_policy :: Engine where
  "ex_policy = NewEngine (Some
     [(''lb'', \<lparr>oc_Token = ''s3cret'', oc_AllowedPrefixes = \<lparr>pp_Type = ''any'', pp_AllowedCIDRs = []\<rparr>\<rparr>),
      (''net'', \<lparr>oc_Token = ''t0ken'', oc_AllowedPrefixes = \<lparr>pp_Type = ''any'', pp_AllowedCIDRs = []\<rparr>\<rparr>)])"

definition ex_server :: Server where
  "ex_server = NewServer NewStore ex_policy (NewReconciler None None)"

definition ex_advertise :: "string \<Rightarrow> string \<Rightarrow> string \<Rightarrow> AdvertisePrefixRequest" where
  "ex_advertise owner token pfx = \<lparr>advq_Owner = owner, advq_Token = token, advq_Prefix = pfx,
     advq_Protocol = PROTOCOL_BGP, advq_Attributes = None\<rparr>"

definition ex_bgp_peer :: BGPPeer where
  "ex_bgp_peer = \<lparr>bp_NeighborAddress = ''10.0.0.1'', bp_RemoteAs = 65001, bp_PeerType = PEER_TYPE_EXTERNAL,
     bp_Keepalive = 30, bp_HoldTime = 90, bp_BfdEnabled = False, bp_Description = [], bp_AddressFamilies = [],
     bp_SourceAddress = [], bp_EbgpMultihop = 0, bp_Password = [], bp_MaxPrefix = 0, bp_BfdMinRxMs = 0,
     bp_BfdMinTxMs = 0, bp_BfdDetectMultiplier = 0\<rparr>"

definition ex_apply :: ApplyPeerRequest where
  "ex_apply = \<lparr>appq_Owner = ''lb'', appq_Token = ''s3cret'', appq_Peer = Some ex_bgp_peer\<rparr>"

lemma ex_may_advertise: "may_advertise ex_cx (ex_advertise ''lb'' ''s3cret'' ''10.1.0.0/24'') ex_server"
  "may_advertise ex_cx (ex_advertise ''net'' ''t0ken'' ''10.1.0.0/24'') ex_server"
  unfolding may_advertise_def by code_simp+

lemma ApplyPeer_succeeds:
  assumes "validateApplyPeerRequest q = None" and "ValidateToken (sv_policy s) (appq_Owner q) (appq_Token q) = None"
  shows "fst (ApplyPeer cx q s) = Inr ()"
proof -
  obtain peer where p: "appq_Peer q = Some peer" and o: "appq_Owner q \<noteq> []"
    using validateApplyPeerRequest_None [OF assms(1)] by auto
  have "ValidatePeerOperation (sv_policy s) (appq_Owner q) = None"
    using assms(2) by (auto simp: ValidateToken_def ValidatePeerOperation_def split: option.splits)
  moreover have "peer_NeighborAddress (peerIntent_of (appq_Owner q) peer) \<noteq> []"
    using assms(1) p by (auto simp: validateApplyPeerRequest_def peerIntent_of_def Let_def split: if_splits)
  then have "fst (SetPeerIntent (appq_Owner q) (Some (peerIntent_of (appq_Owner q) peer)) (cx_now cx 0)
      (sv_intentStore s)) = None" using o pk.set_accepts by simp
  ultimately show ?thesis
    using assms p by (auto simp: ApplyPeer_def observed_def authenticated_def Let_def split: prod.splits option.splits)
qed

lemma ex_apply_ok: "validateApplyPeerRequest ex_apply = None"
  "ValidateToken (sv_policy ex_server) (appq_Owner ex_apply) (appq_Token ex_apply) = None"
  by code_simp+

section \<open>Properties\<close>

text \<open>
  C7 (safety).  Nobody without an owner's token can touch its intents: after any run of
  calls in which every call in the owner's name carries a wrong token, whatever the other
  owners did, the owner's intents are what they were.
\<close>

theorem server_isolation:
  assumes "\<forall>(cx, q) \<in> set qs. q_owner q = ow \<longrightarrow> ValidateToken (sv_policy s) ow (q_token q) \<noteq> None"
  shows "map_of (intents (sv_intentStore (run_calls serve qs s))) ow = map_of (intents (sv_intentStore s)) ow"
  using assms by (rule server.run_isolated)

theorem server_isolation_witness:
  "map_of (intents (sv_intentStore (run_calls serve
     [(ex_cx, QAdvertisePrefix (ex_advertise ''lb'' ''guess'' ''10.1.0.0/24'')),
      (ex_cx, QAdvertisePrefix (ex_advertise ''net'' ''t0ken'' ''10.2.0.0/24''))] ex_server))) ''lb'' = None"
proof -
  let ?qs = "[(ex_cx, QAdvertisePrefix (ex_advertise ''lb'' ''guess'' ''10.1.0.0/24'')),
      (ex_cx, QAdvertisePrefix (ex_advertise ''net'' ''t0ken'' ''10.2.0.0/24''))]"
  have "ValidateToken (sv_policy ex_server) ''lb'' ''guess'' \<noteq> None" by code_simp
  then have "\<forall>(cx, q) \<in> set ?qs. q_owner q = ''lb'' \<longrightarrow> ValidateToken (sv_policy ex_server) ''lb'' (q_token q) \<noteq> None"
    by (simp add: ex_advertise_def)
  from server_isolation [OF this] show ?thesis by (simp add: ex_server_def NewServer_def NewStore_def)
qed

text \<open>
  C9 (type).  Every intent in the store has passed the validation of the call that put it
  there: addresses parse, AS numbers and timers are in range and defaults are filled in,
  OSPF costs are 16-bit and dead intervals no shorter than hello intervals, and every prefix
  satisfies the policy of the owner that holds it.
\<close>

theorem server_intents_valid:
  "store_valid e (sv_intentStore (run_calls serve qs (NewServer NewStore e r)))"
  using run_valid [of "NewServer NewStore e r" qs] NewStore_valid(1) [of e] by (simp add: NewServer_def)


text \<open>
  C10 (safety).  No update is lost: if a run of calls changed the store, a reconciliation is
  pending when it ends.
\<close>

theorem server_change_pending:
  assumes "sv_intentStore (run_calls serve qs s) \<noteq> sv_intentStore s"
  shows "r_triggerPending (sv_reconciler (run_calls serve qs s))"
  using server.run_notified [of s qs] assms by (simp add: notified_def)

theorem server_change_pending_witness:
  "r_triggerPending (sv_reconciler (run_calls serve
     [(ex_cx, QAdvertisePrefix (ex_advertise ''lb'' ''s3cret'' ''10.1.0.0/24''))] ex_server))"
proof -
  let ?q = "ex_advertise ''lb'' ''s3cret'' ''10.1.0.0/24''"
  have "look Prefixes (sv_intentStore (snd (serve ex_cx (QAdvertisePrefix ?q) ex_server))) ''lb''
      (prefixKey ''bgp'' ''10.1.0.0/24'') \<noteq> None"
    using commit_stores(4) [of ?q "plain_intent ?q" ex_cx ex_server] advertiseCheck_passes [OF ex_may_advertise(1)]
    by (simp add: AdvertisePrefix_def plain_intent_def ex_advertise_def)
  then have "sv_intentStore (run_calls serve [(ex_cx, QAdvertisePrefix ?q)] ex_server) \<noteq> sv_intentStore ex_server"
    by (auto simp: ex_server_def NewServer_def NewStore_def look_def)
  from server_change_pending [OF this] show ?thesis .
qed

text \<open>
  Applying a peer and removing it again succeeds, with the same owner and
  token, and leaves every lookup as it was before, but for the peer itself, which is gone.
\<close>

theorem apply_remove_peer_roundtrip:
  assumes "appq_Peer q = Some peer" and "ApplyPeer cx q s = (Inr (), s1)"
    and "q' = \<lparr>remq_Owner = appq_Owner q, remq_Token = appq_Token q, remq_NeighborAddress = bp_NeighborAddress peer\<rparr>"
    and "RemovePeer cx' q' s1 = (res, s2)"
  shows "res = Inr () \<and> look Peers (sv_intentStore s2) ow k =
    (if ow = appq_Owner q \<and> k = peerKey (bp_NeighborAddress peer) then None else look Peers (sv_intentStore s) ow k)"
proof (intro conjI)
  let ?o = "appq_Owner q" and ?a = "bp_NeighborAddress peer"
  let ?p = "peerIntent_of ?o peer"
  have v: "validateApplyPeerRequest q = None" and auth: "ValidateToken (sv_policy s) ?o (appq_Token q) = None"
    and pol: "ValidatePeerOperation (sv_policy s) ?o = None"
    and st: "SetPeerIntent ?o (Some ?p) (cx_now cx 0) (sv_intentStore s) = (None, sv_intentStore s1)"
    using assms(1,2)
    by (auto simp: ApplyPeer_def observed_def authenticated_def reject_def Let_def split: option.splits prod.splits)
  have a: "peer_NeighborAddress ?p = ?a" by (simp add: peerIntent_of_def Let_def)
  have q: "?o \<noteq> []" "appq_Token q \<noteq> []" "?a \<noteq> []" "ParseIP ?a \<noteq> None"
    using v assms(1) by (auto simp: validateApplyPeerRequest_def split: if_splits)
  have pol1: "sv_policy s1 = sv_policy s" using apply_peer.moves [of q s cx] assms(2) by (simp add: moved_def)
  have "look Peers (sv_intentStore s1) ?o (peerKey ?a) \<noteq> None"
    using pk.set_look [of ?o ?p "cx_now cx 0" "sv_intentStore s" ?o "peerKey ?a"] st a by simp
  then obtain st2 where r: "RemovePeerIntent ?o ?a (sv_intentStore s1) = (None, st2)"
    using pk.remove_accepts [of ?o ?a "sv_intentStore s1"] q by (metis prod.collapse)
  show res: "res = Inr ()"
    using assms(3,4) q r auth pol pol1
    by (auto simp: RemovePeer_def handleRemoveIntent_def observed_def authenticated_def Let_def)
  have s2: "sv_intentStore s2 = st2"
    using assms(3,4) q r auth pol pol1
    by (auto simp: RemovePeer_def handleRemoveIntent_def observed_def authenticated_def Let_def)
  show "look Peers (sv_intentStore s2) ow k =
    (if ow = ?o \<and> k = peerKey ?a then None else look Peers (sv_intentStore s) ow k)"
    using pk.remove_look [of ?o ?a "sv_intentStore s1" ow k] pk.set_look [of ?o ?p "cx_now cx 0" "sv_intentStore s" ow k]
      r st a s2 by simp
qed

theorem apply_remove_peer_roundtrip_witness:
  "\<exists>s1 s2. ApplyPeer ex_cx ex_apply ex_server = (Inr (), s1) \<and>
     RemovePeer ex_cx \<lparr>remq_Owner = ''lb'', remq_Token = ''s3cret'', remq_NeighborAddress = ''10.0.0.1''\<rparr> s1 = (Inr (), s2) \<and>
     look Peers (sv_intentStore s2) ''lb'' (peerKey ''10.0.0.1'') = None"
proof -
  obtain s1 where s1: "ApplyPeer ex_cx ex_apply ex_server = (Inr (), s1)"
    using ApplyPeer_succeeds [OF ex_apply_ok, of ex_cx] by (metis prod.collapse)
  let ?q = "\<lparr>remq_Owner = ''lb'', remq_Token = ''s3cret'', remq_NeighborAddress = ''10.0.0.1''\<rparr>"
  obtain res s2 where s2: "RemovePeer ex_cx ?q s1 = (res, s2)" by fastforce
  have p: "appq_Peer ex_apply = Some ex_bgp_peer" by (simp add: ex_apply_def)
  have q: "?q = \<lparr>remq_Owner = appq_Owner ex_apply, remq_Token = appq_Token ex_apply,
      remq_NeighborAddress = bp_NeighborAddress ex_bgp_peer\<rparr>" by (simp add: ex_apply_def ex_bgp_peer_def)
  from s1 s2 apply_remove_peer_roundtrip [OF p s1 q s2, of "''lb''" "peerKey ''10.0.0.1''"]
  show ?thesis by (auto simp: ex_apply_def ex_bgp_peer_def)
qed

text \<open>
  C35 (bounds).  The timers of an accepted peer: both are set or neither is, a hold time is at
  least three seconds, and at least three times the keepalive interval as long as that
  product is a 32-bit number.
\<close>

theorem accepted_peer_timers:
  assumes "validateApplyPeerRequest q = None" and "appq_Peer q = Some peer"
  shows "(unat (bp_Keepalive peer) = 0 \<longleftrightarrow> unat (bp_HoldTime peer) = 0) \<and>
    (unat (bp_HoldTime peer) \<noteq> 0 \<longrightarrow> 3 \<le> unat (bp_HoldTime peer)) \<and>
    (3 * unat (bp_Keepalive peer) < 2 ^ 32 \<longrightarrow> 3 * unat (bp_Keepalive peer) \<le> unat (bp_HoldTime peer))"
proof (intro conjI impI)
  have c: "(0 < bp_Keepalive peer) = (0 < bp_HoldTime peer)" "\<not> (0 < bp_HoldTime peer \<and> bp_HoldTime peer < 3)"
    "\<not> (0 < bp_Keepalive peer \<and> bp_HoldTime peer < 3 * bp_Keepalive peer)"
    using assms by (auto simp: validateApplyPeerRequest_def split: if_splits)
  show "unat (bp_Keepalive peer) = 0 \<longleftrightarrow> unat (bp_HoldTime peer) = 0"
    using c(1) by (auto simp: word_gt_0 unat_eq_0)
  show "3 \<le> unat (bp_HoldTime peer)" if "unat (bp_HoldTime peer) \<noteq> 0"
    using c(2) that by (auto simp: word_gt_0 unat_eq_0 word_less_nat_alt)
  show "3 * unat (bp_Keepalive peer) \<le> unat (bp_HoldTime peer)" if "3 * unat (bp_Keepalive peer) < 2 ^ 32"
  proof (cases "bp_Keepalive peer = 0")
    case False
    have "unat (3 * bp_Keepalive peer) = 3 * unat (bp_Keepalive peer)"
      using that by (simp add: unat_word_ariths(2) take_bit_nat_eq_self)
    then show ?thesis using c(3) False by (auto simp: word_gt_0 word_less_nat_alt)
  qed simp
qed

theorem accepted_peer_timers_witness: "3 * unat (bp_Keepalive ex_bgp_peer) \<le> unat (bp_HoldTime ex_bgp_peer)"
  using accepted_peer_timers [OF ex_apply_ok(1), of ex_bgp_peer] by (simp add: ex_apply_def ex_bgp_peer_def)

text \<open>
  The product wraps around: a keepalive interval of 1431655766 seconds with a
  hold time of 3 seconds is accepted, although the hold time must be three times the
  keepalive interval.
\<close>

theorem peer_timers_overflow:
  "validateApplyPeerRequest (ex_apply\<lparr>appq_Peer := Some (ex_bgp_peer\<lparr>bp_Keepalive := 1431655766, bp_HoldTime := 3\<rparr>)\<rparr>) = None"
  by code_simp

text \<open>
  A prefix with a protocol number without a name can never be withdrawn: the
  server and the store print it differently, so \<open>WithdrawPrefix\<close> refuses every such request,
  whatever the store holds.  The witness has \<open>AdvertisePrefix\<close> accept one first.
\<close>

theorem unknown_protocol_stuck:
  assumes "store_ok (sv_intentStore s)" and "wdrq_Protocol q = PROTOCOL_OTHER n"
  shows "\<exists>err. fst (WithdrawPrefix cx q s) = Inl err"
proof -
  let ?p = "protocolString_s (PROTOCOL_OTHER n)"
  have str: "?p = dec_int n" using ToLower_digits [OF dec_int_chars] by simp
  have "look Prefixes (sv_intentStore s) ow (prefixKey ?p pfx) = None" for ow pfx
  proof (rule ccontr)
    assume "look Prefixes (sv_intentStore s) ow (prefixKey ?p pfx) \<noteq> None"
    then obtain oi x where oi: "map_of (intents (sv_intentStore s)) ow = Some oi"
      "map_of (Prefixes oi) (prefixKey ?p pfx) = Some x" by (auto simp: look_def split: option.splits)
    then have "prefixKey ?p pfx = prefixKey (protocolString (pfx_Protocol x)) (pfx_Prefix x)"
      using store_ok_owner [OF assms(1) oi(1)] by (auto simp: owner_ok_def prefix_entry_def dest: entries_okD)
    then have "dec_int n @ '':'' @ pfx = protocolString (pfx_Protocol x) @ '':'' @ pfx_Prefix x"
      using ToLower_digits(1) [OF dec_int_chars [of n]] by (simp add: prefixKey_def str)
    then have "hd (dec_int n) = hd (protocolString (pfx_Protocol x))"
      using hd_dec_int(2) [of n] by (cases "pfx_Protocol x"; cases "dec_int n") auto
    then show False using dec_int_first [of n] by (cases "pfx_Protocol x") auto
  qed
  then have "fst (RemovePrefixIntent (wdrq_Owner q) (wdrq_Prefix q) ?p (sv_intentStore s)) \<noteq> None"
    using xk.remove_accepts [of "wdrq_Owner q" "(wdrq_Prefix q, ?p)" "sv_intentStore s"] by simp
  then show ?thesis
    using assms(2)
    by (auto simp: WithdrawPrefix_def observed_def authenticated_def reject_def Let_def split: option.split prod.split)
qed

theorem unknown_protocol_stuck_witness:
  "\<exists>s err. AdvertisePrefix ex_cx (ex_advertise ''lb'' ''s3cret'' ''10.1.0.0/24''\<lparr>advq_Protocol := PROTOCOL_OTHER 17\<rparr>)
       ex_server = (Inr (), s) \<and>
     fst (WithdrawPrefix ex_cx \<lparr>wdrq_Owner = ''lb'', wdrq_Token = ''s3cret'', wdrq_Prefix = ''10.1.0.0/24'',
       wdrq_Protocol = PROTOCOL_OTHER 17\<rparr> s) = Inl err"
proof -
  let ?q = "ex_advertise ''lb'' ''s3cret'' ''10.1.0.0/24''\<lparr>advq_Protocol := PROTOCOL_OTHER 17\<rparr>"
  have "fst (AdvertisePrefix ex_cx ?q ex_server) = Inr ()" by code_simp
  then obtain s where s: "AdvertisePrefix ex_cx ?q ex_server = (Inr (), s)" by (metis prod.collapse)
  have "store_ok (sv_intentStore s)"
    using server.run_ok [OF NewServer_ok, of "[(ex_cx, QAdvertisePrefix ?q)]" ex_policy None None] s
    by (simp add: server_ok_def ex_server_def)
  from unknown_protocol_stuck [OF this] s show ?thesis by (metis WithdrawPrefixRequest.select_convs(4))
qed

text \<open>
  C39 (error).  The conflict check and the store are not one step: when two calls for the
  same prefix, by different owners, both pass the check before either stores, both
  succeed and both owners hold the prefix.
\<close>

theorem advertise_race:
  assumes "may_advertise cx q s" and "may_advertise cx' q' s" and "advq_Owner q \<noteq> advq_Owner q'"
    and "advq_Prefix q' = advq_Prefix q" and "advq_Protocol q' = advq_Protocol q"
    and "advertiseCommit cx q (plain_intent q) s = (res, s1)" and "advertiseCommit cx' q' (plain_intent q') s1 = (res', s2)"
  shows "res = Inr () \<and> res' = Inr () \<and>
    look Prefixes (sv_intentStore s2) (advq_Owner q) (prefixKey (protocolString (advq_Protocol q)) (advq_Prefix q)) \<noteq> None \<and>
    look Prefixes (sv_intentStore s2) (advq_Owner q') (prefixKey (protocolString (advq_Protocol q)) (advq_Prefix q)) \<noteq> None"
proof (intro conjI)
  have o: "advq_Owner q \<noteq> []" "advq_Owner q' \<noteq> []" "advq_Prefix q \<noteq> []" "advq_Prefix q' \<noteq> []"
    using assms(1,2) by (auto simp: may_advertise_def)
  note c = commit_stores [OF o(1,3), of "plain_intent q" cx s] and c' = commit_stores [OF o(2,4), of "plain_intent q'" cx' s1]
  show "res = Inr ()" "res' = Inr ()" using c(1) c'(1) assms(6,7) by (simp_all add: plain_intent_def)
  show "look Prefixes (sv_intentStore s2) (advq_Owner q') (prefixKey (protocolString (advq_Protocol q)) (advq_Prefix q)) \<noteq> None"
    using c'(4) assms(4,5,7) by (simp add: plain_intent_def)
  have "look Prefixes (sv_intentStore s2) (advq_Owner q) k = look Prefixes (sv_intentStore s1) (advq_Owner q) k" for k
    using c'(2) assms(3,7) store_step_frame [of "advq_Owner q" "OpSetPrefix (advq_Owner q') (Some (plain_intent q')) (cx_now cx' 1)"]
    by (simp add: plain_intent_def look_def)
  then show "look Prefixes (sv_intentStore s2) (advq_Owner q) (prefixKey (protocolString (advq_Protocol q)) (advq_Prefix q)) \<noteq> None"
    using c(4) assms(6) by (simp add: plain_intent_def)
qed

theorem advertise_race_witness:
  "\<exists>s1 s2. advertiseCommit ex_cx (ex_advertise ''lb'' ''s3cret'' ''10.1.0.0/24'')
       (plain_intent (ex_advertise ''lb'' ''s3cret'' ''10.1.0.0/24'')) ex_server = (Inr (), s1) \<and>
     advertiseCommit ex_cx (ex_advertise ''net'' ''t0ken'' ''10.1.0.0/24'')
       (plain_intent (ex_advertise ''net'' ''t0ken'' ''10.1.0.0/24'')) s1 = (Inr (), s2)"
proof -
  let ?q = "ex_advertise ''lb'' ''s3cret'' ''10.1.0.0/24''" and ?q' = "ex_advertise ''net'' ''t0ken'' ''10.1.0.0/24''"
  obtain res s1 where 1: "advertiseCommit ex_cx ?q (plain_intent ?q) ex_server = (res, s1)" by fastforce
  obtain res' s2 where 2: "advertiseCommit ex_cx ?q' (plain_intent ?q') s1 = (res', s2)" by fastforce
  have "res = Inr ()" "res' = Inr ()"
    using advertise_race [OF ex_may_advertise _ _ _ 1 2] by (simp_all add: ex_advertise_def)
  then show ?thesis using 1 2 by auto
qed

text \<open>
  Conflicts are found by comparing texts: 10.1.0.0/24 and 10.1.0.1/24 are the
  same network, yet a second owner may advertise the one while the first advertises the
  other.
\<close>

theorem same_network_two_owners:
  "map_option snd (ParseCIDR ''10.1.0.0/24'') = map_option snd (ParseCIDR ''10.1.0.1/24'') \<and>
   fst (AdvertisePrefix ex_cx (ex_advertise ''lb'' ''s3cret'' ''10.1.0.0/24'') ex_server) = Inr () \<and>
   fst (AdvertisePrefix ex_cx (ex_advertise ''net'' ''t0ken'' ''10.1.0.1/24'')
     (snd (AdvertisePrefix ex_cx (ex_advertise ''lb'' ''s3cret'' ''10.1.0.0/24'') ex_server))) = Inr ()"
  by code_simp

end
