(* ===== verification/Server_Gauges.thy ===== *)
theory Server_Gauges
  imports Server_Properties
begin

text \<open>
  The gauges the server keeps for each owner (\<open>updateOwnerPeerGauge\<close> and its siblings in
  \<open>internal/server/server.go\<close>), as a scrape of \<open>internal/metrics\<close> shows them, against the
  intents of the store.  A call first moves the numbers of one kind and owner and then refreshes
  their gauge; \<open>exact_but\<close> carries the gauges that are behind through its steps.
\<close>

section \<open>Gauges and what they stand for\<close>

datatype gauge = GPeers | GPrefixes Protocol | GBFD | GOSPF

text \<open>The series of a gauge for an owner, and the number it is to show.\<close>

fun gauge_series :: "gauge \<Rightarrow> string \<Rightarrow> series" where
  "gauge_series GPeers owner = (''novaroute_active_peers'', [(''owner'', owner)])"
| "gauge_series (GPrefixes pr) owner =
     (''novaroute_active_prefixes'', [(''owner'', owner), (''protocol'', protocolString_s pr)])"
| "gauge_series GBFD owner = (''novaroute_active_bfd_sessions'', [(''owner'', owner)])"
| "gauge_series GOSPF owner = (''novaroute_active_ospf_interfaces'', [(''owner'', owner)])"

fun gauge_count :: "gauge \<Rightarrow> OwnerIntents \<Rightarrow> nat" where
  "gauge_count GPeers oi = length (Peers oi)"
| "gauge_count (GPrefixes pr) oi = length (filter (\<lambda>e. pfx_Protocol (snd e) = pr) (Prefixes oi))"
| "gauge_count GBFD oi = length (BFD oi)"
| "gauge_count GOSPF oi = length (OSPF oi)"

definition intents_held :: "gauge \<Rightarrow> string \<Rightarrow> Store \<Rightarrow> nat" where
  "intents_held g owner st = (case map_of (intents st) owner of None \<Rightarrow> 0 | Some oi \<Rightarrow> gauge_count g oi)"

definition gauges :: "gauge set" where
  "gauges = {GPeers, GPrefixes PROTOCOL_BGP, GPrefixes PROTOCOL_OSPF, GBFD, GOSPF}"

text \<open>The gauges show what the store holds, but for those in \<open>X\<close>.\<close>

definition exact_but :: "(gauge \<times> string) set \<Rightarrow> Server \<Rightarrow> bool" where
  "exact_but X s \<longleftrightarrow> store_ok (sv_intentStore s) \<and>
     (\<forall>g \<in> gauges. \<forall>ow. (g, ow) \<notin> X \<longrightarrow> scrape (gauge_series g ow) (sv_metrics s) = intents_held g ow (sv_intentStore s))"

lemma exact_but_mono: "exact_but X s \<Longrightarrow> X \<subseteq> Y \<Longrightarrow> exact_but Y s"
  by (auto simp: exact_but_def)

named_theorems gauged

text \<open>What touches neither the intents nor a gauge.\<close>

lemma metered_gauged [gauged]:
  assumes "exact_but X s"
  shows "exact_but X (metered (RecordIntent ow ty op) s)" "exact_but X (metered (RecordEvent ev) s)"
    "exact_but X (metered (RecordPolicyViolation ow r) s)" "exact_but X (metered (ObserveGRPCDuration n) s)"
    "exact_but X (metered (SetRegisteredOwners k) s)"
  using assms
  by (auto simp: exact_but_def metered_def RecordIntent_def RecordEvent_def RecordPolicyViolation_def
      ObserveGRPCDuration_def SetRegisteredOwners_def scrape_snoc gauges_def)

lemma frame_gauged [gauged]:
  assumes "exact_but X s"
  shows "exact_but X (trigger s)" "exact_but X (s\<lparr>sv_sessions := ss\<rparr>)" "exact_but X (s\<lparr>sv_reconciler := r\<rparr>)"
  using assms by (simp_all add: exact_but_def trigger_def)

lemma Publish_scrape:
  assumes "g \<in> gauges"
  shows "scrape (gauge_series g ow) (snd (Publish order ev (eb, ms))) = scrape (gauge_series g ow) ms"
proof -
  have d: "scrape (gauge_series g ow) (snd (deliver ev x (eb, ms))) = scrape (gauge_series g ow) ms" for x eb ms
    using assms by (auto simp: deliver_def RecordEventDropped_def scrape_snoc gauges_def split: prod.split bool.split)
  have "scrape (gauge_series g ow) (snd (for_each (deliver ev) xs z)) = scrape (gauge_series g ow) (snd z)" for xs z
    by (induction xs arbitrary: z) (simp_all add: d [of _ "fst z" "snd z" for z, simplified])
  then show ?thesis by (simp add: Publish_def)
qed

lemma emit_gauged [gauged]: "exact_but X s \<Longrightarrow> exact_but X (emit order ty d t ow m s)"
  by (auto simp: exact_but_def emit_bus) (simp add: emit_def case_prod_unfold Let_def Publish_scrape)

text \<open>A refresh makes a gauge exact; the one of the prefixes only while the store has an entry of the owner.\<close>

lemma refresh_gauged [gauged]:
  "exact_but (insert (GPeers, ow) X) s \<Longrightarrow> exact_but X (updateOwnerPeerGauge ow s)"
  "exact_but (insert (GBFD, ow) X) s \<Longrightarrow> exact_but X (updateOwnerBFDGauge ow s)"
  "exact_but (insert (GOSPF, ow) X) s \<Longrightarrow> exact_but X (updateOwnerOSPFGauge ow s)"
  by (auto simp: exact_but_def updateOwnerPeerGauge_def updateOwnerBFDGauge_def updateOwnerOSPFGauge_def metered_def
      SetActivePeers_def SetActiveBFDSessions_def SetActiveOSPFInterfaces_def scrape_snoc gauges_def intents_held_def
      GetOwnerIntents_eq split: option.split)

lemma refresh_prefixes_gauged:
  assumes "exact_but (range GPrefixes \<times> {ow} \<union> X) s"
    and "map_of (intents (sv_intentStore s)) ow \<noteq> None"
  shows "exact_but X (updateOwnerPrefixGauge ow s)"
  using assms
  by (auto simp: exact_but_def updateOwnerPrefixGauge_def metered_def SetActivePrefixes_def scrape_snoc scrape_snoc2
      gauges_def intents_held_def GetOwnerIntents_eq Let_def)

section \<open>The operations of the store\<close>

text \<open>The numbers an operation can move.\<close>

fun touched :: "store_op \<Rightarrow> (gauge \<times> string) set" where
  "touched (OpSetPeer ow i t) = {(GPeers, ow)}"
| "touched (OpSetPrefix ow i t) = range GPrefixes \<times> {ow}"
| "touched (OpSetBFD ow i t) = {(GBFD, ow)}"
| "touched (OpSetOSPF ow i t) = {(GOSPF, ow)}"
| "touched (OpRemovePeer ow a) = {(GPeers, ow)}"
| "touched (OpRemovePrefix ow p pr) = range GPrefixes \<times> {ow}"
| "touched (OpRemoveBFD ow a) = {(GBFD, ow)}"
| "touched (OpRemoveOSPF ow a) = {(GOSPF, ow)}"
| "touched (OpRemoveAll ow) = UNIV \<times> {ow}"

lemma gauge_count_new [simp]: "gauge_count g newOwnerIntents = 0"
  by (cases g) (simp_all add: newOwnerIntents_def)

lemma set_intents_held:
  assumes "setIntent ow nil validate execute now st = (None, st')"
    and "\<And>oi c u. gauge_count g (snd (execute oi) c u) = gauge_count g oi"
  shows "intents_held g ow st' = intents_held g ow st"
  using setIntent_intents [of ow nil validate execute now st] assms by (auto simp: intents_held_def split: option.split)

lemma step_intents_held:
  assumes "store_step op st = (None, st')" and "(g, ow) \<notin> touched op"
  shows "intents_held g ow st' = intents_held g ow st"
proof (cases "ow = op_owner op")
  case False
  then show ?thesis using store_step_frame [OF False, of st] assms(1) by (simp add: intents_held_def)
next
  case True
  note removes = RemovePeerIntent_def RemovePrefixIntent_def RemoveBFDIntent_def RemoveOSPFIntent_def RemoveAllByOwner_def
  show ?thesis
  proof (cases op)
    case (OpSetPeer ow' i t)
    then have "SetPeerIntent ow i t st = (None, st')" using assms(1) True by simp
    then show ?thesis
      unfolding SetPeerIntent_def
      by (rule set_intents_held) (use assms(2) True OpSetPeer in \<open>cases g; auto simp: Let_def split: option.splits\<close>)
  next
    case (OpSetPrefix ow' i t)
    then have "SetPrefixIntent ow i t st = (None, st')" using assms(1) True by simp
    then show ?thesis
      unfolding SetPrefixIntent_def
      by (rule set_intents_held) (use assms(2) True OpSetPrefix in \<open>cases g; auto simp: Let_def split: option.splits\<close>)
  next
    case (OpSetBFD ow' i t)
    then have "SetBFDIntent ow i t st = (None, st')" using assms(1) True by simp
    then show ?thesis
      unfolding SetBFDIntent_def
      by (rule set_intents_held) (use assms(2) True OpSetBFD in \<open>cases g; auto simp: Let_def split: option.splits\<close>)
  next
    case (OpSetOSPF ow' i t)
    then have "SetOSPFIntent ow i t st = (None, st')" using assms(1) True by simp
    then show ?thesis
      unfolding SetOSPFIntent_def
      by (rule set_intents_held) (use assms(2) True OpSetOSPF in \<open>cases g; auto simp: Let_def split: option.splits\<close>)
  qed (use assms True in \<open>cases g; auto simp: removes intents_held_def Let_def split: option.splits if_splits\<close>)+
qed

lemma step_gauged:
  assumes "exact_but X s" and "store_step op (sv_intentStore s) = (None, st)"
  shows "exact_but (touched op \<union> X) (s\<lparr>sv_intentStore := st\<rparr>)"
  using assms step_intents_held [OF assms(2)] store_step_ok [of "sv_intentStore s" op] by (simp add: exact_but_def)

lemma store_ops_gauged:
  assumes "exact_but X s"
  shows "SetPeerIntent ow p t (sv_intentStore s) = (None, st) \<Longrightarrow> exact_but (insert (GPeers, ow) X) (s\<lparr>sv_intentStore := st\<rparr>)"
    "SetBFDIntent ow b t (sv_intentStore s) = (None, st) \<Longrightarrow> exact_but (insert (GBFD, ow) X) (s\<lparr>sv_intentStore := st\<rparr>)"
    "SetOSPFIntent ow i t (sv_intentStore s) = (None, st) \<Longrightarrow> exact_but (insert (GOSPF, ow) X) (s\<lparr>sv_intentStore := st\<rparr>)"
    "RemovePeerIntent ow a (sv_intentStore s) = (None, st) \<Longrightarrow> exact_but (insert (GPeers, ow) X) (s\<lparr>sv_intentStore := st\<rparr>)"
    "RemoveBFDIntent ow a (sv_intentStore s) = (None, st) \<Longrightarrow> exact_but (insert (GBFD, ow) X) (s\<lparr>sv_intentStore := st\<rparr>)"
    "RemoveOSPFIntent ow a (sv_intentStore s) = (None, st) \<Longrightarrow> exact_but (insert (GOSPF, ow) X) (s\<lparr>sv_intentStore := st\<rparr>)"
    "SetPrefixIntent ow y t (sv_intentStore s) = (None, st) \<Longrightarrow>
       exact_but (range GPrefixes \<times> {ow} \<union> X) (s\<lparr>sv_intentStore := st\<rparr>)"
    "RemovePrefixIntent ow a pr (sv_intentStore s) = (None, st) \<Longrightarrow>
       exact_but (range GPrefixes \<times> {ow} \<union> X) (s\<lparr>sv_intentStore := st\<rparr>)"
  using step_gauged [OF assms, of "OpSetPeer ow p t"] step_gauged [OF assms, of "OpSetBFD ow b t"]
    step_gauged [OF assms, of "OpSetOSPF ow i t"] step_gauged [OF assms, of "OpRemovePeer ow a"]
    step_gauged [OF assms, of "OpRemoveBFD ow a"] step_gauged [OF assms, of "OpRemoveOSPF ow a"]
    step_gauged [OF assms, of "OpSetPrefix ow y t"] step_gauged [OF assms, of "OpRemovePrefix ow a pr"]
  by simp_all

lemma refused_gauged:
  "exact_but X s \<Longrightarrow> quiet s (s\<lparr>sv_intentStore := st\<rparr>) \<Longrightarrow> exact_but X (s\<lparr>sv_intentStore := st\<rparr>)"
  by (simp add: exact_but_def quiet_def)

lemma prefix_ops_entry:
  "SetPrefixIntent ow y t st = (None, st') \<Longrightarrow> \<exists>oi. map_of (intents st') ow = Some oi"
  "RemovePrefixIntent ow a pr st = (None, st') \<Longrightarrow> \<exists>oi. map_of (intents st') ow = Some oi"
proof -
  show "\<exists>oi. map_of (intents st') ow = Some oi" if "SetPrefixIntent ow y t st = (None, st')"
    using setIntent_intents [OF arg_cong [OF that [unfolded SetPrefixIntent_def], of fst, simplified]]
      that [unfolded SetPrefixIntent_def] by simp
  show "\<exists>oi. map_of (intents st') ow = Some oi" if "RemovePrefixIntent ow a pr st = (None, st')"
    using that by (auto simp: RemovePrefixIntent_def Let_def split: if_splits option.splits)
qed

section \<open>Every call\<close>

lemma rpc_gauged:
  "exact_but X s \<Longrightarrow> exact_but X (snd (reject c m s))" "exact_but X s \<Longrightarrow> exact_but X (snd (y, s))"
  "exact_but X (snd x) \<Longrightarrow> exact_but X (snd (observed n x))" "exact_but X (snd z) \<Longrightarrow> exact_but X (snd (void z))"
  by (simp_all add: reject_def observed_def void_def gauged)

lemma authenticated_gauged:
  "exact_but X s \<Longrightarrow> (exact_but X s \<Longrightarrow> exact_but X (snd (body s))) \<Longrightarrow> exact_but X (snd (authenticated ow tk body s))"
  by (auto simp: authenticated_def gauged rpc_gauged split: option.split)

lemmas call_gauged = rpc_gauged authenticated_gauged gauged refresh_prefixes_gauged

lemmas store_gauged = store_ops_gauged
  refused_gauged [OF _ store_ops_quiet(1)] refused_gauged [OF _ store_ops_quiet(2)]
  refused_gauged [OF _ store_ops_quiet(3)] refused_gauged [OF _ store_ops_quiet(4)]
  refused_gauged [OF _ store_ops_quiet(5)] refused_gauged [OF _ store_ops_quiet(6)]
  refused_gauged [OF _ store_ops_quiet(7)] refused_gauged [OF _ store_ops_quiet(8)]

lemma sessions_gauged:
  assumes "exact_but X s"
  shows "exact_but X (snd (Register cx q s))" "exact_but X (snd (ConfigureBGP cx q' s))"
    "\<not> derq_WithdrawAll q'' \<Longrightarrow> exact_but X (snd (Deregister cx q'' s))"
  unfolding Register_def ConfigureBGP_def Deregister_def Let_def case_prod_unfold
  by (auto intro!: call_gauged assms split: option.split)

lemma ApplyPeer_gauged: "exact_but X s \<Longrightarrow> exact_but X (snd (ApplyPeer cx q s))"
  unfolding ApplyPeer_def Let_def
  by (auto intro!: call_gauged split: option.split prod.split intro: store_gauged)

lemma handleRemoveIntent_gauged:
  assumes "exact_but X s"
    and "\<And>e st. ric_removeIntent cfg ow (ric_idValue cfg) (sv_intentStore s) = (Some e, st) \<Longrightarrow>
      exact_but X (s\<lparr>sv_intentStore := st\<rparr>)"
    and "\<And>st f. ric_removeIntent cfg ow (ric_idValue cfg) (sv_intentStore s) = (None, st) \<Longrightarrow>
      exact_but X (ric_updateGauge cfg ow (metered (RecordIntent ow (ric_intentType cfg) ''remove'') (s\<lparr>sv_intentStore := st\<rparr>)))"
  shows "exact_but X (snd (handleRemoveIntent ow tk cfg s))"
  unfolding handleRemoveIntent_def Let_def
  by (auto intro!: call_gauged assms(1) split: option.split prod.split intro: assms(2,3))

lemma removals_gauged:
  assumes "exact_but X s"
  shows "exact_but X (snd (RemovePeer cx q s))" "exact_but X (snd (DisableBFD cx q' s))"
  unfolding RemovePeer_def DisableBFD_def
  by (intro rpc_gauged handleRemoveIntent_gauged; auto intro!: call_gauged intro: store_gauged assms)+

lemma AdvertisePrefix_gauged:
  assumes "exact_but X s"
  shows "exact_but X (snd (AdvertisePrefix cx q s))"
proof -
  have "exact_but X (snd (advertiseCheck cx q s))"
    unfolding advertiseCheck_def Let_def by (auto intro!: call_gauged assms split: option.split)
  moreover have "exact_but X (snd (advertiseCommit cx q i s'))" if "exact_but X s'" for i s'
    unfolding advertiseCommit_def Let_def
    by (auto intro!: call_gauged split: option.split prod.split intro: store_gauged that prefix_ops_entry)
  ultimately show ?thesis
    by (auto simp: AdvertisePrefix_def intro!: rpc_gauged(3) split: prod.split sum.split)
qed

lemma WithdrawPrefix_gauged: "exact_but X s \<Longrightarrow> exact_but X (snd (WithdrawPrefix cx q s))"
  unfolding WithdrawPrefix_def Let_def
  by (auto intro!: call_gauged split: option.split prod.split) (simp_all add: store_gauged prefix_ops_entry)

lemma sessions_and_interfaces_gauged:
  assumes "exact_but X s"
  shows "exact_but X (snd (EnableBFD cx q s))" "exact_but X (snd (EnableOSPF cx q' s))" "exact_but X (snd (DisableOSPF cx q'' s))"
  unfolding EnableBFD_def EnableOSPF_def DisableOSPF_def Let_def
  by (auto intro!: call_gauged split: option.split prod.split sum.split intro: store_gauged assms)

text \<open>A deregistration that withdraws everything is the one call that leaves the gauges behind.\<close>

definition withdraws_all :: "request \<Rightarrow> string set" where
  "withdraws_all q = (case q of QDeregister d \<Rightarrow> if derq_WithdrawAll d then {derq_Owner d} else {} | _ \<Rightarrow> {})"

lemma withdraw_all_gauged:
  assumes "exact_but X s"
  shows "exact_but (UNIV \<times> {derq_Owner q} \<union> X) (snd (Deregister cx q s))"
proof -
  have "exact_but (UNIV \<times> {derq_Owner q} \<union> X) (s\<lparr>sv_intentStore := RemoveAllByOwner (derq_Owner q) (sv_intentStore s)\<rparr>)"
    using step_gauged [OF assms, of "OpRemoveAll (derq_Owner q)"] by simp
  moreover have "exact_but (UNIV \<times> {derq_Owner q} \<union> X) s" by (rule exact_but_mono [OF assms]) simp
  ultimately show ?thesis
    unfolding Deregister_def Let_def by (auto intro!: call_gauged)
qed

lemma serve_gauged:
  assumes "exact_but X s"
  shows "exact_but (UNIV \<times> withdraws_all q \<union> X) (snd (serve cx q s))"
proof (cases q)
  case (QDeregister d)
  then show ?thesis
    using withdraw_all_gauged [OF assms, of d cx] sessions_gauged(3) [OF assms, of d cx]
    by (auto simp: withdraws_all_def)
qed (simp_all add: withdraws_all_def assms sessions_gauged rpc_gauged(4) ApplyPeer_gauged removals_gauged
    AdvertisePrefix_gauged WithdrawPrefix_gauged sessions_and_interfaces_gauged)

lemma run_gauged:
  "exact_but X s \<Longrightarrow> exact_but (UNIV \<times> (\<Union>(cx, q) \<in> set qs. withdraws_all q) \<union> X) (run_calls serve qs s)"
proof (induction qs arbitrary: s X)
  case (Cons x qs)
  obtain cx q where x: "x = (cx, q)" by fastforce
  have "exact_but (UNIV \<times> (\<Union>(cx, q) \<in> set qs. withdraws_all q) \<union> (UNIV \<times> withdraws_all q \<union> X))
      (run_calls serve (x # qs) s)"
    using Cons.IH [OF serve_gauged [OF Cons.prems]] x by simp
  then show ?case by (rule exact_but_mono) (auto simp: x)
qed simp

section \<open>Properties\<close>

text \<open>
  C11 (invariant).  The gauges on the metrics page are those of the store: after any calls, in
  any order and with any outcome, the numbers of peers, BGP and OSPF prefixes, BFD sessions and
  OSPF interfaces shown for an owner are the numbers of its intents, unless the owner was
  deregistered with \<open>withdraw_all\<close> on the way.
\<close>

theorem gauges_exact:
  assumes "\<forall>(cx, q) \<in> set qs. \<forall>d. q = QDeregister d \<and> derq_WithdrawAll d \<longrightarrow> derq_Owner d \<noteq> ow"
  shows "let s = run_calls serve qs (NewServer NewStore eng r);
             oi = (case GetOwnerIntents ow (sv_intentStore s) of None \<Rightarrow> newOwnerIntents | Some oi \<Rightarrow> oi);
             prefixes = (\<lambda>pr. length (filter (\<lambda>p. pfx_Protocol (snd p) = pr) (Prefixes oi))) in
    scrape (''novaroute_active_peers'', [(''owner'', ow)]) (sv_metrics s) = length (Peers oi) \<and>
    scrape (''novaroute_active_prefixes'', [(''owner'', ow), (''protocol'', ''bgp'')]) (sv_metrics s) = prefixes PROTOCOL_BGP \<and>
    scrape (''novaroute_active_prefixes'', [(''owner'', ow), (''protocol'', ''ospf'')]) (sv_metrics s) = prefixes PROTOCOL_OSPF \<and>
    scrape (''novaroute_active_bfd_sessions'', [(''owner'', ow)]) (sv_metrics s) = length (BFD oi) \<and>
    scrape (''novaroute_active_ospf_interfaces'', [(''owner'', ow)]) (sv_metrics s) = length (OSPF oi)"
proof -
  let ?s = "run_calls serve qs (NewServer NewStore eng r)"
  let ?oi = "case GetOwnerIntents ow (sv_intentStore ?s) of None \<Rightarrow> newOwnerIntents | Some oi \<Rightarrow> oi"
  have "exact_but {} (NewServer NewStore eng r)"
    by (simp add: exact_but_def NewServer_def NewStore_def intents_held_def store_ok_def)
  from run_gauged [OF this] have e: "exact_but (UNIV \<times> (\<Union>(cx, q) \<in> set qs. withdraws_all q)) ?s" by simp
  have "ow \<notin> (\<Union>(cx, q) \<in> set qs. withdraws_all q)"
    using assms by (fastforce simp: withdraws_all_def split: request.splits if_splits)
  with e have g: "\<forall>g \<in> gauges. scrape (gauge_series g ow) (sv_metrics ?s) = intents_held g ow (sv_intentStore ?s)"
    and ok: "store_ok (sv_intentStore ?s)" by (auto simp: exact_but_def)
  have "intents_held g ow (sv_intentStore ?s) = gauge_count g ?oi" for g
    using ok by (simp add: intents_held_def GetOwnerIntents_eq split: option.split)
  with g show ?thesis by (simp add: gauges_def Let_def)
qed

text \<open>Three calls: a prefix is advertised, another refused, and so is a stranger who deregisters.\<close>

definition ex_gauge_calls :: "(Ctx \<times> request) list" where
  "ex_gauge_calls =
     [(ex_cx, QAdvertisePrefix \<lparr>advq_Owner = ''lb'', advq_Token = ''s3cret'', advq_Prefix = ''10.1.0.0/24'',
        advq_Protocol = PROTOCOL_BGP, advq_Attributes = None\<rparr>),
      (ex_cx, QAdvertisePrefix \<lparr>advq_Owner = ''lb'', advq_Token = ''wrong'', advq_Prefix = ''10.2.0.0/24'',
        advq_Protocol = PROTOCOL_BGP, advq_Attributes = None\<rparr>),
      (ex_cx, QDeregister \<lparr>derq_Owner = ''other'', derq_Token = ''t'', derq_WithdrawAll = True\<rparr>)]"

theorem gauges_exact_witness:
  "scrape (''novaroute_active_prefixes'', [(''owner'', ''lb''), (''protocol'', ''bgp'')])
     (sv_metrics (run_calls serve ex_gauge_calls (NewServer NewStore ex_policy (NewReconciler None None)))) = 1"
proof -
  let ?s = "run_calls serve ex_gauge_calls (NewServer NewStore ex_policy (NewReconciler None None))"
  have "\<forall>(cx, q) \<in> set ex_gauge_calls. \<forall>d. q = QDeregister d \<and> derq_WithdrawAll d \<longrightarrow> derq_Owner d \<noteq> ''lb''"
    by (auto simp: ex_gauge_calls_def)
  moreover have "(case GetOwnerIntents ''lb'' (sv_intentStore ?s) of None \<Rightarrow> 0
      | Some oi \<Rightarrow> length (filter (\<lambda>p. pfx_Protocol (snd p) = PROTOCOL_BGP) (Prefixes oi))) = 1"
    by code_simp
  ultimately show ?thesis
    using gauges_exact [of ex_gauge_calls "''lb''" ex_policy "NewReconciler None None"]
    by (simp add: Let_def split: option.splits)
qed

text \<open>What that exception means: nothing of the owner is left, and the gauges stay where they were.\<close>

lemma withdraw_all_stale:
  assumes "fst (Deregister cx d s) = Inr ()" and "derq_WithdrawAll d" and "g \<in> gauges"
  shows "GetOwnerIntents (derq_Owner d) (sv_intentStore (snd (Deregister cx d s))) = None \<and>
    scrape (gauge_series g ow) (sv_metrics (snd (Deregister cx d s))) = scrape (gauge_series g ow) (sv_metrics s)"
proof -
  have e: "scrape (gauge_series g ow) (sv_metrics (emit order ty det t own m s')) = scrape (gauge_series g ow) (sv_metrics s')"
    for order ty det t own m s' using Publish_scrape [OF assms(3)] by (simp add: emit_def case_prod_unfold Let_def)
  have f: "scrape (gauge_series g ow) (RecordEvent x ms) = scrape (gauge_series g ow) ms"
    "scrape (gauge_series g ow) (ObserveGRPCDuration n ms) = scrape (gauge_series g ow) ms"
    "scrape (gauge_series g ow) (SetRegisteredOwners k ms) = scrape (gauge_series g ow) ms" for x n k ms
    using assms(3) by (auto simp: RecordEvent_def ObserveGRPCDuration_def SetRegisteredOwners_def scrape_snoc gauges_def)
  have m: "sv_metrics (metered h s') = h (sv_metrics s')" "sv_metrics (trigger s') = sv_metrics s'" for h s'
    by (simp_all add: metered_def trigger_def)
  show ?thesis
    using assms(1,2) unfolding Deregister_def Let_def
    by (auto simp: observed_def authenticated_def reject_def emit_bus m e f GetOwnerIntents_def RemoveAllByOwner_def
        split: if_splits option.splits)
qed

end
