(* ===== verification/Server_Status.thy ===== *)
theory Server_Status
  imports Server_Properties
begin

text \<open>
  \<open>GetStatus\<close> of \<open>internal/server/server.go\<close>: the intents, merged with what FRR reports.
  The orders in which the four builders range over the owners and their intents come from
  the call's context.  The server shares its FRR client with the reconciler, and only
  queries it: the client's own copy of the state, its local AS, is not touched.
\<close>

section \<open>Builders\<close>

definition stateConfigured :: string where
  "stateConfigured = ''configured''"

definition statePending :: string where
  "statePending = ''pending''"

text \<open>\<open>for owner, oi := range allIntents { for _, p := range oi.X { ... } }\<close>.\<close>

definition each_intent ::
    "Ctx \<Rightarrow> nat \<Rightarrow> (OwnerIntents \<Rightarrow> (string, 'i) gomap) \<Rightarrow> (string, OwnerIntents) gomap \<Rightarrow> (string \<times> 'i) list" where
  "each_intent cx n sel allIntents =
     concat (map (\<lambda>(owner, oi). map (\<lambda>(k, p). (owner, p)) (range_perm (cx_inner cx n owner) (sel oi)))
       (range_perm (cx_order cx n) allIntents))"

definition peerStatus ::
    "bool \<Rightarrow> (string, BGPNeighborState) gomap \<Rightarrow> (string, BFDPeerState) gomap \<Rightarrow> string \<times> PeerIntent \<Rightarrow> PeerStatus" where
  "peerStatus connected bgpStates bfdStates = (\<lambda>(owner, p).
     let ps = \<lparr>ps_NeighborAddress = peer_NeighborAddress p, ps_RemoteAs = peer_RemoteAS p,
               ps_State = (if connected then stateConfigured else statePending), ps_Owner = owner,
               ps_PrefixesReceived = 0, ps_PrefixesSent = 0, ps_Uptime = [],
               ps_BfdEnabled = peer_BFDEnabled p, ps_BfdStatus = [], ps_Description = peer_Description p\<rparr>;
         ps = (case map_of bgpStates (peer_NeighborAddress p) of
                 Some bgp \<Rightarrow> ps\<lparr>ps_State := bn_State bgp, ps_Uptime := bn_UpTime bgp,
                   ps_PrefixesReceived := bn_PrefixesReceived bgp, ps_PrefixesSent := bn_PrefixesSent bgp\<rparr>
               | None \<Rightarrow> ps)
     in if peer_BFDEnabled p
        then (case map_of bfdStates (peer_NeighborAddress p) of
                Some bfd \<Rightarrow> ps\<lparr>ps_BfdStatus := bp_Status bfd\<rparr>
              | None \<Rightarrow> ps\<lparr>ps_BfdStatus := ''not found''\<rparr>)
        else ps\<lparr>ps_BfdStatus := ''disabled''\<rparr>)"

definition buildPeerStatusList ::
    "Ctx \<Rightarrow> (string, OwnerIntents) gomap \<Rightarrow> bool \<Rightarrow> (string, BGPNeighborState) gomap \<Rightarrow>
     (string, BFDPeerState) gomap \<Rightarrow> PeerStatus list" where
  "buildPeerStatusList cx allIntents connected bgpStates bfdStates =
     map (peerStatus connected bgpStates bfdStates) (each_intent cx 10 Peers allIntents)"

definition buildPrefixStatusList :: "Ctx \<Rightarrow> (string, OwnerIntents) gomap \<Rightarrow> PrefixStatus list" where
  "buildPrefixStatusList cx allIntents =
     map (\<lambda>(owner, p). \<lparr>xs_Prefix = pfx_Prefix p, xs_Protocol = pfx_Protocol p, xs_Owner = owner,
            xs_State = ''advertised''\<rparr>) (each_intent cx 11 Prefixes allIntents)"

definition bfdStatus ::
    "bool \<Rightarrow> (string, BFDPeerState) gomap \<Rightarrow> string \<Rightarrow> string \<Rightarrow> uint32 \<Rightarrow> uint32 \<Rightarrow> uint32 \<Rightarrow> BFDSessionStatus" where
  "bfdStatus connected bfdStates owner addr rx tx dm =
     (let bs = \<lparr>bs_PeerAddress = addr, bs_State = (if connected then stateConfigured else statePending),
                bs_Owner = owner, bs_MinRxMs = rx, bs_MinTxMs = tx, bs_DetectMultiplier = dm, bs_Uptime = []\<rparr>
      in case map_of bfdStates addr of
           Some bfd \<Rightarrow> bs\<lparr>bs_State := bp_Status bfd, bs_Uptime := bp_Uptime bfd\<rparr>
         | None \<Rightarrow> bs)"

text \<open>The two loops: the BFD intents, then the sessions that peers bring, unless covered.  The
  state is the list of sessions and the set \<open>bfdCovered\<close>.\<close>

definition addBFDIntent ::
    "bool \<Rightarrow> (string, BFDPeerState) gomap \<Rightarrow> string \<times> BFDIntent \<Rightarrow>
     BFDSessionStatus list \<times> string set \<Rightarrow> BFDSessionStatus list \<times> string set" where
  "addBFDIntent connected bfdStates = (\<lambda>(owner, b) (sessions, bfdCovered).
     (sessions @ [bfdStatus connected bfdStates owner (bfd_PeerAddress b) (bfd_MinRxMs b) (bfd_MinTxMs b)
        (bfd_DetectMultiplier b)], insert (bfd_PeerAddress b) bfdCovered))"

definition addPeerSession ::
    "bool \<Rightarrow> (string, BFDPeerState) gomap \<Rightarrow> string \<times> PeerIntent \<Rightarrow>
     BFDSessionStatus list \<times> string set \<Rightarrow> BFDSessionStatus list \<times> string set" where
  "addPeerSession connected bfdStates = (\<lambda>(owner, p) (sessions, bfdCovered).
     if \<not> peer_BFDEnabled p \<or> peer_NeighborAddress p \<in> bfdCovered then (sessions, bfdCovered)
     else (sessions @ [bfdStatus connected bfdStates owner (peer_NeighborAddress p) (peer_BFDMinRxMs p)
             (peer_BFDMinTxMs p) (peer_BFDDetectMultiplier p)], insert (peer_NeighborAddress p) bfdCovered))"

definition buildBFDStatusList ::
    "Ctx \<Rightarrow> (string, OwnerIntents) gomap \<Rightarrow> bool \<Rightarrow> (string, BFDPeerState) gomap \<Rightarrow> BFDSessionStatus list" where
  "buildBFDStatusList cx allIntents connected bfdStates =
     fst (for_each (addPeerSession connected bfdStates) (each_intent cx 13 Peers allIntents)
       (for_each (addBFDIntent connected bfdStates) (each_intent cx 12 BFD allIntents) ([], {})))"

text \<open>The neighbors on the interface: the first gives the state, all are counted.\<close>

definition seeNeighbor :: "string \<Rightarrow> string \<times> OSPFNeighborState \<Rightarrow> string \<times> uint32 \<Rightarrow> string \<times> uint32" where
  "seeNeighbor iface = (\<lambda>(nid, nbr) (st, nbrCount).
     if on_Interface nbr = iface
     then ((if st = stateConfigured then on_State nbr else st), nbrCount + 1)
     else (st, nbrCount))"

definition buildOSPFStatusList ::
    "Ctx \<Rightarrow> (string, OwnerIntents) gomap \<Rightarrow> bool \<Rightarrow> (string, OSPFNeighborState) gomap \<Rightarrow> OSPFInterfaceStatus list" where
  "buildOSPFStatusList cx allIntents connected ospfStates =
     map (\<lambda>(owner, i).
       case for_each (seeNeighbor (ospf_InterfaceName i))
              (range_perm (cx_inner cx (15 + length owner) (owner @ ospf_InterfaceName i)) ospfStates)
              ((if connected then stateConfigured else statePending), 0) of
         (st, nbrCount) \<Rightarrow>
           \<lparr>os_InterfaceName = ospf_InterfaceName i, os_AreaId = ospf_AreaID i, os_State = st, os_Owner = owner,
            os_NeighborCount = nbrCount, os_Cost = ospf_Cost i, os_Ipv6 = ospf_IPv6 i\<rparr>)
       (each_intent cx 14 OSPF allIntents)"

text \<open>\<open>time.Duration.String\<close> of a whole number of seconds.\<close>

definition duration_string :: "int \<Rightarrow> string" where
  "duration_string secs =
     (let n = nat \<bar>secs\<bar>;
          body = (if n < 60 then dec n @ ''s''
                  else if n < 3600 then dec (n div 60) @ ''m'' @ dec (n mod 60) @ ''s''
                  else dec (n div 3600) @ ''h'' @ dec (n mod 3600 div 60) @ ''m'' @ dec (n mod 60) @ ''s'')
      in if secs < 0 then ''-'' @ body else body)"

text \<open>\<open>Truncate(time.Second)\<close>, towards zero.\<close>

definition truncate_seconds :: "time \<Rightarrow> int" where
  "truncate_seconds d = sgn d * (\<bar>d\<bar> div 1000000000)"

definition buildFRRStatus :: "vtysh \<Rightarrow> (string \<Rightarrow> bool) \<Rightarrow> time \<Rightarrow> Client option \<Rightarrow> time \<Rightarrow> FRRStatus" where
  "buildFRRStatus vt exists now frrClient frrConnectedAt =
     (let frrStatus = \<lparr>fs_Version = ''unknown'', fs_Connected = False, fs_Uptime = []\<rparr> in
      case frrClient of
        None \<Rightarrow> frrStatus
      | Some c \<Rightarrow>
          (let frrStatus = frrStatus\<lparr>fs_Connected := IsReady exists c\<rparr> in
           if fs_Connected frrStatus then
             (let frrStatus = (case fst (GetVersion vt c) of
                  Inr version \<Rightarrow> frrStatus\<lparr>fs_Version := version\<rparr>
                | Inl e \<Rightarrow> frrStatus)
              in frrStatus\<lparr>fs_Uptime := duration_string (truncate_seconds (now - frrConnectedAt))\<rparr>)
           else frrStatus))"

section \<open>The call\<close>

text \<open>One query of FRR and the map built from its answer; an error leaves the map nil.\<close>

definition query_states ::
    "(Client \<Rightarrow> ('e + 's list) \<times> Client) \<Rightarrow> ('s \<Rightarrow> string) \<Rightarrow> Client option \<Rightarrow> (string, 's) gomap \<times> Client option" where
  "query_states get key frrClient =
     (case frrClient of
        None \<Rightarrow> ([], None)
      | Some c \<Rightarrow>
          (case get c of
             (Inr ss, c) \<Rightarrow> (index_by key ss, Some c)
           | (Inl e, c) \<Rightarrow> ([], Some c)))"

definition GetStatus ::
    "vtysh \<Rightarrow> (string \<Rightarrow> bool) \<Rightarrow> Ctx \<Rightarrow> string \<Rightarrow> Server \<Rightarrow> GetStatusResponse rpc" where
  "GetStatus vt exists cx ownerFilter s = observed ''GetStatus''
     (let allIntents =
            (if ownerFilter \<noteq> [] then
               (case GetOwnerIntents ownerFilter (sv_intentStore s) of
                  Some oi \<Rightarrow> [(ownerFilter, oi)]
                | None \<Rightarrow> [])
             else GetAllIntents (sv_intentStore s));
          frrClient = sv_frrClient s;
          (bgpStates, c) = query_states (GetBGPNeighbors vt (cx_order cx 0)) bn_Address frrClient;
          (bfdStates, c) = query_states (GetBFDPeers vt) bp_PeerAddress c;
          (ospfStates, c) = query_states (GetOSPFNeighbors vt (cx_order cx 1)) on_NeighborID c;
          connected = (frrClient \<noteq> None);
          resp = \<lparr>sr_Peers = buildPeerStatusList cx allIntents connected bgpStates bfdStates,
                  sr_Prefixes = buildPrefixStatusList cx allIntents,
                  sr_BfdSessions = buildBFDStatusList cx allIntents connected bfdStates,
                  sr_OspfInterfaces = buildOSPFStatusList cx allIntents connected ospfStates,
                  sr_FrrStatus = Some (buildFRRStatus vt exists (cx_now cx 0) c (sv_frrConnectedAt s))\<rparr>
      in (Inr resp, s\<lparr>sv_frrClient := c\<rparr>))"

section \<open>What the lists hold\<close>

text \<open>The intents a status call is about: those of one owner, or all of them.\<close>

definition shown :: "string \<Rightarrow> Store \<Rightarrow> (string, OwnerIntents) gomap" where
  "shown ownerFilter st = filter (\<lambda>e. ownerFilter = [] \<or> fst e = ownerFilter) (intents st)"

definition owned :: "(OwnerIntents \<Rightarrow> (string, 'i) gomap) \<Rightarrow> (string, OwnerIntents) gomap \<Rightarrow> (string \<times> 'i) list" where
  "owned sel m = concat (map (\<lambda>(owner, oi). map (\<lambda>(k, i). (owner, i)) (sel oi)) m)"

lemma mset_concat_map_cong:
  assumes "\<And>x. x \<in> set xs \<Longrightarrow> mset (f x) = mset (g x)" and "mset xs = mset ys"
  shows "mset (concat (map f xs)) = mset (concat (map g ys))"
proof -
  have "mset (concat (map f xs)) = (\<Sum>x \<in># mset xs. mset (f x))"
    by (induction xs) simp_all
  also have "\<dots> = (\<Sum>x \<in># mset ys. mset (g x))"
    using assms by (metis (mono_tags, lifting) image_mset_cong set_mset_mset)
  also have "\<dots> = mset (concat (map g ys))" by (induction ys) simp_all
  finally show ?thesis .
qed

lemma mset_each_intent [simp]: "mset (each_intent cx n sel m) = mset (owned sel m)"
  unfolding each_intent_def owned_def by (rule mset_concat_map_cong) (auto simp: mset_map)

lemma set_each_intent [simp]: "set (each_intent cx n sel m) = set (owned sel m)"
  using mset_each_intent [of cx n sel m] by (metis set_mset_mset)

lemma length_each_intent [simp]: "length (each_intent cx n sel m) = length (owned sel m)"
  using mset_each_intent [of cx n sel m] by (metis size_mset)

lemma shown_one:
  assumes "gm_ok (intents st)" and "ownerFilter \<noteq> []"
  shows "shown ownerFilter st =
    (case map_of (intents st) ownerFilter of Some oi \<Rightarrow> [(ownerFilter, oi)] | None \<Rightarrow> [])"
proof -
  have "filter (\<lambda>e. fst e = k) m = (case map_of m k of Some v \<Rightarrow> [(k, v)] | None \<Rightarrow> [])" if "gm_ok m"
    for k and m :: "(string, OwnerIntents) gomap"
    using that
  proof (induction m)
    case (Cons e m)
    then show ?case
      by (cases e) (auto simp: gm_ok_Cons filter_empty_conv split: option.splits dest!: map_of_SomeD intro: rev_image_eqI)
  qed simp
  then show ?thesis using assms by (simp add: shown_def)
qed

lemma selected_intents:
  assumes "store_ok st"
  shows "(if ownerFilter \<noteq> [] then
            (case GetOwnerIntents ownerFilter st of Some oi \<Rightarrow> [(ownerFilter, oi)] | None \<Rightarrow> [])
          else GetAllIntents st) = shown ownerFilter st"
  using shown_one [of st ownerFilter] GetOwnerIntents_eq [OF assms] GetAllIntents_eq [OF assms] assms
  by (auto simp: shown_def store_ok_def entries_ok_def split: option.split)

text \<open>The sessions that peers bring: one for each address that is not covered yet.\<close>

lemma addBFDIntents:
  "for_each (addBFDIntent c bs) xs (ss, cov) =
     (ss @ map (\<lambda>(owner, b). bfdStatus c bs owner (bfd_PeerAddress b) (bfd_MinRxMs b) (bfd_MinTxMs b)
        (bfd_DetectMultiplier b)) xs, cov \<union> (\<lambda>e. bfd_PeerAddress (snd e)) ` set xs)"
  by (induction xs arbitrary: ss cov) (auto simp: addBFDIntent_def)

lemma bfdStatus_fields [simp]:
  "bs_PeerAddress (bfdStatus c bs ow a rx tx dm) = a" "bs_Owner (bfdStatus c bs ow a rx tx dm) = ow"
  "bs_MinRxMs (bfdStatus c bs ow a rx tx dm) = rx" "bs_MinTxMs (bfdStatus c bs ow a rx tx dm) = tx"
  "bs_DetectMultiplier (bfdStatus c bs ow a rx tx dm) = dm"
  by (simp_all add: bfdStatus_def Let_def split: option.split)

definition linked :: "(string \<times> PeerIntent) list \<Rightarrow> string set" where
  "linked ps = {peer_NeighborAddress p | p. \<exists>owner. (owner, p) \<in> set ps \<and> peer_BFDEnabled p}"

lemma linked_Cons:
  "linked ((owner, p) # ps) = (if peer_BFDEnabled p then {peer_NeighborAddress p} else {}) \<union> linked ps"
  by (auto simp: linked_def)

lemma addPeerSessions:
  "\<exists>new. fst (for_each (addPeerSession c bs) ps (ss, cov)) = ss @ new \<and>
     distinct (map bs_PeerAddress new) \<and> set (map bs_PeerAddress new) = linked ps - cov"
proof (induction ps arbitrary: ss cov)
  case Nil
  then show ?case by (simp add: linked_def)
next
  case (Cons x ps)
  obtain owner p where x: "x = (owner, p)" by fastforce
  let ?a = "peer_NeighborAddress p"
  let ?b = "bfdStatus c bs owner ?a (peer_BFDMinRxMs p) (peer_BFDMinTxMs p) (peer_BFDDetectMultiplier p)"
  show ?case
  proof (cases "\<not> peer_BFDEnabled p \<or> ?a \<in> cov")
    case True
    with Cons [of ss cov] show ?thesis by (auto simp: x addPeerSession_def linked_Cons)
  next
    case False
    obtain new where new: "fst (for_each (addPeerSession c bs) ps (ss @ [?b], insert ?a cov)) = (ss @ [?b]) @ new"
      "distinct (map bs_PeerAddress new)" "set (map bs_PeerAddress new) = linked ps - insert ?a cov"
      using Cons by blast
    then have "fst (for_each (addPeerSession c bs) (x # ps) (ss, cov)) = ss @ (?b # new)"
      "distinct (map bs_PeerAddress (?b # new))"
      "set (map bs_PeerAddress (?b # new)) = linked (x # ps) - cov"
      using False by (auto simp: x addPeerSession_def linked_Cons)
    then show ?thesis by blast
  qed
qed

lemma linked_mset: "set ps = set qs \<Longrightarrow> linked ps = linked qs"
  by (simp add: linked_def)

lemma buildBFDStatusList_parts:
  "\<exists>explicit auto. buildBFDStatusList cx m c bs = explicit @ auto \<and>
     mset (map (\<lambda>b. (bs_Owner b, bs_PeerAddress b)) explicit) =
       mset (map (\<lambda>(owner, b). (owner, bfd_PeerAddress b)) (owned BFD m)) \<and>
     distinct (map bs_PeerAddress auto) \<and>
     set (map bs_PeerAddress auto) = linked (owned Peers m) - (\<lambda>e. bfd_PeerAddress (snd e)) ` set (owned BFD m)"
proof -
  let ?ex = "map (\<lambda>(owner, b). bfdStatus c bs owner (bfd_PeerAddress b) (bfd_MinRxMs b) (bfd_MinTxMs b)
        (bfd_DetectMultiplier b)) (each_intent cx 12 BFD m)"
  let ?cov = "(\<lambda>e. bfd_PeerAddress (snd e)) ` set (owned BFD m)"
  obtain auto where a: "fst (for_each (addPeerSession c bs) (each_intent cx 13 Peers m) (?ex, ?cov)) = ?ex @ auto"
    "distinct (map bs_PeerAddress auto)"
    "set (map bs_PeerAddress auto) = linked (each_intent cx 13 Peers m) - ?cov"
    using addPeerSessions by blast
  have "buildBFDStatusList cx m c bs = ?ex @ auto"
    using a(1) by (simp add: buildBFDStatusList_def addBFDIntents)
  moreover have "map (\<lambda>b. (bs_Owner b, bs_PeerAddress b)) ?ex =
      map (\<lambda>(owner, b). (owner, bfd_PeerAddress b)) (each_intent cx 12 BFD m)"
    by (simp add: case_prod_unfold)
  then have "mset (map (\<lambda>b. (bs_Owner b, bs_PeerAddress b)) ?ex) =
      mset (map (\<lambda>(owner, b). (owner, bfd_PeerAddress b)) (owned BFD m))"
    by (simp only: mset_map mset_each_intent)
  moreover have "linked (each_intent cx 13 Peers m) = linked (owned Peers m)" by (rule linked_mset) simp
  ultimately show ?thesis using a(2,3) by blast
qed

lemma GetStatus_response:
  assumes "store_ok (sv_intentStore s)"
  obtains resp where "fst (GetStatus vt ex cx f s) = Inr resp"
    and "sr_Peers resp = buildPeerStatusList cx (shown f (sv_intentStore s)) (sv_frrClient s \<noteq> None)
        (fst (query_states (GetBGPNeighbors vt (cx_order cx 0)) bn_Address (sv_frrClient s)))
        (fst (query_states (GetBFDPeers vt) bp_PeerAddress
           (snd (query_states (GetBGPNeighbors vt (cx_order cx 0)) bn_Address (sv_frrClient s)))))"
    and "sr_Prefixes resp = buildPrefixStatusList cx (shown f (sv_intentStore s))"
    and "\<exists>bs. sr_BfdSessions resp = buildBFDStatusList cx (shown f (sv_intentStore s)) (sv_frrClient s \<noteq> None) bs"
    and "\<exists>os. sr_OspfInterfaces resp = buildOSPFStatusList cx (shown f (sv_intentStore s)) (sv_frrClient s \<noteq> None) os"
proof -
  show ?thesis
    by (rule that [of "projr (fst (GetStatus vt ex cx f s))"])
      (auto simp: GetStatus_def observed_def selected_intents [OF assms] Let_def case_prod_unfold)
qed

lemma peerStatus_fields [simp]:
  "ps_Owner (peerStatus c bg bf x) = fst x" "ps_NeighborAddress (peerStatus c bg bf x) = peer_NeighborAddress (snd x)"
  "ps_RemoteAs (peerStatus c bg bf x) = peer_RemoteAS (snd x)"
  "ps_State (peerStatus c bg bf x) =
     (case map_of bg (peer_NeighborAddress (snd x)) of
        Some n \<Rightarrow> bn_State n | None \<Rightarrow> if c then stateConfigured else statePending)"
  by (auto simp: peerStatus_def case_prod_unfold Let_def split: option.split)

lemma ex_store_ok: "store_ok ex_store"
  by (simp add: ex_store_def SetPrefixIntent_ok SetPeerIntent_ok NewStore_ok)

section \<open>Properties\<close>



text \<open>
  The BFD list shows the explicit BFD intents of the selected owners, each
  once, and for the peers that ask for BFD one session for every address that no explicit
  intent covers, however many owners peer with it.
\<close>

theorem GetStatus_bfd:
  assumes "store_ok (sv_intentStore s)"
  shows "\<exists>resp explicit auto. fst (GetStatus vt ex cx f s) = Inr resp \<and> sr_BfdSessions resp = explicit @ auto \<and>
    mset (map (\<lambda>b. (bs_Owner b, bs_PeerAddress b)) explicit) =
      mset (map (\<lambda>(ow, b). (ow, bfd_PeerAddress b)) (owned BFD (shown f (sv_intentStore s)))) \<and>
    distinct (map bs_PeerAddress auto) \<and>
    set (map bs_PeerAddress auto) = linked (owned Peers (shown f (sv_intentStore s))) - set (map bs_PeerAddress explicit)"
proof -
  let ?m = "shown f (sv_intentStore s)"
  obtain resp c bs where r: "fst (GetStatus vt ex cx f s) = Inr resp" "sr_BfdSessions resp = buildBFDStatusList cx ?m c bs"
    using GetStatus_response [OF assms, of vt ex cx f] by metis
  obtain explicit auto where p: "buildBFDStatusList cx ?m c bs = explicit @ auto"
    "mset (map (\<lambda>b. (bs_Owner b, bs_PeerAddress b)) explicit) =
       mset (map (\<lambda>(ow, b). (ow, bfd_PeerAddress b)) (owned BFD ?m))"
    "distinct (map bs_PeerAddress auto)"
    "set (map bs_PeerAddress auto) = linked (owned Peers ?m) - (\<lambda>e. bfd_PeerAddress (snd e)) ` set (owned BFD ?m)"
    using buildBFDStatusList_parts [of cx ?m c bs] by (elim exE conjE) (rule that)
  from arg_cong [OF p(2), of set_mset] have "(\<lambda>b. (bs_Owner b, bs_PeerAddress b)) ` set explicit =
      (\<lambda>(ow, b). (ow, bfd_PeerAddress b)) ` set (owned BFD ?m)"
    by simp
  from arg_cong [OF this, of "image snd"]
  have "set (map bs_PeerAddress explicit) = (\<lambda>e. bfd_PeerAddress (snd e)) ` set (owned BFD ?m)"
    by (simp add: image_image case_prod_unfold)
  with r p show ?thesis by (intro exI [of _ resp] exI [of _ explicit] exI [of _ auto]) simp
qed

theorem GetStatus_bfd_witness:
  "\<exists>resp. fst (GetStatus vtysh_ok (\<lambda>_. True) ex_cx [] (ex_server\<lparr>sv_intentStore := ex_store\<rparr>)) = Inr resp"
proof -
  have "store_ok (sv_intentStore (ex_server\<lparr>sv_intentStore := ex_store\<rparr>))" using ex_store_ok by simp
  from GetStatus_bfd [OF this, of vtysh_ok "\<lambda>_. True" ex_cx "[]"]
  show ?thesis by blast
qed

text \<open>
  The state shown for a peer is the one FRR reports for its address, by the
  last entry for it; it is \<open>configured\<close> when FRR does not know it or cannot be asked, and
  \<open>pending\<close> as long as the server has no FRR client.
\<close>

theorem GetStatus_peer_state:
  assumes "store_ok (sv_intentStore s)" and "fst (GetStatus vt ex cx f s) = Inr resp" and "p \<in> set (sr_Peers resp)"
  shows "ps_State p =
    (case sv_frrClient s of
       None \<Rightarrow> statePending
     | Some c \<Rightarrow>
         (case fst (GetBGPNeighbors vt (cx_order cx 0) c) of
            Inl e \<Rightarrow> stateConfigured
          | Inr ns \<Rightarrow> (case find (\<lambda>n. bn_Address n = ps_NeighborAddress p) (rev ns) of
                         Some n \<Rightarrow> bn_State n | None \<Rightarrow> stateConfigured)))"
proof -
  let ?q = "query_states (GetBGPNeighbors vt (cx_order cx 0)) bn_Address (sv_frrClient s)"
  obtain bf where "sr_Peers resp = buildPeerStatusList cx (shown f (sv_intentStore s)) (sv_frrClient s \<noteq> None) (fst ?q) bf"
    using GetStatus_response [OF assms(1), of vt ex cx f] assms(2) by (metis Inr_inject)
  then obtain x where x: "p = peerStatus (sv_frrClient s \<noteq> None) (fst ?q) bf x"
    using assms(3) by (auto simp: buildPeerStatusList_def)
  show ?thesis
  proof (cases "sv_frrClient s")
    case None
    then show ?thesis by (simp add: x query_states_def)
  next
    case (Some c)
    then show ?thesis
      by (cases "GetBGPNeighbors vt (cx_order cx 0) c"; cases "fst (GetBGPNeighbors vt (cx_order cx 0) c)")
        (auto simp: x query_states_def map_of_index_by)
  qed
qed

theorem GetStatus_peer_state_witness:
  "\<exists>resp p. fst (GetStatus vtysh_ok (\<lambda>_. True) ex_cx [] (ex_server\<lparr>sv_intentStore := ex_store\<rparr>)) = Inr resp \<and>
     p \<in> set (sr_Peers resp) \<and> ps_State p = statePending"
proof -
  let ?s = "ex_server\<lparr>sv_intentStore := ex_store\<rparr>"
  have ok: "store_ok (sv_intentStore ?s)" using ex_store_ok by simp
  obtain resp where r: "fst (GetStatus vtysh_ok (\<lambda>_. True) ex_cx [] ?s) = Inr resp"
    using GetStatus_response [OF ok] by metis
  have "sr_Peers (projr (fst (GetStatus vtysh_ok (\<lambda>_. True) ex_cx [] ?s))) \<noteq> []" by code_simp
  then obtain p where p: "p \<in> set (sr_Peers resp)" using r by (cases "sr_Peers resp") auto
  from GetStatus_peer_state [OF ok r p] have "ps_State p = statePending"
    by (simp add: ex_server_def NewServer_def)
  with r p show ?thesis by blast
qed

end
