(* ===== verification/Config_File.thy ===== *)
theory Config_File
  imports Agent_Config Go_Json
begin

text \<open>
  Loading the agent's configuration (\<open>LoadFromFile\<close> of \<open>internal/config/config.go\<close>): the
  file is read by \<open>readFile\<close>, a parameter that stands for \<open>os.ReadFile\<close>, and decoded
  over the default configuration, so a field the file does not mention keeps its default.
  A slice is decoded into fresh elements, which is what the decoder does unless the same
  key stands twice in one object.
\<close>

section \<open>Decoding\<close>

definition into_bool :: "bool \<Rightarrow> json \<Rightarrow> bool option" where
  "into_bool old j = (case j of JNull \<Rightarrow> Some old | JBool b \<Rightarrow> Some b | _ \<Rightarrow> None)"

definition parse_int64 :: "string \<Rightarrow> int option" where
  "parse_int64 s =
     (let neg = HasPrefix s ''-''; ds = (if neg then tl s else s); n = int (undec 0 ds);
          v = (if neg then - n else n) in
      if all_digits ds \<and> - (2 ^ 63) \<le> v \<and> v < 2 ^ 63 then Some v else None)"

definition into_int :: "int \<Rightarrow> json \<Rightarrow> int option" where
  "into_int old j = (case j of JNull \<Rightarrow> Some old | JNum s \<Rightarrow> parse_int64 s | _ \<Rightarrow> None)"

definition into_strings :: "json \<Rightarrow> string list option" where
  "into_strings = into_slice (into_string [])"

definition FRRConfig_field :: "string \<Rightarrow> json \<Rightarrow> FRRConfig \<Rightarrow> FRRConfig option" where
  "FRRConfig_field k v r =
     (if EqualFold k ''socket_dir'' then
        map_option (\<lambda>x. r\<lparr>frr_SocketDir := x\<rparr>) (into_string (frr_SocketDir r) v)
      else if EqualFold k ''connect_timeout'' then
        map_option (\<lambda>x. r\<lparr>frr_ConnectTimeout := x\<rparr>) (into_int (frr_ConnectTimeout r) v)
      else if EqualFold k ''retry_interval'' then
        map_option (\<lambda>x. r\<lparr>frr_RetryInterval := x\<rparr>) (into_int (frr_RetryInterval r) v)
      else Some r)"

definition zero_PeerConfig :: PeerConfig where
  "zero_PeerConfig =
     \<lparr>pc_NeighborAddress = [], pc_RemoteAS = 0, pc_Description = [], pc_BFDEnabled = False,
      pc_BFDMinRxMs = 0, pc_BFDMinTxMs = 0, pc_BFDDetectMultiplier = 0, pc_Keepalive = 0,
      pc_HoldTime = 0, pc_AddressFamilies = [], pc_SourceAddress = [], pc_EBGPMultihop = 0,
      pc_Password = [], pc_MaxPrefixes = 0\<rparr>"

definition PeerConfig_field :: "string \<Rightarrow> json \<Rightarrow> PeerConfig \<Rightarrow> PeerConfig option" where
  "PeerConfig_field k v r =
     (if EqualFold k ''neighbor_address'' then
        map_option (\<lambda>x. r\<lparr>pc_NeighborAddress := x\<rparr>) (into_string (pc_NeighborAddress r) v)
      else if EqualFold k ''remote_as'' then
        map_option (\<lambda>x. r\<lparr>pc_RemoteAS := x\<rparr>) (into_uint (pc_RemoteAS r) v)
      else if EqualFold k ''description'' then
        map_option (\<lambda>x. r\<lparr>pc_Description := x\<rparr>) (into_string (pc_Description r) v)
      else if EqualFold k ''bfd_enabled'' then
        map_option (\<lambda>x. r\<lparr>pc_BFDEnabled := x\<rparr>) (into_bool (pc_BFDEnabled r) v)
      else if EqualFold k ''bfd_min_rx_ms'' then
        map_option (\<lambda>x. r\<lparr>pc_BFDMinRxMs := x\<rparr>) (into_uint (pc_BFDMinRxMs r) v)
      else if EqualFold k ''bfd_min_tx_ms'' then
        map_option (\<lambda>x. r\<lparr>pc_BFDMinTxMs := x\<rparr>) (into_uint (pc_BFDMinTxMs r) v)
      else if EqualFold k ''bfd_detect_multiplier'' then
        map_option (\<lambda>x. r\<lparr>pc_BFDDetectMultiplier := x\<rparr>) (into_uint (pc_BFDDetectMultiplier r) v)
      else if EqualFold k ''keepalive'' then
        map_option (\<lambda>x. r\<lparr>pc_Keepalive := x\<rparr>) (into_uint (pc_Keepalive r) v)
      else if EqualFold k ''hold_time'' then
        map_option (\<lambda>x. r\<lparr>pc_HoldTime := x\<rparr>) (into_uint (pc_HoldTime r) v)
      else if EqualFold k ''address_families'' then
        map_option (\<lambda>x. r\<lparr>pc_AddressFamilies := x\<rparr>) (into_strings v)
      else if EqualFold k ''source_address'' then
        map_option (\<lambda>x. r\<lparr>pc_SourceAddress := x\<rparr>) (into_string (pc_SourceAddress r) v)
      else if EqualFold k ''ebgp_multihop'' then
        map_option (\<lambda>x. r\<lparr>pc_EBGPMultihop := x\<rparr>) (into_uint (pc_EBGPMultihop r) v)
      else if EqualFold k ''password'' then
        map_option (\<lambda>x. r\<lparr>pc_Password := x\<rparr>) (into_string (pc_Password r) v)
      else if EqualFold k ''max_prefixes'' then
        map_option (\<lambda>x. r\<lparr>pc_MaxPrefixes := x\<rparr>) (into_uint (pc_MaxPrefixes r) v)
      else Some r)"

definition decode_PeerConfig :: "json \<Rightarrow> PeerConfig option" where
  "decode_PeerConfig = into_struct PeerConfig_field zero_PeerConfig"

definition BGPConfig_field :: "string \<Rightarrow> json \<Rightarrow> BGPConfig \<Rightarrow> BGPConfig option" where
  "BGPConfig_field k v r =
     (if EqualFold k ''local_as'' then
        map_option (\<lambda>x. r\<lparr>bgp_LocalAS := x\<rparr>) (into_uint (bgp_LocalAS r) v)
      else if EqualFold k ''as_base'' then
        map_option (\<lambda>x. r\<lparr>bgp_AsBase := x\<rparr>) (into_uint (bgp_AsBase r) v)
      else if EqualFold k ''router_id'' then
        map_option (\<lambda>x. r\<lparr>bgp_RouterID := x\<rparr>) (into_string (bgp_RouterID r) v)
      else if EqualFold k ''auto_router_id'' then
        map_option (\<lambda>x. r\<lparr>bgp_AutoRouterID := x\<rparr>) (into_bool (bgp_AutoRouterID r) v)
      else if EqualFold k ''peers'' then
        map_option (\<lambda>x. r\<lparr>bgp_Peers := x\<rparr>) (into_slice decode_PeerConfig v)
      else Some r)"

definition PrefixPolicy_field :: "string \<Rightarrow> json \<Rightarrow> PrefixPolicy \<Rightarrow> PrefixPolicy option" where
  "PrefixPolicy_field k v r =
     (if EqualFold k ''type'' then map_option (\<lambda>x. r\<lparr>pp_Type := x\<rparr>) (into_string (pp_Type r) v)
      else if EqualFold k ''allowed_cidrs'' then
        map_option (\<lambda>x. r\<lparr>pp_AllowedCIDRs := x\<rparr>) (into_strings v)
      else Some r)"

definition OwnerConfig_field :: "string \<Rightarrow> json \<Rightarrow> OwnerConfig \<Rightarrow> OwnerConfig option" where
  "OwnerConfig_field k v r =
     (if EqualFold k ''token'' then map_option (\<lambda>x. r\<lparr>oc_Token := x\<rparr>) (into_string (oc_Token r) v)
      else if EqualFold k ''allowed_prefixes'' then
        map_option (\<lambda>x. r\<lparr>oc_AllowedPrefixes := x\<rparr>)
          (into_struct PrefixPolicy_field (oc_AllowedPrefixes r) v)
      else Some r)"

definition decode_OwnerConfig :: "json \<Rightarrow> OwnerConfig option" where
  "decode_OwnerConfig =
     into_struct OwnerConfig_field
       \<lparr>oc_Token = [], oc_AllowedPrefixes = \<lparr>pp_Type = [], pp_AllowedCIDRs = []\<rparr>\<rparr>"

definition Config_field :: "string \<Rightarrow> json \<Rightarrow> Config \<Rightarrow> Config option" where
  "Config_field k v r =
     (if EqualFold k ''listen_socket'' then
        map_option (\<lambda>x. r\<lparr>cfg_ListenSocket := x\<rparr>) (into_string (cfg_ListenSocket r) v)
      else if EqualFold k ''frr'' then
        map_option (\<lambda>x. r\<lparr>cfg_FRR := x\<rparr>) (into_struct FRRConfig_field (cfg_FRR r) v)
      else if EqualFold k ''bgp'' then
        map_option (\<lambda>x. r\<lparr>cfg_BGP := x\<rparr>) (into_struct BGPConfig_field (cfg_BGP r) v)
      else if EqualFold k ''owners'' then
        map_option (\<lambda>x. r\<lparr>cfg_Owners := x\<rparr>) (into_map decode_OwnerConfig (cfg_Owners r) v)
      else if EqualFold k ''log_level'' then
        map_option (\<lambda>x. r\<lparr>cfg_LogLevel := x\<rparr>) (into_string (cfg_LogLevel r) v)
      else if EqualFold k ''metrics_address'' then
        map_option (\<lambda>x. r\<lparr>cfg_MetricsAddress := x\<rparr>) (into_string (cfg_MetricsAddress r) v)
      else if EqualFold k ''disconnect_grace_period'' then
        map_option (\<lambda>x. r\<lparr>cfg_DisconnectGracePeriod := x\<rparr>) (into_int (cfg_DisconnectGracePeriod r) v)
      else Some r)"

section \<open>Loading\<close>

datatype file_error =
    ReadingConfigFile string string
  | ParsingConfigFile string

type_synonym file_reader = "string \<Rightarrow> string + string"

definition LoadFromFile :: "file_reader \<Rightarrow> string \<Rightarrow> file_error + Config" where
  "LoadFromFile readFile path =
     (let cleanPath = Clean path in
      case readFile cleanPath of
        Inl err \<Rightarrow> Inl (ReadingConfigFile cleanPath err)
      | Inr data \<Rightarrow>
          (case Option.bind (parse_json data) (into_struct Config_field DefaultConfig) of
             None \<Rightarrow> Inl (ParsingConfigFile cleanPath)
           | Some cfg \<Rightarrow> Inr cfg))"

section \<open>Facts about decoding\<close>

lemma into_uint_dec:
  fixes w :: "'a::len word"
  shows "into_uint old (JNum (dec (unat w))) = Some w"
proof -
  have "unat w < 2 ^ LENGTH('a)" by (rule unsigned_less)
  then show ?thesis
    using dec_digits [of "unat w"] by (simp add: into_uint_def undec_dec all_digits_def list_all_iff)
qed

lemma into_int_dec: "n < 2 ^ 63 \<Longrightarrow> into_int old (JNum (dec n)) = Some (int n)"
proof -
  assume n: "n < 2 ^ 63"
  have dig: "all_digits (dec n)" using dec_digits [of n] by (simp add: all_digits_def list_all_iff)
  then have "\<not> HasPrefix (dec n) ''-''"
    by (cases "dec n") (auto simp: HasPrefix_def all_digits_def is_digit_def)
  with n dig show ?thesis by (simp add: into_int_def parse_int64_def Let_def undec_dec)
qed

lemma into_elems_map:
  "(\<And>x. x \<in> set xs \<Longrightarrow> elem (f x) = Some (g x)) \<Longrightarrow> into_elems elem (map f xs) = Some (map g xs)"
  by (induction xs) simp_all

lemma into_strings_map: "into_strings (JArr (map JStr xs)) = Some xs"
  using into_elems_map [of xs "into_string []" JStr "\<lambda>x. x"]
  by (simp add: into_strings_def into_slice_def into_string_def)

text \<open>An object whose members are decoded one by one.\<close>

lemma into_fields_append:
  "into_fields f (ms @ ns) r = Option.bind (into_fields f ms r) (into_fields f ns)"
  by (induction f ms r rule: into_fields.induct) (auto split: option.splits)

lemma into_map_map:
  assumes "\<And>e. e \<in> set es \<Longrightarrow> elem (f e) = Some (g e)" and "distinct (map k es)"
  shows "into_map elem [] (JObj (map (\<lambda>e. (k e, f e)) es)) = Some (map (\<lambda>e. (k e, g e)) es)"
proof -
  let ?put = "\<lambda>k v m. case elem v of None \<Rightarrow> None | Some x \<Rightarrow> Some (gm_put m k x)"
  have "into_fields ?put (map (\<lambda>e. (k e, f e)) es) m = Some (m @ map (\<lambda>e. (k e, g e)) es)"
    if "set (map k es) \<inter> fst ` set m = {}" for m
    using assms that
  proof (induction es arbitrary: m)
    case (Cons e es)
    have "gm_put m x v = m @ [(x, v)]" if "x \<notin> fst ` set m" for m :: "('x \<times> 'y) list" and x v
      using that by (induction m) auto
    then have "gm_put m (k e) (g e) = m @ [(k e, g e)]" using Cons.prems by auto
    with Cons show ?case by simp
  qed simp
  from this [of "[]"] show ?thesis by (simp add: into_map_def)
qed

end
