(* ===== verification/Agent.thy ===== *)
theory Agent
  imports Server_Status Config_File
begin

text \<open>
  The agent (\<open>cmd/novaroute-agent/main.go\<close>) with the reconciler's \<open>RunLoop\<close>: what \<open>main\<close>
  puts together, and the goroutines that then run side by side.  Each goroutine has a
  program counter; a step of the agent is one locked section, one channel operation or one
  call of a client, and \<open>agent_step\<close> lets any goroutine that can move do so.  What the
  operating system answers, and when signals, timers and clients come, is left open.
\<close>

section \<open>Starting up\<close>

datatype load_error = LoadingConfig file_error | InvalidConfig config_error

definition loadAndValidateConfig ::
    "file_reader \<Rightarrow> environment \<Rightarrow> sched \<Rightarrow> string \<Rightarrow> load_error + Config" where
  "loadAndValidateConfig readFile env sch path =
     (case LoadFromFile readFile path of
        Inl err \<Rightarrow> Inl (LoadingConfig err)
      | Inr cfg \<Rightarrow>
          (let cfg = ExpandEnvVars env cfg in
           case Validate sch cfg of
             Some err \<Rightarrow> Inl (InvalidConfig err)
           | None \<Rightarrow> Inr cfg))"

datatype zapLevel = DebugLevel | InfoLevel | WarnLevel | ErrorLevel

definition buildLogger :: "string \<Rightarrow> zapLevel" where
  "buildLogger level =
     (let l = ToLower level in
      if l = ''debug'' then DebugLevel
      else if l = ''info'' then InfoLevel
      else if l = ''warn'' then WarnLevel
      else if l = ''error'' then ErrorLevel
      else InfoLevel)"

definition convertPolicyConfig :: "Config \<Rightarrow> (string, OwnerConfig) gomap option" where
  "convertPolicyConfig cfg = Some (cfg_Owners cfg)"

definition createServers :: "Config \<Rightarrow> Store \<Rightarrow> Engine \<Rightarrow> Server" where
  "createServers cfg store policyEngine =
     (let bgpGlobal = \<lparr>bg_LocalAS = bgp_LocalAS (cfg_BGP cfg), bg_RouterID = bgp_RouterID (cfg_BGP cfg)\<rparr>;
          rec = NewReconciler None (Some bgpGlobal)
      in NewServer store policyEngine rec)"

section \<open>The socket\<close>

text \<open>What the file system answers, and the requests made to it, in order.\<close>

datatype stat = NotExist | StatError string | FileMode bool

record OS =
  os_Stat :: "string \<Rightarrow> stat"
  os_Remove :: "string \<Rightarrow> string option"
  os_MkdirAll :: "string \<Rightarrow> string option"
  os_Listen :: "string \<Rightarrow> string option"

datatype os_call = RemoveFile string | MakeDirs string | ListenOn string | Chmod string

datatype socket_error =
    StatSocket string
  | RemoveStaleSocket string
  | ErrInvalidSocketPath
  | CreateSocketDir string
  | ListenFailed string

definition removeStaleSocket :: "OS \<Rightarrow> string \<Rightarrow> socket_error option \<times> os_call list" where
  "removeStaleSocket os path =
     (case os_Stat os path of
        NotExist \<Rightarrow> (None, [])
      | StatError err \<Rightarrow> (Some (StatSocket err), [])
      | FileMode isSocket \<Rightarrow>
          if isSocket then (map_option RemoveStaleSocket (os_Remove os path), [RemoveFile path])
          else (None, []))"

text \<open>\<open>strings.LastIndex\<close> for a single character.\<close>

definition LastIndex :: "string \<Rightarrow> char \<Rightarrow> nat option" where
  "LastIndex s c = (if c \<in> set s then Some (length s - Suc (length (takeWhile (\<lambda>x. x \<noteq> c) (rev s)))) else None)"

definition setupSocketListener :: "OS \<Rightarrow> string \<Rightarrow> (socket_error + string) \<times> os_call list" where
  "setupSocketListener os socketPath =
     (case removeStaleSocket os socketPath of
        (Some err, calls) \<Rightarrow> (Inl err, calls)
      | (None, calls) \<Rightarrow>
          (case LastIndex socketPath (CHR ''/'') of
             None \<Rightarrow> (Inl ErrInvalidSocketPath, calls)
           | Some lastSlash \<Rightarrow>
               (let socketDir = take lastSlash socketPath;
                    (mkdirErr, calls) =
                      (if socketDir \<noteq> [] then (os_MkdirAll os socketDir, calls @ [MakeDirs socketDir])
                       else (None, calls)) in
                case mkdirErr of
                  Some err \<Rightarrow> (Inl (CreateSocketDir err), calls)
                | None \<Rightarrow>
                    (case os_Listen os socketPath of
                       Some err \<Rightarrow> (Inl (ListenFailed err), calls @ [ListenOn socketPath])
                     | None \<Rightarrow> (Inr socketPath, calls @ [ListenOn socketPath, Chmod socketPath])))))"

section \<open>State\<close>

record frrState =
  fs_client :: "Client option"
  fs_ready :: bool

text \<open>Where the goroutines are: \<open>connectFRR\<close>, \<open>waitForFRR\<close>, \<open>RunLoop\<close> and \<open>main\<close>.\<close>

datatype connect_pc = CDialing | CSet | CReady | CDone

datatype wait_pc = WWaiting | WPeers "PeerConfig list" | WDone

datatype loop_pc =
    LIdle
  | LEnsure Env
  | LRead nat Env
  | LStage nat Env "rec_error list"
  | LMonitor Env "rec_error list"
  | LStopped

datatype main_pc =
    MListening
  | MServing
  | MStopping
  | MWaitLoop
  | MWithdraw
  | MDraining
  | MClosing
  | MClosed
  | MFatal

text \<open>
  \<open>ag_streams\<close> counts the open \<open>StreamEvents\<close> calls and \<open>ag_os\<close> records the requests that
  \<open>main\<close> has made to the file system.  The last three fields are ghosts: the
  errors of the last cycle with what it read, the errors of \<open>WithdrawAll\<close>, and whether
  \<open>fs.ready\<close> was closed twice, which would panic.
\<close>

record Agent =
  ag_server :: Server
  ag_fs :: frrState
  ag_cancelled :: bool
  ag_connect :: connect_pc
  ag_wait :: wait_pc
  ag_loop :: loop_pc
  ag_main :: main_pc
  ag_streams :: nat
  ag_os :: "os_call list"
  ag_last :: "(rec_error list \<times> Env) option"
  ag_withdrawErrs :: "rec_error list"
  ag_panicked :: bool

definition on_server :: "(Server \<Rightarrow> Server) \<Rightarrow> Agent \<Rightarrow> Agent" where
  "on_server f ag = ag\<lparr>ag_server := f (ag_server ag)\<rparr>"

definition on_rec :: "(Reconciler \<Rightarrow> Reconciler) \<Rightarrow> Server \<Rightarrow> Server" where
  "on_rec f s = s\<lparr>sv_reconciler := f (sv_reconciler s)\<rparr>"

definition on_bus :: "(EventBus \<Rightarrow> EventBus) \<Rightarrow> Server \<Rightarrow> Server" where
  "on_bus f s = s\<lparr>sv_eventBus := f (sv_eventBus s)\<rparr>"

definition main_start :: "Config \<Rightarrow> Agent" where
  "main_start cfg =
     (let srv = createServers cfg NewStore (NewEngine (convertPolicyConfig cfg));
          srv = on_rec (SetEventPublisher True) srv;
          srv = metered (SetFRRConnected False) srv in
      \<lparr>ag_server = srv, ag_fs = \<lparr>fs_client = None, fs_ready = False\<rparr>, ag_cancelled = False,
       ag_connect = CDialing, ag_wait = WWaiting, ag_loop = LIdle, ag_main = MListening, ag_streams = 0,
       ag_os = [], ag_last = None, ag_withdrawErrs = [], ag_panicked = False\<rparr>)"

text \<open>\<open>main\<close> up to there: without a valid configuration it exits.\<close>

definition boot :: "file_reader \<Rightarrow> environment \<Rightarrow> sched \<Rightarrow> string \<Rightarrow> load_error + Agent" where
  "boot readFile env sch configPath =
     (case loadAndValidateConfig readFile env sch configPath of
        Inl err \<Rightarrow> Inl err
      | Inr cfg \<Rightarrow> Inr (main_start cfg))"

text \<open>The listener; \<open>logger.Fatal\<close> ends the process.\<close>

definition listenStep :: "OS \<Rightarrow> Config \<Rightarrow> Agent \<Rightarrow> Agent" where
  "listenStep os cfg ag =
     (case setupSocketListener os (cfg_ListenSocket cfg) of
        (Inl err, calls) \<Rightarrow> ag\<lparr>ag_os := ag_os ag @ calls, ag_main := MFatal\<rparr>
      | (Inr socketPath, calls) \<Rightarrow> ag\<lparr>ag_os := ag_os ag @ calls, ag_main := MServing\<rparr>)"

section \<open>Connecting to FRR\<close>

text \<open>One round of the retry loop, \<open>exists\<close> being the file system at that moment.\<close>

definition connectFRR :: "vtysh \<Rightarrow> (string \<Rightarrow> bool) \<Rightarrow> Config \<Rightarrow> Agent \<Rightarrow> Agent" where
  "connectFRR vt exists cfg ag =
     (let client = NewClient exists (frr_SocketDir (cfg_FRR cfg)) in
      if \<not> IsReady exists client then ag
      else
        (case GetVersion vt client of
           (Inl vErr, client) \<Rightarrow> ag
         | (Inr version, client) \<Rightarrow> ag\<lparr>ag_fs := (ag_fs ag)\<lparr>fs_client := Some client\<rparr>, ag_connect := CSet\<rparr>))"

definition closeReady :: "Agent \<Rightarrow> Agent" where
  "closeReady ag =
     (if fs_ready (ag_fs ag) then ag\<lparr>ag_panicked := True\<rparr>
      else ag\<lparr>ag_fs := (ag_fs ag)\<lparr>fs_ready := True\<rparr>, ag_connect := CReady\<rparr>)"

text \<open>What \<open>waitForFRR\<close> does once the client is there, up to the configured peers.\<close>

definition injectFRR :: "Ctx \<Rightarrow> Config \<Rightarrow> Agent \<Rightarrow> Agent" where
  "injectFRR cx cfg ag =
     (let client = fs_client (ag_fs ag);
          s = on_rec (SetFRRClient client) (ag_server ag);
          s = SetFRRClient_s client (cx_now cx 0) s;
          s = emit (cx_order cx 0) EVENT_TYPE_FRR_CONNECTED ''FRR VTY connection established'' (cx_now cx 1) [] [] s;
          s = metered (RecordEvent ''frr_connected'') s
      in ag\<lparr>ag_server := s, ag_wait := WPeers (bgp_Peers (cfg_BGP cfg))\<rparr>)"

definition configOwner :: string where
  "configOwner = ''_config''"

definition addressFamily_of :: "string \<Rightarrow> AddressFamily option" where
  "addressFamily_of af =
     (let l = ToLower af in
      if l = ''ipv4-unicast'' \<or> l = ''ipv4_unicast'' then Some ADDRESS_FAMILY_IPV4_UNICAST
      else if l = ''ipv6-unicast'' \<or> l = ''ipv6_unicast'' then Some ADDRESS_FAMILY_IPV6_UNICAST
      else None)"

definition configPeerIntent :: "PeerConfig \<Rightarrow> PeerIntent" where
  "configPeerIntent peer =
     (let addressFamilies = List.map_filter addressFamily_of (pc_AddressFamilies peer);
          addressFamilies = (if length addressFamilies = 0 then [ADDRESS_FAMILY_IPV4_UNICAST] else addressFamilies) in
      \<lparr>peer_Owner = configOwner, peer_NeighborAddress = pc_NeighborAddress peer, peer_RemoteAS = pc_RemoteAS peer,
       peer_PeerType = PEER_TYPE_EXTERNAL, peer_Keepalive = pc_Keepalive peer, peer_HoldTime = pc_HoldTime peer,
       peer_BFDEnabled = pc_BFDEnabled peer, peer_BFDMinRxMs = pc_BFDMinRxMs peer,
       peer_BFDMinTxMs = pc_BFDMinTxMs peer, peer_BFDDetectMultiplier = pc_BFDDetectMultiplier peer,
       peer_Description = pc_Description peer, peer_AddressFamilies = addressFamilies,
       peer_SourceAddress = pc_SourceAddress peer, peer_EBGPMultihop = pc_EBGPMultihop peer,
       peer_Password = pc_Password peer, peer_MaxPrefixes = pc_MaxPrefixes peer,
       peer_CreatedAt = 0, peer_UpdatedAt = 0\<rparr>)"

text \<open>One round of the loop in \<open>initConfigPeers\<close>; an error is logged and the loop goes on.\<close>

definition initConfigPeer :: "time \<Rightarrow> PeerConfig \<Rightarrow> Server \<Rightarrow> Server" where
  "initConfigPeer now peer s =
     s\<lparr>sv_intentStore := snd (SetPeerIntent configOwner (Some (configPeerIntent peer)) now (sv_intentStore s))\<rparr>"

section \<open>The reconciler's loop\<close>

text \<open>\<open>Reconcile\<close> up to its first check, on a tick or a trigger.\<close>

definition startCycle :: "Env \<Rightarrow> Agent \<Rightarrow> Agent" where
  "startCycle env ag =
     (if r_frrClient (sv_reconciler (ag_server ag)) = None then ag else ag\<lparr>ag_loop := LEnsure env\<rparr>)"

definition receiveTrigger :: "Agent \<Rightarrow> Agent" where
  "receiveTrigger = on_server (on_rec (\<lambda>r. r\<lparr>r_triggerPending := False\<rparr>))"

definition ensureStep :: "vtysh \<Rightarrow> Env \<Rightarrow> Agent \<Rightarrow> Agent" where
  "ensureStep vt env ag =
     (case ensureBGPGlobal vt (sv_reconciler (ag_server ag)) of
        (Some err, r) \<Rightarrow> (on_server (on_rec (\<lambda>_. r)) ag)\<lparr>ag_loop := LIdle, ag_last := Some ([err], env)\<rparr>
      | (None, r) \<Rightarrow> (on_server (on_rec (\<lambda>_. r)) ag)\<lparr>ag_loop := LRead 0 env\<rparr>)"

text \<open>The four reads of the store, then the four stages, each under a lock of its own.\<close>

definition readStep :: "nat \<Rightarrow> Env \<Rightarrow> Agent \<Rightarrow> Agent" where
  "readStep n env ag =
     (let env = env\<lparr>env_store := (env_store env)(n := sv_intentStore (ag_server ag))\<rparr> in
      ag\<lparr>ag_loop := (if n < 3 then LRead (Suc n) env else LStage 0 env [])\<rparr>)"

fun cycleStage :: "vtysh \<Rightarrow> nat \<Rightarrow> Env \<Rightarrow> Reconciler \<Rightarrow> rec_error option \<times> Reconciler" where
  "cycleStage vt 0 env r = ReconcilePeers vt (env_range env 0) (env_range env 1)
     (GetPeerIntents (env_outer env 0) (env_inner env 0) (env_store env 0)) r"
| "cycleStage vt (Suc 0) env r = ReconcilePrefixes vt (env_range env 2) (env_range env 3)
     (GetPrefixIntents (env_outer env 1) (env_inner env 1) (env_store env 1)) r"
| "cycleStage vt (Suc (Suc 0)) env r = ReconcileBFD vt (env_range env 4) (env_range env 5)
     (GetBFDIntents (env_outer env 2) (env_inner env 2) (env_store env 2)) r"
| "cycleStage vt (Suc (Suc (Suc n))) env r = ReconcileOSPF vt (env_range env 6) (env_range env 7)
     (GetOSPFIntents (env_outer env 3) (env_inner env 3) (env_store env 3)) r"

definition stageStep :: "vtysh \<Rightarrow> nat \<Rightarrow> Env \<Rightarrow> rec_error list \<Rightarrow> Agent \<Rightarrow> Agent" where
  "stageStep vt n env errs ag =
     (case cycleStage vt n env (sv_reconciler (ag_server ag)) of
        (e, r) \<Rightarrow>
          (let errs = errs @ (case e of Some err \<Rightarrow> [err] | None \<Rightarrow> []) in
           (on_server (on_rec (\<lambda>_. r)) ag)\<lparr>ag_loop := (if n < 3 then LStage (Suc n) env errs else LMonitor env errs)\<rparr>))"

text \<open>The events that the monitor handed to the publisher go to the bus, their types as the
  numbers of the enumeration.\<close>

fun uint32_of_EventType :: "EventType \<Rightarrow> uint32" where
  "uint32_of_EventType EVENT_TYPE_UNSPECIFIED = 0"
| "uint32_of_EventType EVENT_TYPE_PEER_UP = 1"
| "uint32_of_EventType EVENT_TYPE_PEER_DOWN = 2"
| "uint32_of_EventType EVENT_TYPE_PREFIX_ADVERTISED = 3"
| "uint32_of_EventType EVENT_TYPE_PREFIX_WITHDRAWN = 4"
| "uint32_of_EventType EVENT_TYPE_BFD_UP = 5"
| "uint32_of_EventType EVENT_TYPE_BFD_DOWN = 6"
| "uint32_of_EventType EVENT_TYPE_OSPF_NEIGHBOR_UP = 7"
| "uint32_of_EventType EVENT_TYPE_OSPF_NEIGHBOR_DOWN = 8"
| "uint32_of_EventType EVENT_TYPE_FRR_CONNECTED = 9"
| "uint32_of_EventType EVENT_TYPE_FRR_DISCONNECTED = 10"
| "uint32_of_EventType EVENT_TYPE_OWNER_REGISTERED = 11"
| "uint32_of_EventType EVENT_TYPE_OWNER_DEREGISTERED = 12"
| "uint32_of_EventType EVENT_TYPE_POLICY_VIOLATION = 13"
| "uint32_of_EventType EVENT_TYPE_BGP_CONFIG_CHANGED = 14"
| "uint32_of_EventType (EVENT_TYPE_OTHER n) = word_of_int n"

definition forwardEvent :: "Ctx \<Rightarrow> nat \<times> PublishedEvent \<Rightarrow> Server \<Rightarrow> Server" where
  "forwardEvent cx = (\<lambda>(i, pe) s.
     let (eb, ms) = PublishRouteEvent (cx_order cx i) (Unix (cx_now cx i)) (uint32_of_EventType (pe_Type pe))
           (pe_Owner pe) (pe_Detail pe) (pe_Metadata pe) (sv_eventBus s, sv_metrics s)
     in s\<lparr>sv_eventBus := eb, sv_metrics := ms\<rparr>)"

definition monitorStep :: "vtysh \<Rightarrow> Ctx \<Rightarrow> Env \<Rightarrow> rec_error list \<Rightarrow> Agent \<Rightarrow> Agent" where
  "monitorStep vt cx env errs ag =
     (let s = ag_server ag; r = sv_reconciler s;
          r = r\<lparr>r_metrics := RecordReconcileCycleDuration (r_metrics r)\<rparr>;
          r' = monitorFRRState vt (env\<lparr>env_store := \<lambda>_. sv_intentStore s\<rparr>) r;
          new = drop (length (r_published r)) (r_published r');
          s = for_each (forwardEvent cx) (enumerate 0 new) (s\<lparr>sv_reconciler := r'\<rparr>)
      in ag\<lparr>ag_server := s, ag_loop := LIdle, ag_last := Some (errs, env)\<rparr>)"

section \<open>Shutting down\<close>

definition announceShutdown :: "Ctx \<Rightarrow> Agent \<Rightarrow> Agent" where
  "announceShutdown cx ag =
     (let ag = (if fs_client (ag_fs ag) \<noteq> None
                then on_server (\<lambda>s. metered (RecordEvent ''frr_disconnected'')
                       (emit (cx_order cx 0) EVENT_TYPE_FRR_DISCONNECTED
                          ''FRR VTY connection closing (agent shutdown)'' (cx_now cx 0) [] [] s)) ag
                else ag)
      in ag\<lparr>ag_cancelled := True, ag_main := MWaitLoop\<rparr>)"

definition withdrawStep :: "vtysh \<Rightarrow> (nat \<Rightarrow> sched) \<Rightarrow> Agent \<Rightarrow> Agent" where
  "withdrawStep vt order ag =
     (case WithdrawAll vt order (sv_reconciler (ag_server ag)) of
        (errs, r) \<Rightarrow>
          (on_server (on_rec (\<lambda>_. r)) ag)\<lparr>ag_withdrawErrs := errs, ag_main := MDraining\<rparr>)"

text \<open>After \<open>GracefulStop\<close>: the client is closed and the socket removed.\<close>

definition closeStep :: "Config \<Rightarrow> Agent \<Rightarrow> Agent" where
  "closeStep cfg ag =
     (let fs = ag_fs ag in
      ag\<lparr>ag_fs := fs\<lparr>fs_client := map_option (\<lambda>c. snd (Close c)) (fs_client fs)\<rparr>,
         ag_os := ag_os ag @ [RemoveFile (cfg_ListenSocket cfg)], ag_main := MClosed\<rparr>)"

section \<open>The metrics server and the interceptors\<close>

definition readyz :: "(string \<Rightarrow> bool) \<Rightarrow> Agent \<Rightarrow> nat \<times> string" where
  "readyz exists ag =
     (case fs_client (ag_fs ag) of
        Some client \<Rightarrow>
          if IsReady exists client then (200, ''ready'') else (503, ''not ready: FRR not connected'')
      | None \<Rightarrow> (503, ''not ready: FRR not connected''))"

text \<open>The paths of the metrics server; what \<open>promhttp\<close> answers is outside.\<close>

definition metricsMux :: "(Agent \<Rightarrow> nat \<times> string) \<Rightarrow> (string \<Rightarrow> bool) \<Rightarrow> Agent \<Rightarrow> string \<Rightarrow> nat \<times> string" where
  "metricsMux promHandler exists ag path =
     (if path = ''/metrics'' then promHandler ag
      else if path = ''/healthz'' then (200, ''ok'')
      else if path = ''/readyz'' then readyz exists ag
      else (404, ''404 page not found'' @ [newline]))"

text \<open>A handler returns or panics.\<close>

datatype 'a outcome = Returned 'a | Panicked

definition recoveryUnaryInterceptor :: "(status + 'a) outcome \<Rightarrow> status + 'a" where
  "recoveryUnaryInterceptor handler =
     (case handler of
        Panicked \<Rightarrow> Inl (Status Internal ''internal server error'')
      | Returned x \<Rightarrow> x)"

definition recoveryStreamInterceptor :: "status option outcome \<Rightarrow> status option" where
  "recoveryStreamInterceptor handler =
     (case handler of
        Panicked \<Rightarrow> Some (Status Internal ''internal server error'')
      | Returned err \<Rightarrow> err)"

section \<open>The agent as a transition system\<close>

text \<open>New calls are accepted from \<open>Serve\<close> to \<open>GracefulStop\<close>.\<close>

definition accepting :: "Agent \<Rightarrow> bool" where
  "accepting ag \<longleftrightarrow> ag_main ag \<in> {MServing, MStopping, MWaitLoop, MWithdraw}"

text \<open>The goroutines run until \<open>main\<close> has returned or failed.\<close>

definition running :: "Agent \<Rightarrow> bool" where
  "running ag \<longleftrightarrow> ag_main ag \<noteq> MClosed \<and> ag_main ag \<noteq> MFatal"

inductive agent_step :: "vtysh \<Rightarrow> Config \<Rightarrow> Agent \<Rightarrow> Agent \<Rightarrow> bool" for vt cfg where
  call: "accepting ag \<Longrightarrow> agent_step vt cfg ag (on_server (\<lambda>s. snd (serve cx q s)) ag)"
| status: "accepting ag \<Longrightarrow> agent_step vt cfg ag (on_server (\<lambda>s. snd (GetStatus vt ex cx f s)) ag)"
| stream_open: "accepting ag \<Longrightarrow>
    agent_step vt cfg ag ((on_server (on_bus (bus_step (BSubscribe ow ts))) ag)\<lparr>ag_streams := Suc (ag_streams ag)\<rparr>)"
| stream_recv: "running ag \<Longrightarrow> agent_step vt cfg ag (on_server (on_bus (bus_step (BReceive ch))) ag)"
| stream_close: "ag_streams ag = Suc n \<Longrightarrow>
    running ag \<Longrightarrow> agent_step vt cfg ag ((on_server (on_bus (bus_step (BUnsubscribe order ch))) ag)\<lparr>ag_streams := n\<rparr>)"
| dial: "ag_connect ag = CDialing \<Longrightarrow> running ag \<Longrightarrow> agent_step vt cfg ag (connectFRR vt ex cfg ag)"
| dial_stop: "ag_connect ag = CDialing \<Longrightarrow> ag_cancelled ag \<Longrightarrow> running ag \<Longrightarrow> agent_step vt cfg ag (ag\<lparr>ag_connect := CDone\<rparr>)"
| ready: "ag_connect ag = CSet \<Longrightarrow> running ag \<Longrightarrow> agent_step vt cfg ag (closeReady ag)"
| connected: "ag_connect ag = CReady \<Longrightarrow>
    running ag \<Longrightarrow> agent_step vt cfg ag ((on_server (metered (SetFRRConnected True)) ag)\<lparr>ag_connect := CDone\<rparr>)"
| inject: "ag_wait ag = WWaiting \<Longrightarrow> fs_ready (ag_fs ag) \<Longrightarrow> running ag \<Longrightarrow> agent_step vt cfg ag (injectFRR cx cfg ag)"
| wait_stop: "ag_wait ag = WWaiting \<Longrightarrow> ag_cancelled ag \<Longrightarrow> running ag \<Longrightarrow> agent_step vt cfg ag (ag\<lparr>ag_wait := WDone\<rparr>)"
| config_peer: "ag_wait ag = WPeers (peer # peers) \<Longrightarrow>
    running ag \<Longrightarrow> agent_step vt cfg ag ((on_server (initConfigPeer now peer) ag)\<lparr>ag_wait := WPeers peers\<rparr>)"
| config_done: "ag_wait ag = WPeers [] \<Longrightarrow> running ag \<Longrightarrow> agent_step vt cfg ag ((on_server trigger ag)\<lparr>ag_wait := WDone\<rparr>)"
| tick: "ag_loop ag = LIdle \<Longrightarrow> running ag \<Longrightarrow> agent_step vt cfg ag (startCycle env ag)"
| triggered: "ag_loop ag = LIdle \<Longrightarrow> r_triggerPending (sv_reconciler (ag_server ag)) \<Longrightarrow>
    running ag \<Longrightarrow> agent_step vt cfg ag (startCycle env (receiveTrigger ag))"
| loop_stop: "ag_loop ag = LIdle \<Longrightarrow> ag_cancelled ag \<Longrightarrow> running ag \<Longrightarrow> agent_step vt cfg ag (ag\<lparr>ag_loop := LStopped\<rparr>)"
| ensure_bgp: "ag_loop ag = LEnsure env \<Longrightarrow> running ag \<Longrightarrow> agent_step vt cfg ag (ensureStep vt env ag)"
| read_store: "ag_loop ag = LRead n env \<Longrightarrow> running ag \<Longrightarrow> agent_step vt cfg ag (readStep n env ag)"
| stage: "ag_loop ag = LStage n env errs \<Longrightarrow> running ag \<Longrightarrow> agent_step vt cfg ag (stageStep vt n env errs ag)"
| monitor: "ag_loop ag = LMonitor env errs \<Longrightarrow> running ag \<Longrightarrow> agent_step vt cfg ag (monitorStep vt cx env errs ag)"
| failure: "ag_main ag \<noteq> MListening \<Longrightarrow> running ag \<Longrightarrow> agent_step vt cfg ag (ag\<lparr>ag_cancelled := True\<rparr>)"
| listen: "ag_main ag = MListening \<Longrightarrow> agent_step vt cfg ag (listenStep os cfg ag)"
| signal: "ag_main ag = MServing \<Longrightarrow> agent_step vt cfg ag (ag\<lparr>ag_main := MStopping\<rparr>)"
| announce: "ag_main ag = MStopping \<Longrightarrow> agent_step vt cfg ag (announceShutdown cx ag)"
| loop_done: "ag_main ag = MWaitLoop \<Longrightarrow> ag_loop ag = LStopped \<Longrightarrow> agent_step vt cfg ag (ag\<lparr>ag_main := MWithdraw\<rparr>)"
| withdraw: "ag_main ag = MWithdraw \<Longrightarrow> agent_step vt cfg ag (withdrawStep vt order ag)"
| drained: "ag_main ag = MDraining \<Longrightarrow> ag_streams ag = 0 \<Longrightarrow> agent_step vt cfg ag (ag\<lparr>ag_main := MClosing\<rparr>)"
| close: "ag_main ag = MClosing \<Longrightarrow> agent_step vt cfg ag (closeStep cfg ag)"

inductive agent_reachable :: "vtysh \<Rightarrow> Config \<Rightarrow> Agent \<Rightarrow> bool" for vt cfg where
  start: "agent_reachable vt cfg (main_start cfg)"
| step: "agent_reachable vt cfg ag \<Longrightarrow> agent_step vt cfg ag ag' \<Longrightarrow> agent_reachable vt cfg ag'"

end
