(* ===== verification/Agent_Facts.thy ===== *)
theory Agent_Facts
  imports Agent
begin

text \<open>
  What the steps of the agent do to the server, the reconciler and the bus, and the
  invariants of the agent: the handover of the FRR client, the progress of a cycle through
  its stages, and that no change of the store goes unread.
\<close>

section \<open>Steps\<close>

abbreviation rec_of :: "Agent \<Rightarrow> Reconciler" where
  "rec_of ag \<equiv> sv_reconciler (ag_server ag)"

abbreviation store_of :: "Agent \<Rightarrow> Store" where
  "store_of ag \<equiv> sv_intentStore (ag_server ag)"

lemmas on_defs = on_server_def on_rec_def on_bus_def

lemma on_server_sel [simp]:
  "ag_server (on_server f ag) = f (ag_server ag)"
  "ag_fs (on_server f ag) = ag_fs ag"
  "ag_cancelled (on_server f ag) = ag_cancelled ag"
  "ag_connect (on_server f ag) = ag_connect ag"
  "ag_wait (on_server f ag) = ag_wait ag"
  "ag_loop (on_server f ag) = ag_loop ag"
  "ag_main (on_server f ag) = ag_main ag"
  "ag_streams (on_server f ag) = ag_streams ag"
  "ag_os (on_server f ag) = ag_os ag"
  "ag_last (on_server f ag) = ag_last ag"
  "ag_withdrawErrs (on_server f ag) = ag_withdrawErrs ag"
  "ag_panicked (on_server f ag) = ag_panicked ag"
  by (simp_all add: on_server_def)

lemma on_rec_sel [simp]:
  "sv_reconciler (on_rec g s) = g (sv_reconciler s)"
  "sv_intentStore (on_rec g s) = sv_intentStore s"
  "sv_policy (on_rec g s) = sv_policy s"
  "sv_eventBus (on_rec g s) = sv_eventBus s"
  "sv_frrClient (on_rec g s) = sv_frrClient s"
  "sv_frrConnectedAt (on_rec g s) = sv_frrConnectedAt s"
  "sv_sessions (on_rec g s) = sv_sessions s"
  "sv_metrics (on_rec g s) = sv_metrics s"
  by (simp_all add: on_rec_def)

lemma on_bus_sel [simp]:
  "sv_eventBus (on_bus h s) = h (sv_eventBus s)"
  "sv_intentStore (on_bus h s) = sv_intentStore s"
  "sv_policy (on_bus h s) = sv_policy s"
  "sv_reconciler (on_bus h s) = sv_reconciler s"
  "sv_frrClient (on_bus h s) = sv_frrClient s"
  "sv_frrConnectedAt (on_bus h s) = sv_frrConnectedAt s"
  "sv_sessions (on_bus h s) = sv_sessions s"
  "sv_metrics (on_bus h s) = sv_metrics s"
  by (simp_all add: on_bus_def)

lemma connectFRR_cases:
  obtains "connectFRR vt ex cfg ag = ag"
  | c where "connectFRR vt ex cfg ag = ag\<lparr>ag_fs := (ag_fs ag)\<lparr>fs_client := Some c\<rparr>, ag_connect := CSet\<rparr>"
proof -
  let ?c = "NewClient ex (frr_SocketDir (cfg_FRR cfg))"
  obtain v c where v: "GetVersion vt ?c = (v, c)" by fastforce
  show thesis
    by (cases "IsReady ex ?c"; cases v) (use that v in \<open>auto simp: connectFRR_def\<close>)
qed

lemma ensureStep_cases:
  obtains err r where "ensureBGPGlobal vt (rec_of ag) = (Some err, r)"
      "ensureStep vt env ag = (on_server (on_rec (\<lambda>_. r)) ag)\<lparr>ag_loop := LIdle, ag_last := Some ([err], env)\<rparr>"
  | r where "ensureBGPGlobal vt (rec_of ag) = (None, r)"
      "ensureStep vt env ag = (on_server (on_rec (\<lambda>_. r)) ag)\<lparr>ag_loop := LRead 0 env\<rparr>"
proof -
  obtain e r where e: "ensureBGPGlobal vt (rec_of ag) = (e, r)" by fastforce
  show thesis by (cases e) (use that e in \<open>auto simp: ensureStep_def\<close>)
qed

lemma stageStep_eq:
  assumes "cycleStage vt n env (rec_of ag) = (e, r)"
  shows "stageStep vt n env errs ag = (on_server (on_rec (\<lambda>_. r)) ag)
    \<lparr>ag_loop := (let errs' = errs @ (case e of Some err \<Rightarrow> [err] | None \<Rightarrow> [])
       in if n < 3 then LStage (Suc n) env errs' else LMonitor env errs')\<rparr>"
  using assms by (simp add: stageStep_def Let_def)

lemma uint32_of_EventType_names: "named ty \<Longrightarrow> EventType_of_uint32 (uint32_of_EventType ty) = ty"
  by (cases ty) (simp_all add: EventType_of_uint32_def Let_def)

text \<open>The stages leave the trigger alone.\<close>

lemma peers_pending: "r_triggerPending (snd (ReconcilePeers vt sd sa ps r)) = r_triggerPending r"
  unfolding ReconcilePeers_def
proof (rule peers.loop_invariant [where P = "\<lambda>s. r_triggerPending s = r_triggerPending r"])
  fix k d e and s :: Reconciler
  assume "r_triggerPending s = r_triggerPending r"
  then show "r_triggerPending (snd (addPeer vt (k, d) (e, s))) = r_triggerPending r"
    by (cases rule: addPeer_cases [of s k d vt e]) (auto simp: frr_only_def peer_only_def record_intent_def)
next
  fix k a e and s :: Reconciler
  let ?dm = "index_by (\<lambda>p. peerKey_r (peer_NeighborAddress p)) ps"
  assume "r_triggerPending s = r_triggerPending r"
  then show "r_triggerPending (snd (delPeer vt ?dm (k, a) (e, s))) = r_triggerPending r"
    by (cases rule: delPeer_cases [of ?dm k vt a e s]) (auto simp: frr_only_def peer_only_def record_intent_def)
qed simp_all

lemma prefixes_pending: "r_triggerPending (snd (ReconcilePrefixes vt sd sa xs r)) = r_triggerPending r"
  unfolding ReconcilePrefixes_def
proof (rule prefixes.loop_invariant [where P = "\<lambda>s. r_triggerPending s = r_triggerPending r"])
  fix k d e and s :: Reconciler
  assume "r_triggerPending s = r_triggerPending r"
  then show "r_triggerPending (snd (addPrefix vt (k, d) (e, s))) = r_triggerPending r"
    by (cases rule: addPrefix_cases [of s k d vt e]) (auto simp: frr_only_def peer_only_def record_intent_def)
next
  fix k a e and s :: Reconciler
  let ?dm = "index_by (\<lambda>p. prefixKey_r (pfx_Protocol p) (pfx_Prefix p)) xs"
  assume "r_triggerPending s = r_triggerPending r"
  then show "r_triggerPending (snd (delPrefix vt ?dm (k, a) (e, s))) = r_triggerPending r"
    by (cases rule: delPrefix_cases [of ?dm k vt a e s]) (auto simp: frr_only_def peer_only_def record_intent_def)
qed simp_all

lemma sessions_pending: "r_triggerPending (snd (ReconcileBFD vt sd sa bs r)) = r_triggerPending r"
  unfolding ReconcileBFD_def
proof (rule sessions.loop_invariant [where P = "\<lambda>s. r_triggerPending s = r_triggerPending r"])
  fix k d e and s :: Reconciler
  assume "r_triggerPending s = r_triggerPending r"
  then show "r_triggerPending (snd (addBFD vt (k, d) (e, s))) = r_triggerPending r"
    by (cases rule: addBFD_cases [of s k d vt e]) (auto simp: frr_only_def peer_only_def record_intent_def)
next
  fix k a e and s :: Reconciler
  let ?dm = "index_by (\<lambda>b. bfdKey_r (bfd_PeerAddress b)) bs"
  assume "r_triggerPending s = r_triggerPending r"
  then show "r_triggerPending (snd (delBFD vt ?dm (k, a) (e, s))) = r_triggerPending r"
    by (cases rule: delBFD_cases [of ?dm k s vt a e]) (auto simp: frr_only_def peer_only_def record_intent_def)
qed simp_all

lemma interfaces_pending: "r_triggerPending (snd (ReconcileOSPF vt sd sa os r)) = r_triggerPending r"
  unfolding ReconcileOSPF_def
proof (rule interfaces.loop_invariant [where P = "\<lambda>s. r_triggerPending s = r_triggerPending r"])
  fix k d e and s :: Reconciler
  assume "r_triggerPending s = r_triggerPending r"
  then show "r_triggerPending (snd (addOSPF vt (k, d) (e, s))) = r_triggerPending r"
    by (cases rule: addOSPF_cases [of s k d vt e]) (auto simp: frr_only_def peer_only_def record_intent_def)
next
  fix k a e and s :: Reconciler
  let ?dm = "index_by (\<lambda>i. ospfKey_r (ospf_InterfaceName i)) os"
  assume "r_triggerPending s = r_triggerPending r"
  then show "r_triggerPending (snd (delOSPF vt ?dm (k, a) (e, s))) = r_triggerPending r"
    by (cases rule: delOSPF_cases [of ?dm k vt a e s]) (auto simp: frr_only_def peer_only_def record_intent_def)
qed simp_all

lemmas stage_pending = peers_pending prefixes_pending sessions_pending interfaces_pending

text \<open>A stage of the cycle.\<close>

lemma stage_cases:
  obtains "n = 0" | "n = 1" | "n = 2" | m where "n = Suc (Suc (Suc m))"
  by (metis One_nat_def numeral_2_eq_2 nat.exhaust)

lemma cycleStage_facts:
  assumes "cycleStage vt n env r = (e, r')"
  shows "rec_ok r \<Longrightarrow> rec_ok r'" and "alive r \<Longrightarrow> alive r'" and "r_triggerPending r' = r_triggerPending r"
proof -
  have r': "r' = snd (cycleStage vt n env r)" using assms by simp
  show "rec_ok r \<Longrightarrow> rec_ok r'"
    unfolding r' by (cases n rule: stage_cases) (simp_all add: rec_ok_stages numeral_2_eq_2)
  show "alive r \<Longrightarrow> alive r'"
    unfolding r' by (cases n rule: stage_cases) (simp_all add: alive.inv_stages numeral_2_eq_2)
  show "r_triggerPending r' = r_triggerPending r"
    unfolding r' by (cases n rule: stage_cases) (simp_all add: stage_pending numeral_2_eq_2)
qed

text \<open>What the stages have brought in step so far.\<close>

definition synced_upto :: "nat \<Rightarrow> Env \<Rightarrow> Reconciler \<Rightarrow> bool" where
  "synced_upto n env r \<longleftrightarrow>
     (0 < n \<longrightarrow> in_sync peerEqual (\<lambda>_. False) (desired_peers env) (appliedPeers r)) \<and>
     (1 < n \<longrightarrow> in_sync prefixEqual (\<lambda>_. False) (desired_prefixes env) (appliedPrefixes r)) \<and>
     (2 < n \<longrightarrow> in_sync bfdEqual (isPeerManaged r) (desired_bfd env) (appliedBFD r)) \<and>
     (3 < n \<longrightarrow> in_sync ospfEqual (\<lambda>_. False) (desired_ospf env) (appliedOSPF r))"

lemma synced_upto_4: "synced_upto 4 env r = synced env r"
  by (simp add: synced_upto_def synced_def)

lemma cycleStage_synced:
  assumes "cycleStage vt n env r = (None, r')" and "rec_ok r" and "synced_upto n env r" and "n < 4"
  shows "synced_upto (Suc n) env r'"
proof -
  consider "n = 0" | "n = 1" | "n = 2" | "n = 3" using assms(4) by linarith
  then show ?thesis
  proof cases
    case 1
    then have "stage1 vt env r = (None, r')" using assms(1) by (simp add: stage_eqs)
    then show ?thesis
      using peers.converges [OF gm_ok_desired(1) _ _] rec_ok_gm_ok [OF assms(2)] 1
      by (auto simp: stage1_def synced_upto_def)
  next
    case 2
    then have s: "stage2 vt env r = (None, r')" using assms(1) by (simp add: stage_eqs)
    then show ?thesis
      using prefixes.converges [OF gm_ok_desired(2) _ s [unfolded stage2_def]] rec_ok_gm_ok [OF assms(2)] 2 assms(3)
        stage_frames(4) [of vt env r] by (auto simp: synced_upto_def)
  next
    case 3
    then have s: "stage3 vt env r = (None, r')" using assms(1) by (simp add: stage_eqs numeral_2_eq_2)
    then show ?thesis
      using sessions.converges [OF gm_ok_desired(3) _ s [unfolded stage3_def]] rec_ok_gm_ok [OF assms(2)] 3 assms(3)
        stage_frames(9,10) [of vt env r] by (auto simp: synced_upto_def)
  next
    case 4
    then have s: "stage4 vt env r = (None, r')" using assms(1) by (simp add: stage_eqs numeral_3_eq_3)
    then show ?thesis
      using interfaces.converges [OF gm_ok_desired(4) _ s [unfolded stage4_def]] rec_ok_gm_ok [OF assms(2)] 4 assms(3)
        stage_frames(14-17) [of vt env r] isPeerManaged_cong [of r' r] by (auto simp: synced_upto_def)
  qed
qed

lemma synced_upto_cong:
  assumes "appliedPeers r' = appliedPeers r" "appliedPrefixes r' = appliedPrefixes r" "appliedBFD r' = appliedBFD r"
    "appliedOSPF r' = appliedOSPF r" "peerManagedBFD r' = peerManagedBFD r"
  shows "synced_upto n env r' = synced_upto n env r"
  using assms isPeerManaged_cong [of r' r] by (simp add: synced_upto_def)

lemma calm_synced: "calm r r' \<Longrightarrow> synced_upto n env r' = synced_upto n env r"
  by (rule synced_upto_cong) (simp_all add: calm_def)

text \<open>The other steps.\<close>

lemma GetStatus_server:
  "sv_intentStore (snd (GetStatus vt ex cx f s)) = sv_intentStore s"
  "sv_reconciler (snd (GetStatus vt ex cx f s)) = sv_reconciler s"
  "sv_eventBus (snd (GetStatus vt ex cx f s)) = sv_eventBus s"
  "sv_policy (snd (GetStatus vt ex cx f s)) = sv_policy s"
  by (simp_all add: GetStatus_def observed_def Let_def case_prod_unfold)

lemma forwardEvent_server:
  "sv_intentStore (forwardEvent cx x s) = sv_intentStore s"
  "sv_reconciler (forwardEvent cx x s) = sv_reconciler s"
  "sv_policy (forwardEvent cx x s) = sv_policy s"
  "bus_ok (sv_eventBus s) \<Longrightarrow> bus_ok (sv_eventBus (forwardEvent cx x s))"
  by (cases x, simp add: forwardEvent_def PublishRouteEvent_def Let_def case_prod_unfold Publish_ok)+

lemma forwardEvents_server:
  "sv_intentStore (for_each (forwardEvent cx) xs s) = sv_intentStore s \<and>
   sv_reconciler (for_each (forwardEvent cx) xs s) = sv_reconciler s \<and>
   sv_policy (for_each (forwardEvent cx) xs s) = sv_policy s \<and>
   (bus_ok (sv_eventBus s) \<longrightarrow> bus_ok (sv_eventBus (for_each (forwardEvent cx) xs s)))"
  by (induction xs arbitrary: s) (simp_all add: forwardEvent_server)

lemma ensureBGPGlobal_pending: "r_triggerPending (snd (ensureBGPGlobal vt r)) = r_triggerPending r"
  by (auto simp: ensureBGPGlobal_def Let_def frr_call_def seq_def split: option.splits prod.splits)

lemma SetFRRClient_facts [simp]:
  "rec_ok (SetFRRClient c r)" "r_crashed (SetFRRClient c r) = r_crashed r" "r_frrClient (SetFRRClient c r) = c"
  "r_triggerPending (SetFRRClient c r) = r_triggerPending r" "applied_count (SetFRRClient c r) = 0"
  by (simp_all add: SetFRRClient_def rec_ok_def bfd_keyed_def applied_count_def)

lemma injectFRR_facts:
  "store_of (injectFRR cx cfg ag) = store_of ag" "rec_of (injectFRR cx cfg ag) = SetFRRClient (fs_client (ag_fs ag)) (rec_of ag)"
  "sv_policy (ag_server (injectFRR cx cfg ag)) = sv_policy (ag_server ag)"
  "ag_wait (injectFRR cx cfg ag) = WPeers (bgp_Peers (cfg_BGP cfg))" "ag_loop (injectFRR cx cfg ag) = ag_loop ag"
  "ag_main (injectFRR cx cfg ag) = ag_main ag" "ag_last (injectFRR cx cfg ag) = ag_last ag"
  "ag_fs (injectFRR cx cfg ag) = ag_fs ag" "ag_connect (injectFRR cx cfg ag) = ag_connect ag"
  "ag_panicked (injectFRR cx cfg ag) = ag_panicked ag" "ag_withdrawErrs (injectFRR cx cfg ag) = ag_withdrawErrs ag"
  "ag_streams (injectFRR cx cfg ag) = ag_streams ag" "ag_os (injectFRR cx cfg ag) = ag_os ag"
  "bus_ok (sv_eventBus (ag_server ag)) \<Longrightarrow> bus_ok (sv_eventBus (ag_server (injectFRR cx cfg ag)))"
  by (simp_all add: injectFRR_def Let_def emit_bus SetFRRClient_s_def on_defs)

lemma announceShutdown_facts:
  "store_of (announceShutdown cx ag) = store_of ag" "rec_of (announceShutdown cx ag) = rec_of ag"
  "sv_policy (ag_server (announceShutdown cx ag)) = sv_policy (ag_server ag)"
  "ag_wait (announceShutdown cx ag) = ag_wait ag" "ag_loop (announceShutdown cx ag) = ag_loop ag"
  "ag_main (announceShutdown cx ag) = MWaitLoop" "ag_last (announceShutdown cx ag) = ag_last ag"
  "ag_fs (announceShutdown cx ag) = ag_fs ag" "ag_connect (announceShutdown cx ag) = ag_connect ag"
  "ag_panicked (announceShutdown cx ag) = ag_panicked ag" "ag_withdrawErrs (announceShutdown cx ag) = ag_withdrawErrs ag"
  "ag_streams (announceShutdown cx ag) = ag_streams ag" "ag_os (announceShutdown cx ag) = ag_os ag"
  "bus_ok (sv_eventBus (ag_server ag)) \<Longrightarrow> bus_ok (sv_eventBus (ag_server (announceShutdown cx ag)))"
  by (simp_all add: announceShutdown_def Let_def emit_bus on_defs)

lemma listenStep_facts:
  "ag_server (listenStep os cfg ag) = ag_server ag" "ag_fs (listenStep os cfg ag) = ag_fs ag"
  "ag_cancelled (listenStep os cfg ag) = ag_cancelled ag" "ag_connect (listenStep os cfg ag) = ag_connect ag"
  "ag_wait (listenStep os cfg ag) = ag_wait ag" "ag_loop (listenStep os cfg ag) = ag_loop ag"
  "ag_streams (listenStep os cfg ag) = ag_streams ag" "ag_last (listenStep os cfg ag) = ag_last ag"
  "ag_withdrawErrs (listenStep os cfg ag) = ag_withdrawErrs ag" "ag_panicked (listenStep os cfg ag) = ag_panicked ag"
  "ag_main (listenStep os cfg ag) =
     (case fst (setupSocketListener os (cfg_ListenSocket cfg)) of Inl _ \<Rightarrow> MFatal | Inr _ \<Rightarrow> MServing)"
  "ag_os (listenStep os cfg ag) = ag_os ag @ snd (setupSocketListener os (cfg_ListenSocket cfg))"
  by (simp_all add: listenStep_def split: prod.split sum.split)

lemma closeStep_facts:
  "ag_server (closeStep cfg ag) = ag_server ag" "ag_fs (closeStep cfg ag) = ag_fs ag"
  "ag_connect (closeStep cfg ag) = ag_connect ag" "ag_wait (closeStep cfg ag) = ag_wait ag"
  "ag_loop (closeStep cfg ag) = ag_loop ag" "ag_streams (closeStep cfg ag) = ag_streams ag"
  "ag_last (closeStep cfg ag) = ag_last ag" "ag_withdrawErrs (closeStep cfg ag) = ag_withdrawErrs ag"
  "ag_panicked (closeStep cfg ag) = ag_panicked ag" "ag_main (closeStep cfg ag) = MClosed"
  "ag_os (closeStep cfg ag) = ag_os ag @ [RemoveFile (cfg_ListenSocket cfg)]"
  by (simp_all add: closeStep_def Let_def Close_def option.map_ident)

lemmas main_facts = announceShutdown_facts listenStep_facts closeStep_facts

end
