(* ===== verification/Agent_Invariants.thy ===== *)
theory Agent_Invariants
  imports Agent_Facts
begin

text \<open>
  The invariants of the agent, each kept by every step of every goroutine.
\<close>

section \<open>The invariants\<close>

text \<open>The components are well formed and no method was called on a nil client.\<close>

definition sound :: "Agent \<Rightarrow> bool" where
  "sound ag \<longleftrightarrow> server_ok (ag_server ag) \<and> \<not> r_crashed (rec_of ag)"

text \<open>
  The client goes from \<open>connectFRR\<close> through \<open>fs\<close> to the reconciler, once: \<open>ready\<close> is closed
  after the client is set, and until the reconciler has the client it has applied nothing
  and run no cycle.
\<close>

definition handover :: "Agent \<Rightarrow> bool" where
  "handover ag \<longleftrightarrow>
     \<not> ag_panicked ag \<and>
     (ag_connect ag = CDialing \<longrightarrow> fs_client (ag_fs ag) = None) \<and>
     (ag_connect ag = CSet \<longrightarrow> fs_client (ag_fs ag) \<noteq> None) \<and>
     (fs_ready (ag_fs ag) \<longrightarrow> fs_client (ag_fs ag) \<noteq> None \<and> ag_connect ag \<in> {CReady, CDone}) \<and>
     (ag_wait ag = WWaiting \<longrightarrow> r_frrClient (rec_of ag) = None) \<and>
     (\<forall>ps. ag_wait ag = WPeers ps \<longrightarrow> r_frrClient (rec_of ag) \<noteq> None) \<and>
     (r_frrClient (rec_of ag) = None \<longrightarrow>
        applied_count (rec_of ag) = 0 \<and> ag_last ag = None \<and> (ag_loop ag = LIdle \<or> ag_loop ag = LStopped))"

text \<open>What the stages of the current cycle, or the last one, have achieved.\<close>

definition progress :: "Agent \<Rightarrow> bool" where
  "progress ag \<longleftrightarrow>
     (\<forall>env. ag_loop ag = LIdle \<longrightarrow> ag_last ag = Some ([], env) \<longrightarrow> synced_upto 4 env (rec_of ag)) \<and>
     (\<forall>n env. ag_loop ag = LRead n env \<longrightarrow> n < 4) \<and>
     (\<forall>n env errs. ag_loop ag = LStage n env errs \<longrightarrow> n < 4 \<and> (errs = [] \<longrightarrow> synced_upto n env (rec_of ag))) \<and>
     (\<forall>env. ag_loop ag = LMonitor env [] \<longrightarrow> synced_upto 4 env (rec_of ag))"

text \<open>Unless a trigger is pending, or about to be sent, the loop has read the current store.\<close>

definition read_so_far :: "nat \<Rightarrow> Env \<Rightarrow> Store \<Rightarrow> bool" where
  "read_so_far n env st \<longleftrightarrow> (\<forall>i < n. env_store env i = st)"

definition fresh :: "Agent \<Rightarrow> bool" where
  "fresh ag \<longleftrightarrow>
     \<not> r_triggerPending (rec_of ag) \<longrightarrow> r_frrClient (rec_of ag) \<noteq> None \<longrightarrow> ag_wait ag = WDone \<longrightarrow>
     (ag_loop ag = LIdle \<longrightarrow>
        (\<exists>errs env. ag_last ag = Some (errs, env) \<and> (errs = [] \<longrightarrow> read_so_far 4 env (store_of ag)))) \<and>
     (\<forall>n env. ag_loop ag = LRead n env \<longrightarrow> read_so_far n env (store_of ag)) \<and>
     (\<forall>n env errs. ag_loop ag = LStage n env errs \<longrightarrow> read_so_far 4 env (store_of ag)) \<and>
     (\<forall>env errs. ag_loop ag = LMonitor env errs \<longrightarrow> read_so_far 4 env (store_of ag))"

text \<open>The state is withdrawn after the loop has stopped, and stays withdrawn.\<close>

definition closing :: "Agent \<Rightarrow> bool" where
  "closing ag \<longleftrightarrow>
     (ag_main ag \<in> {MWithdraw, MDraining, MClosing, MClosed} \<longrightarrow> ag_loop ag = LStopped) \<and>
     (ag_main ag \<in> {MDraining, MClosing, MClosed} \<longrightarrow> applied_count (rec_of ag) \<le> length (ag_withdrawErrs ag))"

lemma read_so_far_4: "read_so_far 4 env st \<longleftrightarrow> reads env st"
  by (auto simp: read_so_far_def reads_def numeral_eq_Suc All_less_Suc)

lemma read_so_far_Suc:
  "read_so_far n env st \<Longrightarrow> read_so_far (Suc n) (env\<lparr>env_store := (env_store env)(n := st)\<rparr>) st"
  by (auto simp: read_so_far_def less_Suc_eq)

section \<open>Calls\<close>

lemma serve_facts:
  "server_ok s \<Longrightarrow> server_ok (snd (serve cx q s))"
  "calm (sv_reconciler s) (sv_reconciler (snd (serve cx q s)))"
  "r_triggerPending (sv_reconciler s) \<Longrightarrow> r_triggerPending (sv_reconciler (snd (serve cx q s)))"
  "sv_intentStore (snd (serve cx q s)) = sv_intentStore s \<or> r_triggerPending (sv_reconciler (snd (serve cx q s)))"
  "sv_policy (snd (serve cx q s)) = sv_policy s"
  using server.moves [of q s cx] server.notifies [of s cx q]
  by (simp_all add: moved_def notified_def server_ok_def)

lemma calm_sel:
  assumes "calm r r'"
  shows "r_frrClient r' = r_frrClient r" "r_crashed r' = r_crashed r" "applied_count r' = applied_count r"
  using assms by (simp_all add: calm_def applied_count_def)

lemma initConfigPeer_facts:
  "sv_reconciler (initConfigPeer now p s) = sv_reconciler s" "sv_policy (initConfigPeer now p s) = sv_policy s"
  "sv_eventBus (initConfigPeer now p s) = sv_eventBus s" "server_ok s \<Longrightarrow> server_ok (initConfigPeer now p s)"
  by (simp_all add: initConfigPeer_def server_ok_def SetPeerIntent_ok)

lemma trigger_rec:
  "r_crashed (sv_reconciler (trigger s)) = r_crashed (sv_reconciler s)"
  "r_frrClient (sv_reconciler (trigger s)) = r_frrClient (sv_reconciler s)"
  "applied_count (sv_reconciler (trigger s)) = applied_count (sv_reconciler s)"
  "synced_upto n env (sv_reconciler (trigger s)) = synced_upto n env (sv_reconciler s)"
proof -
  have "calm (sv_reconciler s) (sv_reconciler (trigger s))" by simp
  from calm_sel [OF this] calm_synced [OF this]
  show "r_crashed (sv_reconciler (trigger s)) = r_crashed (sv_reconciler s)"
    "r_frrClient (sv_reconciler (trigger s)) = r_frrClient (sv_reconciler s)"
    "applied_count (sv_reconciler (trigger s)) = applied_count (sv_reconciler s)"
    "synced_upto n env (sv_reconciler (trigger s)) = synced_upto n env (sv_reconciler s)" by simp_all
qed

lemma server_ok_trigger: "server_ok s \<Longrightarrow> server_ok (trigger s)"
  by (simp add: server_ok_def)

lemma server_ok_bus: "server_ok s \<Longrightarrow> server_ok (on_bus (bus_step op) s)"
  by (simp add: server_ok_def on_bus_def bus_step_ok)

section \<open>Preservation\<close>

lemma monitor_rec:
  assumes "r_frrClient r = Some c"
  shows "mon_only r (monitorFRRState vt env (r\<lparr>r_metrics := m\<rparr>))"
proof -
  have "mon_only (r\<lparr>r_metrics := m\<rparr>) (monitorFRRState vt env (r\<lparr>r_metrics := m\<rparr>))"
    using assms by (intro monitorFRRState_only [where c = c]) simp
  then show ?thesis by (simp add: mon_only_def)
qed

lemma monitorStep_facts:
  assumes "r_frrClient (rec_of ag) \<noteq> None"
  shows "mon_only (rec_of ag) (rec_of (monitorStep vt cx env errs ag))"
    and "store_of (monitorStep vt cx env errs ag) = store_of ag"
    and "sv_policy (ag_server (monitorStep vt cx env errs ag)) = sv_policy (ag_server ag)"
    and "bus_ok (sv_eventBus (ag_server ag)) \<Longrightarrow> bus_ok (sv_eventBus (ag_server (monitorStep vt cx env errs ag)))"
    and "ag_loop (monitorStep vt cx env errs ag) = LIdle" and "ag_last (monitorStep vt cx env errs ag) = Some (errs, env)"
    and "ag_wait (monitorStep vt cx env errs ag) = ag_wait ag" and "ag_main (monitorStep vt cx env errs ag) = ag_main ag"
    and "ag_fs (monitorStep vt cx env errs ag) = ag_fs ag" and "ag_connect (monitorStep vt cx env errs ag) = ag_connect ag"
    and "ag_panicked (monitorStep vt cx env errs ag) = ag_panicked ag"
    and "ag_withdrawErrs (monitorStep vt cx env errs ag) = ag_withdrawErrs ag"
  using assms monitor_rec by (auto simp: monitorStep_def Let_def forwardEvents_server)

lemma step_sound:
  assumes "agent_step vt cfg ag ag'" and "sound ag" and "handover ag"
  shows "sound ag'"
  using assms
proof (cases rule: agent_step.cases)
  case (dial ex)
  then show ?thesis using assms(2) by (cases rule: connectFRR_cases [of vt ex cfg ag]) (simp_all add: sound_def)
next
  case (ensure_bgp env)
  note r = ensureBGPGlobal_ok [of "rec_of ag" vt] ensureBGPGlobal_crashed [of vt "rec_of ag"]
  show ?thesis
    using assms(2) ensure_bgp r
    by (cases rule: ensureStep_cases [of vt ag env]) (simp_all add: sound_def server_ok_def)
next
  case (stage n env errs)
  obtain e r where r: "cycleStage vt n env (rec_of ag) = (e, r)" by fastforce
  have "alive (rec_of ag)" using assms(2,3) stage by (auto simp: sound_def handover_def alive_def)
  then show ?thesis
    using assms(2) stage(1) cycleStage_facts [OF r] by (simp add: sound_def server_ok_def stageStep_eq [OF r] alive_def)
next
  case (monitor env errs cx)
  have c: "r_frrClient (rec_of ag) \<noteq> None" using assms(3) monitor by (auto simp: handover_def)
  show ?thesis
    using assms(2) monitor(1) monitorStep_facts(1,2,4) [OF c, of vt cx env errs] rec_ok_mon_only [OF monitorStep_facts(1) [OF c]]
    by (simp add: sound_def server_ok_def mon_only_def)
next
  case (withdraw order)
  obtain errs r where r: "WithdrawAll vt order (rec_of ag) = (errs, r)" by fastforce
  then show ?thesis
    using assms(2) withdraw(1) rec_ok_WithdrawAll [of "rec_of ag" vt order]
      rec_step_crashed [OF rec_step.withdraw [of vt "rec_of ag" order]]
    by (simp add: sound_def server_ok_def withdrawStep_def)
next
  case (triggered env)
  then show ?thesis using assms(2) by (simp add: sound_def server_ok_def startCycle_def receiveTrigger_def rec_ok_def)
next
  case config_done
  then show ?thesis using assms(2) by (simp add: sound_def server_ok_def trigger_rec)
qed (simp_all add: sound_def serve_facts calm_sel [OF serve_facts(2)] server_ok_def GetStatus_server bus_step_ok
    initConfigPeer_facts injectFRR_facts main_facts startCycle_def readStep_def closeReady_def Let_def
    serve_facts(1) [unfolded server_ok_def] initConfigPeer_facts(4) [unfolded server_ok_def] del: bus_step.simps)

lemma WithdrawAll_client:
  assumes "r_frrClient r \<noteq> None"
  shows "r_frrClient (snd (WithdrawAll vt order r)) \<noteq> None"
proof -
  obtain c where "r_frrClient r = Some c" using assms by auto
  then have "session (cl_localAS c) (snd (WithdrawAll vt order r))" by (intro session.inv_WithdrawAll client_session)
  then show ?thesis by (auto simp: session_def)
qed

lemma cycleStage_client:
  assumes "cycleStage vt n env r = (e, r')" and "r_frrClient r \<noteq> None"
  shows "r_frrClient r' \<noteq> None"
proof -
  obtain c where "r_frrClient r = Some c" using assms(2) by auto
  then have "session (cl_localAS c) r" by (rule client_session)
  then have "session (cl_localAS c) (snd (cycleStage vt n env r))"
    by (cases n rule: stage_cases) (simp_all add: session.inv_stages numeral_2_eq_2)
  then show ?thesis using assms(1) by (auto simp: session_def)
qed

lemma step_handover:
  assumes "agent_step vt cfg ag ag'" and "handover ag"
  shows "handover ag'"
  using assms
proof (cases rule: agent_step.cases)
  case (dial ex)
  then show ?thesis using assms(2) by (cases rule: connectFRR_cases [of vt ex cfg ag]) (auto simp: handover_def)
next
  case (ensure_bgp env)
  then have c: "r_frrClient (rec_of ag) \<noteq> None" using assms(2) by (auto simp: handover_def)
  from ensureBGPGlobal_client [OF c, of vt] assms(2) c ensure_bgp(1) show ?thesis
    by (cases rule: ensureStep_cases [of vt ag env]) (simp_all add: handover_def)
next
  case (stage n env errs)
  obtain e r where r: "cycleStage vt n env (rec_of ag) = (e, r)" by fastforce
  have c: "r_frrClient (rec_of ag) \<noteq> None" using assms(2) stage by (auto simp: handover_def)
  from cycleStage_client [OF r c] assms(2) c stage(1) show ?thesis by (auto simp: handover_def stageStep_eq [OF r])
next
  case (monitor env errs cx)
  have c: "r_frrClient (rec_of ag) \<noteq> None" using assms(2) monitor by (auto simp: handover_def)
  show ?thesis
    using assms(2) c monitor(1) monitorStep_facts [OF c, of vt cx env errs] by (auto simp: handover_def mon_only_def)
next
  case (withdraw order)
  obtain errs r where r: "WithdrawAll vt order (rec_of ag) = (errs, r)" by fastforce
  show ?thesis
  proof (cases "r_frrClient (rec_of ag) = None")
    case True
    then have "r = rec_of ag" using r by (simp add: WithdrawAll_def)
    then show ?thesis using withdraw(1) assms(2) r by (simp add: handover_def withdrawStep_def)
  next
    case False
    then show ?thesis
      using withdraw(1) assms(2) r WithdrawAll_client [OF False, of vt order] by (auto simp: handover_def withdrawStep_def)
  qed
next
  case (triggered env)
  then show ?thesis
    using assms(2) by (auto simp: handover_def startCycle_def receiveTrigger_def applied_count_def)
next
  case ready
  then show ?thesis using assms(2) by (auto simp: handover_def closeReady_def)
next
  case config_done
  then show ?thesis using assms(2) by (auto simp: handover_def trigger_rec)
next
  case (tick env)
  then show ?thesis using assms(2) by (auto simp: handover_def startCycle_def)
qed (simp_all add: handover_def calm_sel [OF serve_facts(2)] GetStatus_server initConfigPeer_facts injectFRR_facts
    main_facts startCycle_def readStep_def Let_def)

lemma mon_only_synced_upto: "mon_only r r' \<Longrightarrow> synced_upto n env r' = synced_upto n env r"
  by (rule synced_upto_cong) (simp_all add: mon_only_def)

lemma step_progress:
  assumes "agent_step vt cfg ag ag'" and "progress ag" and "sound ag" and "handover ag" and "closing ag"
  shows "progress ag'"
  using assms
proof (cases rule: agent_step.cases)
  case (dial ex)
  then show ?thesis using assms(2) by (cases rule: connectFRR_cases [of vt ex cfg ag]) (simp_all add: progress_def)
next
  case (inject cx)
  then have "ag_last ag = None \<and> (ag_loop ag = LIdle \<or> ag_loop ag = LStopped)" using assms(4) by (simp add: handover_def)
  then show ?thesis using inject(1) by (auto simp: progress_def injectFRR_facts)
next
  case (ensure_bgp env)
  then show ?thesis by (cases rule: ensureStep_cases [of vt ag env]) (simp_all add: progress_def)
next
  case (stage n env errs)
  obtain e r where r: "cycleStage vt n env (rec_of ag) = (e, r)" by fastforce
  have n: "n < 4" "errs = [] \<Longrightarrow> synced_upto n env (rec_of ag)" using assms(2) stage(2) by (auto simp: progress_def)
  have ok: "rec_ok (rec_of ag)" using assms(3) by (simp add: sound_def server_ok_def)
  have "synced_upto (Suc n) env r" if "errs = []" "e = None"
    using cycleStage_synced [OF _ ok n(2) n(1), of vt r] r that by simp
  moreover have "\<not> n < 3 \<Longrightarrow> Suc n = 4" using n(1) by linarith
  ultimately show ?thesis
    unfolding stage(1) stageStep_eq [OF r] by (cases "n < 3"; cases e) (auto simp: progress_def Let_def)
next
  case (monitor env errs cx)
  have c: "r_frrClient (rec_of ag) \<noteq> None" using assms(4) monitor by (auto simp: handover_def)
  show ?thesis
    using assms(2) monitor monitorStep_facts(5,6) [OF c, of vt cx env errs] mon_only_synced_upto [OF monitorStep_facts(1) [OF c]]
    by (auto simp: progress_def)
next
  case (withdraw order)
  then show ?thesis using assms(5) by (auto simp: progress_def closing_def withdrawStep_def split: prod.split)
next
  case (triggered env)
  then show ?thesis
    using assms(2,4) by (auto simp: progress_def handover_def startCycle_def receiveTrigger_def)
next
  case (read_store n env)
  then show ?thesis using assms(2) by (auto simp: progress_def readStep_def Let_def synced_upto_def)
next
  case (call cx q)
  then show ?thesis using assms(2) calm_synced [OF serve_facts(2)] by (simp add: progress_def)
qed (simp_all add: progress_def GetStatus_server initConfigPeer_facts main_facts startCycle_def
    closeReady_def trigger_rec)

lemma step_closing:
  assumes "agent_step vt cfg ag ag'" and "closing ag" and "sound ag" and "handover ag"
  shows "closing ag'"
  using assms
proof (cases rule: agent_step.cases)
  case (dial ex)
  then show ?thesis using assms(2) by (cases rule: connectFRR_cases [of vt ex cfg ag]) (simp_all add: closing_def)
next
  case (ensure_bgp env)
  then show ?thesis using assms(2) by (cases rule: ensureStep_cases [of vt ag env]) (auto simp: closing_def)
next
  case (stage n env errs)
  obtain e r where r: "cycleStage vt n env (rec_of ag) = (e, r)" by fastforce
  show ?thesis using assms(2) stage by (auto simp: closing_def stageStep_eq [OF r])
next
  case (monitor env errs cx)
  have c: "r_frrClient (rec_of ag) \<noteq> None" using assms(4) monitor by (auto simp: handover_def)
  show ?thesis using assms(2) monitor monitorStep_facts(8) [OF c, of vt cx env errs] by (auto simp: closing_def)
next
  case (withdraw order)
  obtain errs r where r: "WithdrawAll vt order (rec_of ag) = (errs, r)" by fastforce
  have "applied_count r \<le> length errs"
  proof (cases "r_frrClient (rec_of ag) = None")
    case True
    then show ?thesis using r assms(4) by (auto simp: WithdrawAll_def handover_def)
  next
    case False
    then show ?thesis using WithdrawAll_count [OF _ False, of vt order] assms(3) r by (simp add: sound_def server_ok_def)
  qed
  then show ?thesis using withdraw assms(2) r by (auto simp: closing_def withdrawStep_def)
next
  case (triggered env)
  then show ?thesis using assms(2) by (auto simp: closing_def startCycle_def receiveTrigger_def applied_count_def)
next
  case (tick env)
  then show ?thesis using assms(2) by (auto simp: closing_def startCycle_def)
next
  case (read_store n env)
  then show ?thesis using assms(2) by (auto simp: closing_def readStep_def Let_def)
qed (auto simp: closing_def GetStatus_server initConfigPeer_facts main_facts injectFRR_facts
    closeReady_def trigger_rec calm_sel [OF serve_facts(2)] split: sum.splits)

lemma step_fresh:
  assumes "agent_step vt cfg ag ag'" and "fresh ag" and "handover ag" and "progress ag" and "closing ag"
  shows "fresh ag'"
  using assms
proof (cases rule: agent_step.cases)
  case (dial ex)
  then show ?thesis using assms(2) by (cases rule: connectFRR_cases [of vt ex cfg ag]) (simp_all add: fresh_def)
next
  case (call cx q)
  have c: "r_frrClient (rec_of ag') = r_frrClient (rec_of ag)" "store_of ag' = store_of ag \<or> r_triggerPending (rec_of ag')"
    "r_triggerPending (rec_of ag) \<Longrightarrow> r_triggerPending (rec_of ag')"
    using call(1) calm_sel [OF serve_facts(2)] serve_facts(3,4) by simp_all
  show ?thesis
    using assms(2) c call(1) unfolding fresh_def by (cases "r_triggerPending (rec_of ag')") auto
next
  case (ensure_bgp env)
  have "read_so_far 0 env st" for st by (simp add: read_so_far_def)
  then show ?thesis using ensure_bgp(1) by (cases rule: ensureStep_cases [of vt ag env]) (simp_all add: fresh_def)
next
  case (read_store n env)
  have n: "n < 4" using assms(4) read_store(2) by (auto simp: progress_def)
  have four: "n = 3 \<or> n < 3" using n by linarith
  show ?thesis
    using assms(2) read_store read_so_far_Suc [of n env "store_of ag"] four
    by (auto simp: fresh_def readStep_def Let_def numeral_eq_Suc)
next
  case (stage n env errs)
  obtain e r where r: "cycleStage vt n env (rec_of ag) = (e, r)" by fastforce
  have c: "r_frrClient (rec_of ag) \<noteq> None" using assms(3) stage by (auto simp: handover_def)
  show ?thesis
    using assms(2) stage c cycleStage_facts(3) [OF r] by (auto simp: fresh_def stageStep_eq [OF r] Let_def split: if_splits)
next
  case (monitor env errs cx)
  have c: "r_frrClient (rec_of ag) \<noteq> None" using assms(3) monitor by (auto simp: handover_def)
  show ?thesis
    using assms(2) c monitor monitorStep_facts [OF c, of vt cx env errs] by (auto simp: fresh_def mon_only_def)
next
  case (withdraw order)
  then show ?thesis using assms(5) by (auto simp: fresh_def closing_def withdrawStep_def split: prod.split)
next
  case (triggered env)
  then show ?thesis using assms(2) by (auto simp: fresh_def startCycle_def receiveTrigger_def)
next
  case (tick env)
  then show ?thesis using assms(2) by (auto simp: fresh_def startCycle_def)
next
  case wait_stop
  then show ?thesis using assms(3) by (simp add: fresh_def handover_def)
qed (auto simp: fresh_def GetStatus_server initConfigPeer_facts main_facts injectFRR_facts closeReady_def)

section \<open>The socket\<close>

text \<open>
  \<open>main\<close> removes no file but its socket; while it serves it has asked to listen there; at the end
  no stream is open and the socket was removed last.
\<close>

definition tidy :: "Config \<Rightarrow> Agent \<Rightarrow> bool" where
  "tidy cfg ag \<longleftrightarrow>
     (\<forall>f. RemoveFile f \<in> set (ag_os ag) \<longrightarrow> f = cfg_ListenSocket cfg) \<and>
     (ag_main ag \<notin> {MListening, MFatal} \<longrightarrow> ListenOn (cfg_ListenSocket cfg) \<in> set (ag_os ag)) \<and>
     (ag_main ag \<in> {MListening, MClosing, MClosed} \<longrightarrow> ag_streams ag = 0) \<and>
     (ag_main ag = MClosed \<longrightarrow> (\<exists>calls. ag_os ag = calls @ [RemoveFile (cfg_ListenSocket cfg)]))"

lemma setupSocketListener_calls:
  assumes "setupSocketListener os path = (res, calls)"
  shows "RemoveFile f \<in> set calls \<Longrightarrow> f = path \<and> os_Stat os path = FileMode True"
    and "res = Inr y \<Longrightarrow> ListenOn path \<in> set calls"
proof -
  obtain e cs where r: "removeStaleSocket os path = (e, cs)" by fastforce
  then have "\<forall>c \<in> set cs. c = RemoveFile path \<and> os_Stat os path = FileMode True"
    by (auto simp: removeStaleSocket_def split: stat.splits if_splits)
  with assms show "RemoveFile f \<in> set calls \<Longrightarrow> f = path \<and> os_Stat os path = FileMode True"
    "res = Inr y \<Longrightarrow> ListenOn path \<in> set calls"
    unfolding setupSocketListener_def r Let_def by (auto split: option.splits if_splits)
qed

lemma step_tidy:
  assumes "agent_step vt cfg ag ag'" and "tidy cfg ag"
  shows "tidy cfg ag'"
  using assms
proof (cases rule: agent_step.cases)
  case (dial ex)
  then show ?thesis using assms(2) by (cases rule: connectFRR_cases [of vt ex cfg ag]) (auto simp: tidy_def)
next
  case (ensure_bgp env)
  then show ?thesis using assms(2) by (cases rule: ensureStep_cases [of vt ag env]) (auto simp: tidy_def)
next
  case (listen os)
  obtain res calls where r: "setupSocketListener os (cfg_ListenSocket cfg) = (res, calls)" by fastforce
  show ?thesis
    using assms(2) listen setupSocketListener_calls [OF r] r by (auto simp: tidy_def listenStep_facts split: sum.splits)
qed (auto simp: tidy_def injectFRR_facts main_facts(1-14) closeStep_facts accepting_def running_def
    startCycle_def receiveTrigger_def readStep_def closeReady_def withdrawStep_def stageStep_def monitorStep_def Let_def
    split: prod.splits)

section \<open>Every reachable state\<close>

lemma agent_invariants:
  assumes "agent_reachable vt cfg ag"
  shows "sound ag \<and> handover ag \<and> progress ag \<and> fresh ag \<and> closing ag \<and> tidy cfg ag"
  using assms
proof induction
  case start
  have "server_ok (createServers cfg NewStore e)" for e
    unfolding createServers_def Let_def by (rule NewServer_ok)
  then show ?case
    by (auto simp: main_start_def Let_def sound_def handover_def progress_def fresh_def closing_def server_ok_def
        tidy_def createServers_def NewServer_def NewReconciler_def SetEventPublisher_def rec_ok_def applied_count_def)
next
  case (step ag ag')
  note next_invariants = step_sound step_handover step_progress step_fresh step_closing step_tidy
  show ?case using next_invariants [OF step.hyps(2)] step.IH by blast
qed

lemma agent_policy:
  assumes "agent_reachable vt cfg ag"
  shows "sv_policy (ag_server ag) = NewEngine (convertPolicyConfig cfg)"
  using assms
proof induction
  case start
  show ?case by (simp add: main_start_def Let_def createServers_def NewServer_def)
next
  case (step ag ag')
  have c: "r_frrClient (rec_of ag) \<noteq> None" if "ag_loop ag = LMonitor env errs" for env errs
    using agent_invariants [OF step.hyps(1)] that by (auto simp: handover_def)
  from step.hyps(2) have "sv_policy (ag_server ag') = sv_policy (ag_server ag)"
  proof (cases rule: agent_step.cases)
    case (dial ex)
    then show ?thesis by (cases rule: connectFRR_cases [of vt ex cfg ag]) simp_all
  next
    case (ensure_bgp env)
    then show ?thesis by (cases rule: ensureStep_cases [of vt ag env]) simp_all
  next
    case (monitor env errs cx)
    then show ?thesis using monitorStep_facts(3) [OF c [OF monitor(2)]] by simp
  qed (auto simp: serve_facts(5) GetStatus_server initConfigPeer_facts injectFRR_facts main_facts
      startCycle_def receiveTrigger_def readStep_def closeReady_def withdrawStep_def stageStep_def Let_def split: prod.splits)
  with step.IH show ?case by simp
qed

end
