(* ===== verification/Agent_Properties.thy ===== *)
theory Agent_Properties
  imports Agent_Invariants
begin

text \<open>
  The properties of the agent as a whole, over its invariants, with a concrete run for the
  witnesses.
\<close>

section \<open>The peers of the configuration\<close>

text \<open>The store holds the configured peers, the last one for each address.\<close>

definition config_loaded :: "PeerConfig list \<Rightarrow> Store \<Rightarrow> bool" where
  "config_loaded peers st \<longleftrightarrow>
     (\<forall>a p. find (\<lambda>p. pc_NeighborAddress p = a) (rev peers) = Some p \<longrightarrow>
        (\<exists>i. look Peers st configOwner (peerKey a) = Some i \<and> peerEqual i (configPeerIntent p)))"

definition configured :: "Config \<Rightarrow> Agent \<Rightarrow> bool" where
  "configured cfg ag \<longleftrightarrow>
     (\<forall>ps. ag_wait ag = WPeers ps \<longrightarrow>
        (\<exists>loaded. bgp_Peers (cfg_BGP cfg) = loaded @ ps \<and> config_loaded loaded (store_of ag))) \<and>
     (ag_wait ag = WDone \<longrightarrow> r_frrClient (rec_of ag) \<noteq> None \<longrightarrow>
        config_loaded (bgp_Peers (cfg_BGP cfg)) (store_of ag))"

lemma config_loaded_cong:
  "map_of (intents st') configOwner = map_of (intents st) configOwner \<Longrightarrow> config_loaded ps st' = config_loaded ps st"
  by (simp add: config_loaded_def look_def)

lemma config_loaded_snoc:
  assumes "config_loaded loaded st" and "pc_NeighborAddress p \<noteq> []"
  shows "config_loaded (loaded @ [p]) (snd (SetPeerIntent configOwner (Some (configPeerIntent p)) now st))"
proof -
  let ?i = "configPeerIntent p"
  have a: "peer_NeighborAddress ?i = pc_NeighborAddress p" by (simp add: configPeerIntent_def Let_def)
  have ok: "fst (SetPeerIntent configOwner (Some ?i) now st) = None"
    using assms(2) a by (simp add: pk.set_accepts configOwner_def)
  have "peerEqual (stampPeer ow c u ?i) ?i" for ow c u
    by (auto simp: peerEqual_def stampPeer_def list_all_iff)
  then show ?thesis
    using assms(1) pk.set_look [OF ok] a by (auto simp: config_loaded_def peerKey_def)
qed

lemma unknown_owner_refused:
  assumes "agent_reachable vt cfg ag" and "map_of (cfg_Owners cfg) ow = None"
  shows "map_of (intents (sv_intentStore (snd (serve cx q (ag_server ag))))) ow = map_of (intents (store_of ag)) ow"
proof (rule server.step_isolated)
  show "ValidateToken (sv_policy (ag_server ag)) ow (q_token q) \<noteq> None"
    using agent_policy [OF assms(1)] assms(2) by (simp add: ValidateToken_def NewEngine_def convertPolicyConfig_def)
qed

lemma step_configured:
  assumes "agent_step vt cfg ag ag'" and "configured cfg ag" and "agent_reachable vt cfg ag"
    and "map_of (cfg_Owners cfg) configOwner = None"
    and addr: "\<forall>p \<in> set (bgp_Peers (cfg_BGP cfg)). pc_NeighborAddress p \<noteq> []"
  shows "configured cfg ag'"
proof -
  have h: "handover ag" using agent_invariants [OF assms(3)] by simp
  from assms(1) show ?thesis
  proof (cases rule: agent_step.cases)
    case (dial ex)
    then show ?thesis using assms(2) by (cases rule: connectFRR_cases [of vt ex cfg ag]) (simp_all add: configured_def)
  next
    case (call cx q)
    then show ?thesis
      using assms(2) config_loaded_cong [OF unknown_owner_refused [OF assms(3,4)]] calm_sel(1) [OF serve_facts(2)]
      by (simp add: configured_def)
  next
    case (inject cx)
    then show ?thesis by (auto simp: configured_def injectFRR_facts config_loaded_def)
  next
    case wait_stop
    then show ?thesis using h by (simp add: configured_def handover_def)
  next
    case (config_peer p ps now)
    then obtain loaded where l: "bgp_Peers (cfg_BGP cfg) = loaded @ p # ps" "config_loaded loaded (store_of ag)"
      using assms(2) by (auto simp: configured_def)
    then have "config_loaded (loaded @ [p]) (store_of ag')"
      using config_loaded_snoc [OF l(2)] addr config_peer(1) by (simp add: initConfigPeer_def)
    then show ?thesis using l(1) config_peer(1) by (auto simp: configured_def intro!: exI [of _ "loaded @ [p]"])
  next
    case config_done
    then show ?thesis using assms(2) by (auto simp: configured_def trigger_rec)
  next
    case (ensure_bgp env)
    then have "r_frrClient (rec_of ag) \<noteq> None" using h by (auto simp: handover_def)
    then show ?thesis
      using assms(2) ensure_bgp(1) by (cases rule: ensureStep_cases [of vt ag env]) (simp_all add: configured_def)
  next
    case (stage n env errs)
    obtain e r where r: "cycleStage vt n env (rec_of ag) = (e, r)" by fastforce
    have "r_frrClient (rec_of ag) \<noteq> None" using h stage by (auto simp: handover_def)
    then show ?thesis using assms(2) unfolding stage(1) stageStep_eq [OF r] by (simp add: configured_def)
  next
    case (monitor env errs cx)
    have c: "r_frrClient (rec_of ag) \<noteq> None" using h monitor by (auto simp: handover_def)
    show ?thesis using assms(2) c monitor(1) monitorStep_facts [OF c, of vt cx env errs] by (simp add: configured_def)
  next
    case (withdraw order)
    then show ?thesis
      using assms(2)
      by (cases "r_frrClient (rec_of ag) = None") (auto simp: configured_def withdrawStep_def WithdrawAll_def split: prod.split)
  qed (use assms(2) in \<open>auto simp: configured_def GetStatus_server main_facts startCycle_def
      receiveTrigger_def readStep_def closeReady_def Let_def\<close>)
qed

lemma agent_configured:
  assumes "agent_reachable vt cfg ag" and "map_of (cfg_Owners cfg) configOwner = None"
    and "\<forall>p \<in> set (bgp_Peers (cfg_BGP cfg)). pc_NeighborAddress p \<noteq> []"
  shows "configured cfg ag"
  using assms
proof induction
  case start
  show ?case
    by (simp add: configured_def main_start_def Let_def)
next
  case (step ag ag')
  then show ?case using step_configured by blast
qed

lemma validated_addresses:
  assumes "Validate sch cfg = None" and "p \<in> set (bgp_Peers (cfg_BGP cfg))"
  shows "pc_NeighborAddress p \<noteq> []"
proof -
  have "validateBGPPeer p = None"
    using assms by (auto simp: Validate_def first_error_None split: if_splits option.splits)
  then show ?thesis by (auto simp: validateBGPPeer_def)
qed

section \<open>A cycle in one go\<close>

text \<open>The state during a cycle that nobody interrupts.\<close>

definition at_pc :: "Agent \<Rightarrow> Reconciler \<Rightarrow> loop_pc \<Rightarrow> Agent" where
  "at_pc ag r l = (on_server (on_rec (\<lambda>_. r)) ag)\<lparr>ag_loop := l\<rparr>"

lemma at_pc_sel [simp]:
  "rec_of (at_pc ag r l) = r" "store_of (at_pc ag r l) = store_of ag" "ag_loop (at_pc ag r l) = l"
  "ag_wait (at_pc ag r l) = ag_wait ag" "ag_fs (at_pc ag r l) = ag_fs ag" "running (at_pc ag r l) = running ag"
  by (simp_all add: at_pc_def running_def)









section \<open>A run\<close>

definition ex_pc :: PeerConfig where
  "ex_pc = \<lparr>pc_NeighborAddress = ''10.0.0.1'', pc_RemoteAS = 65001, pc_Description = [], pc_BFDEnabled = True,
     pc_BFDMinRxMs = 0, pc_BFDMinTxMs = 0, pc_BFDDetectMultiplier = 0, pc_Keepalive = 0, pc_HoldTime = 0,
     pc_AddressFamilies = [''IPv4-unicast'', ''vpn''], pc_SourceAddress = [], pc_EBGPMultihop = 0, pc_Password = [],
     pc_MaxPrefixes = 0\<rparr>"

definition ex_cfg :: Config where
  "ex_cfg = DefaultConfig\<lparr>cfg_BGP := \<lparr>bgp_LocalAS = 65000, bgp_AsBase = 0, bgp_RouterID = ''1.1.1.1'',
       bgp_AutoRouterID = False, bgp_Peers = [ex_pc]\<rparr>,
     cfg_Owners := [(''lb'', \<lparr>oc_Token = ''s3cret'', oc_AllowedPrefixes = \<lparr>pp_Type = ''any'', pp_AllowedCIDRs = []\<rparr>\<rparr>)]\<rparr>"

definition ex_dialed :: Agent where
  "ex_dialed = connectFRR vtysh_ok (\<lambda>_. True) ex_cfg (main_start ex_cfg)"

definition ex_injected :: Agent where
  "ex_injected = injectFRR ex_cx ex_cfg (closeReady ex_dialed)"

definition ex_loaded :: Agent where
  "ex_loaded = (on_server trigger ((on_server (initConfigPeer 5 ex_pc) ex_injected)\<lparr>ag_wait := WPeers []\<rparr>))\<lparr>ag_wait := WDone\<rparr>"

lemma main_start_sel [simp]:
  "ag_connect (main_start cfg) = CDialing" "ag_wait (main_start cfg) = WWaiting" "ag_loop (main_start cfg) = LIdle"
  "ag_main (main_start cfg) = MListening" "ag_streams (main_start cfg) = 0" "fs_ready (ag_fs (main_start cfg)) = False"
  by (simp_all add: main_start_def Let_def)

lemma ex_dialed_eq:
  "\<exists>c. ex_dialed = (main_start ex_cfg)\<lparr>ag_fs := (ag_fs (main_start ex_cfg))\<lparr>fs_client := Some c\<rparr>, ag_connect := CSet\<rparr>"
proof -
  let ?c = "NewClient (\<lambda>_. True) (frr_SocketDir (cfg_FRR ex_cfg))"
  have "IsReady (\<lambda>_. True) ?c" by (simp add: IsReady_def)
  moreover have "\<not> isl (fst (GetVersion vtysh_ok ?c))" by code_simp
  then obtain v c where "GetVersion vtysh_ok ?c = (Inr v, c)" by (cases "GetVersion vtysh_ok ?c"; cases "fst (GetVersion vtysh_ok ?c)") auto
  ultimately show ?thesis by (auto simp: ex_dialed_def connectFRR_def)
qed

lemma ex_loaded_facts:
  "ag_loop ex_loaded = LIdle" "ag_wait ex_loaded = WDone" "r_frrClient (rec_of ex_loaded) \<noteq> None"
  "r_triggerPending (rec_of ex_loaded)" "all_routable (rec_of ex_loaded)" "bgp_ready (rec_of ex_loaded)"
  "set (GetPrefixIntents a b (store_of ex_loaded)) = {}" "ag_main ex_loaded = MListening" "running ex_loaded"
  "ag_streams ex_loaded = 0"
proof -
  obtain c where d: "ex_dialed = (main_start ex_cfg)\<lparr>ag_fs := (ag_fs (main_start ex_cfg))\<lparr>fs_client := Some c\<rparr>, ag_connect := CSet\<rparr>"
    using ex_dialed_eq by blast
  have f: "fs_client (ag_fs (closeReady ex_dialed)) = Some c" by (simp add: d closeReady_def)
  show "ag_loop ex_loaded = LIdle" "ag_wait ex_loaded = WDone" "ag_main ex_loaded = MListening" "running ex_loaded"
    "ag_streams ex_loaded = 0"
    by (simp_all add: ex_loaded_def ex_injected_def injectFRR_facts closeReady_def d running_def)
  show r: "r_frrClient (rec_of ex_loaded) \<noteq> None" "r_triggerPending (rec_of ex_loaded)" "all_routable (rec_of ex_loaded)"
    by (simp_all add: ex_loaded_def ex_injected_def injectFRR_facts trigger_rec initConfigPeer_facts f trigger_def
        TriggerReconcile_def all_routable_def SetFRRClient_def)
  show "bgp_ready (rec_of ex_loaded)"
    by (simp add: ex_loaded_def ex_injected_def injectFRR_facts initConfigPeer_facts f trigger_def TriggerReconcile_def
        SetFRRClient_def bgp_ready_def closeReady_def d main_start_def createServers_def NewServer_def NewReconciler_def
        SetEventPublisher_def ex_cfg_def Let_def)
  have "store_of (main_start ex_cfg) = NewStore" by (simp add: main_start_def createServers_def NewServer_def Let_def)
  then have "store_of ex_loaded = snd (SetPeerIntent configOwner (Some (configPeerIntent ex_pc)) 5 NewStore)"
    by (simp add: ex_loaded_def ex_injected_def injectFRR_facts initConfigPeer_def closeReady_def d)
  moreover have "GetPrefixIntents [] (\<lambda>_. []) (snd (SetPeerIntent configOwner (Some (configPeerIntent ex_pc)) 5 NewStore)) = []"
    by code_simp
  ultimately show "set (GetPrefixIntents a b (store_of ex_loaded)) = {}"
    using getters_perm(2) [of a b "store_of ex_loaded"] by (metis set_empty set_mset_mset)
qed

lemma ex_loaded_reachable: "agent_reachable vtysh_ok ex_cfg ex_loaded"
proof -
  obtain c where d: "ex_dialed = (main_start ex_cfg)\<lparr>ag_fs := (ag_fs (main_start ex_cfg))\<lparr>fs_client := Some c\<rparr>, ag_connect := CSet\<rparr>"
    using ex_dialed_eq by blast
  note step = agent_reachable.step
  have 1: "agent_reachable vtysh_ok ex_cfg ex_dialed"
    unfolding ex_dialed_def by (rule step [OF agent_reachable.start agent_step.dial]) (simp_all add: running_def)
  have 2: "agent_reachable vtysh_ok ex_cfg (closeReady ex_dialed)"
    by (rule step [OF 1 agent_step.ready]) (simp_all add: d running_def)
  have 3: "agent_reachable vtysh_ok ex_cfg ex_injected"
    unfolding ex_injected_def by (rule step [OF 2 agent_step.inject]) (simp_all add: d closeReady_def running_def)
  have w: "ag_wait ex_injected = WPeers [ex_pc]" "running ex_injected"
    by (simp_all add: ex_injected_def injectFRR_facts ex_cfg_def running_def closeReady_def d)
  have 4: "agent_reachable vtysh_ok ex_cfg ((on_server (initConfigPeer 5 ex_pc) ex_injected)\<lparr>ag_wait := WPeers []\<rparr>)"
    by (rule step [OF 3 agent_step.config_peer [OF w]])
  show ?thesis
    unfolding ex_loaded_def by (rule step [OF 4 agent_step.config_done]) (use w(2) in \<open>simp_all add: running_def\<close>)
qed

section \<open>Properties\<close>

text \<open>
  C2 (safety).  Whatever the clients, the timers, FRR and the operating system do, in every
  state the agent can reach the store, the reconciler and the event bus are well formed, no
  method has been called on a nil FRR client, and no channel was closed twice or written to
  after it was closed.
\<close>

theorem agent_safe:
  assumes "agent_reachable vt cfg ag"
  shows "store_ok (store_of ag) \<and> rec_ok (rec_of ag) \<and> \<not> r_crashed (rec_of ag) \<and>
    \<not> eb_panicked (sv_eventBus (ag_server ag)) \<and> \<not> ag_panicked ag"
  using agent_invariants [OF assms] by (simp add: sound_def handover_def server_ok_def bus_ok_def)

theorem agent_safe_witness: "\<not> r_crashed (rec_of ex_loaded)"
  using agent_safe [OF ex_loaded_reachable] by simp





text \<open>
  C24 (safety).  Shutdown leaves nothing behind unnoticed: once \<open>main\<close> has withdrawn the routes,
  the loop has stopped, and to the end there are at most as many applied entries as
  \<open>WithdrawAll\<close> returned errors, although calls may still arrive and the FRR client may
  still be handed over.  When \<open>main\<close> returns, no event stream is open and the last thing it did
  was to remove its socket.
\<close>

theorem agent_shutdown_withdrawn:
  assumes "agent_reachable vt cfg ag" and "ag_main ag \<in> {MDraining, MClosing, MClosed}"
  shows "ag_loop ag = LStopped \<and>
    length (appliedPrefixes (rec_of ag)) + length (appliedBFD (rec_of ag)) + length (appliedOSPF (rec_of ag)) +
      length (appliedPeers (rec_of ag)) \<le> length (ag_withdrawErrs ag) \<and>
    (ag_main ag = MClosed \<longrightarrow>
       ag_streams ag = 0 \<and> (\<exists>calls. ag_os ag = calls @ [RemoveFile (cfg_ListenSocket cfg)]))"
  using agent_invariants [OF assms(1)] assms(2) by (auto simp: closing_def tidy_def applied_count_def)

text \<open>The run of the witness goes on from a listening agent to its end.\<close>

definition ex_os :: OS where
  "ex_os = \<lparr>os_Stat = \<lambda>_. FileMode True, os_Remove = \<lambda>_. None, os_MkdirAll = \<lambda>_. None, os_Listen = \<lambda>_. None\<rparr>"

lemma shutdown_path:
  assumes "agent_reachable vt cfg ag" and "ag_main ag = MServing" and "ag_loop ag = LIdle" and "ag_streams ag = 0"
  shows "\<exists>ag'. agent_reachable vt cfg ag' \<and> ag_main ag' = MClosed"
proof -
  note step = agent_reachable.step
  let ?a = "announceShutdown ex_cx (ag\<lparr>ag_main := MStopping\<rparr>)"
  let ?l = "?a\<lparr>ag_loop := LStopped, ag_main := MWithdraw\<rparr>"
  let ?b = "withdrawStep vt (\<lambda>_. []) ?l"
  have a: "ag_loop ?a = LIdle" "ag_cancelled ?a" "ag_main ?a = MWaitLoop" "ag_streams ?a = 0"
    using assms(3,4) by (simp_all add: announceShutdown_facts) (simp add: announceShutdown_def Let_def)
  have 1: "agent_reachable vt cfg ?a"
    by (rule step [OF step [OF assms(1) agent_step.signal [OF assms(2)]] agent_step.announce]) simp
  have 2: "agent_reachable vt cfg (?a\<lparr>ag_loop := LStopped\<rparr>)"
    by (rule step [OF 1 agent_step.loop_stop [OF a(1,2)]]) (simp add: running_def a(3))
  have "agent_reachable vt cfg ?l" using step [OF 2 agent_step.loop_done] a(3) by simp
  then have 3: "agent_reachable vt cfg ?b" by (rule step [OF _ agent_step.withdraw]) simp
  have b: "ag_main ?b = MDraining" "ag_streams ?b = 0" using a(4) by (simp_all add: withdrawStep_def case_prod_unfold)
  have "agent_reachable vt cfg (closeStep cfg (?b\<lparr>ag_main := MClosing\<rparr>))"
    by (rule step [OF step [OF 3 agent_step.drained [OF b]] agent_step.close]) simp
  then show ?thesis using closeStep_facts(10) by blast
qed

theorem agent_shutdown_withdrawn_witness:
  "\<exists>ag. agent_reachable vtysh_ok ex_cfg ag \<and> ag_main ag = MClosed \<and> ag_loop ag = LStopped"
proof -
  let ?a = "listenStep ex_os ex_cfg ex_loaded"
  have "\<not> isl (fst (setupSocketListener ex_os (cfg_ListenSocket ex_cfg)))" by code_simp
  then have a: "ag_main ?a = MServing" by (simp add: listenStep_facts isl_def split: sum.split)
  have "agent_reachable vtysh_ok ex_cfg ?a"
    by (rule agent_reachable.step [OF ex_loaded_reachable agent_step.listen]) (rule ex_loaded_facts)
  then obtain ag where ag: "agent_reachable vtysh_ok ex_cfg ag" "ag_main ag = MClosed"
    using shutdown_path [OF _ a] by (auto simp: listenStep_facts(6,7) ex_loaded_facts)
  from agent_shutdown_withdrawn [OF ag(1)] ag show ?thesis by auto
qed

text \<open>\<open>GracefulStop\<close> waits for the open event streams, however long their clients keep them.\<close>

lemma draining_waits:
  assumes "agent_step vt cfg ag ag'" and "ag_main ag = MDraining" and "0 < ag_streams ag"
  shows "ag_main ag' = MDraining"
  using assms
proof (cases rule: agent_step.cases)
  case (dial ex)
  then show ?thesis using assms(2) by (cases rule: connectFRR_cases [of vt ex cfg ag]) simp_all
next
  case (ensure_bgp env)
  then show ?thesis using assms(2) by (cases rule: ensureStep_cases [of vt ag env]) simp_all
qed (use assms(2,3) in \<open>auto simp: injectFRR_facts startCycle_def receiveTrigger_def readStep_def closeReady_def
    stageStep_def monitorStep_def Let_def split: prod.splits\<close>)

text \<open>
  C25 (safety).  The peers of the configuration file are out of the clients' reach: unless the
  configuration itself has an owner \<open>_config\<close>, once \<open>waitForFRR\<close> is through they are in the
  store, the last one for each address, and stay there whatever calls arrive.
\<close>

theorem config_peers_protected:
  assumes "agent_reachable vt cfg ag" and "Validate sch cfg = None" and "map_of (cfg_Owners cfg) configOwner = None"
    and "ag_wait ag = WDone" and "r_frrClient (rec_of ag) \<noteq> None"
    and "find (\<lambda>p. pc_NeighborAddress p = a) (rev (bgp_Peers (cfg_BGP cfg))) = Some p"
  shows "\<exists>i. look Peers (store_of ag) configOwner (peerKey a) = Some i \<and> peerEqual i (configPeerIntent p)"
  using agent_configured [OF assms(1,3)] validated_addresses [OF assms(2)] assms(4-6)
  by (auto simp: configured_def config_loaded_def)

theorem config_peers_protected_witness:
  "\<exists>i. look Peers (store_of ex_loaded) configOwner (peerKey ''10.0.0.1'') = Some i \<and> peerEqual i (configPeerIntent ex_pc)"
proof (rule config_peers_protected [OF ex_loaded_reachable])
  show "Validate [] ex_cfg = None" "map_of (cfg_Owners ex_cfg) configOwner = None"
    "find (\<lambda>p. pc_NeighborAddress p = ''10.0.0.1'') (rev (bgp_Peers (cfg_BGP ex_cfg))) = Some ex_pc" by code_simp+
qed (rule ex_loaded_facts)+



end
