(* ===== verification/Operator_Main.thy ===== *)
theory Operator_Main
  imports Agent
begin

text \<open>
  The main program of the operator (\<open>cmd/novaroute-operator/main.go\<close>): its flags, the log
  options and the calls it makes of the controller manager.  What \<open>flag.Parse\<close> finds on the
  command line is the function \<open>parse\<close>, over the flags of the program and the development mode
  of the logger, which the flags of \<open>ctrlzap\<close> can set; \<open>answer\<close> is what the calls return.
\<close>

section \<open>Flags\<close>

text \<open>Durations are in nanoseconds.\<close>

record operator_flags =
  metricsAddr :: string
  probeAddr :: string
  enableLeaderElection :: bool
  leaseDuration :: int
  renewDeadline :: int
  retryPeriod :: int
  logLevel :: string
  logFormat :: string

definition flag_defaults :: operator_flags where
  "flag_defaults =
     \<lparr>metricsAddr = '':8080'', probeAddr = '':8081'', enableLeaderElection = False,
      leaseDuration = 15 * 1000000000, renewDeadline = 10 * 1000000000, retryPeriod = 2 * 1000000000,
      logLevel = ''info'', logFormat = ''json''\<rparr>"

definition operator_level :: "string \<Rightarrow> zapLevel" where
  "operator_level level =
     (if level = ''debug'' then DebugLevel
      else if level = ''warn'' then WarnLevel
      else if level = ''error'' then ErrorLevel
      else InfoLevel)"

section \<open>The manager\<close>

record manager_options =
  mo_BindAddress :: string
  mo_HealthProbeBindAddress :: string
  mo_LeaderElection :: bool
  mo_LeaderElectionID :: string
  mo_LeaseDuration :: int
  mo_RenewDeadline :: int
  mo_RetryPeriod :: int

datatype manager_call =
    NewManager manager_options
  | SetupController
  | AddHealthzCheck string
  | AddReadyzCheck string
  | StartManager

text \<open>The first call that fails ends the program with status 1.\<close>

fun call_all :: "(manager_call \<Rightarrow> string option) \<Rightarrow> manager_call list \<Rightarrow> nat \<times> manager_call list" where
  "call_all answer [] = (0, [])"
| "call_all answer (c # cs) =
     (case answer c of
        Some err \<Rightarrow> (1, [c])
      | None \<Rightarrow> (let (code, made) = call_all answer cs in (code, c # made)))"

record operator_run =
  opr_Development :: bool
  opr_Level :: zapLevel
  opr_ExitCode :: nat
  opr_Calls :: "manager_call list"

definition operator_main ::
    "(operator_flags \<times> bool \<Rightarrow> operator_flags \<times> bool) \<Rightarrow> (manager_call \<Rightarrow> string option) \<Rightarrow> operator_run" where
  "operator_main parse answer =
     (let opts = (logFormat flag_defaults = ''text'');
          (flags, opts) = parse (flag_defaults, opts);
          zapLevel = operator_level (logLevel flags);
          (code, calls) = call_all answer
            [NewManager \<lparr>mo_BindAddress = metricsAddr flags, mo_HealthProbeBindAddress = probeAddr flags,
               mo_LeaderElection = enableLeaderElection flags, mo_LeaderElectionID = ''novaroute-operator-leader'',
               mo_LeaseDuration = leaseDuration flags, mo_RenewDeadline = renewDeadline flags,
               mo_RetryPeriod = retryPeriod flags\<rparr>,
             SetupController, AddHealthzCheck ''healthz'', AddReadyzCheck ''readyz'', StartManager]
      in \<lparr>opr_Development = opts, opr_Level = zapLevel, opr_ExitCode = code, opr_Calls = calls\<rparr>)"

section \<open>Facts\<close>

lemma call_all_prefix: "\<exists>rest. cs = snd (call_all answer cs) @ rest"
  by (induction cs) (simp_all add: Let_def case_prod_unfold split: option.split)

lemma call_all_ok: "fst (call_all answer cs) = 0 \<longleftrightarrow> (\<forall>c \<in> set cs. answer c = None)"
  by (induction cs) (simp_all add: Let_def case_prod_unfold split: option.split)

lemma call_all_reaches:
  "c \<in> set (snd (call_all answer cs)) \<Longrightarrow> distinct cs \<Longrightarrow> c' \<in> set (takeWhile (\<lambda>x. x \<noteq> c) cs) \<Longrightarrow> answer c' = None"
proof (induction cs)
  case (Cons x cs)
  then show ?case
    by (cases "answer x") (auto simp: Let_def case_prod_unfold split: if_splits)
qed simp

text \<open>The manager is started only when the controller and both checks are in place.\<close>

lemma operator_starts_complete:
  assumes "StartManager \<in> set (opr_Calls (operator_main parse answer))"
  shows "answer SetupController = None \<and> answer (AddHealthzCheck ''healthz'') = None \<and>
    answer (AddReadyzCheck ''readyz'') = None"
  using assms
  by (auto simp: operator_main_def Let_def case_prod_unfold split: option.splits)

text \<open>
  The development mode is computed before the flags are parsed: \<open>--log-format text\<close> has no
  effect on it.
\<close>

lemma log_format_ignored:
  assumes "\<And>fl dev. snd (parse (fl, dev)) = dev"
  shows "\<not> opr_Development (operator_main parse answer)"
  using assms [of flag_defaults False]
  by (simp add: operator_main_def Let_def case_prod_unfold flag_defaults_def)

end
