(* ===== verification/Cluster_Types.thy ===== *)
theory Cluster_Types
  imports Go_Strings
begin

text \<open>
  The types of the operator: the NovaRouteCluster resource (\<open>api/v1alpha1\<close>) field by field,
  and of the Kubernetes object types the fields that the controller reads or writes.  A
  pointer is an option, a Go \<open>int32\<close> or \<open>int64\<close> that is only copied, compared or printed is
  an \<open>int\<close>, a map is a \<open>gomap\<close>.
\<close>

section \<open>Kubernetes types the resource uses\<close>

type_synonym strmap = "(string, string) gomap"

record OwnerReference =
  or_Kind :: string
  or_Name :: string
  or_UID :: string
  or_Controller :: bool

record ObjectMeta =
  om_Name :: string
  om_Namespace :: string
  om_UID :: string
  om_ResourceVersion :: string
  om_Generation :: int
  om_DeletionTimestamp :: "time option"
  om_Labels :: strmap
  om_Finalizers :: "string list"
  om_OwnerReferences :: "OwnerReference list"

record SecretKeySelector =
  sk_Name :: string
  sk_Key :: string

record ResourceRequirements =
  rr_Limits :: strmap
  rr_Requests :: strmap

record Toleration =
  tl_Key :: string
  tl_Operator :: string
  tl_Value :: string
  tl_Effect :: string
  tl_TolerationSeconds :: "int option"

text \<open>Of the sources of a variable only the field reference matters to the controller.\<close>

datatype EnvVarSource = FieldRef string | OtherSource string

record EnvVar =
  ev_Name :: string
  ev_Value :: string
  ev_ValueFrom :: "EnvVarSource option"

record Condition =
  cd_Type :: string
  cd_Status :: string
  cd_ObservedGeneration :: int
  cd_LastTransitionTime :: time
  cd_Reason :: string
  cd_Message :: string

section \<open>The resource\<close>

type_synonym ClusterPhase = string

definition ClusterPhasePending :: ClusterPhase where "ClusterPhasePending = ''Pending''"
definition ClusterPhaseInitializing :: ClusterPhase where "ClusterPhaseInitializing = ''Initializing''"
definition ClusterPhaseRunning :: ClusterPhase where "ClusterPhaseRunning = ''Running''"
definition ClusterPhaseDegraded :: ClusterPhase where "ClusterPhaseDegraded = ''Degraded''"

record BGPPeerSpec =
  ps_Address :: string
  ps_RemoteAS :: uint32
  ps_Description :: string
  ps_BFD :: bool
  ps_BFDMinRxMs :: uint32
  ps_BFDMinTxMs :: uint32
  ps_BFDDetectMultiplier :: uint32
  ps_Keepalive :: uint32
  ps_HoldTime :: uint32
  ps_PasswordSecretRef :: "SecretKeySelector option"
  ps_MaxPrefixes :: uint32

record BGPSpec =
  bs_LocalAS :: uint32
  bs_AsBase :: uint32
  bs_RouterID :: string
  bs_AutoRouterID :: bool
  bs_Peers :: "BGPPeerSpec list"

record OwnerSpec =
  ow_Name :: string
  ow_Token :: string
  ow_PrefixType :: string
  ow_AllowedCIDRs :: "string list"

record FRRDaemons =
  fd_BGPD :: "bool option"
  fd_OSPFD :: "bool option"
  fd_BFDD :: "bool option"

record FRRSpec =
  fs_Image :: string
  fs_Resources :: ResourceRequirements
  fs_Daemons :: "FRRDaemons option"

record UpdateStrategySpec =
  us_Type :: string
  us_MaxUnavailable :: "int option"

record NovaRouteAgentSpec =
  as_Image :: string
  as_Resources :: ResourceRequirements
  as_NodeSelector :: strmap
  as_Tolerations :: "Toleration list"
  as_SocketPath :: string
  as_MetricsPort :: "int option"
  as_LogLevel :: string
  as_BGP :: "BGPSpec option"
  as_Owners :: "OwnerSpec list"
  as_ExtraArgs :: "string list"
  as_ExtraEnv :: "EnvVar list"

record NovaRouteClusterSpec =
  sp_Version :: string
  sp_ImageRepository :: string
  sp_ImagePullPolicy :: string
  sp_ImagePullSecrets :: "string list"
  sp_Agent :: NovaRouteAgentSpec
  sp_FRR :: FRRSpec
  sp_UpdateStrategy :: "UpdateStrategySpec option"

record ComponentStatus =
  cs_Ready :: bool
  cs_DesiredNodes :: int
  cs_ReadyNodes :: int
  cs_UpdatedNodes :: int

record NovaRouteClusterStatus =
  st_Phase :: ClusterPhase
  st_Agent :: "ComponentStatus option"
  st_Version :: string
  st_ObservedGeneration :: int
  st_Conditions :: "Condition list"

record NovaRouteCluster =
  nc_Meta :: ObjectMeta
  nc_Spec :: NovaRouteClusterSpec
  nc_Status :: NovaRouteClusterStatus

section \<open>The objects the controller manages\<close>

record ServiceAccount =
  sa_Meta :: ObjectMeta

record PolicyRule =
  pr_APIGroups :: "string list"
  pr_Resources :: "string list"
  pr_Verbs :: "string list"

record ClusterRole =
  cr_Meta :: ObjectMeta
  cr_Rules :: "PolicyRule list"

record RoleRef =
  rf_APIGroup :: string
  rf_Kind :: string
  rf_Name :: string

record Subject =
  sj_Kind :: string
  sj_Name :: string
  sj_Namespace :: string

record ClusterRoleBinding =
  crb_Meta :: ObjectMeta
  crb_RoleRef :: RoleRef
  crb_Subjects :: "Subject list"

record ConfigMap =
  cm_Meta :: ObjectMeta
  cm_Data :: strmap

record Secret =
  sec_Meta :: ObjectMeta
  sec_Data :: strmap

record ContainerPort =
  cp_Name :: string
  cp_ContainerPort :: int
  cp_Protocol :: string

record Probe =
  pb_Path :: string
  pb_Port :: int
  pb_InitialDelaySeconds :: int
  pb_PeriodSeconds :: int
  pb_TimeoutSeconds :: int
  pb_FailureThreshold :: int

record VolumeMount =
  vm_Name :: string
  vm_MountPath :: string
  vm_ReadOnly :: bool

record Container =
  ct_Name :: string
  ct_Image :: string
  ct_ImagePullPolicy :: string
  ct_Args :: "string list"
  ct_Ports :: "ContainerPort list"
  ct_Resources :: ResourceRequirements
  ct_Env :: "EnvVar list"
  ct_LivenessProbe :: "Probe option"
  ct_ReadinessProbe :: "Probe option"
  ct_AddCapabilities :: "string list"
  ct_VolumeMounts :: "VolumeMount list"

datatype VolumeSource = HostPath string string | EmptyDir | ConfigMapVolume string

record Volume =
  vl_Name :: string
  vl_Source :: VolumeSource

record PodSpec =
  pd_ServiceAccountName :: string
  pd_HostNetwork :: bool
  pd_DNSPolicy :: string
  pd_NodeSelector :: strmap
  pd_Tolerations :: "Toleration list"
  pd_ImagePullSecrets :: "string list"
  pd_TerminationGracePeriodSeconds :: "int option"
  pd_Containers :: "Container list"
  pd_Volumes :: "Volume list"

text \<open>The zero value of the strategy leaves the choice to the server.\<close>

datatype DaemonSetUpdateStrategy = DefaultStrategy | OnDelete | RollingUpdate int

record DaemonSetStatus =
  ss_DesiredNumberScheduled :: int
  ss_NumberReady :: int
  ss_UpdatedNumberScheduled :: int

record DaemonSet =
  ds_Meta :: ObjectMeta
  ds_MatchLabels :: strmap
  ds_PodLabels :: strmap
  ds_PodAnnotations :: strmap
  ds_PodSpec :: PodSpec
  ds_UpdateStrategy :: DaemonSetUpdateStrategy
  ds_Status :: DaemonSetStatus

record ServicePort =
  sv_Name :: string
  sv_Port :: int
  sv_TargetPort :: int
  sv_Protocol :: string

record Service =
  svc_Meta :: ObjectMeta
  svc_Selector :: strmap
  svc_Ports :: "ServicePort list"
  svc_ClusterIP :: string

section \<open>Objects and their keys\<close>

datatype kobject =
    OCluster NovaRouteCluster
  | OServiceAccount ServiceAccount
  | OClusterRole ClusterRole
  | OClusterRoleBinding ClusterRoleBinding
  | OConfigMap ConfigMap
  | ODaemonSet DaemonSet
  | OService Service
  | OSecret Secret

datatype kind =
    KCluster | KServiceAccount | KClusterRole | KClusterRoleBinding | KConfigMap | KDaemonSet
  | KService | KSecret

type_synonym object_key = "kind \<times> string \<times> string"

fun kind_of :: "kobject \<Rightarrow> kind" where
  "kind_of (OCluster _) = KCluster"
| "kind_of (OServiceAccount _) = KServiceAccount"
| "kind_of (OClusterRole _) = KClusterRole"
| "kind_of (OClusterRoleBinding _) = KClusterRoleBinding"
| "kind_of (OConfigMap _) = KConfigMap"
| "kind_of (ODaemonSet _) = KDaemonSet"
| "kind_of (OService _) = KService"
| "kind_of (OSecret _) = KSecret"

fun meta_of :: "kobject \<Rightarrow> ObjectMeta" where
  "meta_of (OCluster x) = nc_Meta x"
| "meta_of (OServiceAccount x) = sa_Meta x"
| "meta_of (OClusterRole x) = cr_Meta x"
| "meta_of (OClusterRoleBinding x) = crb_Meta x"
| "meta_of (OConfigMap x) = cm_Meta x"
| "meta_of (ODaemonSet x) = ds_Meta x"
| "meta_of (OService x) = svc_Meta x"
| "meta_of (OSecret x) = sec_Meta x"

fun map_meta :: "(ObjectMeta \<Rightarrow> ObjectMeta) \<Rightarrow> kobject \<Rightarrow> kobject" where
  "map_meta f (OCluster x) = OCluster (x\<lparr>nc_Meta := f (nc_Meta x)\<rparr>)"
| "map_meta f (OServiceAccount x) = OServiceAccount (x\<lparr>sa_Meta := f (sa_Meta x)\<rparr>)"
| "map_meta f (OClusterRole x) = OClusterRole (x\<lparr>cr_Meta := f (cr_Meta x)\<rparr>)"
| "map_meta f (OClusterRoleBinding x) = OClusterRoleBinding (x\<lparr>crb_Meta := f (crb_Meta x)\<rparr>)"
| "map_meta f (OConfigMap x) = OConfigMap (x\<lparr>cm_Meta := f (cm_Meta x)\<rparr>)"
| "map_meta f (ODaemonSet x) = ODaemonSet (x\<lparr>ds_Meta := f (ds_Meta x)\<rparr>)"
| "map_meta f (OService x) = OService (x\<lparr>svc_Meta := f (svc_Meta x)\<rparr>)"
| "map_meta f (OSecret x) = OSecret (x\<lparr>sec_Meta := f (sec_Meta x)\<rparr>)"

definition key_of :: "kobject \<Rightarrow> object_key" where
  "key_of ob = (kind_of ob, om_Namespace (meta_of ob), om_Name (meta_of ob))"

definition SetResourceVersion :: "string \<Rightarrow> kobject \<Rightarrow> kobject" where
  "SetResourceVersion rv = map_meta (\<lambda>m. m\<lparr>om_ResourceVersion := rv\<rparr>)"

lemma kind_map_meta [simp]: "kind_of (map_meta f ob) = kind_of ob"
  by (cases ob) simp_all

lemma meta_map_meta [simp]: "meta_of (map_meta f ob) = f (meta_of ob)"
  by (cases ob) simp_all

lemma map_meta_map_meta [simp]: "map_meta f (map_meta g ob) = map_meta (f \<circ> g) ob"
  by (cases ob) simp_all

lemma key_SetResourceVersion [simp]: "key_of (SetResourceVersion rv ob) = key_of ob"
  by (simp add: key_of_def SetResourceVersion_def)

end
