(* ===== verification/Kube_Api.thy ===== *)
theory Kube_Api
  imports Cluster_Types
begin

text \<open>
  The Kubernetes API as the operator sees it.  The client, the API server behind it and the
  helper packages (\<open>controllerutil\<close>, \<open>meta\<close>) are not part of NovaRoute: they are the record
  \<open>kube\<close>, a parameter of every definition of the controller, over a state type of their
  own.  What the controller relies on is stated by the predicates below; each describes
  documented behaviour of one call, with the objects in the server's store read through a
  function \<open>view\<close>.  \<open>adm ob ob'\<close> says that the server may store \<open>ob'\<close> when \<open>ob\<close> is submitted:
  it fills in versions, defaults and status.
\<close>

section \<open>The client\<close>

datatype kerror = NotFound | OtherError string

definition IsNotFound :: "kerror \<Rightarrow> bool" where
  "IsNotFound e \<longleftrightarrow> e = NotFound"

record 's kube =
  kGet :: "object_key \<Rightarrow> 's \<Rightarrow> (kerror + kobject) \<times> 's"
  kCreate :: "kobject \<Rightarrow> 's \<Rightarrow> kerror option \<times> 's"
  kUpdate :: "kobject \<Rightarrow> 's \<Rightarrow> (kerror + kobject) \<times> 's"
  kStatusUpdate :: "kobject \<Rightarrow> 's \<Rightarrow> (kerror + kobject) \<times> 's"
  kDelete :: "kobject \<Rightarrow> 's \<Rightarrow> kerror option \<times> 's"
  kList :: "string \<Rightarrow> 's \<Rightarrow> (kerror + NovaRouteCluster list) \<times> 's"
  ContainsFinalizer :: "ObjectMeta \<Rightarrow> string \<Rightarrow> bool"
  AddFinalizer :: "ObjectMeta \<Rightarrow> string \<Rightarrow> ObjectMeta"
  RemoveFinalizer :: "ObjectMeta \<Rightarrow> string \<Rightarrow> ObjectMeta"
  SetControllerReference :: "ObjectMeta \<Rightarrow> ObjectMeta \<Rightarrow> kerror + ObjectMeta"
  SetStatusCondition :: "Condition list \<Rightarrow> Condition \<Rightarrow> 's \<Rightarrow> Condition list \<times> 's"

text \<open>Typed reads: the decoder gives the controller the object in the type it asked for.\<close>

definition getCluster :: "'s kube \<Rightarrow> string \<Rightarrow> string \<Rightarrow> 's \<Rightarrow> (kerror + NovaRouteCluster) \<times> 's" where
  "getCluster K ns n s =
     (case kGet K (KCluster, ns, n) s of
        (Inr (OCluster x), s') \<Rightarrow> (Inr x, s')
      | (Inr _, s') \<Rightarrow> (Inl (OtherError ''decode''), s')
      | (Inl e, s') \<Rightarrow> (Inl e, s'))"

definition getSecret :: "'s kube \<Rightarrow> string \<Rightarrow> string \<Rightarrow> 's \<Rightarrow> (kerror + Secret) \<times> 's" where
  "getSecret K ns n s =
     (case kGet K (KSecret, ns, n) s of
        (Inr (OSecret x), s') \<Rightarrow> (Inr x, s')
      | (Inr _, s') \<Rightarrow> (Inl (OtherError ''decode''), s')
      | (Inl e, s') \<Rightarrow> (Inl e, s'))"

definition getDaemonSet :: "'s kube \<Rightarrow> string \<Rightarrow> string \<Rightarrow> 's \<Rightarrow> (kerror + DaemonSet) \<times> 's" where
  "getDaemonSet K ns n s =
     (case kGet K (KDaemonSet, ns, n) s of
        (Inr (ODaemonSet x), s') \<Rightarrow> (Inr x, s')
      | (Inr _, s') \<Rightarrow> (Inl (OtherError ''decode''), s')
      | (Inl e, s') \<Rightarrow> (Inl e, s'))"

section \<open>What the controller relies on\<close>

type_synonym 's view = "'s \<Rightarrow> object_key \<Rightarrow> kobject option"

type_synonym admission = "kobject \<Rightarrow> kobject \<Rightarrow> bool"

text \<open>A read changes nothing, returns the object stored under the key, and reports a missing
  object as such.\<close>

definition reads_current :: "'s kube \<Rightarrow> 's view \<Rightarrow> bool" where
  "reads_current K view \<longleftrightarrow>
     (\<forall>k s. view (snd (kGet K k s)) = view s \<and>
            (\<forall>ob. fst (kGet K k s) = Inr ob \<longrightarrow> view s k = Some ob \<and> key_of ob = k) \<and>
            (fst (kGet K k s) = Inl NotFound \<longrightarrow> view s k = None))"

text \<open>A write that reports success has stored the object; one that fails has changed no other.\<close>

definition create_stores :: "'s kube \<Rightarrow> 's view \<Rightarrow> admission \<Rightarrow> bool" where
  "create_stores K view adm \<longleftrightarrow>
     (\<forall>ob s. (\<forall>k. k \<noteq> key_of ob \<longrightarrow> view (snd (kCreate K ob s)) k = view s k) \<and>
             (fst (kCreate K ob s) = None \<longrightarrow>
                (\<exists>ob'. adm ob ob' \<and> view (snd (kCreate K ob s)) (key_of ob) = Some ob')))"

definition update_stores :: "'s kube \<Rightarrow> 's view \<Rightarrow> admission \<Rightarrow> bool" where
  "update_stores K view adm \<longleftrightarrow>
     (\<forall>ob s. (\<forall>k. k \<noteq> key_of ob \<longrightarrow> view (snd (kUpdate K ob s)) k = view s k) \<and>
             (\<forall>r. fst (kUpdate K ob s) = Inr r \<longrightarrow>
                adm ob r \<and> (view (snd (kUpdate K ob s)) (key_of ob) = Some r \<or>
                            om_DeletionTimestamp (meta_of ob) \<noteq> None)))"

text \<open>The status subresource leaves everything but the status of that object alone; the answer
  is what is stored then.\<close>

definition status_only :: "'s kube \<Rightarrow> 's view \<Rightarrow> bool" where
  "status_only K view \<longleftrightarrow>
     (\<forall>c s. (\<forall>k. k \<noteq> key_of (OCluster c) \<longrightarrow> view (snd (kStatusUpdate K (OCluster c) s)) k = view s k) \<and>
            (\<forall>r. fst (kStatusUpdate K (OCluster c) s) = Inr r \<longrightarrow>
               (\<exists>c0 c'. view s (key_of (OCluster c)) = Some (OCluster c0) \<and> r = OCluster c' \<and>
                     view (snd (kStatusUpdate K (OCluster c) s)) (key_of (OCluster c)) = Some r \<and>
                     om_Name (nc_Meta c') = om_Name (nc_Meta c) \<and>
                     om_Namespace (nc_Meta c') = om_Namespace (nc_Meta c) \<and> nc_Spec c' = nc_Spec c0)))"

definition delete_removes :: "'s kube \<Rightarrow> 's view \<Rightarrow> bool" where
  "delete_removes K view \<longleftrightarrow>
     (\<forall>ob s. (\<forall>k. k \<noteq> key_of ob \<longrightarrow> view (snd (kDelete K ob s)) k = view s k) \<and>
             (fst (kDelete K ob s) = None \<or> fst (kDelete K ob s) = Some NotFound \<longrightarrow>
                view (snd (kDelete K ob s)) (key_of ob) = None))"

text \<open>The helper packages.\<close>

definition helpers_ok :: "'s kube \<Rightarrow> 's view \<Rightarrow> bool" where
  "helpers_ok K view \<longleftrightarrow>
     (\<forall>m f. ContainsFinalizer K m f = (f \<in> set (om_Finalizers m)) \<and>
            AddFinalizer K m f = m\<lparr>om_Finalizers := om_Finalizers m @ (if f \<in> set (om_Finalizers m) then [] else [f])\<rparr> \<and>
            RemoveFinalizer K m f = m\<lparr>om_Finalizers := filter (\<lambda>x. x \<noteq> f) (om_Finalizers m)\<rparr>) \<and>
     (\<forall>owner m m'. SetControllerReference K owner m = Inr m' \<longrightarrow>
        (\<exists>r. or_Controller r \<and> or_Name r = om_Name owner \<and> or_UID r = om_UID owner \<and>
             m' = m\<lparr>om_OwnerReferences := om_OwnerReferences m @ [r]\<rparr>)) \<and>
     (\<forall>cs c s. view (snd (SetStatusCondition K cs c s)) = view s)"

text \<open>What admission keeps: identity and labels, the spec of the resource, and the data of a
  ConfigMap.\<close>

definition admission_ok :: "admission \<Rightarrow> bool" where
  "admission_ok adm \<longleftrightarrow>
     (\<forall>ob ob'. adm ob ob' \<longrightarrow>
        key_of ob' = key_of ob \<and> om_Labels (meta_of ob') = om_Labels (meta_of ob) \<and>
        om_DeletionTimestamp (meta_of ob') = om_DeletionTimestamp (meta_of ob) \<and>
        (\<forall>c. ob = OCluster c \<longrightarrow> (\<exists>c'. ob' = OCluster c' \<and> nc_Spec c' = nc_Spec c)) \<and>
        (\<forall>m. ob = OConfigMap m \<longrightarrow> (\<exists>m'. ob' = OConfigMap m' \<and> cm_Data m' = cm_Data m)))"

definition api_ok :: "'s kube \<Rightarrow> 's view \<Rightarrow> admission \<Rightarrow> bool" where
  "api_ok K view adm \<longleftrightarrow>
     reads_current K view \<and> create_stores K view adm \<and> update_stores K view adm \<and>
     status_only K view \<and> delete_removes K view \<and> helpers_ok K view \<and> admission_ok adm"

text \<open>A server that accepts every request it can: reads fail only for missing objects, a new
  object can be created, an object whose version is current can be updated, and an object
  without a controller can be given one.\<close>

definition reads_reliable :: "'s kube \<Rightarrow> bool" where
  "reads_reliable K \<longleftrightarrow> (\<forall>k s e. fst (kGet K k s) = Inl e \<longrightarrow> e = NotFound)"

definition accepting :: "'s kube \<Rightarrow> 's view \<Rightarrow> bool" where
  "accepting K view \<longleftrightarrow>
     reads_reliable K \<and>
     (\<forall>ob s. view s (key_of ob) = None \<longrightarrow> fst (kCreate K ob s) = None) \<and>
     (\<forall>ob ob0 s. view s (key_of ob) = Some ob0 \<and>
        om_ResourceVersion (meta_of ob0) = om_ResourceVersion (meta_of ob) \<longrightarrow>
        (\<exists>r. fst (kUpdate K ob s) = Inr r)) \<and>
     (\<forall>c c0 s. view s (key_of (OCluster c)) = Some (OCluster c0) \<and>
        om_ResourceVersion (nc_Meta c0) = om_ResourceVersion (nc_Meta c) \<longrightarrow>
        (\<exists>r. fst (kStatusUpdate K (OCluster c) s) = Inr r)) \<and>
     (\<forall>owner m. om_OwnerReferences m = [] \<longrightarrow> (\<exists>m'. SetControllerReference K owner m = Inr m'))"

end
