(* ===== verification/Go_Marshal.thy ===== *)
theory Go_Marshal
  imports Go_Json
begin

text \<open>
  What NovaRoute uses of Go's JSON encoder: \<open>json.MarshalIndent(v, "", "  ")\<close>, with strings
  escaped as \<open>appendString\<close> escapes them (short escapes, HTML characters, the two line
  separators, and the replacement character for bytes that are not UTF-8).  The encoder
  and the parser are inverse: parsing what the encoder wrote gives the value back, with
  invalid bytes replaced (\<open>parse_MarshalIndent\<close>).
\<close>

section \<open>Strings\<close>

definition hex_char :: "nat \<Rightarrow> char" where
  "hex_char n = ''0123456789abcdef'' ! n"

definition escape_byte :: "char \<Rightarrow> string" where
  "escape_byte c =
     (if c = CHR 0x22 \<or> c = CHR 0x5C then [CHR 0x5C, c]
      else if c = CHR 0x08 then [CHR 0x5C, CHR ''b'']
      else if c = CHR 0x0C then [CHR 0x5C, CHR ''f'']
      else if c = CHR 0x0A then [CHR 0x5C, CHR ''n'']
      else if c = CHR 0x0D then [CHR 0x5C, CHR ''r'']
      else if c = CHR 0x09 then [CHR 0x5C, CHR ''t'']
      else if (of_char c :: nat) < 0x20 \<or> c \<in> {CHR ''<'', CHR ''>'', CHR ''&''} then
        [CHR 0x5C, CHR ''u'', CHR ''0'', CHR ''0'', hex_char (of_char c div 16), hex_char (of_char c mod 16)]
      else [c])"

text \<open>The escaped form of the code point, of \<open>w\<close> bytes, that starts a string.\<close>

definition escape_rune :: "string \<Rightarrow> string" where
  "escape_rune r =
     (if length r = 1 then escape_byte (hd r)
      else if r = [CHR 0xE2, CHR 0x80, CHR 0xA8] then CHR 0x5C # ''u2028''
      else if r = [CHR 0xE2, CHR 0x80, CHR 0xA9] then CHR 0x5C # ''u2029''
      else r)"

lemma utf8_width_pos: "utf8_width s = Some w \<Longrightarrow> 0 < w"
  by (auto simp: utf8_width_def Let_def split: list.splits if_splits)

function escape_string :: "string \<Rightarrow> string" where
  "escape_string [] = []"
| "escape_string (c # cs) =
     (case utf8_width (c # cs) of
        None \<Rightarrow> CHR 0x5C # ''ufffd'' @ escape_string cs
      | Some w \<Rightarrow> escape_rune (c # take (w - 1) cs) @ escape_string (drop (w - 1) cs))"
  by pat_completeness auto
termination
  by (relation "measure length") auto

definition quote_string :: "string \<Rightarrow> string" where
  "quote_string s = CHR 0x22 # escape_string s @ [CHR 0x22]"

section \<open>Values\<close>

definition newline_indent :: "nat \<Rightarrow> string" where
  "newline_indent d = CHR 0x0A # replicate (2 * d) (CHR 0x20)"

fun print_json :: "nat \<Rightarrow> json \<Rightarrow> string" where
  "print_json d JNull = ''null''"
| "print_json d (JBool b) = (if b then ''true'' else ''false'')"
| "print_json d (JNum s) = s"
| "print_json d (JStr s) = quote_string s"
| "print_json d (JArr es) =
     (if es = [] then ''[]''
      else ''['' @ newline_indent (Suc d) @
           Join (map (print_json (Suc d)) es) ('','' @ newline_indent (Suc d)) @
           newline_indent d @ '']'')"
| "print_json d (JObj ms) =
     (if ms = [] then ''{}''
      else ''{'' @ newline_indent (Suc d) @
           Join (map (\<lambda>m. quote_string (fst m) @ '': '' @ print_json (Suc d) (snd m)) ms)
             ('','' @ newline_indent (Suc d)) @
           newline_indent d @ ''}'')"

definition MarshalIndent :: "json \<Rightarrow> string" where
  "MarshalIndent j = print_json 0 j"

section \<open>What a reader sees\<close>

text \<open>Bytes that are not part of a code point are replaced.\<close>

function to_valid :: "string \<Rightarrow> string" where
  "to_valid [] = []"
| "to_valid (c # cs) =
     (case utf8_width (c # cs) of
        None \<Rightarrow> replacement @ to_valid cs
      | Some w \<Rightarrow> c # take (w - 1) cs @ to_valid (drop (w - 1) cs))"
  by pat_completeness auto
termination
  by (relation "measure length") auto

fun json_valid :: "json \<Rightarrow> json" where
  "json_valid (JStr s) = JStr (to_valid s)"
| "json_valid (JArr es) = JArr (map json_valid es)"
| "json_valid (JObj ms) = JObj (map (\<lambda>m. (to_valid (fst m), json_valid (snd m))) ms)"
| "json_valid j = j"

text \<open>Numbers as the encoder writes them for unsigned integers.\<close>

definition number_text :: "string \<Rightarrow> bool" where
  "number_text s \<longleftrightarrow> all_digits s \<and> (s = ''0'' \<or> hd s \<noteq> CHR ''0'')"

fun numbers_ok :: "json \<Rightarrow> bool" where
  "numbers_ok (JNum s) = number_text s"
| "numbers_ok (JArr es) = list_all numbers_ok es"
| "numbers_ok (JObj ms) = list_all (\<lambda>m. numbers_ok (snd m)) ms"
| "numbers_ok j = True"

section \<open>Strings are read back\<close>

lemma utf8_width_le: "utf8_width s = Some w \<Longrightarrow> w \<le> length s"
  by (auto simp: utf8_width_def Let_def split: list.splits if_splits)

text \<open>The width of a code point depends on its own bytes only.\<close>

lemma utf8_width_head:
  assumes "utf8_width (c # cs) = Some (Suc k)" and "k \<le> length cs'" and "take k cs' = take k cs"
  shows "utf8_width (c # cs') = Some (Suc k)"
proof -
  have len: "k \<le> length cs" using utf8_width_le [OF assms(1)] by simp
  have hd: "0 < k \<Longrightarrow> hd cs' = hd cs"
    using assms(2,3) len by (metis hd_take)
  have k: "k = 0 \<or> k = 1 \<or> k = 2 \<or> k = 3"
    using assms(1) by (auto simp: utf8_width_def Let_def split: if_splits)
  have less: "take j cs' = take j cs" if "j \<le> k" for j
    using arg_cong [OF assms(3), of "take j"] that by (simp add: min_def)
  show ?thesis
  proof (cases "(of_char c :: nat) < 0x80")
    case True
    then show ?thesis using assms(1) by (simp add: utf8_width_def)
  next
    case False
    then have "k \<noteq> 0" using assms(1) by (auto simp: utf8_width_def Let_def split: if_splits)
    with k consider "k = 1" | "k = 2" | "k = 3" by auto
    then show ?thesis
    proof cases
      case 1
      then show ?thesis
        using assms len False by (simp add: utf8_width_def Let_def split del: if_split split: if_split_asm)
    next
      case 2
      then have "\<not> byte_in 0xC2 0xDF c"
        using assms(1) by (auto simp: utf8_width_def Let_def byte_in_def split: if_splits)
      with 2 show ?thesis
        using assms len hd False
        by (simp add: utf8_width_def Let_def split del: if_split split: if_split_asm)
          (simp add: if_split_eq1)?
    next
      case 3
      then have "\<not> byte_in 0xC2 0xDF c \<and> \<not> byte_in 0xE0 0xEF c"
        using assms(1) by (auto simp: utf8_width_def Let_def byte_in_def split: if_splits)
      then have "\<not> byte_in 0xC2 0xDF c" "c \<noteq> CHR 0xE0" "\<not> byte_in 0xE1 0xEC c" "\<not> byte_in 0xEE 0xEF c"
        "c \<noteq> CHR 0xED"
        by (auto simp: byte_in_def)
      with 3 show ?thesis
        using assms len hd False
        by (simp add: utf8_width_def Let_def split del: if_split split: if_split_asm)
          (simp add: if_split_eq1)?
    qed
  qed
qed

lemma utf8_width_take:
  assumes "utf8_width (c # cs) = Some w"
  shows "utf8_width (c # take (w - 1) cs @ r) = Some w"
proof -
  obtain k where k: "w = Suc k" using utf8_width_pos [OF assms] by (cases w) auto
  with utf8_width_le [OF assms] have "k \<le> length cs" by simp
  then have "utf8_width (c # take k cs @ r) = Some (Suc k)"
    by (intro utf8_width_head [OF assms [unfolded k]]) simp_all
  then show ?thesis by (simp add: k)
qed

lemma utf8_width_high:
  assumes "utf8_width (c # cs) = Some w" and "1 < w"
  shows "\<forall>x \<in> set (c # take (w - 1) cs). 0x80 \<le> (of_char x :: nat)"
proof -
  have "0x80 \<le> (of_char c :: nat)" "list_all (byte_in 0x80 0xBF) (take (w - 1) cs)"
    using assms by (auto simp: utf8_width_def Let_def split: if_split_asm)
  then show ?thesis by (auto simp: list_all_iff byte_in_def)
qed

lemma hex_digit_hex_char:
  assumes "n < 16"
  shows "hex_digit (hex_char n) = Some n"
proof -
  have "list_all (\<lambda>n. hex_digit (hex_char n) = Some n) [0..<16]" by code_simp
  then show ?thesis using assms by (simp add: list_all_iff)
qed

text \<open>A \<open>\u00xx\<close> escape.\<close>

lemma hex4_byte:
  assumes "n < 256"
  shows "is_hex4 (CHR ''0'' # CHR ''0'' # hex_char (n div 16) # hex_char (n mod 16) # t)"
    and "hex4 (CHR ''0'' # CHR ''0'' # hex_char (n div 16) # hex_char (n mod 16) # t) = n"
proof -
  have "hex_digit (hex_char (n div 16)) = Some (n div 16)" "hex_digit (hex_char (n mod 16)) = Some (n mod 16)"
    using assms by (simp_all add: hex_digit_hex_char less_mult_imp_div_less)
  moreover have "hex_digit (CHR ''0'') = Some 0" by (simp add: hex_digit_def)
  ultimately show "is_hex4 (CHR ''0'' # CHR ''0'' # hex_char (n div 16) # hex_char (n mod 16) # t)"
    "hex4 (CHR ''0'' # CHR ''0'' # hex_char (n div 16) # hex_char (n mod 16) # t) = n"
    by (simp_all add: is_hex4_def hex4_def)
qed

lemma scan_escape_byte:
  assumes "(of_char c :: nat) < 0x80"
  shows "scan_string (escape_byte c @ t) = map_option (\<lambda>(a, r). (escape_byte c @ a, r)) (scan_string t)"
  using assms hex4_byte(1) [of "of_char c" t] by (simp add: escape_byte_def)

lemma scan_high:
  assumes "\<forall>x \<in> set xs. 0x80 \<le> (of_char x :: nat)"
  shows "scan_string (xs @ t) = map_option (\<lambda>(a, r). (xs @ a, r)) (scan_string t)"
  using assms
proof (induction xs)
  case Nil
  then show ?case by (cases "scan_string t") auto
next
  case (Cons x xs)
  then have "x \<noteq> CHR 0x22" "x \<noteq> CHR 0x5C" by auto
  with Cons show ?case by (cases "scan_string t") auto
qed

text \<open>The three kinds of code point: a byte, a line separator, and one written as it is.\<close>

lemma scan_escape_rune:
  assumes "utf8_width (c # cs) = Some w" and "r = c # take (w - 1) cs"
  shows "scan_string (escape_rune r @ t) = map_option (\<lambda>(a, q). (escape_rune r @ a, q)) (scan_string t)"
proof (cases "w = 1")
  case True
  then have "(of_char c :: nat) < 0x80"
    using assms(1) by (auto simp: utf8_width_def Let_def split: if_split_asm)
  then show ?thesis using True assms(2) by (simp add: escape_rune_def scan_escape_byte)
next
  case False
  have "1 < w" "w \<le> Suc (length cs)"
    using False utf8_width_pos [OF assms(1)] utf8_width_le [OF assms(1)] by auto
  then have n: "length r \<noteq> 1" using assms(2) by simp
  have hex: "is_hex4 (''202'' @ x # t)" if "x = CHR ''8'' \<or> x = CHR ''9''" for x
    using that by (auto simp: is_hex4_def hex_digit_def)
  show ?thesis
  proof (cases "r = [CHR 0xE2, CHR 0x80, CHR 0xA8] \<or> r = [CHR 0xE2, CHR 0x80, CHR 0xA9]")
    case True
    then show ?thesis using hex by (auto simp: escape_rune_def)
  next
    case False
    then have "escape_rune r = r" using n by (simp add: escape_rune_def)
    then show ?thesis
      using scan_high [of r t] utf8_width_high [OF assms(1) \<open>1 < w\<close>] assms(2) by simp
  qed
qed

lemma scan_escape_string:
  "scan_string (escape_string s @ CHR 0x22 # t) = Some (escape_string s, t)"
proof (induction s rule: escape_string.induct)
  case (2 c cs)
  have rep: "is_hex4 (''fffd'' @ x)" for x by (simp add: is_hex4_def hex_digit_def)
  show ?case
  proof (cases "utf8_width (c # cs)")
    case None
    with 2 rep show ?thesis by simp
  next
    case (Some w)
    with 2 scan_escape_rune [OF Some refl] show ?thesis by simp
  qed
qed simp

lemma unquote_escape_byte:
  assumes "(of_char c :: nat) < 0x80"
  shows "unquote (escape_byte c @ t) = c # unquote t"
proof (cases "(of_char c :: nat) < 0x20 \<or> c \<in> {CHR ''<'', CHR ''>'', CHR ''&''}")
  case True
  have "byte_of (of_char c) = c" by (simp add: byte_of_def)
  then show ?thesis
    using True assms hex4_byte(2) [of "of_char c" t]
    by (auto simp: escape_byte_def unescape_def encode_rune_def Let_def)
next
  case False
  have "utf8_width (c # t) = Some 1" using assms by (simp add: utf8_width_def)
  with False assms show ?thesis by (auto simp: escape_byte_def unescape_def)
qed

lemma unquote_escape_rune:
  assumes "utf8_width (c # cs) = Some w" and "r = c # take (w - 1) cs"
  shows "unquote (escape_rune r @ t) = r @ unquote t"
proof (cases "w = 1")
  case True
  then have "(of_char c :: nat) < 0x80"
    using assms(1) by (auto simp: utf8_width_def Let_def split: if_split_asm)
  then show ?thesis using True assms(2) by (simp add: escape_rune_def unquote_escape_byte)
next
  case False
  have "1 < w" "w \<le> Suc (length cs)"
    using False utf8_width_pos [OF assms(1)] utf8_width_le [OF assms(1)] by auto
  then have n: "length r \<noteq> 1" using assms(2) by simp
  have hex: "hex4 (''2028'' @ t) = 0x2028" "hex4 (''2029'' @ t) = 0x2029"
    by (simp_all add: hex4_def hex_digit_def)
  have enc: "encode_rune 0x2028 = [CHR 0xE2, CHR 0x80, CHR 0xA8]"
    "encode_rune 0x2029 = [CHR 0xE2, CHR 0x80, CHR 0xA9]" by code_simp+
  show ?thesis
  proof (cases "r = [CHR 0xE2, CHR 0x80, CHR 0xA8] \<or> r = [CHR 0xE2, CHR 0x80, CHR 0xA9]")
    case True
    then show ?thesis using hex enc by (auto simp: escape_rune_def Let_def)
  next
    case False
    then have r: "escape_rune r = r" using n by (simp add: escape_rune_def)
    have "c \<noteq> CHR 0x5C" using utf8_width_high [OF assms(1) \<open>1 < w\<close>] by auto
    then have "unquote (r @ t) = r @ unquote t"
      using utf8_width_take [OF assms(1), of t] \<open>1 < w\<close> \<open>w \<le> Suc (length cs)\<close>
      by (simp add: assms(2))
    then show ?thesis by (simp add: r)
  qed
qed

lemma unquote_escape_string: "unquote (escape_string s) = to_valid s"
proof (induction s rule: escape_string.induct)
  case (2 c cs)
  have hex: "hex4 (''fffd'' @ t) = 0xFFFD" for t by (simp add: hex4_def hex_digit_def)
  have enc: "encode_rune 0xFFFD = replacement" by code_simp
  show ?case
  proof (cases "utf8_width (c # cs)")
    case None
    with 2 hex [of "escape_string cs"] enc show ?thesis by (simp add: Let_def)
  next
    case (Some w)
    with 2 unquote_escape_rune [OF Some refl] show ?thesis by simp
  qed
qed simp

section \<open>Values are read back\<close>

lemma skip_ws_newline [simp]: "skip_ws (newline_indent d @ s) = skip_ws s"
  unfolding skip_ws_def newline_indent_def
  by (subst dropWhile_append2) (auto simp: is_space_def)

lemma skip_ws_visible [simp]: "\<not> is_space c \<Longrightarrow> skip_ws (c # s) = c # s"
  by (simp add: skip_ws_def)

text \<open>What follows a number does not continue it.\<close>

definition ends_number :: "string \<Rightarrow> bool" where
  "ends_number s \<longleftrightarrow> s = [] \<or> (\<not> is_digit (hd s) \<and> hd s \<notin> {CHR ''.'', CHR ''e'', CHR ''E''})"

lemma scan_number_text:
  assumes "number_text s" and "ends_number t"
  shows "scan_number (s @ t) = Some (s, t)"
proof -
  obtain c cs where s: "s = c # cs" using assms(1) by (cases s) (auto simp: number_text_def all_digits_def)
  have dig: "\<forall>x \<in> set s. is_digit x"
    using assms(1) by (auto simp: number_text_def all_digits_def list_all_iff)
  then have c: "c \<noteq> CHR ''-''" by (auto simp: s is_digit_def)
  have take: "takeWhile is_digit (s @ t) = s" "dropWhile is_digit (s @ t) = t"
    using dig assms(2) by (auto simp: ends_number_def takeWhile_append2 dropWhile_append2
        takeWhile_eq_Nil_iff dropWhile_eq_self_iff)
  have "scan_int (s @ t) = Some (s, t)"
    using assms(1) take s by (auto simp: scan_int_def HasPrefix_def number_text_def Let_def)
  moreover have "scan_frac t = Some ([], t)" "scan_exp t = Some ([], t)"
    using assms(2) by (cases t; simp add: scan_frac_def scan_exp_def HasPrefix_def ends_number_def)+
  ultimately show ?thesis using c by (simp add: scan_number_def HasPrefix_def s)
qed

lemma parse_value_number:
  assumes "number_text s" and "ends_number t"
  shows "parse_value (Suc n) (s @ t) = Some (JNum s, t)"
proof -
  obtain c cs where s: "s = c # cs" using assms(1) by (cases s) (auto simp: number_text_def all_digits_def)
  have c: "is_digit c" using assms(1) by (auto simp: s number_text_def all_digits_def)
  then have ne: "\<not> is_space c" "c \<noteq> CHR ''{''" "c \<noteq> CHR ''[''" "c \<noteq> CHR 0x22" "c \<noteq> CHR ''n''"
    "c \<noteq> CHR ''t''" "c \<noteq> CHR ''f''"
    by (auto simp: is_digit_def is_space_def)
  with scan_number_text [OF assms] show ?thesis by (simp add: s HasPrefix_def)
qed

lemma parse_after_newline [simp]:
  "parse_value n (newline_indent d @ s) = parse_value n s"
  "parse_elems n (newline_indent d @ s) = parse_elems n s"
  "parse_members n (newline_indent d @ s) = parse_members n s"
proof -
  show v: "parse_value n (newline_indent d @ s) = parse_value n s" for n by (cases n) simp_all
  show "parse_elems n (newline_indent d @ s) = parse_elems n s" by (cases n) (simp_all add: v)
  show "parse_members n (newline_indent d @ s) = parse_members n s" by (cases n) simp_all
qed

text \<open>The first character of a value is visible and does not close an array.\<close>

lemma print_json_head:
  assumes "numbers_ok j"
  obtains c s where "print_json d j = c # s" "\<not> is_space c" "c \<noteq> CHR '']''"
proof (cases j)
  case (JNum s)
  with assms obtain c cs where c: "s = c # cs" "is_digit c"
    by (cases s) (auto simp: number_text_def all_digits_def)
  then have "\<not> is_space c" "c \<noteq> CHR '']''" by (auto simp: is_digit_def is_space_def)
  with JNum c that show ?thesis by simp
next
  case (JBool b)
  with that show ?thesis by (cases b) (auto simp: is_space_def)
next
  case (JArr es)
  with that show ?thesis by (cases "es = []") (auto simp: is_space_def)
next
  case (JObj ms)
  with that show ?thesis by (cases "ms = []") (auto simp: is_space_def)
qed (use that in \<open>auto simp: is_space_def quote_string_def\<close>)

text \<open>The parser, given enough fuel, reads \<open>x\<close> as \<open>y\<close> and leaves \<open>t\<close>.\<close>

definition eventually_parses :: "(nat \<Rightarrow> string \<Rightarrow> ('v \<times> string) option) \<Rightarrow> string \<Rightarrow> 'v \<Rightarrow> string \<Rightarrow> bool"
  where "eventually_parses p x y t \<longleftrightarrow> (\<exists>N. \<forall>n \<ge> N. p n x = Some (y, t))"

lemma eventually_parsesI: "(\<And>n. N \<le> n \<Longrightarrow> p n x = Some (y, t)) \<Longrightarrow> eventually_parses p x y t"
  by (auto simp: eventually_parses_def)

text \<open>One level of the parser uses one unit of fuel.\<close>

lemma eventually_parses_Suc:
  assumes "eventually_parses q x y t" and "\<And>n. q n x = Some (y, t) \<Longrightarrow> p (Suc n) x' = Some (y', t')"
  shows "eventually_parses p x' y' t'"
proof -
  obtain N where N: "\<And>n. N \<le> n \<Longrightarrow> q n x = Some (y, t)" using assms(1) by (auto simp: eventually_parses_def)
  show ?thesis
  proof (rule eventually_parsesI [of "Suc N"])
    fix n assume "Suc N \<le> n"
    then obtain m where "n = Suc m" "N \<le> m" by (cases n) auto
    then show "p n x' = Some (y', t')" using N assms(2) by simp
  qed
qed

lemma eventually_parses_Suc2:
  assumes "eventually_parses q x y t" and "eventually_parses r u v w"
    and "\<And>n. q n x = Some (y, t) \<Longrightarrow> r n u = Some (v, w) \<Longrightarrow> p (Suc n) x' = Some (y', t')"
  shows "eventually_parses p x' y' t'"
proof -
  obtain N M where N: "\<And>n. N \<le> n \<Longrightarrow> q n x = Some (y, t)" "\<And>n. M \<le> n \<Longrightarrow> r n u = Some (v, w)"
    using assms(1,2) by (auto simp: eventually_parses_def)
  show ?thesis
  proof (rule eventually_parsesI [of "Suc (max N M)"])
    fix n assume "Suc (max N M) \<le> n"
    then obtain m where "n = Suc m" "N \<le> m" "M \<le> m" by (cases n) auto
    then show "p n x' = Some (y', t')" using N assms(3) by simp
  qed
qed

lemma parse_elems_print:
  assumes "es \<noteq> []"
    and "\<And>e t. e \<in> set es \<Longrightarrow> ends_number t \<Longrightarrow> eventually_parses parse_value (pr e @ t) (json_valid e) t"
  shows "eventually_parses parse_elems
    (Join (map pr es) ('','' @ newline_indent d) @ newline_indent k @ CHR '']'' # t) (map json_valid es) t"
  using assms
proof (induction es rule: induct_list012)
  case (2 e)
  let ?r = "newline_indent k @ CHR '']'' # t"
  have "eventually_parses parse_value (pr e @ ?r) (json_valid e) ?r"
    by (rule 2) (simp_all add: ends_number_def newline_indent_def is_digit_def)
  then show ?case by (rule eventually_parses_Suc) (simp add: is_space_def)
next
  case (3 e e' es)
  let ?r = "Join (map pr (e' # es)) ('','' @ newline_indent d) @ newline_indent k @ CHR '']'' # t"
  have e: "eventually_parses parse_value (pr e @ CHR '','' # newline_indent d @ ?r) (json_valid e)
      (CHR '','' # newline_indent d @ ?r)"
    by (rule 3) (simp_all add: ends_number_def is_digit_def)
  have "eventually_parses parse_elems ?r (map json_valid (e' # es)) t"
    by (rule 3) (use "3.prems" in simp_all)
  with e show ?case by (rule eventually_parses_Suc2) (simp add: is_space_def)
qed simp

lemma parse_member:
  assumes "parse_value n (pr @ t) = Some (v, t)" and "skip_ws t = c # cs"
  shows "parse_members (Suc n) ((quote_string k @ '': '' @ pr) @ t) =
    (if c = CHR ''}'' then Some ([(to_valid k, v)], cs)
     else if c = CHR '','' then map_option (\<lambda>(ms, r). ((to_valid k, v) # ms, r)) (parse_members n cs)
     else None)"
proof -
  have sp: "parse_value n (CHR 0x20 # pr @ t) = parse_value n (pr @ t)"
    by (cases n) (simp_all add: skip_ws_def is_space_def)
  have "scan_string (escape_string k @ CHR 0x22 # CHR '':'' # CHR 0x20 # pr @ t) =
      Some (escape_string k, CHR '':'' # CHR 0x20 # pr @ t)"
    by (rule scan_escape_string)
  then show ?thesis
    using assms sp by (simp add: quote_string_def is_space_def HasPrefix_def unquote_escape_string)
qed

lemma parse_members_print:
  assumes "ms \<noteq> []"
    and "\<And>m t. m \<in> set ms \<Longrightarrow> ends_number t \<Longrightarrow>
      eventually_parses parse_value (pr (snd m) @ t) (json_valid (snd m)) t"
  shows "eventually_parses parse_members
    (Join (map (\<lambda>m. quote_string (fst m) @ '': '' @ pr (snd m)) ms) ('','' @ newline_indent d) @
       newline_indent k @ CHR ''}'' # t)
    (map (\<lambda>m. (to_valid (fst m), json_valid (snd m))) ms) t"
  using assms
proof (induction ms rule: induct_list012)
  case (2 m)
  let ?r = "newline_indent k @ CHR ''}'' # t"
  have "eventually_parses parse_value (pr (snd m) @ ?r) (json_valid (snd m)) ?r"
    by (rule 2) (simp_all add: ends_number_def newline_indent_def is_digit_def)
  then show ?case
  proof (rule eventually_parses_Suc)
    fix n assume "parse_value n (pr (snd m) @ ?r) = Some (json_valid (snd m), ?r)"
    from parse_member [OF this, of "CHR ''}''" t "fst m"] show "parse_members (Suc n)
      (Join (map (\<lambda>m. quote_string (fst m) @ '': '' @ pr (snd m)) [m]) ('','' @ newline_indent d) @ ?r) =
      Some (map (\<lambda>m. (to_valid (fst m), json_valid (snd m))) [m], t)" by (simp add: is_space_def)
  qed
next
  case (3 m m' ms)
  let ?pm = "\<lambda>m. quote_string (fst m) @ '': '' @ pr (snd m)"
  let ?r = "Join (map ?pm (m' # ms)) ('','' @ newline_indent d) @ newline_indent k @ CHR ''}'' # t"
  let ?q = "CHR '','' # newline_indent d @ ?r"
  have e: "eventually_parses parse_value (pr (snd m) @ ?q) (json_valid (snd m)) ?q"
    by (rule 3) (simp_all add: ends_number_def is_digit_def)
  have "eventually_parses parse_members ?r (map (\<lambda>m. (to_valid (fst m), json_valid (snd m))) (m' # ms)) t"
    by (rule 3) (use "3.prems" in simp_all)
  with e show ?case
  proof (rule eventually_parses_Suc2)
    fix n assume v: "parse_value n (pr (snd m) @ ?q) = Some (json_valid (snd m), ?q)"
      and ms: "parse_members n ?r = Some (map (\<lambda>m. (to_valid (fst m), json_valid (snd m))) (m' # ms), t)"
    from parse_member [OF v, of "CHR '',''" "newline_indent d @ ?r" "fst m"] ms
    show "parse_members (Suc n)
      (Join (map ?pm (m # m' # ms)) ('','' @ newline_indent d) @ newline_indent k @ CHR ''}'' # t) =
      Some (map (\<lambda>m. (to_valid (fst m), json_valid (snd m))) (m # m' # ms), t)"
      by (simp add: is_space_def)
  qed
qed simp

lemma parse_print:
  "numbers_ok j \<Longrightarrow> ends_number t \<Longrightarrow> eventually_parses parse_value (print_json d j @ t) (json_valid j) t"
proof (induction d j arbitrary: t rule: print_json.induct)
  case (3 d s)
  show ?case
  proof (rule eventually_parsesI [of 1])
    fix n :: nat assume "1 \<le> n"
    then obtain m where "n = Suc m" by (cases n) auto
    then show "parse_value n (print_json d (JNum s) @ t) = Some (json_valid (JNum s), t)"
      using parse_value_number [of s t m] 3 by (simp del: parse_value.simps)
  qed
next
  case (5 d es)
  show ?case
  proof (cases "es = []")
    case True
    then show ?thesis
      by (auto simp: is_space_def HasPrefix_def intro!: eventually_parsesI [of 1] dest!: Suc_le_D)
  next
    case False
    let ?b = "Join (map (print_json (Suc d)) es) ('','' @ newline_indent (Suc d)) @ newline_indent d @ CHR '']'' # t"
    have e: "eventually_parses parse_elems ?b (map json_valid es) t"
      using False 5 by (intro parse_elems_print) (auto simp: list_all_iff)
    obtain e es' where es: "es = e # es'" using False by (cases es) auto
    obtain c s where c: "print_json (Suc d) e = c # s" "\<not> is_space c" "c \<noteq> CHR '']''"
      using print_json_head [of e] "5.prems"(1) es by auto
    have "\<exists>s'. ?b = c # s'" using c es by (cases es') auto
    then have h: "\<not> HasPrefix (skip_ws ?b) '']''" using c by (auto simp: HasPrefix_def)
    from e show ?thesis
      by (rule eventually_parses_Suc) (use False h in \<open>simp add: is_space_def\<close>)
  qed
next
  case (6 d ms)
  show ?case
  proof (cases "ms = []")
    case True
    then show ?thesis
      by (auto simp: is_space_def HasPrefix_def intro!: eventually_parsesI [of 1] dest!: Suc_le_D)
  next
    case False
    let ?b = "Join (map (\<lambda>m. quote_string (fst m) @ '': '' @ print_json (Suc d) (snd m)) ms)
      ('','' @ newline_indent (Suc d)) @ newline_indent d @ CHR ''}'' # t"
    have e: "eventually_parses parse_members ?b (map (\<lambda>m. (to_valid (fst m), json_valid (snd m))) ms) t"
      using False 6 by (intro parse_members_print) (auto simp: list_all_iff)
    have "\<exists>s'. ?b = CHR 0x22 # s'" using False by (cases ms; cases "tl ms") (auto simp: quote_string_def)
    then have h: "\<not> HasPrefix (skip_ws ?b) ''}''" by (auto simp: HasPrefix_def is_space_def)
    from e show ?thesis
      by (rule eventually_parses_Suc) (use False h in \<open>simp add: is_space_def\<close>)
  qed
qed (auto simp: is_space_def HasPrefix_def quote_string_def scan_escape_string unquote_escape_string
    intro!: eventually_parsesI [of 1] dest!: Suc_le_D)

text \<open>The text parses back to the value it was written from.\<close>

lemma json_depth_valid [simp]: "json_depth (json_valid j) = json_depth j"
proof (induction j rule: json_depth.induct)
  case (1 es)
  have "fold (\<lambda>e. max (json_depth e)) (map json_valid es) n = fold (\<lambda>e. max (json_depth e)) es n" for n
    using 1 by (induction es arbitrary: n) simp_all
  then show ?case by simp
next
  case (2 ms)
  have "fold (\<lambda>m. max (json_depth (snd m))) (map (\<lambda>m. (to_valid (fst m), json_valid (snd m))) ms) n =
    fold (\<lambda>m. max (json_depth (snd m))) ms n" for n
    using 2 by (induction ms arbitrary: n) simp_all
  then show ?case by simp
qed simp_all

theorem parse_MarshalIndent:
  assumes "numbers_ok j" and "json_depth j \<le> 10000"
  shows "parse_json (MarshalIndent j) = Some (json_valid j)"
proof -
  let ?s = "MarshalIndent j"
  have "eventually_parses parse_value (print_json 0 j @ []) (json_valid j) []"
    by (rule parse_print) (simp_all add: assms ends_number_def)
  then obtain N where N: "\<And>n. N \<le> n \<Longrightarrow> parse_value n ?s = Some (json_valid j, [])"
    by (auto simp: eventually_parses_def MarshalIndent_def)
  have "parse_value (2 * length ?s + 1) ?s = parse_value (max N (2 * length ?s + 1)) ?s"
    by (rule parse_fuel) simp_all
  with N assms(2) show ?thesis by (simp add: parse_json_def skip_ws_def)
qed

text \<open>Text that is already UTF-8 is kept.\<close>

definition utf8_ok :: "string \<Rightarrow> bool" where
  "utf8_ok s \<longleftrightarrow> to_valid s = s"

lemma to_valid_ascii: "\<forall>c \<in> set s. (of_char c :: nat) < 0x80 \<Longrightarrow> to_valid s = s"
  by (induction s) (simp_all add: utf8_width_def)

end
