(* ===== verification/Go_Sha256.thy ===== *)
theory Go_Sha256
  imports Nova_Prelude
begin

unbundle bit_operations_syntax

text \<open>
  Go's \<open>crypto/sha256\<close> and \<open>encoding/hex\<close>, which the operator uses to fingerprint secrets:
  SHA-256 as FIPS 180-4 defines it, on byte strings and 32-bit words.
\<close>

section \<open>Constants\<close>

text \<open>
  The standard derives its constants: the round constants are the first 32 bits of the fractional
  parts of the cube roots of the first 64 primes, the initial hash those of the square roots of the
  first 8. \<open>root_bits\<close> finds an integer root bit by bit, highest first.
\<close>

definition primes_upto :: "nat \<Rightarrow> nat list" where
  "primes_upto n = filter (\<lambda>p. list_all (\<lambda>d. p mod d \<noteq> 0) [2..<p]) [2..<Suc n]"

fun root_bits :: "nat \<Rightarrow> nat \<Rightarrow> nat \<Rightarrow> nat \<Rightarrow> nat" where
  "root_bits e n 0 r = r"
| "root_bits e n (Suc i) r =
     (let r' = r + 2 ^ i in root_bits e n i (if r' ^ e \<le> n then r' else r))"

definition root_fraction :: "nat \<Rightarrow> nat \<Rightarrow> uint32" where
  "root_fraction e p = of_nat (root_bits e (p * 2 ^ (32 * e)) 37 0)"

definition sha256_k :: "uint32 list" where
  "sha256_k = map (root_fraction 3) (primes_upto 311)"

definition sha256_init :: "uint32 list" where
  "sha256_init = map (root_fraction 2) [2, 3, 5, 7, 11, 13, 17, 19]"

text \<open>The bits computed are those of the root, for every radicand the 37 bits can hold.\<close>

lemma root_bits_root:
  assumes "r ^ e \<le> n" and "n < (r + 2 ^ i) ^ e"
  shows "root_bits e n i r ^ e \<le> n \<and> n < Suc (root_bits e n i r) ^ e"
  using assms
proof (induction i arbitrary: r)
  case 0
  then show ?case by simp
next
  case (Suc i)
  have "n < (r + 2 ^ i + 2 ^ i) ^ e" using Suc.prems by (simp add: mult_2 add.assoc)
  then show ?case
    using Suc.IH [of "r + 2 ^ i"] Suc.IH [of r] Suc.prems by (simp add: Let_def not_le)
qed

lemma root_fraction_root:
  assumes "e = 2 \<or> e = 3" and "p < 2 ^ 10"
  shows "\<exists>q. q ^ e \<le> p * 2 ^ (32 * e) \<and> p * 2 ^ (32 * e) < Suc q ^ e \<and> root_fraction e p = of_nat q"
proof -
  have "p * 2 ^ (32 * e) < (2 ^ 37) ^ e" using assms by auto
  moreover have "(0 :: nat) ^ e \<le> p * 2 ^ (32 * e)" using assms by auto
  ultimately show ?thesis
    using root_bits_root [of 0 e "p * 2 ^ (32 * e)" 37] by (auto simp: root_fraction_def)
qed

lemma primes_upto_prime:
  "p \<in> set (primes_upto n) \<longleftrightarrow> 2 \<le> p \<and> p \<le> n \<and> (\<forall>d. d dvd p \<longrightarrow> 2 \<le> d \<longrightarrow> d = p)"
proof -
  have "d = p" if "\<forall>d\<in>{2..<p}. 0 < p mod d" "d dvd p" "2 \<le> d" "2 \<le> p" for d
  proof (rule ccontr)
    assume "d \<noteq> p"
    then have "d < p" using that dvd_imp_le [of d p] by simp
    with that(1,3) have "0 < p mod d" by (simp only: atLeastLessThan_iff Ball_def)
    then show False using that by simp
  qed
  moreover have "p mod d \<noteq> 0" if "\<forall>d. d dvd p \<longrightarrow> 2 \<le> d \<longrightarrow> d = p" "2 \<le> d" "d < p" for d
    using that by (auto simp: mod_eq_0_iff_dvd)
  ultimately show ?thesis by (auto simp: primes_upto_def list_all_iff)
qed

section \<open>The compression function\<close>

definition rotr :: "nat \<Rightarrow> uint32 \<Rightarrow> uint32" where
  "rotr n w = (drop_bit n w) OR (push_bit (32 - n) w)"

text \<open>The message schedule, kept last word first.\<close>

fun schedule :: "nat \<Rightarrow> uint32 list \<Rightarrow> uint32 list" where
  "schedule 0 ws = ws"
| "schedule (Suc n) ws =
     (let a = ws ! 1; b = ws ! 14;
          s1 = rotr 17 a XOR rotr 19 a XOR drop_bit 10 a;
          s0 = rotr 7 b XOR rotr 18 b XOR drop_bit 3 b
      in schedule n ((s1 + ws ! 6 + s0 + ws ! 15) # ws))"

fun rounds :: "(uint32 \<times> uint32) list \<Rightarrow> uint32 list \<Rightarrow> uint32 list" where
  "rounds ((k, w) # kws) [a, b, c, d, e, f, g, h] =
     (let t1 = h + (rotr 6 e XOR rotr 11 e XOR rotr 25 e) + ((e AND f) XOR (NOT e AND g)) + k + w;
          t2 = (rotr 2 a XOR rotr 13 a XOR rotr 22 a) + ((a AND b) XOR (a AND c) XOR (b AND c))
      in rounds kws [t1 + t2, a, b, c, d + t1, e, f, g])"
| "rounds _ hs = hs"

definition sha256_block :: "uint32 list \<Rightarrow> uint32 list \<Rightarrow> uint32 list" where
  "sha256_block hs block =
     map2 (+) hs (rounds (zip sha256_k (rev (schedule 48 (rev block)))) hs)"

section \<open>Padding and words\<close>

definition be_bytes :: "nat \<Rightarrow> nat \<Rightarrow> nat list" where
  "be_bytes k n = map (\<lambda>i. n div 256 ^ (k - 1 - i) mod 256) [0..<k]"

definition sha256_pad :: "nat list \<Rightarrow> nat list" where
  "sha256_pad bs =
     bs @ 0x80 # replicate ((119 - length bs mod 64) mod 64) 0 @ be_bytes 8 (8 * length bs)"

fun be_words :: "nat list \<Rightarrow> uint32 list" where
  "be_words (a # b # c # d # bs) = of_nat (((a * 256 + b) * 256 + c) * 256 + d) # be_words bs"
| "be_words _ = []"

fun sha256_blocks :: "uint32 list \<Rightarrow> nat \<Rightarrow> uint32 list \<Rightarrow> uint32 list" where
  "sha256_blocks hs 0 ws = hs"
| "sha256_blocks hs (Suc n) ws = sha256_blocks (sha256_block hs (take 16 ws)) n (drop 16 ws)"

definition sha256_sum :: "string \<Rightarrow> nat list" where
  "sha256_sum s =
     (let ws = be_words (sha256_pad (map of_char s))
      in concat (map (\<lambda>w. be_bytes 4 (unat w)) (sha256_blocks sha256_init (length ws div 16) ws)))"

definition EncodeToString :: "nat list \<Rightarrow> string" where
  "EncodeToString bs =
     concat (map (\<lambda>b. [''0123456789abcdef'' ! (b div 16), ''0123456789abcdef'' ! (b mod 16)]) bs)"

section \<open>Shape\<close>

lemma length_rounds [simp]: "length (rounds kws hs) = length hs"
  by (induction kws hs rule: rounds.induct) (simp_all add: Let_def)

lemma length_sha256_blocks: "length hs = 8 \<Longrightarrow> length (sha256_blocks hs n ws) = 8"
  by (induction n arbitrary: hs ws) (simp_all add: sha256_block_def)

lemma length_EncodeToString: "length (EncodeToString bs) = 2 * length bs"
  by (induction bs) (simp_all add: EncodeToString_def)

text \<open>A fingerprint is 64 characters long, so it is never empty.\<close>

lemma length_fingerprint: "length (EncodeToString (sha256_sum s)) = 64"
proof -
  have "length (concat (map (\<lambda>w :: uint32. be_bytes 4 (unat w)) hs)) = 4 * length hs" for hs
    by (induction hs) (simp_all add: be_bytes_def)
  then show ?thesis
    by (simp add: length_EncodeToString sha256_sum_def Let_def length_sha256_blocks sha256_init_def)
qed

text \<open>The printed fingerprint determines the digest.\<close>

lemma hex_digits_inject:
  assumes "a < 16" and "b < 16" and "''0123456789abcdef'' ! a = ''0123456789abcdef'' ! b"
  shows "a = b"
  using assms nth_eq_iff_index_eq [of "''0123456789abcdef''" a b] by simp

lemma EncodeToString_inject:
  assumes "list_all (\<lambda>b. b < 256) bs" and "list_all (\<lambda>b. b < 256) cs"
  shows "EncodeToString bs = EncodeToString cs \<longleftrightarrow> bs = cs"
  using assms
proof (induction bs arbitrary: cs)
  case Nil
  then show ?case by (cases cs) (simp_all add: EncodeToString_def)
next
  case (Cons b bs)
  show ?case
  proof (cases cs)
    case Nil
    then show ?thesis by (simp add: EncodeToString_def)
  next
    case cs: (Cons c cs')
    have "b = c" if "b div 16 = c div 16" "b mod 16 = c mod 16"
      using that by (metis div_mult_mod_eq)
    moreover have "b div 16 < 16" "c div 16 < 16" using Cons.prems cs by auto
    ultimately show ?thesis
      using Cons cs hex_digits_inject [of "b div 16" "c div 16"] hex_digits_inject [of "b mod 16" "c mod 16"]
      by (auto simp: EncodeToString_def)
  qed
qed

lemma sha256_sum_bytes: "list_all (\<lambda>b. b < 256) (sha256_sum s)"
  by (auto simp: sha256_sum_def Let_def list_all_iff be_bytes_def)

lemma fingerprint_inject:
  "EncodeToString (sha256_sum s) = EncodeToString (sha256_sum t) \<longleftrightarrow> sha256_sum s = sha256_sum t"
  by (rule EncodeToString_inject) (rule sha256_sum_bytes)+

end
