(* ===== verification/Operator.thy ===== *)
theory Operator
  imports Kube_Api Go_Marshal Go_Sha256
    "HOL-Library.List_Lexorder" "HOL-Library.Char_ord" "HOL-Library.Product_Lexorder"
begin

text \<open>
  The operator's controller (\<open>internal/operator/controller/novaroutecluster_controller.go\<close>):
  the objects it derives from a NovaRouteCluster, the calls it makes to put them in place,
  and \<open>Reconcile\<close> with its finalizer, error and status handling.  The Kubernetes client is
  the parameter \<open>K\<close>; every function takes the client's state and returns it.  Strings are
  ordered byte by byte, as Go orders them.  Logging is left out.
\<close>

section \<open>Errors and small helpers\<close>

datatype op_error =
    ApiError kerror
  | ErrSecretKeyNotFound string string string
  | Wrapped string op_error

text \<open>\<open>fmt.Errorf("msg: %w", err)\<close> around the result of a call.\<close>

definition wrap :: "string \<Rightarrow> op_error option \<times> 's \<Rightarrow> op_error option \<times> 's" where
  "wrap msg r = (map_option (Wrapped msg) (fst r), snd r)"

definition itoa :: "int \<Rightarrow> string" where
  "itoa i = (if i < 0 then CHR ''-'' # dec (nat (- i)) else dec (nat i))"

definition novaRouteClusterFinalizer :: string where
  "novaRouteClusterFinalizer = ''novaroute.io/finalizer''"

definition rotationHashAnnotation :: string where
  "rotationHashAnnotation = ''novaroute.io/secret-hash''"

abbreviation cl_name :: "NovaRouteCluster \<Rightarrow> string" where
  "cl_name cl \<equiv> om_Name (nc_Meta cl)"

abbreviation cl_ns :: "NovaRouteCluster \<Rightarrow> string" where
  "cl_ns cl \<equiv> om_Namespace (nc_Meta cl)"

abbreviation cl_agent :: "NovaRouteCluster \<Rightarrow> NovaRouteAgentSpec" where
  "cl_agent cl \<equiv> sp_Agent (nc_Spec cl)"

definition getLabels :: "NovaRouteCluster \<Rightarrow> string \<Rightarrow> strmap" where
  "getLabels cl component =
     [(''app.kubernetes.io/name'', ''novaroute''),
      (''app.kubernetes.io/instance'', cl_name cl),
      (''app.kubernetes.io/component'', component),
      (''app.kubernetes.io/version'', sp_Version (nc_Spec cl)),
      (''app.kubernetes.io/managed-by'', ''novaroute-operator'')]"

definition getSelectorLabels :: "NovaRouteCluster \<Rightarrow> string \<Rightarrow> strmap" where
  "getSelectorLabels cl component =
     [(''app.kubernetes.io/name'', ''novaroute''),
      (''app.kubernetes.io/instance'', cl_name cl),
      (''app.kubernetes.io/component'', component)]"

definition getServiceAccountName :: "NovaRouteCluster \<Rightarrow> string" where
  "getServiceAccountName cl = cl_name cl @ ''-agent''"

definition getAgentImage :: "NovaRouteCluster \<Rightarrow> string" where
  "getAgentImage cl =
     (if as_Image (cl_agent cl) \<noteq> [] then as_Image (cl_agent cl)
      else
        let repo = (if sp_ImageRepository (nc_Spec cl) \<noteq> [] then sp_ImageRepository (nc_Spec cl)
                    else ''ghcr.io/azrtydxb/novaroute'')
        in repo @ ''/novaroute-agent:'' @ sp_Version (nc_Spec cl))"

definition getFRRImage :: "NovaRouteCluster \<Rightarrow> string" where
  "getFRRImage cl =
     (if fs_Image (sp_FRR (nc_Spec cl)) \<noteq> [] then fs_Image (sp_FRR (nc_Spec cl))
      else ''ghcr.io/azrtydxb/novaroute/novaroute-frr:10.5.1'')"

definition metricsPort :: "NovaRouteCluster \<Rightarrow> int" where
  "metricsPort cl = (case as_MetricsPort (cl_agent cl) of None \<Rightarrow> 9102 | Some p \<Rightarrow> p)"

text \<open>The metadata of an object the controller builds: a name, a namespace and labels.\<close>

definition new_meta :: "string \<Rightarrow> string \<Rightarrow> strmap \<Rightarrow> ObjectMeta" where
  "new_meta n ns labels =
     \<lparr>om_Name = n, om_Namespace = ns, om_UID = [], om_ResourceVersion = [], om_Generation = 0,
      om_DeletionTimestamp = None, om_Labels = labels, om_Finalizers = [], om_OwnerReferences = []\<rparr>"

definition clusterRoleName :: "NovaRouteCluster \<Rightarrow> string" where
  "clusterRoleName cl = cl_ns cl @ ''-'' @ cl_name cl @ ''-agent''"

section \<open>Putting an object in place\<close>

definition createOrUpdate :: "'s kube \<Rightarrow> kobject \<Rightarrow> 's \<Rightarrow> op_error option \<times> 's" where
  "createOrUpdate K ob s =
     (case kGet K (key_of ob) s of
        (Inl e, s') \<Rightarrow>
          if IsNotFound e then
            (case kCreate K ob s' of (e', s'') \<Rightarrow> (map_option ApiError e', s''))
          else (Some (Wrapped ''getting existing resource'' (ApiError e)), s')
      | (Inr existing, s') \<Rightarrow>
          (case kUpdate K (SetResourceVersion (om_ResourceVersion (meta_of existing)) ob) s' of
             (Inl e, s'') \<Rightarrow> (Some (ApiError e), s'')
           | (Inr _, s'') \<Rightarrow> (None, s'')))"

definition createOrUpdateOwned ::
    "'s kube \<Rightarrow> NovaRouteCluster \<Rightarrow> kobject \<Rightarrow> 's \<Rightarrow> op_error option \<times> 's" where
  "createOrUpdateOwned K cl ob s =
     (case SetControllerReference K (nc_Meta cl) (meta_of ob) of
        Inl e \<Rightarrow> (Some (Wrapped ''setting controller reference'' (ApiError e)), s)
      | Inr m \<Rightarrow> createOrUpdate K (map_meta (\<lambda>_. m) ob) s)"

definition resolveSecretKeyRef ::
    "'s kube \<Rightarrow> string \<Rightarrow> SecretKeySelector \<Rightarrow> 's \<Rightarrow> (op_error + string) \<times> 's" where
  "resolveSecretKeyRef K ns ref s =
     (case getSecret K ns (sk_Name ref) s of
        (Inl e, s') \<Rightarrow> (Inl (Wrapped ''getting secret'' (ApiError e)), s')
      | (Inr secret, s') \<Rightarrow>
          (case map_of (sec_Data secret) (sk_Key ref) of
             None \<Rightarrow> (Inl (ErrSecretKeyNotFound (sk_Key ref) ns (sk_Name ref)), s')
           | Some val \<Rightarrow> (Inr val, s')))"

section \<open>RBAC\<close>

definition serviceAccount :: "NovaRouteCluster \<Rightarrow> kobject" where
  "serviceAccount cl =
     OServiceAccount \<lparr>sa_Meta = new_meta (getServiceAccountName cl) (cl_ns cl) (getLabels cl ''agent'')\<rparr>"

definition reconcileServiceAccount :: "'s kube \<Rightarrow> NovaRouteCluster \<Rightarrow> 's \<Rightarrow> op_error option \<times> 's" where
  "reconcileServiceAccount K cl s = createOrUpdateOwned K cl (serviceAccount cl) s"

definition clusterRole :: "NovaRouteCluster \<Rightarrow> kobject" where
  "clusterRole cl =
     OClusterRole
       \<lparr>cr_Meta = new_meta (clusterRoleName cl) [] (getLabels cl ''agent''),
        cr_Rules =
          [\<lparr>pr_APIGroups = [[]], pr_Resources = [''nodes''], pr_Verbs = [''get'', ''list'', ''watch'']\<rparr>,
           \<lparr>pr_APIGroups = [[]], pr_Resources = [''events''], pr_Verbs = [''create'', ''patch'']\<rparr>]\<rparr>"

definition reconcileClusterRole :: "'s kube \<Rightarrow> NovaRouteCluster \<Rightarrow> 's \<Rightarrow> op_error option \<times> 's" where
  "reconcileClusterRole K cl s = createOrUpdate K (clusterRole cl) s"

definition clusterRoleBinding :: "NovaRouteCluster \<Rightarrow> kobject" where
  "clusterRoleBinding cl =
     OClusterRoleBinding
       \<lparr>crb_Meta = new_meta (clusterRoleName cl) [] (getLabels cl ''agent''),
        crb_RoleRef = \<lparr>rf_APIGroup = ''rbac.authorization.k8s.io'', rf_Kind = ''ClusterRole'',
          rf_Name = clusterRoleName cl\<rparr>,
        crb_Subjects =
          [\<lparr>sj_Kind = ''ServiceAccount'', sj_Name = getServiceAccountName cl, sj_Namespace = cl_ns cl\<rparr>]\<rparr>"

definition reconcileClusterRoleBinding ::
    "'s kube \<Rightarrow> NovaRouteCluster \<Rightarrow> 's \<Rightarrow> op_error option \<times> 's" where
  "reconcileClusterRoleBinding K cl s = createOrUpdate K (clusterRoleBinding cl) s"

definition reconcileRBAC :: "'s kube \<Rightarrow> NovaRouteCluster \<Rightarrow> 's \<Rightarrow> op_error option \<times> 's" where
  "reconcileRBAC K cl s =
     seq (wrap ''ServiceAccount'' (reconcileServiceAccount K cl s)) (\<lambda>s.
     seq (wrap ''ClusterRole'' (reconcileClusterRole K cl s)) (\<lambda>s.
     wrap ''ClusterRoleBinding'' (reconcileClusterRoleBinding K cl s)))"

section \<open>The agent's configuration\<close>

record agentPeerConfig =
  ap_NeighborAddress :: string
  ap_RemoteAS :: uint32
  ap_Description :: string
  ap_BFDEnabled :: bool
  ap_BFDMinRxMs :: uint32
  ap_BFDMinTxMs :: uint32
  ap_BFDDetectMult :: uint32
  ap_Keepalive :: uint32
  ap_HoldTime :: uint32
  ap_Password :: string
  ap_MaxPrefixes :: uint32

record agentBGPConfig =
  ab_LocalAS :: uint32
  ab_AsBase :: uint32
  ab_RouterID :: string
  ab_AutoRouterID :: bool
  ab_Peers :: "agentPeerConfig list"

record agentFRRConfig =
  af_SocketDir :: string
  af_ConnectTimeout :: int
  af_RetryInterval :: int

record agentAllowedPrefixes =
  aa_Type :: string
  aa_AllowedCIDRs :: "string list"

record agentOwnerEntry =
  ao_Token :: string
  ao_AllowedPrefixes :: agentAllowedPrefixes

record agentConfig =
  ac_ListenSocket :: string
  ac_FRR :: agentFRRConfig
  ac_BGP :: "agentBGPConfig option"
  ac_Owners :: "(string, agentOwnerEntry) gomap"
  ac_LogLevel :: string
  ac_MetricsAddress :: string
  ac_DisconnectGracePeriod :: int

text \<open>How the encoder sees them: the fields in their order, an \<open>omitempty\<close> field only if it
  is not empty, the keys of a map sorted.\<close>

definition omitempty :: "bool \<Rightarrow> string \<Rightarrow> json \<Rightarrow> (string \<times> json) list" where
  "omitempty emp k v = (if emp then [] else [(k, v)])"

definition omit_string :: "string \<Rightarrow> string \<Rightarrow> (string \<times> json) list" where
  "omit_string k s = omitempty (s = []) k (JStr s)"

definition omit_uint :: "string \<Rightarrow> uint32 \<Rightarrow> (string \<times> json) list" where
  "omit_uint k w = omitempty (w = 0) k (JNum (dec32 w))"

definition omit_bool :: "string \<Rightarrow> bool \<Rightarrow> (string \<times> json) list" where
  "omit_bool k b = omitempty (\<not> b) k (JBool b)"

definition encode_agentPeerConfig :: "agentPeerConfig \<Rightarrow> json" where
  "encode_agentPeerConfig p =
     JObj
       ([(''neighbor_address'', JStr (ap_NeighborAddress p)),
         (''remote_as'', JNum (dec32 (ap_RemoteAS p)))] @
        omit_string ''description'' (ap_Description p) @
        omit_bool ''bfd_enabled'' (ap_BFDEnabled p) @
        omit_uint ''bfd_min_rx_ms'' (ap_BFDMinRxMs p) @
        omit_uint ''bfd_min_tx_ms'' (ap_BFDMinTxMs p) @
        omit_uint ''bfd_detect_multiplier'' (ap_BFDDetectMult p) @
        omit_uint ''keepalive'' (ap_Keepalive p) @
        omit_uint ''hold_time'' (ap_HoldTime p) @
        omit_string ''password'' (ap_Password p) @
        omit_uint ''max_prefixes'' (ap_MaxPrefixes p))"

definition encode_agentBGPConfig :: "agentBGPConfig \<Rightarrow> json" where
  "encode_agentBGPConfig b =
     JObj
       (omit_uint ''local_as'' (ab_LocalAS b) @
        omit_uint ''as_base'' (ab_AsBase b) @
        omit_string ''router_id'' (ab_RouterID b) @
        omit_bool ''auto_router_id'' (ab_AutoRouterID b) @
        omitempty (ab_Peers b = []) ''peers'' (JArr (map encode_agentPeerConfig (ab_Peers b))))"

definition encode_agentFRRConfig :: "agentFRRConfig \<Rightarrow> json" where
  "encode_agentFRRConfig f =
     JObj [(''socket_dir'', JStr (af_SocketDir f)),
           (''connect_timeout'', JNum (itoa (af_ConnectTimeout f))),
           (''retry_interval'', JNum (itoa (af_RetryInterval f)))]"

definition encode_agentOwnerEntry :: "agentOwnerEntry \<Rightarrow> json" where
  "encode_agentOwnerEntry e =
     JObj [(''token'', JStr (ao_Token e)),
           (''allowed_prefixes'',
            JObj [(''type'', JStr (aa_Type (ao_AllowedPrefixes e))),
                  (''allowed_cidrs'', JArr (map JStr (aa_AllowedCIDRs (ao_AllowedPrefixes e))))])]"

definition encode_agentConfig :: "agentConfig \<Rightarrow> json" where
  "encode_agentConfig c =
     JObj
       ([(''listen_socket'', JStr (ac_ListenSocket c)),
         (''frr'', encode_agentFRRConfig (ac_FRR c))] @
        (case ac_BGP c of None \<Rightarrow> [] | Some b \<Rightarrow> [(''bgp'', encode_agentBGPConfig b)]) @
        [(''owners'', JObj (map (\<lambda>(k, e). (k, encode_agentOwnerEntry e)) (sort_key fst (ac_Owners c)))),
         (''log_level'', JStr (ac_LogLevel c)),
         (''metrics_address'', JStr (ac_MetricsAddress c)),
         (''disconnect_grace_period'', JNum (itoa (ac_DisconnectGracePeriod c)))])"

definition ownerEntries :: "OwnerSpec list \<Rightarrow> (string, agentOwnerEntry) gomap" where
  "ownerEntries owners =
     for_each (\<lambda>o' m. gm_put m (ow_Name o')
       \<lparr>ao_Token = ow_Token o',
        ao_AllowedPrefixes = \<lparr>aa_Type = ow_PrefixType o', aa_AllowedCIDRs = ow_AllowedCIDRs o'\<rparr>\<rparr>)
       owners []"

definition peerConfig_of :: "BGPPeerSpec \<Rightarrow> string \<Rightarrow> agentPeerConfig" where
  "peerConfig_of p password =
     \<lparr>ap_NeighborAddress = ps_Address p, ap_RemoteAS = ps_RemoteAS p,
      ap_Description = ps_Description p, ap_BFDEnabled = ps_BFD p, ap_BFDMinRxMs = ps_BFDMinRxMs p,
      ap_BFDMinTxMs = ps_BFDMinTxMs p, ap_BFDDetectMult = ps_BFDDetectMultiplier p,
      ap_Keepalive = ps_Keepalive p, ap_HoldTime = ps_HoldTime p, ap_Password = password,
      ap_MaxPrefixes = ps_MaxPrefixes p\<rparr>"

text \<open>The loop over the peers, which stops at the first password that cannot be resolved.\<close>

fun peerConfigs ::
    "'s kube \<Rightarrow> string \<Rightarrow> BGPPeerSpec list \<Rightarrow> 's \<Rightarrow> (op_error + agentPeerConfig list) \<times> 's" where
  "peerConfigs K ns [] s = (Inr [], s)"
| "peerConfigs K ns (p # ps) s =
     (case (case ps_PasswordSecretRef p of
              None \<Rightarrow> (Inr [], s)
            | Some ref \<Rightarrow> resolveSecretKeyRef K ns ref s) of
        (Inl e, s') \<Rightarrow> (Inl (Wrapped ''resolving BGP peer password secret'' e), s')
      | (Inr password, s') \<Rightarrow>
          (case peerConfigs K ns ps s' of
             (Inl e, s'') \<Rightarrow> (Inl e, s'')
           | (Inr cfgs, s'') \<Rightarrow> (Inr (peerConfig_of p password # cfgs), s'')))"

definition agentConfig_of :: "NovaRouteCluster \<Rightarrow> agentPeerConfig list \<Rightarrow> agentConfig" where
  "agentConfig_of cl peers =
     \<lparr>ac_ListenSocket = (if as_SocketPath (cl_agent cl) \<noteq> [] then as_SocketPath (cl_agent cl)
                         else ''/run/novaroute/novaroute.sock''),
      ac_FRR = \<lparr>af_SocketDir = ''/run/frr'', af_ConnectTimeout = 10, af_RetryInterval = 5\<rparr>,
      ac_BGP = map_option (\<lambda>b. \<lparr>ab_LocalAS = bs_LocalAS b, ab_AsBase = bs_AsBase b,
          ab_RouterID = bs_RouterID b, ab_AutoRouterID = bs_AutoRouterID b, ab_Peers = peers\<rparr>)
        (as_BGP (cl_agent cl)),
      ac_Owners = ownerEntries (as_Owners (cl_agent cl)),
      ac_LogLevel = (if as_LogLevel (cl_agent cl) \<noteq> [] then as_LogLevel (cl_agent cl) else ''info''),
      ac_MetricsAddress = CHR '':'' # itoa (metricsPort cl),
      ac_DisconnectGracePeriod = 30\<rparr>"

definition agentConfigMap :: "NovaRouteCluster \<Rightarrow> agentConfig \<Rightarrow> kobject" where
  "agentConfigMap cl cfg =
     OConfigMap
       \<lparr>cm_Meta = new_meta (cl_name cl @ ''-config'') (cl_ns cl) (getLabels cl ''config''),
        cm_Data = [(''config.json'', MarshalIndent (encode_agentConfig cfg))]\<rparr>"

definition clusterPeers :: "NovaRouteCluster \<Rightarrow> BGPPeerSpec list" where
  "clusterPeers cl = (case as_BGP (cl_agent cl) of None \<Rightarrow> [] | Some b \<Rightarrow> bs_Peers b)"

definition reconcileAgentConfigMap :: "'s kube \<Rightarrow> NovaRouteCluster \<Rightarrow> 's \<Rightarrow> op_error option \<times> 's" where
  "reconcileAgentConfigMap K cl s =
     (case peerConfigs K (cl_ns cl) (clusterPeers cl) s of
        (Inl e, s') \<Rightarrow> (Some e, s')
      | (Inr peers, s') \<Rightarrow> createOrUpdateOwned K cl (agentConfigMap cl (agentConfig_of cl peers)) s')"

section \<open>The FRR bootstrap files\<close>

definition unlines :: "string list \<Rightarrow> string" where
  "unlines ls = concat (map (\<lambda>l. l @ [CHR 0x0A]) ls)"

definition boolToYesNo :: "bool \<Rightarrow> string" where
  "boolToYesNo b = (if b then ''yes'' else ''no'')"

definition renderDaemonsFile :: "bool \<Rightarrow> bool \<Rightarrow> bool \<Rightarrow> string" where
  \<open>renderDaemonsFile bgpd ospfd bfdd =
     unlines
       [''# FRR daemon configuration -- enable the daemons NovaRoute needs.'',
        ''#'',
        ''# NovaRoute manages all configuration via the VTY Unix socket interface.'',
        ''# Each enabled daemon creates a <daemon>.vty socket in /run/frr/.'',
        ''bgpd='' @ boolToYesNo bgpd,
        ''ospfd='' @ boolToYesNo ospfd,
        ''ospf6d=no'',
        ''ripd=no'',
        ''ripngd=no'',
        ''isisd=no'',
        ''pimd=no'',
        ''pim6d=no'',
        ''ldpd=no'',
        ''nhrpd=no'',
        ''eigrpd=no'',
        ''babeld=no'',
        ''sharpd=no'',
        ''pbrd=no'',
        ''bfdd='' @ boolToYesNo bfdd,
        ''fabricd=no'',
        ''vrrpd=no'',
        ''pathd=no'',
        [],
        ''#'',
        ''# Zebra is always started and cannot be disabled.'',
        ''#'',
        [],
        ''# Management daemon.'',
        ''mgmtd=yes'',
        [],
        ''# Options for the daemons.'',
        ''mgmtd_options="--log syslog informational"'',
        ''zebra_options="-A 127.0.0.1 -s 90000000"'',
        ''bgpd_options="-A 127.0.0.1"'',
        ''ospfd_options="-A 127.0.0.1"'',
        ''bfdd_options="-A 0.0.0.0"'',
        [],
        ''# The FRR_DEFAULT_PROFILE sets the default configuration profile.'',
        ''# Use "datacenter" for data center deployments.'',
        ''frr_profile="datacenter"'',
        [],
        ''# Maximum number of FIB routes.'',
        ''MAX_FIB_ROUTES=1000000'',
        [],
        ''# watchfrr options -- restart daemons that crash.'',
        ''watchfrr_enable=yes'',
        ''watchfrr_options=""'']\<close>

definition frrConf :: string where
  "frrConf =
     unlines
       [''! FRR bootstrap configuration.'',
        ''! NovaRoute manages runtime configuration via the VTY socket interface.'',
        ''! This file provides minimal bootstrap settings.'',
        ''!'',
        ''frr version 10.5.1'',
        ''frr defaults datacenter'',
        ''!'',
        ''log syslog informational'',
        ''!'',
        ''! No static configuration -- NovaRoute will configure BGP, BFD, and OSPF'',
        ''! dynamically via the VTY Unix sockets.'',
        ''!'',
        ''line vty'',
        ''!'']"

definition vtyshConf :: string where
  "vtyshConf = unlines [''! vtysh configuration'', ''service integrated-vtysh-config'']"

definition daemon_enabled :: "(FRRDaemons \<Rightarrow> bool option) \<Rightarrow> NovaRouteCluster \<Rightarrow> bool" where
  "daemon_enabled f cl =
     (case fs_Daemons (sp_FRR (nc_Spec cl)) of
        None \<Rightarrow> True
      | Some d \<Rightarrow> (case f d of None \<Rightarrow> True | Some b \<Rightarrow> b))"

definition frrBootstrapConfigMap :: "NovaRouteCluster \<Rightarrow> kobject" where
  "frrBootstrapConfigMap cl =
     OConfigMap
       \<lparr>cm_Meta = new_meta (cl_name cl @ ''-frr-bootstrap'') (cl_ns cl) (getLabels cl ''frr-config''),
        cm_Data =
          [(''daemons'', renderDaemonsFile (daemon_enabled fd_BGPD cl) (daemon_enabled fd_OSPFD cl)
              (daemon_enabled fd_BFDD cl)),
           (''frr.conf'', frrConf),
           (''vtysh.conf'', vtyshConf)]\<rparr>"

definition reconcileFRRBootstrapConfigMap ::
    "'s kube \<Rightarrow> NovaRouteCluster \<Rightarrow> 's \<Rightarrow> op_error option \<times> 's" where
  "reconcileFRRBootstrapConfigMap K cl s = createOrUpdateOwned K cl (frrBootstrapConfigMap cl) s"

definition reconcileConfigMaps :: "'s kube \<Rightarrow> NovaRouteCluster \<Rightarrow> 's \<Rightarrow> op_error option \<times> 's" where
  "reconcileConfigMaps K cl s =
     seq (wrap ''agent config'' (reconcileAgentConfigMap K cl s)) (\<lambda>s.
     wrap ''FRR bootstrap'' (reconcileFRRBootstrapConfigMap K cl s))"

section \<open>Secret rotation\<close>

definition secretRefs :: "NovaRouteCluster \<Rightarrow> (string \<times> string) list" where
  "secretRefs cl =
     map (\<lambda>ref. (sk_Name ref, sk_Key ref)) (List.map_filter ps_PasswordSecretRef (clusterPeers cl))"

text \<open>What is written to the hash, secret by secret.\<close>

fun secretText ::
    "'s kube \<Rightarrow> string \<Rightarrow> (string \<times> string) list \<Rightarrow> 's \<Rightarrow> (op_error + string) \<times> 's" where
  "secretText K ns [] s = (Inr [], s)"
| "secretText K ns ((n, k) # refs) s =
     (case (case getSecret K ns n s of
              (Inl e, s') \<Rightarrow>
                if IsNotFound e then (Inr (n @ ''/'' @ k @ ''=<missing>'' @ [CHR 0x0A]), s')
                else (Inl (Wrapped ''getting secret'' (ApiError e)), s')
            | (Inr secret, s') \<Rightarrow>
                (let val = (case map_of (sec_Data secret) k of None \<Rightarrow> [] | Some v \<Rightarrow> v)
                 in (Inr (n @ ''/'' @ k @ ''='' @ val @ [CHR 0x0A]), s'))) of
        (Inl e, s') \<Rightarrow> (Inl e, s')
      | (Inr line, s') \<Rightarrow>
          (case secretText K ns refs s' of
             (Inl e, s'') \<Rightarrow> (Inl e, s'')
           | (Inr rest, s'') \<Rightarrow> (Inr (line @ rest), s'')))"

definition computeSecretHash ::
    "'s kube \<Rightarrow> NovaRouteCluster \<Rightarrow> 's \<Rightarrow> (op_error + string) \<times> 's" where
  "computeSecretHash K cl s =
     (let refs = secretRefs cl in
      if refs = [] then (Inr [], s)
      else
        (case secretText K (cl_ns cl) (sort refs) s of
           (Inl e, s') \<Rightarrow> (Inl e, s')
         | (Inr txt, s') \<Rightarrow> (Inr (EncodeToString (sha256_sum txt)), s')))"

definition clusterReferencesSecret :: "NovaRouteCluster \<Rightarrow> string \<Rightarrow> bool" where
  "clusterReferencesSecret cl secretName \<longleftrightarrow>
     list_ex (\<lambda>p. case ps_PasswordSecretRef p of None \<Rightarrow> False | Some ref \<Rightarrow> sk_Name ref = secretName)
       (clusterPeers cl)"

definition findClustersReferencingSecret ::
    "'s kube \<Rightarrow> kobject \<Rightarrow> 's \<Rightarrow> (string \<times> string) list \<times> 's" where
  "findClustersReferencingSecret K ob s =
     (case ob of
        OSecret secret \<Rightarrow>
          (case kList K (om_Namespace (sec_Meta secret)) s of
             (Inl _, s') \<Rightarrow> ([], s')
           | (Inr items, s') \<Rightarrow>
               (map (\<lambda>cl. (cl_ns cl, cl_name cl))
                  (filter (\<lambda>cl. clusterReferencesSecret cl (om_Name (sec_Meta secret))) items), s'))
      | _ \<Rightarrow> ([], s))"

end
