(* ===== verification/Operator_Controller.thy ===== *)
theory Operator_Controller
  imports Operator
begin

text \<open>
  The second half of the operator's controller: the DaemonSet that runs the agent and FRR,
  the metrics service, the status of the resource, cleaning up, and \<open>Reconcile\<close> itself.
\<close>

section \<open>DaemonSet\<close>

definition httpProbe :: "string \<Rightarrow> int \<Rightarrow> int \<Rightarrow> int \<Rightarrow> Probe" where
  "httpProbe path p delay period =
     \<lparr>pb_Path = path, pb_Port = p, pb_InitialDelaySeconds = delay, pb_PeriodSeconds = period,
      pb_TimeoutSeconds = 5, pb_FailureThreshold = 3\<rparr>"

definition agentContainer :: "NovaRouteCluster \<Rightarrow> Container" where
  "agentContainer cl =
     \<lparr>ct_Name = ''novaroute-agent'',
      ct_Image = getAgentImage cl,
      ct_ImagePullPolicy = sp_ImagePullPolicy (nc_Spec cl),
      ct_Args = ''--config=/etc/novaroute/config.json'' # as_ExtraArgs (cl_agent cl),
      ct_Ports = [\<lparr>cp_Name = ''metrics'', cp_ContainerPort = metricsPort cl, cp_Protocol = ''TCP''\<rparr>],
      ct_Resources = as_Resources (cl_agent cl),
      ct_Env = \<lparr>ev_Name = ''NODE_IP'', ev_Value = [], ev_ValueFrom = Some (FieldRef ''status.hostIP'')\<rparr>
               # as_ExtraEnv (cl_agent cl),
      ct_LivenessProbe = Some (httpProbe ''/healthz'' (metricsPort cl) 10 15),
      ct_ReadinessProbe = Some (httpProbe ''/readyz'' (metricsPort cl) 5 10),
      ct_AddCapabilities = [''NET_ADMIN''],
      ct_VolumeMounts =
        [\<lparr>vm_Name = ''run'', vm_MountPath = ''/run/novaroute'', vm_ReadOnly = False\<rparr>,
         \<lparr>vm_Name = ''frr-sock'', vm_MountPath = ''/run/frr'', vm_ReadOnly = False\<rparr>,
         \<lparr>vm_Name = ''config'', vm_MountPath = ''/etc/novaroute'', vm_ReadOnly = True\<rparr>]\<rparr>"

definition frrContainer :: "NovaRouteCluster \<Rightarrow> Container" where
  "frrContainer cl =
     \<lparr>ct_Name = ''frr'',
      ct_Image = getFRRImage cl,
      ct_ImagePullPolicy = sp_ImagePullPolicy (nc_Spec cl),
      ct_Args = [],
      ct_Ports =
        [\<lparr>cp_Name = ''bgp'', cp_ContainerPort = 179, cp_Protocol = ''TCP''\<rparr>,
         \<lparr>cp_Name = ''bfd'', cp_ContainerPort = 3784, cp_Protocol = ''UDP''\<rparr>,
         \<lparr>cp_Name = ''bfd-multi'', cp_ContainerPort = 4784, cp_Protocol = ''UDP''\<rparr>],
      ct_Resources = fs_Resources (sp_FRR (nc_Spec cl)),
      ct_Env = [],
      ct_LivenessProbe = None,
      ct_ReadinessProbe = None,
      ct_AddCapabilities = [''NET_ADMIN'', ''NET_RAW'', ''SYS_ADMIN''],
      ct_VolumeMounts =
        [\<lparr>vm_Name = ''frr-sock'', vm_MountPath = ''/run/frr'', vm_ReadOnly = False\<rparr>,
         \<lparr>vm_Name = ''frr-config'', vm_MountPath = ''/etc/frr'', vm_ReadOnly = True\<rparr>]\<rparr>"

definition tolerations :: "NovaRouteCluster \<Rightarrow> Toleration list" where
  "tolerations cl =
     (if as_Tolerations (cl_agent cl) = [] then
        map (\<lambda>effect. \<lparr>tl_Key = [], tl_Operator = ''Exists'', tl_Value = [], tl_Effect = effect,
               tl_TolerationSeconds = None\<rparr>)
          [''NoSchedule'', ''NoExecute'']
      else as_Tolerations (cl_agent cl))"

definition volumes :: "NovaRouteCluster \<Rightarrow> Volume list" where
  "volumes cl =
     [\<lparr>vl_Name = ''run'', vl_Source = HostPath ''/run/novaroute'' ''DirectoryOrCreate''\<rparr>,
      \<lparr>vl_Name = ''frr-sock'', vl_Source = EmptyDir\<rparr>,
      \<lparr>vl_Name = ''config'', vl_Source = ConfigMapVolume (cl_name cl @ ''-config'')\<rparr>,
      \<lparr>vl_Name = ''frr-config'', vl_Source = ConfigMapVolume (cl_name cl @ ''-frr-bootstrap'')\<rparr>]"

definition podSpec :: "NovaRouteCluster \<Rightarrow> PodSpec" where
  "podSpec cl =
     \<lparr>pd_ServiceAccountName = getServiceAccountName cl,
      pd_HostNetwork = True,
      pd_DNSPolicy = ''ClusterFirstWithHostNet'',
      pd_NodeSelector = as_NodeSelector (cl_agent cl),
      pd_Tolerations = tolerations cl,
      pd_ImagePullSecrets = sp_ImagePullSecrets (nc_Spec cl),
      pd_TerminationGracePeriodSeconds = Some 60,
      pd_Containers = [agentContainer cl, frrContainer cl],
      pd_Volumes = volumes cl\<rparr>"

definition updateStrategy :: "NovaRouteCluster \<Rightarrow> DaemonSetUpdateStrategy" where
  "updateStrategy cl =
     (case sp_UpdateStrategy (nc_Spec cl) of
        None \<Rightarrow> DefaultStrategy
      | Some u \<Rightarrow>
          if us_Type u = ''OnDelete'' then OnDelete
          else RollingUpdate (case us_MaxUnavailable u of None \<Rightarrow> 1 | Some n \<Rightarrow> n))"

definition daemonSet :: "NovaRouteCluster \<Rightarrow> string \<Rightarrow> kobject" where
  "daemonSet cl secretHash =
     ODaemonSet
       \<lparr>ds_Meta = new_meta (cl_name cl @ ''-agent'') (cl_ns cl) (getLabels cl ''agent''),
        ds_MatchLabels = getSelectorLabels cl ''agent'',
        ds_PodLabels = getLabels cl ''agent'',
        ds_PodAnnotations =
          [(''prometheus.io/scrape'', ''true''),
           (''prometheus.io/port'', itoa (metricsPort cl)),
           (''prometheus.io/path'', ''/metrics''),
           (rotationHashAnnotation, secretHash)],
        ds_PodSpec = podSpec cl,
        ds_UpdateStrategy = updateStrategy cl,
        ds_Status = \<lparr>ss_DesiredNumberScheduled = 0, ss_NumberReady = 0, ss_UpdatedNumberScheduled = 0\<rparr>\<rparr>"

definition reconcileDaemonSet :: "'s kube \<Rightarrow> NovaRouteCluster \<Rightarrow> 's \<Rightarrow> op_error option \<times> 's" where
  "reconcileDaemonSet K cl s =
     (case computeSecretHash K cl s of
        (Inl e, s') \<Rightarrow> (Some (Wrapped ''computing secret hash'' e), s')
      | (Inr secretHash, s') \<Rightarrow> createOrUpdateOwned K cl (daemonSet cl secretHash) s')"

section \<open>Metrics service\<close>

definition metricsService :: "NovaRouteCluster \<Rightarrow> kobject" where
  "metricsService cl =
     OService
       \<lparr>svc_Meta = new_meta (cl_name cl @ ''-metrics'') (cl_ns cl) (getLabels cl ''metrics''),
        svc_Selector = getSelectorLabels cl ''agent'',
        svc_Ports = [\<lparr>sv_Name = ''metrics'', sv_Port = metricsPort cl, sv_TargetPort = metricsPort cl,
          sv_Protocol = ''TCP''\<rparr>],
        svc_ClusterIP = ''None''\<rparr>"

definition reconcileService :: "'s kube \<Rightarrow> NovaRouteCluster \<Rightarrow> 's \<Rightarrow> op_error option \<times> 's" where
  "reconcileService K cl s = createOrUpdateOwned K cl (metricsService cl) s"

section \<open>Status\<close>

definition ConditionTypeReady :: string where "ConditionTypeReady = ''Ready''"

definition ConditionTypeAgentOK :: string where "ConditionTypeAgentOK = ''AgentReady''"

definition conditionStatus :: "bool \<Rightarrow> string" where
  "conditionStatus ready = (if ready then ''True'' else ''False'')"

definition conditionReason :: "bool \<Rightarrow> string \<Rightarrow> string \<Rightarrow> string" where
  "conditionReason ready trueReason falseReason = (if ready then trueReason else falseReason)"

definition conditionMessage :: "bool \<Rightarrow> string \<Rightarrow> string \<Rightarrow> string" where
  "conditionMessage ready trueMsg falseMsg = (if ready then trueMsg else falseMsg)"

definition componentStatus :: "DaemonSetStatus \<Rightarrow> ComponentStatus" where
  "componentStatus st =
     \<lparr>cs_Ready = (ss_NumberReady st = ss_DesiredNumberScheduled st),
      cs_DesiredNodes = ss_DesiredNumberScheduled st,
      cs_ReadyNodes = ss_NumberReady st,
      cs_UpdatedNodes = ss_UpdatedNumberScheduled st\<rparr>"

definition newCondition :: "string \<Rightarrow> bool \<Rightarrow> int \<Rightarrow> string \<Rightarrow> string \<Rightarrow> Condition" where
  "newCondition ty ready gen reason msg =
     \<lparr>cd_Type = ty, cd_Status = conditionStatus ready, cd_ObservedGeneration = gen,
      cd_LastTransitionTime = 0, cd_Reason = reason, cd_Message = msg\<rparr>"

definition clusterPhase :: "ComponentStatus option \<Rightarrow> ClusterPhase" where
  "clusterPhase agent =
     (case agent of
        None \<Rightarrow> ClusterPhaseInitializing
      | Some c \<Rightarrow>
          if cs_Ready c then ClusterPhaseRunning
          else if 0 < cs_ReadyNodes c then ClusterPhaseDegraded
          else ClusterPhaseInitializing)"

text \<open>The status that is written: from the DaemonSet if it can be read, and the two conditions.\<close>

definition computeStatus :: "'s kube \<Rightarrow> NovaRouteCluster \<Rightarrow> 's \<Rightarrow> NovaRouteClusterStatus \<times> 's" where
  "computeStatus K cl s =
     (case getDaemonSet K (cl_ns cl) (cl_name cl @ ''-agent'') s of
        (r, s1) \<Rightarrow>
          (let st = nc_Status cl;
               agent = (case r of Inr ds \<Rightarrow> Some (componentStatus (ds_Status ds)) | Inl _ \<Rightarrow> st_Agent st);
               agentReady = (case agent of None \<Rightarrow> False | Some c \<Rightarrow> cs_Ready c);
               gen = om_Generation (nc_Meta cl)
           in case SetStatusCondition K (st_Conditions st)
                (newCondition ConditionTypeAgentOK agentReady gen
                   (conditionReason agentReady ''AgentReady'' ''AgentNotReady'')
                   (conditionMessage agentReady ''Agent DaemonSet is ready'' ''Agent DaemonSet is not ready'')) s1 of
                (conds, s2) \<Rightarrow>
                  (case SetStatusCondition K conds
                     (newCondition ConditionTypeReady agentReady gen
                        (conditionReason agentReady ''AllComponentsReady'' ''SomeComponentsNotReady'')
                        (conditionMessage agentReady ''All components are ready'' ''Some components are not ready'')) s2 of
                     (conds, s3) \<Rightarrow>
                       (\<lparr>st_Phase = clusterPhase agent, st_Agent = agent,
                         st_Version = sp_Version (nc_Spec cl), st_ObservedGeneration = gen,
                         st_Conditions = conds\<rparr>, s3))))"

definition updateStatus :: "'s kube \<Rightarrow> NovaRouteCluster \<Rightarrow> 's \<Rightarrow> op_error option \<times> 's" where
  "updateStatus K cl s =
     (case computeStatus K cl s of
        (st, s') \<Rightarrow>
          (case kStatusUpdate K (OCluster (cl\<lparr>nc_Status := st\<rparr>)) s' of
             (Inl e, s'') \<Rightarrow> (Some (ApiError e), s'')
           | (Inr _, s'') \<Rightarrow> (None, s'')))"

section \<open>Cleaning up\<close>

text \<open>An object is deleted if it can be read; the object is passed on as it was read.\<close>

definition deleteIfPresent :: "'s kube \<Rightarrow> string \<Rightarrow> object_key \<Rightarrow> 's \<Rightarrow> op_error option \<times> 's" where
  "deleteIfPresent K msg k s =
     (case kGet K k s of
        (Inl _, s') \<Rightarrow> (None, s')
      | (Inr ob, s') \<Rightarrow>
          (case kDelete K ob s' of
             (None, s'') \<Rightarrow> (None, s'')
           | (Some e, s'') \<Rightarrow>
               if IsNotFound e then (None, s'') else (Some (Wrapped msg (ApiError e)), s'')))"

definition cleanupResources :: "'s kube \<Rightarrow> NovaRouteCluster \<Rightarrow> 's \<Rightarrow> op_error option \<times> 's" where
  "cleanupResources K cl s =
     seq (deleteIfPresent K ''deleting ClusterRoleBinding'' (KClusterRoleBinding, [], clusterRoleName cl) s)
       (deleteIfPresent K ''deleting ClusterRole'' (KClusterRole, [], clusterRoleName cl))"

section \<open>Reconcile\<close>

text \<open>\<open>ctrl.Result\<close> with its \<open>RequeueAfter\<close> in seconds.\<close>

record Result =
  RequeueAfter :: nat

text \<open>The client writes the server's answer back into the object it was given.\<close>

definition answered :: "NovaRouteCluster \<Rightarrow> kobject \<Rightarrow> NovaRouteCluster" where
  "answered cl r = (case r of OCluster cl' \<Rightarrow> cl' | _ \<Rightarrow> cl)"

definition ensureFinalizer ::
    "'s kube \<Rightarrow> NovaRouteCluster \<Rightarrow> 's \<Rightarrow> (op_error + NovaRouteCluster) \<times> 's" where
  "ensureFinalizer K cl s =
     (if ContainsFinalizer K (nc_Meta cl) novaRouteClusterFinalizer then (Inr cl, s)
      else
        let cl' = cl\<lparr>nc_Meta := AddFinalizer K (nc_Meta cl) novaRouteClusterFinalizer\<rparr>
        in case kUpdate K (OCluster cl') s of
             (Inl e, s') \<Rightarrow> (Inl (Wrapped ''adding finalizer'' (ApiError e)), s')
           | (Inr r, s') \<Rightarrow> (Inr (answered cl' r), s'))"

definition finalize :: "'s kube \<Rightarrow> NovaRouteCluster \<Rightarrow> 's \<Rightarrow> op_error option \<times> 's" where
  "finalize K cl s =
     (if ContainsFinalizer K (nc_Meta cl) novaRouteClusterFinalizer then
        seq (wrap ''cleaning up resources'' (cleanupResources K cl s)) (\<lambda>s.
          case kUpdate K (OCluster (cl\<lparr>nc_Meta :=
                 RemoveFinalizer K (nc_Meta cl) novaRouteClusterFinalizer\<rparr>)) s of
            (Inl e, s') \<Rightarrow> (Some (Wrapped ''removing finalizer'' (ApiError e)), s')
          | (Inr _, s') \<Rightarrow> (None, s'))
      else (None, s))"

definition initStatus ::
    "'s kube \<Rightarrow> NovaRouteCluster \<Rightarrow> 's \<Rightarrow> (op_error + NovaRouteCluster) \<times> 's" where
  "initStatus K cl s =
     (if st_Phase (nc_Status cl) = [] then
        let cl' = cl\<lparr>nc_Status := (nc_Status cl)\<lparr>st_Phase := ClusterPhasePending\<rparr>\<rparr>
        in case kStatusUpdate K (OCluster cl') s of
             (Inl e, s') \<Rightarrow> (Inl (Wrapped ''initializing status'' (ApiError e)), s')
           | (Inr r, s') \<Rightarrow> (Inr (answered cl' r), s')
      else (Inr cl, s))"

text \<open>The four parts run one after the other whatever the earlier ones returned; their errors
  are collected.\<close>

definition reconcileParts :: "'s kube \<Rightarrow> NovaRouteCluster \<Rightarrow> 's \<Rightarrow> op_error list \<times> 's" where
  "reconcileParts K cl s =
     (case wrap ''RBAC'' (reconcileRBAC K cl s) of
        (e1, s1) \<Rightarrow>
          (case wrap ''configmaps'' (reconcileConfigMaps K cl s1) of
             (e2, s2) \<Rightarrow>
               (case wrap ''daemonset'' (reconcileDaemonSet K cl s2) of
                  (e3, s3) \<Rightarrow>
                    (case wrap ''service'' (reconcileService K cl s3) of
                       (e4, s4) \<Rightarrow> (List.map_filter (\<lambda>e. e) [e1, e2, e3, e4], s4)))))"

definition reconcileLive :: "'s kube \<Rightarrow> NovaRouteCluster \<Rightarrow> 's \<Rightarrow> (op_error + Result) \<times> 's" where
  "reconcileLive K cl s =
     (case initStatus K cl s of
        (Inl e, s') \<Rightarrow> (Inl e, s')
      | (Inr cl, s') \<Rightarrow>
          (case reconcileParts K cl s' of
             (reconcileErrors, s'') \<Rightarrow>
               (case updateStatus K cl s'' of
                  (Some e, s3) \<Rightarrow> (Inl (Wrapped ''updating status'' e), s3)
                | (None, s3) \<Rightarrow>
                    (Inr \<lparr>RequeueAfter = (if reconcileErrors \<noteq> [] then 30 else 60)\<rparr>, s3))))"

definition ReconcileCluster ::
    "'s kube \<Rightarrow> string \<Rightarrow> string \<Rightarrow> 's \<Rightarrow> (op_error + Result) \<times> 's" where
  "ReconcileCluster K ns n s =
     (case getCluster K ns n s of
        (Inl e, s') \<Rightarrow>
          if IsNotFound e then (Inr \<lparr>RequeueAfter = 0\<rparr>, s') else (Inl (ApiError e), s')
      | (Inr cl, s') \<Rightarrow>
          if om_DeletionTimestamp (nc_Meta cl) = None then
            (case ensureFinalizer K cl s' of
               (Inl e, s'') \<Rightarrow> (Inl e, s'')
             | (Inr cl', s'') \<Rightarrow> reconcileLive K cl' s'')
          else
            (case finalize K cl s' of
               (Some e, s'') \<Rightarrow> (Inl e, s'')
             | (None, s'') \<Rightarrow> (Inr \<lparr>RequeueAfter = 0\<rparr>, s'')))"

end
