(* ===== verification/Operator_Facts.thy ===== *)
theory Operator_Facts
  imports Operator_Controller
begin

text \<open>
  Facts about the controller's calls, for any API that keeps the promises of \<open>Kube_Api\<close>:
  what each call leaves in the server's store, and which objects it can touch.
\<close>

declare split_paired_All [simp del] split_paired_Ex [simp del]

section \<open>Keys\<close>

lemma meta_new_meta [simp]:
  "om_Name (new_meta n ns ls) = n" "om_Namespace (new_meta n ns ls) = ns"
  "om_Labels (new_meta n ns ls) = ls" "om_DeletionTimestamp (new_meta n ns ls) = None"
  by (simp_all add: new_meta_def)

definition managed_keys :: "NovaRouteCluster \<Rightarrow> object_key list" where
  "managed_keys cl =
     [(KServiceAccount, cl_ns cl, cl_name cl @ ''-agent''),
      (KClusterRole, [], clusterRoleName cl),
      (KClusterRoleBinding, [], clusterRoleName cl),
      (KConfigMap, cl_ns cl, cl_name cl @ ''-config''),
      (KConfigMap, cl_ns cl, cl_name cl @ ''-frr-bootstrap''),
      (KDaemonSet, cl_ns cl, cl_name cl @ ''-agent''),
      (KService, cl_ns cl, cl_name cl @ ''-metrics'')]"

lemma object_keys:
  "key_of (serviceAccount cl) = (KServiceAccount, cl_ns cl, cl_name cl @ ''-agent'')"
  "key_of (clusterRole cl) = (KClusterRole, [], clusterRoleName cl)"
  "key_of (clusterRoleBinding cl) = (KClusterRoleBinding, [], clusterRoleName cl)"
  "key_of (agentConfigMap cl cfg) = (KConfigMap, cl_ns cl, cl_name cl @ ''-config'')"
  "key_of (frrBootstrapConfigMap cl) = (KConfigMap, cl_ns cl, cl_name cl @ ''-frr-bootstrap'')"
  "key_of (daemonSet cl h) = (KDaemonSet, cl_ns cl, cl_name cl @ ''-agent'')"
  "key_of (metricsService cl) = (KService, cl_ns cl, cl_name cl @ ''-metrics'')"
  by (simp_all add: key_of_def serviceAccount_def clusterRole_def clusterRoleBinding_def
      agentConfigMap_def frrBootstrapConfigMap_def daemonSet_def metricsService_def
      getServiceAccountName_def)

section \<open>Effects on the store\<close>

text \<open>Only the objects with the given keys may differ.\<close>

definition touches :: "object_key set \<Rightarrow> (object_key \<Rightarrow> kobject option) \<Rightarrow> (object_key \<Rightarrow> kobject option) \<Rightarrow> bool"
  where "touches ks V V' \<longleftrightarrow> (\<forall>k. k \<notin> ks \<longrightarrow> V' k = V k)"

lemma touches_refl [simp]: "touches ks V V"
  by (simp add: touches_def)

lemma touches_trans:
  assumes "touches ks V V'" and "touches ks' V' V''" and "ks \<union> ks' \<subseteq> ls"
  shows "touches ls V V''"
  unfolding touches_def
proof (intro allI impI)
  fix k assume "k \<notin> ls"
  then have "k \<notin> ks" "k \<notin> ks'" using assms(3) by auto
  then show "V'' k = V k" using assms(1,2) by (simp add: touches_def)
qed

lemma touches_mono: "touches ks V V' \<Longrightarrow> ks \<subseteq> ls \<Longrightarrow> touches ls V V'"
  using touches_trans [of ks V V' ks V' ls] by simp

lemma touchesD: "touches ks V V' \<Longrightarrow> k \<notin> ks \<Longrightarrow> V' k = V k"
  by (simp add: touches_def)

text \<open>The store holds an object the server made of \<open>ob\<close>.\<close>

definition stored :: "admission \<Rightarrow> kobject \<Rightarrow> (object_key \<Rightarrow> kobject option) \<Rightarrow> bool" where
  "stored adm ob V \<longleftrightarrow> (\<exists>rv ob'. adm (SetResourceVersion rv ob) ob' \<and> V (key_of ob) = Some ob')"

definition with_owner :: "OwnerReference \<Rightarrow> kobject \<Rightarrow> kobject" where
  "with_owner r = map_meta (\<lambda>m. m\<lparr>om_OwnerReferences := om_OwnerReferences m @ [r]\<rparr>)"

definition stored_owned :: "admission \<Rightarrow> NovaRouteCluster \<Rightarrow> kobject \<Rightarrow> (object_key \<Rightarrow> kobject option) \<Rightarrow> bool"
  where "stored_owned adm cl ob V \<longleftrightarrow>
     (\<exists>r. or_Controller r \<and> or_Name r = cl_name cl \<and> stored adm (with_owner r ob) V)"

lemma key_with_owner [simp]: "key_of (with_owner r ob) = key_of ob"
  by (simp add: key_of_def with_owner_def)

lemma stored_touches: "stored adm ob V \<Longrightarrow> touches ks V V' \<Longrightarrow> key_of ob \<notin> ks \<Longrightarrow> stored adm ob V'"
  by (auto simp: stored_def touches_def)

lemma stored_owned_touches:
  "stored_owned adm cl ob V \<Longrightarrow> touches ks V V' \<Longrightarrow> key_of ob \<notin> ks \<Longrightarrow> stored_owned adm cl ob V'"
  using stored_touches by (fastforce simp: stored_owned_def)

lemma SetResourceVersion_same [simp]: "SetResourceVersion (om_ResourceVersion (meta_of ob)) ob = ob"
  by (cases ob) (simp_all add: SetResourceVersion_def)

lemma storedI: "adm ob ob' \<Longrightarrow> V (key_of ob) = Some ob' \<Longrightarrow> stored adm ob V"
  unfolding stored_def by (intro exI [of _ "om_ResourceVersion (meta_of ob)"] exI [of _ ob']) simp

lemma api_okD:
  assumes "api_ok K view adm"
  shows "reads_current K view" "create_stores K view adm" "update_stores K view adm" "status_only K view"
    "delete_removes K view" "helpers_ok K view" "admission_ok adm"
  using assms by (simp_all add: api_ok_def)

lemma kGet_effect:
  assumes "api_ok K view adm" and "kGet K k s = (r, s')"
  shows "view s' = view s" "r = Inr ob \<Longrightarrow> view s k = Some ob" "r = Inl NotFound \<Longrightarrow> view s k = None"
    "r = Inr ob \<Longrightarrow> key_of ob = k"
proof -
  have "view (snd (kGet K k s)) = view s \<and>
      (\<forall>ob. fst (kGet K k s) = Inr ob \<longrightarrow> view s k = Some ob \<and> key_of ob = k) \<and>
      (fst (kGet K k s) = Inl NotFound \<longrightarrow> view s k = None)"
    using api_okD(1) [OF assms(1)] by (simp add: reads_current_def)
  with assms(2) show "view s' = view s" "r = Inr ob \<Longrightarrow> view s k = Some ob"
    "r = Inl NotFound \<Longrightarrow> view s k = None" "r = Inr ob \<Longrightarrow> key_of ob = k" by simp_all
qed

lemma kUpdate_effect:
  assumes "api_ok K view adm" and "kUpdate K ob s = (r, s')"
  shows "touches {key_of ob} (view s) (view s')"
    and "r = Inr ob' \<Longrightarrow> adm ob ob'"
    and "r = Inr ob' \<Longrightarrow> om_DeletionTimestamp (meta_of ob) = None \<Longrightarrow> view s' (key_of ob) = Some ob'"
proof -
  have h: "(\<forall>k. k \<noteq> key_of ob \<longrightarrow> view (snd (kUpdate K ob s)) k = view s k) \<and>
      (\<forall>r. fst (kUpdate K ob s) = Inr r \<longrightarrow> adm ob r \<and>
         (view (snd (kUpdate K ob s)) (key_of ob) = Some r \<or> om_DeletionTimestamp (meta_of ob) \<noteq> None))"
    using api_okD(3) [OF assms(1)] by (simp add: update_stores_def)
  then show "touches {key_of ob} (view s) (view s')" using assms(2) by (auto simp: touches_def)
  show "r = Inr ob' \<Longrightarrow> adm ob ob'"
    "r = Inr ob' \<Longrightarrow> om_DeletionTimestamp (meta_of ob) = None \<Longrightarrow> view s' (key_of ob) = Some ob'"
    using h assms(2) by auto
qed

lemma createOrUpdate_effect:
  assumes "api_ok K view adm" and "createOrUpdate K ob s = (e, s')"
  shows "touches {key_of ob} (view s) (view s')"
    and "e = None \<Longrightarrow> om_DeletionTimestamp (meta_of ob) = None \<Longrightarrow> stored adm ob (view s')"
proof -
  obtain r s1 where g: "kGet K (key_of ob) s = (r, s1)" by fastforce
  have v: "view s1 = view s" using kGet_effect(1) [OF assms(1) g] .
  have "touches {key_of ob} (view s) (view s') \<and>
      (e = None \<longrightarrow> om_DeletionTimestamp (meta_of ob) = None \<longrightarrow> stored adm ob (view s'))"
  proof (cases r)
    case (Inl e1)
    show ?thesis
    proof (cases "IsNotFound e1")
      case True
      obtain e2 where c: "kCreate K ob s1 = (e2, s')" "e = map_option ApiError e2"
        using assms(2) g Inl True by (auto simp: createOrUpdate_def split: prod.splits)
      have "(\<forall>k. k \<noteq> key_of ob \<longrightarrow> view (snd (kCreate K ob s1)) k = view s1 k) \<and>
          (fst (kCreate K ob s1) = None \<longrightarrow>
             (\<exists>ob'. adm ob ob' \<and> view (snd (kCreate K ob s1)) (key_of ob) = Some ob'))"
        using api_okD(2) [OF assms(1)] by (simp add: create_stores_def)
      with c v show ?thesis by (auto simp: touches_def intro: storedI)
    next
      case False
      then show ?thesis using assms(2) g Inl v by (auto simp: createOrUpdate_def)
    qed
  next
    case (Inr ex)
    let ?ob = "SetResourceVersion (om_ResourceVersion (meta_of ex)) ob"
    obtain r2 where u: "kUpdate K ?ob s1 = (r2, s')" "e = None \<Longrightarrow> \<exists>ob'. r2 = Inr ob'"
      using assms(2) g Inr by (auto simp: createOrUpdate_def split: prod.splits sum.splits)
    have "om_DeletionTimestamp (meta_of ?ob) = om_DeletionTimestamp (meta_of ob)"
      by (simp add: SetResourceVersion_def)
    with kUpdate_effect [OF assms(1) u(1)] u(2) v show ?thesis by (auto simp: stored_def)
  qed
  then show "touches {key_of ob} (view s) (view s')"
    "e = None \<Longrightarrow> om_DeletionTimestamp (meta_of ob) = None \<Longrightarrow> stored adm ob (view s')" by auto
qed

lemma controller_reference:
  assumes "api_ok K view adm" and "SetControllerReference K owner m = Inr m'"
  obtains r where "or_Controller r" "or_Name r = om_Name owner"
    "m' = m\<lparr>om_OwnerReferences := om_OwnerReferences m @ [r]\<rparr>"
proof -
  have "\<forall>owner m m'. SetControllerReference K owner m = Inr m' \<longrightarrow>
      (\<exists>r. or_Controller r \<and> or_Name r = om_Name owner \<and> or_UID r = om_UID owner \<and>
           m' = m\<lparr>om_OwnerReferences := om_OwnerReferences m @ [r]\<rparr>)"
    using api_okD(6) [OF assms(1)] unfolding helpers_ok_def by (elim conjE)
  with assms(2) that show thesis by blast
qed

lemma createOrUpdateOwned_effect:
  assumes "api_ok K view adm" and "createOrUpdateOwned K cl ob s = (e, s')"
  shows "touches {key_of ob} (view s) (view s')"
    and "e = None \<Longrightarrow> om_DeletionTimestamp (meta_of ob) = None \<Longrightarrow> stored_owned adm cl ob (view s')"
proof -
  have "touches {key_of ob} (view s) (view s') \<and>
      (e = None \<longrightarrow> om_DeletionTimestamp (meta_of ob) = None \<longrightarrow> stored_owned adm cl ob (view s'))"
  proof (cases "SetControllerReference K (nc_Meta cl) (meta_of ob)")
    case (Inl e)
    then show ?thesis using assms(2) by (auto simp: createOrUpdateOwned_def)
  next
    case (Inr m)
    obtain r where r: "or_Controller r" "or_Name r = cl_name cl"
        "m = (meta_of ob)\<lparr>om_OwnerReferences := om_OwnerReferences (meta_of ob) @ [r]\<rparr>"
      using controller_reference [OF assms(1) Inr] by blast
    have m: "map_meta (\<lambda>_. m) ob = with_owner r ob"
      by (cases ob) (simp_all add: with_owner_def r(3))
    have "createOrUpdate K (with_owner r ob) s = (e, s')"
      using assms(2) Inr by (simp add: createOrUpdateOwned_def m)
    note eff = createOrUpdate_effect [OF assms(1) this]
    have "om_DeletionTimestamp (meta_of (with_owner r ob)) = om_DeletionTimestamp (meta_of ob)"
      by (simp add: with_owner_def)
    with eff r(1,2) show ?thesis by (auto simp: stored_owned_def)
  qed
  then show "touches {key_of ob} (view s) (view s')"
    "e = None \<Longrightarrow> om_DeletionTimestamp (meta_of ob) = None \<Longrightarrow> stored_owned adm cl ob (view s')" by auto
qed

section \<open>Secrets\<close>

text \<open>What the store says a reference stands for.\<close>

definition secret_data :: "(object_key \<Rightarrow> kobject option) \<Rightarrow> string \<Rightarrow> string \<Rightarrow> strmap option" where
  "secret_data V ns n = (case V (KSecret, ns, n) of Some (OSecret sec) \<Rightarrow> Some (sec_Data sec) | _ \<Rightarrow> None)"

definition password_of :: "(object_key \<Rightarrow> kobject option) \<Rightarrow> string \<Rightarrow> BGPPeerSpec \<Rightarrow> string option" where
  "password_of V ns p =
     (case ps_PasswordSecretRef p of
        None \<Rightarrow> Some []
      | Some ref \<Rightarrow> Option.bind (secret_data V ns (sk_Name ref)) (\<lambda>d. map_of d (sk_Key ref)))"

lemma getSecret_effect:
  assumes "api_ok K view adm" and "getSecret K ns n s = (r, s')"
  shows "view s' = view s"
    and "r = Inr sec \<Longrightarrow> secret_data (view s) ns n = Some (sec_Data sec)"
    and "r = Inl NotFound \<Longrightarrow> secret_data (view s) ns n = None"
proof -
  obtain q s1 where g: "kGet K (KSecret, ns, n) s = (q, s1)" by fastforce
  note eff = kGet_effect [OF assms(1) g]
  show "view s' = view s"
    using assms(2) g eff(1) by (auto simp: getSecret_def split: sum.splits kobject.splits)
  show "r = Inr sec \<Longrightarrow> secret_data (view s) ns n = Some (sec_Data sec)"
    using assms(2) g eff(2) by (auto simp: getSecret_def secret_data_def split: sum.splits kobject.splits)
  show "r = Inl NotFound \<Longrightarrow> secret_data (view s) ns n = None"
    using assms(2) g eff(3) by (auto simp: getSecret_def secret_data_def split: sum.splits kobject.splits)
qed

lemma resolveSecretKeyRef_effect:
  assumes "api_ok K view adm" and "resolveSecretKeyRef K ns ref s = (r, s')"
  shows "view s' = view s"
    and "r = Inr v \<Longrightarrow> Option.bind (secret_data (view s) ns (sk_Name ref)) (\<lambda>d. map_of d (sk_Key ref)) = Some v"
proof -
  obtain q s1 where g: "getSecret K ns (sk_Name ref) s = (q, s1)" by fastforce
  note eff = getSecret_effect [OF assms(1) g]
  show "view s' = view s"
    using assms(2) g eff(1) by (auto simp: resolveSecretKeyRef_def split: sum.splits option.splits)
  show "r = Inr v \<Longrightarrow> Option.bind (secret_data (view s) ns (sk_Name ref)) (\<lambda>d. map_of d (sk_Key ref)) = Some v"
    using assms(2) g eff(2) by (auto simp: resolveSecretKeyRef_def split: sum.splits option.splits)
qed

lemma peerConfigs_effect:
  assumes "api_ok K view adm" and "peerConfigs K ns ps s = (r, s')"
  shows "view s' = view s \<and>
    (\<forall>cfgs. r = Inr cfgs \<longrightarrow>
       (\<exists>pws. map (password_of (view s) ns) ps = map Some pws \<and> cfgs = map2 peerConfig_of ps pws))"
  using assms(2)
proof (induction ps arbitrary: s r s')
  case Nil
  then show ?case by auto
next
  case (Cons p ps)
  obtain q s1 where q: "(case ps_PasswordSecretRef p of None \<Rightarrow> (Inr [], s)
      | Some ref \<Rightarrow> resolveSecretKeyRef K ns ref s) = (q, s1)" by fastforce
  have v1: "view s1 = view s" and pw: "\<And>w. q = Inr w \<Longrightarrow> password_of (view s) ns p = Some w"
    using q resolveSecretKeyRef_effect [OF assms(1)] by (auto simp: password_of_def split: option.splits)
  show ?case
  proof (cases q)
    case (Inl e)
    then show ?thesis using Cons.prems q v1 by auto
  next
    case (Inr w)
    obtain r2 s2 where r2: "peerConfigs K ns ps s1 = (r2, s2)" by fastforce
    have ih: "view s2 = view s1" "\<And>cfgs. r2 = Inr cfgs \<Longrightarrow>
        \<exists>pws. map (password_of (view s1) ns) ps = map Some pws \<and> cfgs = map2 peerConfig_of ps pws"
      using Cons.IH [OF r2] by auto
    show ?thesis
    proof (cases r2)
      case (Inl e)
      then show ?thesis using Cons.prems q Inr r2 ih v1 by auto
    next
      case r2: (Inr cfgs)
      with ih(2) obtain pws where pws: "map (password_of (view s1) ns) ps = map Some pws"
          "cfgs = map2 peerConfig_of ps pws" by blast
      have "r = Inr (peerConfig_of p w # cfgs)" "s' = s2"
        using Cons.prems q Inr r2 \<open>peerConfigs K ns ps s1 = (r2, s2)\<close> by auto
      then show ?thesis
        using pws pw Inr v1 ih(1) by (auto intro!: exI [of _ "w # pws"])
    qed
  qed
qed

text \<open>The text that is hashed, as a function of the store.\<close>

definition secret_line :: "(object_key \<Rightarrow> kobject option) \<Rightarrow> string \<Rightarrow> string \<times> string \<Rightarrow> string" where
  "secret_line V ns ref =
     fst ref @ ''/'' @ snd ref @ ''='' @
     (case secret_data V ns (fst ref) of
        None \<Rightarrow> ''<missing>''
      | Some d \<Rightarrow> (case map_of d (snd ref) of None \<Rightarrow> [] | Some v \<Rightarrow> v)) @ [CHR 0x0A]"

definition hashed_text :: "(object_key \<Rightarrow> kobject option) \<Rightarrow> NovaRouteCluster \<Rightarrow> string" where
  "hashed_text V cl = concat (map (secret_line V (cl_ns cl)) (sort (secretRefs cl)))"

definition secret_fingerprint :: "(object_key \<Rightarrow> kobject option) \<Rightarrow> NovaRouteCluster \<Rightarrow> string" where
  "secret_fingerprint V cl =
     (if secretRefs cl = [] then [] else EncodeToString (sha256_sum (hashed_text V cl)))"

lemma secretText_effect:
  assumes "api_ok K view adm" and "secretText K ns refs s = (r, s')"
  shows "view s' = view s \<and> (\<forall>txt. r = Inr txt \<longrightarrow> txt = concat (map (secret_line (view s) ns) refs))"
  using assms(2)
proof (induction refs arbitrary: s r s')
  case Nil
  then show ?case by auto
next
  case (Cons ref refs)
  obtain n k where ref: "ref = (n, k)" by fastforce
  obtain q s1 where g: "getSecret K ns n s = (q, s1)" by fastforce
  note eff = getSecret_effect [OF assms(1) g]
  obtain r2 s2 where r2: "secretText K ns refs s1 = (r2, s2)" by fastforce
  note ih = Cons.IH [OF r2, unfolded eff(1)]
  show ?case
  proof (cases q)
    case (Inl e)
    then show ?thesis
      using Cons.prems g r2 ih eff(1,3) by (cases e; cases r2) (auto simp: ref IsNotFound_def secret_line_def)
  next
    case (Inr sec)
    then show ?thesis
      using Cons.prems g r2 ih eff(1,2) by (cases r2) (auto simp: ref secret_line_def Let_def)
  qed
qed

lemma computeSecretHash_effect:
  assumes "api_ok K view adm" and "computeSecretHash K cl s = (r, s')"
  shows "view s' = view s" and "r = Inr h \<Longrightarrow> h = secret_fingerprint (view s) cl"
proof -
  obtain q s1 where t: "secretText K (cl_ns cl) (sort (secretRefs cl)) s = (q, s1)" by fastforce
  note eff = secretText_effect [OF assms(1) t]
  show "view s' = view s" "r = Inr h \<Longrightarrow> h = secret_fingerprint (view s) cl"
    using assms(2) t eff
    by (auto simp: computeSecretHash_def secret_fingerprint_def hashed_text_def Let_def split: if_splits sum.splits)
qed

end
