(* ===== verification/Operator_Parts.thy ===== *)
theory Operator_Parts
  imports Operator_Facts
begin

text \<open>
  What the parts of a reconciliation achieve.  A call \<^emph>\<open>achieves\<close> a goal with a set of keys
  if it changes only objects with these keys and, when it returns no error, the store
  satisfies the goal afterwards; the rules follow the way the controller composes calls.
\<close>

section \<open>Goals\<close>

type_synonym store = "object_key \<Rightarrow> kobject option"

definition achieves ::
    "'s view \<Rightarrow> object_key set \<Rightarrow> (store \<Rightarrow> bool) \<Rightarrow> 'e option \<times> 's \<Rightarrow> 's \<Rightarrow> bool" where
  "achieves view ks G r s \<longleftrightarrow>
     touches ks (view s) (view (snd r)) \<and> (fst r = None \<longrightarrow> G (view (snd r)))"

definition stable :: "object_key set \<Rightarrow> (store \<Rightarrow> bool) \<Rightarrow> bool" where
  "stable ks G \<longleftrightarrow> (\<forall>V V'. touches ks V V' \<longrightarrow> G V \<longrightarrow> G V')"

lemma stableD: "stable ks G \<Longrightarrow> touches ks V V' \<Longrightarrow> G V \<Longrightarrow> G V'"
  by (auto simp: stable_def)

lemma stable_conj: "stable ks G \<Longrightarrow> stable ks H \<Longrightarrow> stable ks (\<lambda>V. G V \<and> H V)"
  by (auto simp: stable_def)

lemma stable_stored: "key_of ob \<notin> ks \<Longrightarrow> stable ks (stored adm ob)"
  by (auto simp: stable_def intro: stored_touches)

lemma stable_stored_owned: "key_of ob \<notin> ks \<Longrightarrow> stable ks (stored_owned adm cl ob)"
  by (auto simp: stable_def intro: stored_owned_touches)

lemma achieves_wrap [simp]: "achieves view ks G (wrap msg r) s = achieves view ks G r s"
  by (simp add: achieves_def wrap_def)

lemma achieves_seq:
  assumes "achieves view ks G r s" and "\<And>s'. achieves view ls H (f s') s'" and "stable ls G"
  shows "achieves view (ks \<union> ls) (\<lambda>V. G V \<and> H V) (seq r f) s"
proof -
  obtain e s1 where r: "r = (e, s1)" by fastforce
  show ?thesis
  proof (cases e)
    case (Some x)
    then show ?thesis using assms(1) touches_mono [of ks] by (auto simp: achieves_def r)
  next
    case None
    have "touches (ks \<union> ls) (view s) (view (snd (f s1)))"
      by (rule touches_trans [of ks _ "view s1" ls]) (use assms(1,2) in \<open>auto simp: achieves_def r\<close>)
    then show ?thesis
      using assms None stableD [OF assms(3)] by (auto simp: achieves_def r)
  qed
qed

lemma createOrUpdate_achieves:
  assumes "api_ok K view adm" and "om_DeletionTimestamp (meta_of ob) = None"
  shows "achieves view {key_of ob} (stored adm ob) (createOrUpdate K ob s) s"
  using createOrUpdate_effect [OF assms(1), of ob s] assms(2)
  by (cases "createOrUpdate K ob s") (auto simp: achieves_def)

lemma createOrUpdateOwned_achieves:
  assumes "api_ok K view adm" and "om_DeletionTimestamp (meta_of ob) = None"
  shows "achieves view {key_of ob} (stored_owned adm cl ob) (createOrUpdateOwned K cl ob s) s"
  using createOrUpdateOwned_effect [OF assms(1), of cl ob s] assms(2)
  by (cases "createOrUpdateOwned K cl ob s") (auto simp: achieves_def)

section \<open>The parts\<close>

lemma objects_live:
  "om_DeletionTimestamp (meta_of (serviceAccount cl)) = None"
  "om_DeletionTimestamp (meta_of (clusterRole cl)) = None"
  "om_DeletionTimestamp (meta_of (clusterRoleBinding cl)) = None"
  "om_DeletionTimestamp (meta_of (agentConfigMap cl cfg)) = None"
  "om_DeletionTimestamp (meta_of (frrBootstrapConfigMap cl)) = None"
  "om_DeletionTimestamp (meta_of (daemonSet cl h)) = None"
  "om_DeletionTimestamp (meta_of (metricsService cl)) = None"
  by (simp_all add: serviceAccount_def clusterRole_def clusterRoleBinding_def agentConfigMap_def
      frrBootstrapConfigMap_def daemonSet_def metricsService_def)

definition rbac_deployed :: "admission \<Rightarrow> NovaRouteCluster \<Rightarrow> store \<Rightarrow> bool" where
  "rbac_deployed adm cl V \<longleftrightarrow>
     stored_owned adm cl (serviceAccount cl) V \<and> stored adm (clusterRole cl) V \<and>
     stored adm (clusterRoleBinding cl) V"

text \<open>The agent's configuration, with the passwords that the store holds.\<close>

definition config_deployed :: "admission \<Rightarrow> NovaRouteCluster \<Rightarrow> store \<Rightarrow> bool" where
  "config_deployed adm cl V \<longleftrightarrow>
     (\<exists>pws. map (password_of V (cl_ns cl)) (clusterPeers cl) = map Some pws \<and>
        stored_owned adm cl
          (agentConfigMap cl (agentConfig_of cl (map2 peerConfig_of (clusterPeers cl) pws))) V)"

definition daemons_deployed :: "admission \<Rightarrow> NovaRouteCluster \<Rightarrow> store \<Rightarrow> bool" where
  "daemons_deployed adm cl V \<longleftrightarrow> stored_owned adm cl (daemonSet cl (secret_fingerprint V cl)) V"

definition deployed :: "admission \<Rightarrow> NovaRouteCluster \<Rightarrow> store \<Rightarrow> bool" where
  "deployed adm cl V \<longleftrightarrow>
     rbac_deployed adm cl V \<and> config_deployed adm cl V \<and>
     stored_owned adm cl (frrBootstrapConfigMap cl) V \<and> daemons_deployed adm cl V \<and>
     stored_owned adm cl (metricsService cl) V"

lemma secrets_kept:
  assumes "touches ks V V'" and "\<forall>k \<in> ks. fst k \<noteq> KSecret"
  shows "secret_data V' = secret_data V" "password_of V' = password_of V"
    "secret_fingerprint V' = secret_fingerprint V"
proof -
  have "V' (KSecret, ns, n) = V (KSecret, ns, n)" for ns n
    by (rule touchesD [OF assms(1)]) (use assms(2) in auto)
  then show d: "secret_data V' = secret_data V" by (simp add: secret_data_def fun_eq_iff)
  show "password_of V' = password_of V" by (simp add: password_of_def fun_eq_iff d split: option.splits)
  have "secret_line V' = secret_line V" by (simp add: secret_line_def fun_eq_iff d)
  then show "secret_fingerprint V' = secret_fingerprint V" by (intro ext) (simp add: secret_fingerprint_def hashed_text_def)
qed

text \<open>The goals are stable under changes of other objects that are not secrets.\<close>

lemma stable_config_deployed:
  assumes "(KConfigMap, cl_ns cl, cl_name cl @ ''-config'') \<notin> ks" and "\<forall>k \<in> ks. fst k \<noteq> KSecret"
  shows "stable ks (config_deployed adm cl)"
  unfolding stable_def
proof (intro allI impI)
  fix V V' assume t: "touches ks V V'" and c: "config_deployed adm cl V"
  have "stored_owned adm cl (agentConfigMap cl cfg) V \<Longrightarrow> stored_owned adm cl (agentConfigMap cl cfg) V'" for cfg
    by (rule stored_owned_touches [OF _ t]) (use assms(1) in \<open>simp_all add: object_keys\<close>)
  then show "config_deployed adm cl V'"
    using c secrets_kept(2) [OF t assms(2)] by (auto simp: config_deployed_def)
qed

lemma stable_daemons_deployed:
  assumes "(KDaemonSet, cl_ns cl, cl_name cl @ ''-agent'') \<notin> ks" and "\<forall>k \<in> ks. fst k \<noteq> KSecret"
  shows "stable ks (daemons_deployed adm cl)"
  unfolding stable_def
proof (intro allI impI)
  fix V V' assume t: "touches ks V V'" and c: "daemons_deployed adm cl V"
  have "stored_owned adm cl (daemonSet cl h) V \<Longrightarrow> stored_owned adm cl (daemonSet cl h) V'" for h
    by (rule stored_owned_touches [OF _ t]) (use assms(1) in \<open>simp_all add: object_keys\<close>)
  then show "daemons_deployed adm cl V'"
    using c secrets_kept(3) [OF t assms(2)] by (auto simp: daemons_deployed_def)
qed

lemma stable_rbac_deployed:
  assumes "(KServiceAccount, cl_ns cl, cl_name cl @ ''-agent'') \<notin> ks"
    and "(KClusterRole, [], clusterRoleName cl) \<notin> ks" and "(KClusterRoleBinding, [], clusterRoleName cl) \<notin> ks"
  shows "stable ks (rbac_deployed adm cl)"
  unfolding rbac_deployed_def [abs_def]
  by (intro stable_conj stable_stored stable_stored_owned) (use assms in \<open>simp_all add: object_keys\<close>)

lemma reconcileRBAC_achieves:
  assumes "api_ok K view adm"
  shows "achieves view
    {(KServiceAccount, cl_ns cl, cl_name cl @ ''-agent''), (KClusterRole, [], clusterRoleName cl),
     (KClusterRoleBinding, [], clusterRoleName cl)}
    (rbac_deployed adm cl) (reconcileRBAC K cl s) s"
proof -
  note sa = createOrUpdateOwned_achieves [OF assms objects_live(1), of cl cl, unfolded object_keys]
  note cr = createOrUpdate_achieves [OF assms objects_live(2), of cl, unfolded object_keys]
  note crb = createOrUpdate_achieves [OF assms objects_live(3), of cl, unfolded object_keys]
  have "achieves view ({(KServiceAccount, cl_ns cl, cl_name cl @ ''-agent'')} \<union>
      ({(KClusterRole, [], clusterRoleName cl)} \<union> {(KClusterRoleBinding, [], clusterRoleName cl)}))
     (\<lambda>V. stored_owned adm cl (serviceAccount cl) V \<and>
       (stored adm (clusterRole cl) V \<and> stored adm (clusterRoleBinding cl) V)) (reconcileRBAC K cl s) s"
    unfolding reconcileRBAC_def reconcileServiceAccount_def reconcileClusterRole_def
      reconcileClusterRoleBinding_def
    by (intro achieves_seq)
      (simp_all add: sa cr crb object_keys stable_stored stable_stored_owned)
  then show ?thesis by (simp add: rbac_deployed_def [abs_def] insert_commute)
qed

lemma reconcileAgentConfigMap_achieves:
  assumes "api_ok K view adm"
  shows "achieves view {(KConfigMap, cl_ns cl, cl_name cl @ ''-config'')} (config_deployed adm cl)
    (reconcileAgentConfigMap K cl s) s"
proof -
  obtain r s1 where p: "peerConfigs K (cl_ns cl) (clusterPeers cl) s = (r, s1)" by fastforce
  note eff = peerConfigs_effect [OF assms p]
  show ?thesis
  proof (cases r)
    case (Inl e)
    then show ?thesis using eff p by (simp add: achieves_def reconcileAgentConfigMap_def)
  next
    case (Inr peers)
    with eff obtain pws where pws: "map (password_of (view s) (cl_ns cl)) (clusterPeers cl) = map Some pws"
        "peers = map2 peerConfig_of (clusterPeers cl) pws" by blast
    let ?ob = "agentConfigMap cl (agentConfig_of cl peers)"
    have a: "achieves view {key_of ?ob} (stored_owned adm cl ?ob) (createOrUpdateOwned K cl ?ob s1) s1"
      by (rule createOrUpdateOwned_achieves [OF assms]) (rule objects_live)
    then have t: "touches {(KConfigMap, cl_ns cl, cl_name cl @ ''-config'')} (view s)
        (view (snd (createOrUpdateOwned K cl ?ob s1)))"
      using eff by (simp add: achieves_def object_keys)
    have "password_of (view (snd (createOrUpdateOwned K cl ?ob s1))) = password_of (view s)"
      by (rule secrets_kept [OF t]) simp
    then show ?thesis
      using a t pws p Inr by (auto simp: achieves_def config_deployed_def reconcileAgentConfigMap_def)
  qed
qed

lemma reconcileConfigMaps_achieves:
  assumes "api_ok K view adm"
  shows "achieves view {(KConfigMap, cl_ns cl, cl_name cl @ ''-config''), (KConfigMap, cl_ns cl, cl_name cl @ ''-frr-bootstrap'')}
    (\<lambda>V. config_deployed adm cl V \<and> stored_owned adm cl (frrBootstrapConfigMap cl) V)
    (reconcileConfigMaps K cl s) s"
proof -
  let ?k = "(KConfigMap, cl_ns cl, cl_name cl @ ''-frr-bootstrap'')"
  have st: "stable {?k} (config_deployed adm cl)"
    by (rule stable_config_deployed) simp_all
  have "achieves view ({(KConfigMap, cl_ns cl, cl_name cl @ ''-config'')} \<union> {?k})
    (\<lambda>V. config_deployed adm cl V \<and> stored_owned adm cl (frrBootstrapConfigMap cl) V)
    (reconcileConfigMaps K cl s) s"
    unfolding reconcileConfigMaps_def reconcileFRRBootstrapConfigMap_def
    using createOrUpdateOwned_achieves [OF assms objects_live(5)] reconcileAgentConfigMap_achieves [OF assms] st
    by (intro achieves_seq) (simp_all add: object_keys)
  then show ?thesis by (simp add: insert_commute)
qed

lemma reconcileDaemonSet_achieves:
  assumes "api_ok K view adm"
  shows "achieves view {(KDaemonSet, cl_ns cl, cl_name cl @ ''-agent'')} (daemons_deployed adm cl)
    (reconcileDaemonSet K cl s) s"
proof -
  obtain r s1 where p: "computeSecretHash K cl s = (r, s1)" by fastforce
  note eff = computeSecretHash_effect [OF assms p]
  show ?thesis
  proof (cases r)
    case (Inl e)
    then show ?thesis using eff(1) p by (simp add: achieves_def reconcileDaemonSet_def)
  next
    case (Inr h)
    then have h: "h = secret_fingerprint (view s) cl" by (rule eff(2))
    have a: "achieves view {key_of (daemonSet cl h)} (stored_owned adm cl (daemonSet cl h))
        (createOrUpdateOwned K cl (daemonSet cl h) s1) s1"
      by (rule createOrUpdateOwned_achieves [OF assms]) (rule objects_live)
    then have t: "touches {(KDaemonSet, cl_ns cl, cl_name cl @ ''-agent'')} (view s)
        (view (snd (createOrUpdateOwned K cl (daemonSet cl h) s1)))"
      using eff(1) by (simp add: achieves_def object_keys)
    have "secret_fingerprint (view (snd (createOrUpdateOwned K cl (daemonSet cl h) s1))) =
        secret_fingerprint (view s)"
      by (rule secrets_kept [OF t]) simp
    then show ?thesis
      using a t p Inr h by (auto simp: achieves_def daemons_deployed_def reconcileDaemonSet_def)
  qed
qed

section \<open>All parts\<close>

lemma reconcileParts_effect:
  assumes "api_ok K view adm" and "reconcileParts K cl s = (errs, s')"
  shows "touches (set (managed_keys cl)) (view s) (view s')"
    and "errs = [] \<Longrightarrow> deployed adm cl (view s')"
proof -
  obtain e1 s1 where 1: "reconcileRBAC K cl s = (e1, s1)" by fastforce
  obtain e2 s2 where 2: "reconcileConfigMaps K cl s1 = (e2, s2)" by fastforce
  obtain e3 s3 where 3: "reconcileDaemonSet K cl s2 = (e3, s3)" by fastforce
  obtain e4 s4 where 4: "reconcileService K cl s3 = (e4, s4)" by fastforce
  have r: "s' = s4" "errs = [] \<Longrightarrow> e1 = None \<and> e2 = None \<and> e3 = None \<and> e4 = None"
    using assms(2) 1 2 3 4
    by (auto simp: reconcileParts_def wrap_def List.map_filter_simps split: option.splits)
  note a1 = reconcileRBAC_achieves [OF assms(1), of cl s, unfolded 1 achieves_def fst_conv snd_conv]
  note a2 = reconcileConfigMaps_achieves [OF assms(1), of cl s1, unfolded 2 achieves_def fst_conv snd_conv]
  note a3 = reconcileDaemonSet_achieves [OF assms(1), of cl s2, unfolded 3 achieves_def fst_conv snd_conv]
  have a4: "touches {(KService, cl_ns cl, cl_name cl @ ''-metrics'')} (view s3) (view s4)"
    "e4 = None \<Longrightarrow> stored_owned adm cl (metricsService cl) (view s4)"
    using createOrUpdateOwned_effect [OF assms(1) 4 [unfolded reconcileService_def]]
    by (simp_all add: object_keys objects_live)
  define D where "D = {(KDaemonSet, cl_ns cl, cl_name cl @ ''-agent''), (KService, cl_ns cl, cl_name cl @ ''-metrics'')}"
  define C where "C = {(KConfigMap, cl_ns cl, cl_name cl @ ''-config''),
    (KConfigMap, cl_ns cl, cl_name cl @ ''-frr-bootstrap'')} \<union> D"
  have t2: "touches D (view s2) (view s4)"
    by (rule touches_trans [OF conjunct1 [OF a3] a4(1)]) (simp add: D_def)
  have t1: "touches C (view s1) (view s4)"
    by (rule touches_trans [OF conjunct1 [OF a2] t2]) (simp add: C_def)
  show "touches (set (managed_keys cl)) (view s) (view s')"
    unfolding r(1)
    by (rule touches_trans [OF conjunct1 [OF a1] t1]) (simp add: C_def D_def managed_keys_def)
  assume "errs = []"
  with r(2) have e: "e1 = None" "e2 = None" "e3 = None" "e4 = None" by auto
  have "rbac_deployed adm cl (view s4)"
    by (rule stableD [OF stable_rbac_deployed t1]) (use a1 e in \<open>auto simp: C_def D_def\<close>)
  moreover have "config_deployed adm cl (view s4)"
    by (rule stableD [OF stable_config_deployed t2]) (use a2 e in \<open>auto simp: D_def\<close>)
  moreover have "stored_owned adm cl (frrBootstrapConfigMap cl) (view s4)"
    by (rule stored_owned_touches [OF _ t2]) (use a2 e in \<open>auto simp: D_def object_keys\<close>)
  moreover have "daemons_deployed adm cl (view s4)"
    by (rule stableD [OF stable_daemons_deployed a4(1)]) (use a3 e in auto)
  ultimately show "deployed adm cl (view s')" using a4(2) e by (simp add: deployed_def r(1))
qed

end
