(* ===== verification/Operator_Reconcile.thy ===== *)
theory Operator_Reconcile
  imports Operator_Parts
begin

text \<open>
  Facts about a whole reconciliation: the steps around the parts keep the identity and the
  spec of the resource, and what each path of \<open>ReconcileCluster\<close> does to the store.
\<close>

section \<open>The same resource\<close>

definition same_cluster :: "NovaRouteCluster \<Rightarrow> NovaRouteCluster \<Rightarrow> bool" where
  "same_cluster cl cl' \<longleftrightarrow> cl_ns cl' = cl_ns cl \<and> cl_name cl' = cl_name cl \<and> nc_Spec cl' = nc_Spec cl"

lemma same_cluster_refl [simp]: "same_cluster cl cl"
  by (simp add: same_cluster_def)

lemma same_cluster_trans: "same_cluster a b \<Longrightarrow> same_cluster b c \<Longrightarrow> same_cluster a c"
  by (simp add: same_cluster_def)

lemma same_objects:
  assumes "same_cluster cl cl'"
  shows "serviceAccount cl' = serviceAccount cl" "clusterRole cl' = clusterRole cl"
    "clusterRoleBinding cl' = clusterRoleBinding cl" "agentConfigMap cl' = agentConfigMap cl"
    "agentConfig_of cl' = agentConfig_of cl" "frrBootstrapConfigMap cl' = frrBootstrapConfigMap cl"
    "daemonSet cl' = daemonSet cl" "metricsService cl' = metricsService cl" "clusterPeers cl' = clusterPeers cl"
    "secretRefs cl' = secretRefs cl" "managed_keys cl' = managed_keys cl"
proof -
  have eq: "cl_ns cl' = cl_ns cl" "cl_name cl' = cl_name cl" "nc_Spec cl' = nc_Spec cl"
    using assms by (simp_all add: same_cluster_def)
  have m: "metricsPort cl' = metricsPort cl" "getLabels cl' = getLabels cl"
    "getSelectorLabels cl' = getSelectorLabels cl" "getServiceAccountName cl' = getServiceAccountName cl"
    "clusterRoleName cl' = clusterRoleName cl" "getAgentImage cl' = getAgentImage cl"
    "getFRRImage cl' = getFRRImage cl" "volumes cl' = volumes cl" "tolerations cl' = tolerations cl"
    "updateStrategy cl' = updateStrategy cl"
    by (simp_all add: eq metricsPort_def fun_eq_iff getLabels_def getSelectorLabels_def clusterRoleName_def
        getServiceAccountName_def getAgentImage_def getFRRImage_def volumes_def tolerations_def
        updateStrategy_def)
  have p: "podSpec cl' = podSpec cl" by (simp add: podSpec_def agentContainer_def frrContainer_def eq m)
  show "serviceAccount cl' = serviceAccount cl" "clusterRole cl' = clusterRole cl"
    "clusterRoleBinding cl' = clusterRoleBinding cl" "agentConfigMap cl' = agentConfigMap cl"
    "agentConfig_of cl' = agentConfig_of cl" "frrBootstrapConfigMap cl' = frrBootstrapConfigMap cl"
    "daemonSet cl' = daemonSet cl" "metricsService cl' = metricsService cl"
    "managed_keys cl' = managed_keys cl"
    by (simp_all add: fun_eq_iff serviceAccount_def clusterRole_def clusterRoleBinding_def agentConfigMap_def
        agentConfig_of_def frrBootstrapConfigMap_def daemon_enabled_def daemonSet_def metricsService_def
        managed_keys_def eq m p)
  show c: "clusterPeers cl' = clusterPeers cl" by (simp add: clusterPeers_def eq)
  then show "secretRefs cl' = secretRefs cl" by (simp add: secretRefs_def)
qed

lemma same_deployed:
  assumes "same_cluster cl cl'"
  shows "deployed adm cl' V = deployed adm cl V"
proof -
  have eq: "cl_ns cl' = cl_ns cl" "cl_name cl' = cl_name cl" using assms by (simp_all add: same_cluster_def)
  have "stored_owned adm cl' = stored_owned adm cl" by (simp add: fun_eq_iff stored_owned_def eq)
  moreover have "secret_fingerprint V cl' = secret_fingerprint V cl"
    by (simp add: secret_fingerprint_def hashed_text_def same_objects [OF assms] eq)
  ultimately show ?thesis
    by (simp add: deployed_def rbac_deployed_def config_deployed_def daemons_deployed_def
        same_objects [OF assms] eq)
qed

section \<open>Around the parts\<close>

definition own_key :: "NovaRouteCluster \<Rightarrow> object_key" where
  "own_key cl = (KCluster, cl_ns cl, cl_name cl)"

lemma key_cluster [simp]: "key_of (OCluster cl) = own_key cl"
  by (simp add: key_of_def own_key_def)

lemma own_key_same: "same_cluster cl cl' \<Longrightarrow> own_key cl' = own_key cl"
  by (simp add: same_cluster_def own_key_def)

lemma kStatusUpdate_effect:
  assumes "api_ok K view adm" and "kStatusUpdate K (OCluster cl) s = (r, s')"
  shows "touches {own_key cl} (view s) (view s')"
    and "r = Inr ob \<Longrightarrow> view s (own_key cl) = Some (OCluster c0) \<Longrightarrow> nc_Spec c0 = nc_Spec cl \<Longrightarrow>
      same_cluster cl (answered cl ob)"
    and "r = Inr ob \<Longrightarrow> view s' (own_key cl) = Some (OCluster (answered cl ob))"
proof -
  have "(\<forall>k. k \<noteq> key_of (OCluster cl) \<longrightarrow> view (snd (kStatusUpdate K (OCluster cl) s)) k = view s k) \<and>
      (\<forall>r. fst (kStatusUpdate K (OCluster cl) s) = Inr r \<longrightarrow>
         (\<exists>c0 c'. view s (key_of (OCluster cl)) = Some (OCluster c0) \<and> r = OCluster c' \<and>
               view (snd (kStatusUpdate K (OCluster cl) s)) (key_of (OCluster cl)) = Some r \<and>
               om_Name (nc_Meta c') = om_Name (nc_Meta cl) \<and>
               om_Namespace (nc_Meta c') = om_Namespace (nc_Meta cl) \<and> nc_Spec c' = nc_Spec c0))"
    using api_okD(4) [OF assms(1)] unfolding status_only_def by blast
  with assms(2) show "touches {own_key cl} (view s) (view s')"
    "r = Inr ob \<Longrightarrow> view s (own_key cl) = Some (OCluster c0) \<Longrightarrow> nc_Spec c0 = nc_Spec cl \<Longrightarrow>
      same_cluster cl (answered cl ob)"
    "r = Inr ob \<Longrightarrow> view s' (own_key cl) = Some (OCluster (answered cl ob))"
    by (auto simp: touches_def same_cluster_def answered_def)
qed

lemma admitted_cluster:
  assumes "api_ok K view adm" and "adm (OCluster cl) ob"
  shows "same_cluster cl (answered cl ob)"
proof -
  have "key_of ob = own_key cl \<and> (\<exists>c'. ob = OCluster c' \<and> nc_Spec c' = nc_Spec cl)"
    using api_okD(7) [OF assms(1)] assms(2) by (auto simp: admission_ok_def)
  then show ?thesis by (auto simp: same_cluster_def answered_def own_key_def)
qed

lemma add_finalizer_meta:
  assumes "api_ok K view adm"
  shows "om_Name (AddFinalizer K m f) = om_Name m" "om_Namespace (AddFinalizer K m f) = om_Namespace m"
    "om_Name (RemoveFinalizer K m f) = om_Name m" "om_Namespace (RemoveFinalizer K m f) = om_Namespace m"
    "om_DeletionTimestamp (AddFinalizer K m f) = om_DeletionTimestamp m"
    "ContainsFinalizer K m f = (f \<in> set (om_Finalizers m))"
  using api_okD(6) [OF assms] by (simp_all add: helpers_ok_def)

text \<open>The controller's copy is the one in the store.\<close>

lemma ensureFinalizer_effect:
  assumes "api_ok K view adm" and "ensureFinalizer K cl s = (r, s')"
  shows "touches {own_key cl} (view s) (view s')"
    and "r = Inr cl' \<Longrightarrow> same_cluster cl cl'"
    and "r = Inr cl' \<Longrightarrow> om_DeletionTimestamp (nc_Meta cl) = None \<Longrightarrow>
      view s (own_key cl) = Some (OCluster cl) \<Longrightarrow> view s' (own_key cl') = Some (OCluster cl')"
proof -
  let ?cl = "cl\<lparr>nc_Meta := AddFinalizer K (nc_Meta cl) novaRouteClusterFinalizer\<rparr>"
  obtain q s1 where u: "kUpdate K (OCluster ?cl) s = (q, s1)" by fastforce
  have same: "same_cluster cl ?cl" by (simp add: same_cluster_def add_finalizer_meta [OF assms(1)])
  note eff = kUpdate_effect [OF assms(1) u]
  show "touches {own_key cl} (view s) (view s')"
    using assms(2) u eff(1) own_key_same [OF same]
    by (auto simp: ensureFinalizer_def Let_def split: if_splits sum.splits)
  have ans: "answered ?cl ob = cl' \<Longrightarrow> q = Inr ob \<Longrightarrow> same_cluster cl cl' \<and> ob = OCluster cl'" for ob
  proof -
    assume "answered ?cl ob = cl'" "q = Inr ob"
    moreover have "\<exists>c'. ob = OCluster c'"
      using api_okD(7) [OF assms(1)] eff(2) [OF \<open>q = Inr ob\<close>] unfolding admission_ok_def by blast
    ultimately show ?thesis
      using same_cluster_trans [OF same admitted_cluster [OF assms(1) eff(2)]] by (auto simp: answered_def)
  qed
  show same': "r = Inr cl' \<Longrightarrow> same_cluster cl cl'"
    using assms(2) u ans by (auto simp: ensureFinalizer_def Let_def split: if_splits sum.splits)
  assume "r = Inr cl'" "om_DeletionTimestamp (nc_Meta cl) = None" "view s (own_key cl) = Some (OCluster cl)"
  note h = this
  show "view s' (own_key cl') = Some (OCluster cl')"
  proof (cases "ContainsFinalizer K (nc_Meta cl) novaRouteClusterFinalizer")
    case True
    then show ?thesis using assms(2) h by (simp add: ensureFinalizer_def)
  next
    case False
    with assms(2) u h(1) obtain ob where ob: "q = Inr ob" "answered ?cl ob = cl'" "s' = s1"
      by (auto simp: ensureFinalizer_def Let_def split: sum.splits)
    have "view s1 (own_key ?cl) = Some ob"
      using eff(3) [OF ob(1)] h(2) add_finalizer_meta(5) [OF assms(1)] by simp
    with ob ans [OF ob(2,1)] own_key_same [OF same] own_key_same [OF same' [OF h(1)]] show ?thesis by simp
  qed
qed

lemma initStatus_effect:
  assumes "api_ok K view adm" and "initStatus K cl s = (r, s')"
  shows "touches {own_key cl} (view s) (view s')"
    and "r = Inr cl' \<Longrightarrow> view s (own_key cl) = Some (OCluster cl) \<Longrightarrow> same_cluster cl cl'"
proof -
  let ?cl = "cl\<lparr>nc_Status := (nc_Status cl)\<lparr>st_Phase := ClusterPhasePending\<rparr>\<rparr>"
  obtain q s1 where u: "kStatusUpdate K (OCluster ?cl) s = (q, s1)" by fastforce
  have same: "same_cluster cl ?cl" by (simp add: same_cluster_def)
  note eff = kStatusUpdate_effect [OF assms(1) u]
  show "touches {own_key cl} (view s) (view s')"
    using assms(2) u eff(1) own_key_same [OF same]
    by (auto simp: initStatus_def Let_def split: if_splits sum.splits)
  show "r = Inr cl' \<Longrightarrow> view s (own_key cl) = Some (OCluster cl) \<Longrightarrow> same_cluster cl cl'"
    using assms(2) u same_cluster_trans [OF same eff(2) [where ?c0.0 = cl]] own_key_same [OF same]
    by (auto simp: initStatus_def Let_def split: if_splits sum.splits)
qed

lemma SetStatusCondition_view:
  assumes "api_ok K view adm"
  shows "view (snd (SetStatusCondition K cs c s)) = view s"
proof -
  have "\<forall>cs c s. view (snd (SetStatusCondition K cs c s)) = view s"
    using api_okD(6) [OF assms] unfolding helpers_ok_def by (elim conjE)
  then show ?thesis by blast
qed

lemma getDaemonSet_view:
  assumes "api_ok K view adm"
  shows "view (snd (getDaemonSet K ns n s)) = view s"
  using kGet_effect(1) [OF assms, of "(KDaemonSet, ns, n)" s]
  by (cases "kGet K (KDaemonSet, ns, n) s") (auto simp: getDaemonSet_def split: sum.splits kobject.splits)

lemma computeStatus_view:
  assumes "api_ok K view adm"
  shows "view (snd (computeStatus K cl s)) = view s"
proof -
  have c: "view s' = view s1" if "SetStatusCondition K cs c s1 = (cs', s')" for cs c s1 cs' s'
    using SetStatusCondition_view [OF assms] that by (metis snd_conv)
  obtain r s1 where 1: "getDaemonSet K (cl_ns cl) (cl_name cl @ ''-agent'') s = (r, s1)" by fastforce
  have "view s1 = view s" using getDaemonSet_view [OF assms] 1 by (metis snd_conv)
  with 1 show ?thesis by (auto simp: computeStatus_def Let_def split: prod.splits dest!: c)
qed

lemma updateStatus_effect:
  assumes "api_ok K view adm"
  shows "touches {own_key cl} (view s) (view (snd (updateStatus K cl s)))"
proof -
  obtain st s1 where 1: "computeStatus K cl s = (st, s1)" by fastforce
  obtain r s2 where 2: "kStatusUpdate K (OCluster (cl\<lparr>nc_Status := st\<rparr>)) s1 = (r, s2)" by fastforce
  have "view s1 = view s" using computeStatus_view [OF assms] 1 by (metis snd_conv)
  with kStatusUpdate_effect(1) [OF assms 2] 1 2 show ?thesis
    by (auto simp: updateStatus_def own_key_def split: sum.splits)
qed

lemma initStatus_keys:
  assumes "api_ok K view adm" and "initStatus K cl s = (Inr cl', s')"
  shows "cl_ns cl' = cl_ns cl" "cl_name cl' = cl_name cl"
proof -
  have "\<exists>c'. r = OCluster c' \<and> cl_name c' = cl_name c \<and> cl_ns c' = cl_ns c"
    if "kStatusUpdate K (OCluster c) s = (Inr r, s1)" for c r s s1
  proof -
    have "fst (kStatusUpdate K (OCluster c) s) = Inr r" using that by simp
    then show ?thesis using api_okD(4) [OF assms(1)] unfolding status_only_def by blast
  qed
  then show "cl_ns cl' = cl_ns cl" "cl_name cl' = cl_name cl"
    using assms(2) by (fastforce simp: initStatus_def Let_def answered_def split: if_splits sum.splits prod.splits)+
qed

lemma managed_keys_cong: "cl_ns cl' = cl_ns cl \<Longrightarrow> cl_name cl' = cl_name cl \<Longrightarrow>
    managed_keys cl' = managed_keys cl \<and> own_key cl' = own_key cl"
  by (simp add: managed_keys_def clusterRoleName_def own_key_def)

lemma reconcileLive_effect:
  assumes "api_ok K view adm" and "reconcileLive K cl s = (r, s')"
  shows "touches (insert (own_key cl) (set (managed_keys cl))) (view s) (view s')"
    and "r = Inr \<lparr>RequeueAfter = 60\<rparr> \<Longrightarrow> view s (own_key cl) = Some (OCluster cl) \<Longrightarrow> deployed adm cl (view s')"
proof -
  obtain r1 s1 where 1: "initStatus K cl s = (r1, s1)" by fastforce
  note i = initStatus_effect [OF assms(1) 1]
  have "touches (insert (own_key cl) (set (managed_keys cl))) (view s) (view s') \<and>
    (r = Inr \<lparr>RequeueAfter = 60\<rparr> \<longrightarrow> view s (own_key cl) = Some (OCluster cl) \<longrightarrow> deployed adm cl (view s'))"
  proof (cases r1)
    case (Inl e)
    then show ?thesis using assms(2) 1 touches_mono [OF i(1)] by (auto simp: reconcileLive_def)
  next
    case (Inr cl')
    obtain errs s2 where 2: "reconcileParts K cl' s1 = (errs, s2)" by fastforce
    obtain e s3 where 3: "updateStatus K cl' s2 = (e, s3)" by fastforce
    have keys: "managed_keys cl' = managed_keys cl" "own_key cl' = own_key cl"
      using managed_keys_cong initStatus_keys [OF assms(1)] 1 Inr by blast+
    note p = reconcileParts_effect [OF assms(1) 2, unfolded keys]
    have u: "touches {own_key cl} (view s2) (view s3)"
      using updateStatus_effect [OF assms(1), of cl' s2] 3 keys by simp
    have r: "s' = s3" "r = Inr \<lparr>RequeueAfter = 60\<rparr> \<Longrightarrow> errs = []"
      using assms(2) 1 2 3 Inr by (auto simp: reconcileLive_def split: option.splits if_splits)
    have "touches (insert (own_key cl) (set (managed_keys cl))) (view s) (view s2)"
      by (rule touches_trans [OF i(1) p(1)]) simp
    then have t: "touches (insert (own_key cl) (set (managed_keys cl))) (view s) (view s3)"
      by (rule touches_trans [OF _ u]) simp
    have "stable {own_key cl} (deployed adm cl)"
      unfolding deployed_def [abs_def] own_key_def
      by (intro stable_conj stable_rbac_deployed stable_config_deployed stable_daemons_deployed
          stable_stored_owned) (simp_all add: object_keys)
    then have "deployed adm cl (view s2) \<Longrightarrow> deployed adm cl (view s3)" by (rule stableD [OF _ u])
    with t r p(2) i(2) [OF Inr] same_deployed show ?thesis by blast
  qed
  then show "touches (insert (own_key cl) (set (managed_keys cl))) (view s) (view s')"
    "r = Inr \<lparr>RequeueAfter = 60\<rparr> \<Longrightarrow> view s (own_key cl) = Some (OCluster cl) \<Longrightarrow> deployed adm cl (view s')" by auto
qed

section \<open>Cleaning up\<close>

lemma kDelete_effect:
  assumes "api_ok K view adm" and "kDelete K ob s = (e, s')"
  shows "touches {key_of ob} (view s) (view s')"
    and "e = None \<or> e = Some NotFound \<Longrightarrow> view s' (key_of ob) = None"
proof -
  have "(\<forall>k. k \<noteq> key_of ob \<longrightarrow> view (snd (kDelete K ob s)) k = view s k) \<and>
      (fst (kDelete K ob s) = None \<or> fst (kDelete K ob s) = Some NotFound \<longrightarrow>
         view (snd (kDelete K ob s)) (key_of ob) = None)"
    using api_okD(5) [OF assms(1)] unfolding delete_removes_def by blast
  with assms(2) show "touches {key_of ob} (view s) (view s')"
    "e = None \<or> e = Some NotFound \<Longrightarrow> view s' (key_of ob) = None" by (auto simp: touches_def)
qed

lemma deleteIfPresent_achieves:
  assumes "api_ok K view adm"
  shows "achieves view {k} (\<lambda>V. reads_reliable K \<longrightarrow> V k = None) (deleteIfPresent K msg k s) s"
proof -
  obtain r s1 where g: "kGet K k s = (r, s1)" by fastforce
  note ge = kGet_effect [OF assms g]
  show ?thesis
  proof (cases r)
    case (Inl e)
    have "reads_reliable K \<Longrightarrow> e = NotFound" using g Inl by (metis fst_conv reads_reliable_def)
    then show ?thesis using Inl g ge(1,3) by (auto simp: achieves_def deleteIfPresent_def)
  next
    case (Inr ob)
    obtain e s2 where d: "kDelete K ob s1 = (e, s2)" by fastforce
    have k: "key_of ob = k" using ge(4) Inr .
    from kDelete_effect [OF assms d] ge(1) k Inr g d show ?thesis
      by (cases e) (auto simp: achieves_def deleteIfPresent_def IsNotFound_def split: if_splits)
  qed
qed

lemma cleanupResources_achieves:
  assumes "api_ok K view adm"
  shows "achieves view {(KClusterRoleBinding, [], clusterRoleName cl), (KClusterRole, [], clusterRoleName cl)}
    (\<lambda>V. (reads_reliable K \<longrightarrow> V (KClusterRoleBinding, [], clusterRoleName cl) = None) \<and>
         (reads_reliable K \<longrightarrow> V (KClusterRole, [], clusterRoleName cl) = None))
    (cleanupResources K cl s) s"
proof -
  have "achieves view ({(KClusterRoleBinding, [], clusterRoleName cl)} \<union> {(KClusterRole, [], clusterRoleName cl)})
    (\<lambda>V. (reads_reliable K \<longrightarrow> V (KClusterRoleBinding, [], clusterRoleName cl) = None) \<and>
         (reads_reliable K \<longrightarrow> V (KClusterRole, [], clusterRoleName cl) = None))
    (cleanupResources K cl s) s"
    unfolding cleanupResources_def
    by (intro achieves_seq deleteIfPresent_achieves [OF assms]) (simp add: stable_def touches_def)
  then show ?thesis by (simp add: insert_commute)
qed

lemma finalize_effect:
  assumes "api_ok K view adm" and "finalize K cl s = (e, s')"
  shows "touches {own_key cl, (KClusterRoleBinding, [], clusterRoleName cl), (KClusterRole, [], clusterRoleName cl)}
      (view s) (view s')"
    and "e = None \<Longrightarrow> novaRouteClusterFinalizer \<in> set (om_Finalizers (nc_Meta cl)) \<Longrightarrow> reads_reliable K \<Longrightarrow>
      view s' (KClusterRoleBinding, [], clusterRoleName cl) = None \<and> view s' (KClusterRole, [], clusterRoleName cl) = None"
proof -
  let ?cl = "cl\<lparr>nc_Meta := RemoveFinalizer K (nc_Meta cl) novaRouteClusterFinalizer\<rparr>"
  let ?ks = "{(KClusterRoleBinding, [], clusterRoleName cl), (KClusterRole, [], clusterRoleName cl)}"
  have key: "own_key ?cl = own_key cl" by (simp add: own_key_def add_finalizer_meta [OF assms(1)])
  show "touches {own_key cl, (KClusterRoleBinding, [], clusterRoleName cl), (KClusterRole, [], clusterRoleName cl)}
      (view s) (view s')"
    and "e = None \<Longrightarrow> novaRouteClusterFinalizer \<in> set (om_Finalizers (nc_Meta cl)) \<Longrightarrow> reads_reliable K \<Longrightarrow>
      view s' (KClusterRoleBinding, [], clusterRoleName cl) = None \<and> view s' (KClusterRole, [], clusterRoleName cl) = None"
  proof -
    have "touches (insert (own_key cl) ?ks) (view s) (view s') \<and>
      (e = None \<longrightarrow> novaRouteClusterFinalizer \<in> set (om_Finalizers (nc_Meta cl)) \<longrightarrow> reads_reliable K \<longrightarrow>
        view s' (KClusterRoleBinding, [], clusterRoleName cl) = None \<and>
        view s' (KClusterRole, [], clusterRoleName cl) = None)"
    proof (cases "novaRouteClusterFinalizer \<in> set (om_Finalizers (nc_Meta cl))")
      case False
      then show ?thesis using assms(2) by (auto simp: finalize_def add_finalizer_meta [OF assms(1)])
    next
      case True
      obtain e1 s1 where c: "cleanupResources K cl s = (e1, s1)" by fastforce
      obtain r s2 where u: "kUpdate K (OCluster ?cl) s1 = (r, s2)" by fastforce
      note ce = cleanupResources_achieves [OF assms(1), of cl s, unfolded c achieves_def fst_conv snd_conv]
      note ue = kUpdate_effect(1) [OF assms(1) u, unfolded key_cluster key]
      have r: "s' = (if e1 = None then s2 else s1)" "e = None \<Longrightarrow> e1 = None"
        using assms(2) c u True
        by (auto simp: finalize_def add_finalizer_meta [OF assms(1)] wrap_def seq_def
            split: option.splits sum.splits)
      have t: "touches (insert (own_key cl) ?ks) (view s) (view s2)"
        by (rule touches_trans [OF conjunct1 [OF ce] ue]) simp
      have t1: "touches (insert (own_key cl) ?ks) (view s) (view s1)"
        by (rule touches_mono [OF conjunct1 [OF ce]]) auto
      have "view s2 k = view s1 k" if "k \<in> ?ks" for k
        by (rule touchesD [OF ue]) (use that in \<open>auto simp: own_key_def\<close>)
      with r t t1 ce show ?thesis by auto
    qed
    then show "touches {own_key cl, (KClusterRoleBinding, [], clusterRoleName cl), (KClusterRole, [], clusterRoleName cl)}
      (view s) (view s')"
      and "e = None \<Longrightarrow> novaRouteClusterFinalizer \<in> set (om_Finalizers (nc_Meta cl)) \<Longrightarrow> reads_reliable K \<Longrightarrow>
      view s' (KClusterRoleBinding, [], clusterRoleName cl) = None \<and> view s' (KClusterRole, [], clusterRoleName cl) = None"
      by auto
  qed
qed

end
