(* ===== verification/Operator_Memory.thy ===== *)
theory Operator_Memory
  imports Operator_Reconcile
begin

text \<open>
  An API server kept in memory, as tests of a controller use one: a list of objects, whose
  reads can be made to fail for chosen keys.  It keeps the promises of \<open>Kube_Api\<close>, and the
  examples of the operator's properties run on it.
\<close>

section \<open>The server\<close>

type_synonym mem = "kobject list"

definition mem_view :: "mem \<Rightarrow> object_key \<Rightarrow> kobject option" where
  "mem_view s k = find (\<lambda>ob. key_of ob = k) s"

definition mem_put :: "kobject \<Rightarrow> mem \<Rightarrow> mem" where
  "mem_put ob s = ob # filter (\<lambda>x. key_of x \<noteq> key_of ob) s"

definition mem_del :: "object_key \<Rightarrow> mem \<Rightarrow> mem" where
  "mem_del k s = filter (\<lambda>x. key_of x \<noteq> k) s"

definition memGet :: "(object_key \<Rightarrow> bool) \<Rightarrow> object_key \<Rightarrow> mem \<Rightarrow> (kerror + kobject) \<times> mem" where
  "memGet fails k s =
     (if fails k then Inl (OtherError ''timeout'')
      else case mem_view s k of None \<Rightarrow> Inl NotFound | Some ob \<Rightarrow> Inr ob, s)"

definition memCreate :: "kobject \<Rightarrow> mem \<Rightarrow> kerror option \<times> mem" where
  "memCreate ob s =
     (if mem_view s (key_of ob) \<noteq> None then (Some (OtherError ''already exists''), s) else (None, mem_put ob s))"

text \<open>The last finalizer of an object that is being deleted takes the object with it.\<close>

definition memUpdate :: "kobject \<Rightarrow> mem \<Rightarrow> (kerror + kobject) \<times> mem" where
  "memUpdate ob s =
     (if mem_view s (key_of ob) = None then (Inl NotFound, s)
      else if om_DeletionTimestamp (meta_of ob) \<noteq> None \<and> om_Finalizers (meta_of ob) = []
      then (Inr ob, mem_del (key_of ob) s)
      else (Inr ob, mem_put ob s))"

definition memStatusUpdate :: "kobject \<Rightarrow> mem \<Rightarrow> (kerror + kobject) \<times> mem" where
  "memStatusUpdate ob s =
     (case (ob, mem_view s (key_of ob)) of
        (OCluster c, Some (OCluster c0)) \<Rightarrow>
          (let c' = OCluster (c0\<lparr>nc_Status := nc_Status c\<rparr>) in (Inr c', mem_put c' s))
      | _ \<Rightarrow> (Inl NotFound, s))"

definition memDelete :: "kobject \<Rightarrow> mem \<Rightarrow> kerror option \<times> mem" where
  "memDelete ob s =
     (if mem_view s (key_of ob) = None then (Some NotFound, s) else (None, mem_del (key_of ob) s))"

definition memList :: "string \<Rightarrow> mem \<Rightarrow> (kerror + NovaRouteCluster list) \<times> mem" where
  "memList ns s =
     (Inr (List.map_filter
        (\<lambda>ob. case ob of OCluster c \<Rightarrow> if cl_ns c = ns then Some c else None | _ \<Rightarrow> None) s), s)"

definition mem_ref :: "ObjectMeta \<Rightarrow> OwnerReference" where
  "mem_ref owner =
     \<lparr>or_Kind = ''NovaRouteCluster'', or_Name = om_Name owner, or_UID = om_UID owner, or_Controller = True\<rparr>"

definition mem_kube :: "(object_key \<Rightarrow> bool) \<Rightarrow> mem kube" where
  "mem_kube fails =
     \<lparr>kGet = memGet fails, kCreate = memCreate, kUpdate = memUpdate, kStatusUpdate = memStatusUpdate,
      kDelete = memDelete, kList = memList,
      ContainsFinalizer = (\<lambda>m f. f \<in> set (om_Finalizers m)),
      AddFinalizer = (\<lambda>m f. m\<lparr>om_Finalizers :=
        om_Finalizers m @ (if f \<in> set (om_Finalizers m) then [] else [f])\<rparr>),
      RemoveFinalizer = (\<lambda>m f. m\<lparr>om_Finalizers := filter (\<lambda>x. x \<noteq> f) (om_Finalizers m)\<rparr>),
      SetControllerReference = (\<lambda>owner m. Inr (m\<lparr>om_OwnerReferences := om_OwnerReferences m @
        [mem_ref owner]\<rparr>)),
      SetStatusCondition = (\<lambda>cs c s. (filter (\<lambda>x. cd_Type x \<noteq> cd_Type c) cs @ [c], s))\<rparr>"

abbreviation as_is :: admission where
  "as_is \<equiv> (\<lambda>ob ob'. ob' = ob)"

section \<open>It keeps its promises\<close>

lemma mem_view_put: "mem_view (mem_put ob s) k = (if k = key_of ob then Some ob else mem_view s k)"
proof (cases "k = key_of ob")
  case False
  have "find (\<lambda>x. key_of x = k) (filter (\<lambda>x. key_of x \<noteq> key_of ob) s) = find (\<lambda>x. key_of x = k) s"
    using False by (induction s) auto
  with False show ?thesis by (auto simp: mem_view_def mem_put_def)
qed (simp add: mem_view_def mem_put_def)

lemma mem_view_del: "mem_view (mem_del k s) k' = (if k' = k then None else mem_view s k')"
  by (induction s) (auto simp: mem_view_def mem_del_def)

lemma mem_view_key: "mem_view s k = Some ob \<Longrightarrow> key_of ob = k"
  by (auto simp: mem_view_def dest: find_SomeD)

lemma mem_api_ok: "api_ok (mem_kube fails) mem_view as_is"
proof -
  let ?K = "mem_kube fails"
  have "reads_current ?K mem_view"
    by (auto simp: reads_current_def mem_kube_def memGet_def mem_view_key split: option.splits)
  moreover have "create_stores ?K mem_view as_is"
    by (simp add: create_stores_def mem_kube_def memCreate_def mem_view_put)
  moreover have "update_stores ?K mem_view as_is"
    by (simp add: update_stores_def mem_kube_def memUpdate_def mem_view_put mem_view_del)
  moreover have "status_only ?K mem_view"
    unfolding status_only_def
  proof (intro allI conjI impI)
    fix c s k r
    assume "k \<noteq> key_of (OCluster c)"
    then show "mem_view (snd (kStatusUpdate ?K (OCluster c) s)) k = mem_view s k"
      by (auto simp: mem_kube_def memStatusUpdate_def mem_view_put Let_def own_key_def
          split: option.splits kobject.splits dest!: mem_view_key)
  next
    fix c s r
    assume "fst (kStatusUpdate ?K (OCluster c) s) = Inr r"
    then show "\<exists>c0 c'. mem_view s (key_of (OCluster c)) = Some (OCluster c0) \<and> r = OCluster c' \<and>
        mem_view (snd (kStatusUpdate ?K (OCluster c) s)) (key_of (OCluster c)) = Some r \<and>
        cl_name c' = cl_name c \<and> cl_ns c' = cl_ns c \<and> nc_Spec c' = nc_Spec c0"
      by (auto simp: mem_kube_def memStatusUpdate_def mem_view_put Let_def own_key_def
          split: option.splits kobject.splits dest!: mem_view_key)
  qed
  moreover have "delete_removes ?K mem_view"
    by (simp add: delete_removes_def mem_kube_def memDelete_def mem_view_del)
  moreover have "helpers_ok ?K mem_view"
    by (auto simp: helpers_ok_def mem_kube_def mem_ref_def intro!: exI [of _ "mem_ref _"])
  moreover have "admission_ok as_is" by (simp add: admission_ok_def)
  ultimately show ?thesis by (simp add: api_ok_def)
qed

lemma mem_accepting: "accepting (mem_kube (\<lambda>_. False)) mem_view"
  by (auto simp: accepting_def reads_reliable_def mem_kube_def memGet_def memCreate_def memUpdate_def
      memStatusUpdate_def Let_def split: option.splits)

section \<open>An example cluster\<close>

definition ex_resources :: ResourceRequirements where
  "ex_resources = \<lparr>rr_Limits = [], rr_Requests = []\<rparr>"

definition ex_peer_spec :: BGPPeerSpec where
  "ex_peer_spec =
     \<lparr>ps_Address = ''10.0.0.1'', ps_RemoteAS = 65001, ps_Description = ''tor'', ps_BFD = True,
      ps_BFDMinRxMs = 300, ps_BFDMinTxMs = 300, ps_BFDDetectMultiplier = 3, ps_Keepalive = 0,
      ps_HoldTime = 0, ps_PasswordSecretRef = Some \<lparr>sk_Name = ''bgp'', sk_Key = ''pw''\<rparr>, ps_MaxPrefixes = 0\<rparr>"

definition ex_cluster :: NovaRouteCluster where
  "ex_cluster =
     \<lparr>nc_Meta = \<lparr>om_Name = ''nr'', om_Namespace = ''net'', om_UID = ''u1'', om_ResourceVersion = ''1'',
        om_Generation = 1, om_DeletionTimestamp = None, om_Labels = [], om_Finalizers = [],
        om_OwnerReferences = []\<rparr>,
      nc_Spec = \<lparr>sp_Version = ''v1.0.0'', sp_ImageRepository = [], sp_ImagePullPolicy = ''IfNotPresent'',
        sp_ImagePullSecrets = [],
        sp_Agent = \<lparr>as_Image = [], as_Resources = ex_resources, as_NodeSelector = [], as_Tolerations = [],
          as_SocketPath = [], as_MetricsPort = None, as_LogLevel = [],
          as_BGP = Some \<lparr>bs_LocalAS = 65000, bs_AsBase = 0, bs_RouterID = ''192.0.2.1'',
            bs_AutoRouterID = False, bs_Peers = [ex_peer_spec]\<rparr>,
          as_Owners = [\<lparr>ow_Name = ''edge'', ow_Token = ''t0ken'', ow_PrefixType = ''host_only'',
            ow_AllowedCIDRs = [''10.1.0.0/16'']\<rparr>],
          as_ExtraArgs = [], as_ExtraEnv = []\<rparr>,
        sp_FRR = \<lparr>fs_Image = [], fs_Resources = ex_resources, fs_Daemons = None\<rparr>,
        sp_UpdateStrategy = None\<rparr>,
      nc_Status = \<lparr>st_Phase = [], st_Agent = None, st_Version = [], st_ObservedGeneration = 0,
        st_Conditions = []\<rparr>\<rparr>"

definition ex_secret :: Secret where
  "ex_secret = \<lparr>sec_Meta = new_meta ''bgp'' ''net'' [], sec_Data = [(''pw'', ''s3cret'')]\<rparr>"

text \<open>The same cluster once it is being deleted, with the objects that the finalizer guards.\<close>

definition ex_deleted :: NovaRouteCluster where
  "ex_deleted = ex_cluster\<lparr>nc_Meta := (nc_Meta ex_cluster)
     \<lparr>om_DeletionTimestamp := Some 7, om_Finalizers := [novaRouteClusterFinalizer]\<rparr>\<rparr>"

definition ex_before :: mem where
  "ex_before = [OCluster ex_cluster, OSecret ex_secret]"

definition ex_deleting :: mem where
  "ex_deleting = [OCluster ex_deleted, clusterRole ex_deleted, clusterRoleBinding ex_deleted]"

end
