(* ===== verification/Operator_Accepts.thy ===== *)
theory Operator_Accepts
  imports Operator_Memory
begin

text \<open>
  The controller against a server that accepts what it can: which calls then succeed, and
  which errors are left, namely those of passwords that cannot be resolved.
\<close>

section \<open>Calls that succeed\<close>

lemma acceptingD:
  assumes "accepting K view"
  shows "reads_reliable K"
    and "view s (key_of ob) = None \<Longrightarrow> fst (kCreate K ob s) = None"
    and "view s (key_of ob) = Some ob0 \<Longrightarrow>
      om_ResourceVersion (meta_of ob0) = om_ResourceVersion (meta_of ob) \<Longrightarrow> \<exists>r. fst (kUpdate K ob s) = Inr r"
    and "view s (own_key c) = Some (OCluster c0) \<Longrightarrow>
      om_ResourceVersion (nc_Meta c0) = om_ResourceVersion (nc_Meta c) \<Longrightarrow>
      \<exists>r. fst (kStatusUpdate K (OCluster c) s) = Inr r"
    and "om_OwnerReferences m = [] \<Longrightarrow> \<exists>m'. SetControllerReference K owner m = Inr m'"
  using assms unfolding accepting_def key_cluster by blast+

lemma kGet_accepted:
  assumes "api_ok K view adm" and "reads_reliable K"
  shows "fst (kGet K k s) = (case view s k of None \<Rightarrow> Inl NotFound | Some ob \<Rightarrow> Inr ob)"
proof -
  obtain r s' where g: "kGet K k s = (r, s')" by fastforce
  note eff = kGet_effect [OF assms(1) g]
  show ?thesis
  proof (cases r)
    case (Inl e)
    then have "e = NotFound" using assms(2) g by (metis fst_conv reads_reliable_def)
    with Inl g eff(3) show ?thesis by simp
  next
    case (Inr ob)
    with g eff(2) show ?thesis by simp
  qed
qed

lemma createOrUpdate_accepted:
  assumes "api_ok K view adm" and "accepting K view"
  shows "fst (createOrUpdate K ob s) = None"
proof -
  obtain r s1 where g: "kGet K (key_of ob) s = (r, s1)" by fastforce
  have v: "view s1 = view s" using kGet_effect(1) [OF assms(1) g] .
  have r: "r = (case view s (key_of ob) of None \<Rightarrow> Inl NotFound | Some ob \<Rightarrow> Inr ob)"
    using kGet_accepted [OF assms(1) acceptingD(1) [OF assms(2)], of "key_of ob" s] g by simp
  show ?thesis
  proof (cases "view s (key_of ob)")
    case None
    then have "fst (kCreate K ob s1) = None" using acceptingD(2) [OF assms(2)] v by simp
    then show ?thesis
      using g r None by (cases "kCreate K ob s1") (simp add: createOrUpdate_def IsNotFound_def)
  next
    case (Some ex)
    let ?ob = "SetResourceVersion (om_ResourceVersion (meta_of ex)) ob"
    have "\<exists>q. fst (kUpdate K ?ob s1) = Inr q"
      by (rule acceptingD(3) [OF assms(2), of _ _ ex]) (use Some v in \<open>simp_all add: SetResourceVersion_def key_of_def\<close>)
    then show ?thesis
      using g r Some by (auto simp: createOrUpdate_def split: prod.splits sum.splits)
  qed
qed

lemma createOrUpdateOwned_accepted:
  assumes "api_ok K view adm" and "accepting K view" and "om_OwnerReferences (meta_of ob) = []"
  shows "fst (createOrUpdateOwned K cl ob s) = None"
  using acceptingD(5) [OF assms(2,3), of "nc_Meta cl"] createOrUpdate_accepted [OF assms(1,2)]
  by (auto simp: createOrUpdateOwned_def)

lemma objects_unowned:
  "om_OwnerReferences (meta_of (serviceAccount cl)) = []"
  "om_OwnerReferences (meta_of (agentConfigMap cl cfg)) = []"
  "om_OwnerReferences (meta_of (frrBootstrapConfigMap cl)) = []"
  "om_OwnerReferences (meta_of (daemonSet cl h)) = []"
  "om_OwnerReferences (meta_of (metricsService cl)) = []"
  by (simp_all add: serviceAccount_def agentConfigMap_def frrBootstrapConfigMap_def daemonSet_def
      metricsService_def new_meta_def)

lemma getSecret_accepted:
  assumes "api_ok K view adm" and "reads_reliable K"
  shows "fst (getSecret K ns n s) =
    (case view s (KSecret, ns, n) of
       None \<Rightarrow> Inl NotFound | Some (OSecret sec) \<Rightarrow> Inr sec | Some _ \<Rightarrow> Inl (OtherError ''decode''))"
proof -
  obtain r s1 where g: "kGet K (KSecret, ns, n) s = (r, s1)" by fastforce
  have "r = (case view s (KSecret, ns, n) of None \<Rightarrow> Inl NotFound | Some ob \<Rightarrow> Inr ob)"
    using kGet_accepted [OF assms, of "(KSecret, ns, n)" s] g by simp
  with g show ?thesis by (auto simp: getSecret_def split: option.splits kobject.splits)
qed

lemma getSecret_typed:
  assumes "api_ok K view adm" and "reads_reliable K"
  shows "fst (getSecret K ns n s) = Inl e \<Longrightarrow> e = NotFound"
    and "secret_data (view s) ns n = Some d \<Longrightarrow> \<exists>sec. fst (getSecret K ns n s) = Inr sec \<and> sec_Data sec = d"
proof -
  have k: "view s (KSecret, ns, n) = Some ob \<Longrightarrow> \<exists>sec. ob = OSecret sec" for ob
  proof -
    assume "view s (KSecret, ns, n) = Some ob"
    then have "fst (kGet K (KSecret, ns, n) s) = Inr ob" using kGet_accepted [OF assms] by simp
    then have "key_of ob = (KSecret, ns, n)"
      using kGet_effect(4) [OF assms(1)] by (metis prod.collapse)
    then show ?thesis by (cases ob) (simp_all add: key_of_def)
  qed
  show "fst (getSecret K ns n s) = Inl e \<Longrightarrow> e = NotFound"
    "secret_data (view s) ns n = Some d \<Longrightarrow> \<exists>sec. fst (getSecret K ns n s) = Inr sec \<and> sec_Data sec = d"
    unfolding getSecret_accepted [OF assms]
    by (auto simp: secret_data_def split: option.splits kobject.splits dest!: k)
qed

text \<open>The agent's configuration can be built if and only if every password can be resolved.\<close>

lemma peerConfigs_accepted:
  assumes "api_ok K view adm" and "reads_reliable K"
  shows "(\<exists>cfgs. fst (peerConfigs K ns ps s) = Inr cfgs) \<longleftrightarrow> (\<forall>p \<in> set ps. password_of (view s) ns p \<noteq> None)"
proof (induction ps arbitrary: s)
  case Nil
  then show ?case by simp
next
  case (Cons p ps)
  obtain q s1 where q: "(case ps_PasswordSecretRef p of None \<Rightarrow> (Inr [], s)
      | Some ref \<Rightarrow> resolveSecretKeyRef K ns ref s) = (q, s1)" by fastforce
  have v: "view s1 = view s"
    using q resolveSecretKeyRef_effect(1) [OF assms(1)] by (auto split: option.splits)
  have r: "(\<exists>w. fst (resolveSecretKeyRef K ns ref s) = Inr w) \<longleftrightarrow>
      Option.bind (secret_data (view s) ns (sk_Name ref)) (\<lambda>d. map_of d (sk_Key ref)) \<noteq> None" for ref
  proof (cases "Option.bind (secret_data (view s) ns (sk_Name ref)) (\<lambda>d. map_of d (sk_Key ref))")
    case None
    then show ?thesis
      using resolveSecretKeyRef_effect(2) [OF assms(1), of ns ref s] by (metis option.distinct(1) prod.collapse)
  next
    case (Some w)
    then obtain d where d: "secret_data (view s) ns (sk_Name ref) = Some d" "map_of d (sk_Key ref) = Some w"
      by (auto simp: bind_eq_Some_conv)
    obtain sec where "fst (getSecret K ns (sk_Name ref) s) = Inr sec" "sec_Data sec = d"
      using getSecret_typed(2) [OF assms d(1)] by blast
    with d Some show ?thesis
      by (auto simp: resolveSecretKeyRef_def split: prod.splits sum.splits)
  qed
  have "(\<exists>w. q = Inr w) \<longleftrightarrow> password_of (view s) ns p \<noteq> None"
    using q r by (auto simp: password_of_def split: option.splits) (metis fst_conv)+
  with q v Cons.IH [of s1] show ?case
    by (cases q; cases "peerConfigs K ns ps s1") (auto split: sum.splits)
qed

lemma secretText_accepted:
  assumes "api_ok K view adm" and "reads_reliable K"
  shows "\<exists>txt. fst (secretText K ns refs s) = Inr txt"
proof (induction refs arbitrary: s)
  case (Cons ref refs)
  obtain n k where ref: "ref = (n, k)" by fastforce
  obtain q s1 where g: "getSecret K ns n s = (q, s1)" by fastforce
  have "q = Inl e \<Longrightarrow> e = NotFound" for e using getSecret_typed(1) [OF assms, of ns n s e] g by simp
  with g Cons.IH [of s1] show ?case
    by (cases q; cases "secretText K ns refs s1") (auto simp: ref IsNotFound_def Let_def split: sum.splits)
qed simp

section \<open>Parts that succeed\<close>

definition passwords_resolve :: "store \<Rightarrow> NovaRouteCluster \<Rightarrow> bool" where
  "passwords_resolve V cl \<longleftrightarrow> list_all (\<lambda>p. password_of V (cl_ns cl) p \<noteq> None) (clusterPeers cl)"

lemma fst_wrap [simp]: "fst (wrap msg r) = None \<longleftrightarrow> fst r = None"
  by (simp add: wrap_def)

lemma reconcileRBAC_accepted:
  assumes "api_ok K view adm" and "accepting K view"
  shows "fst (reconcileRBAC K cl s) = None"
  by (simp add: reconcileRBAC_def seq_None reconcileServiceAccount_def reconcileClusterRole_def
      reconcileClusterRoleBinding_def createOrUpdate_accepted [OF assms]
      createOrUpdateOwned_accepted [OF assms] objects_unowned)

lemma reconcileConfigMaps_accepted:
  assumes "api_ok K view adm" and "accepting K view"
  shows "fst (reconcileConfigMaps K cl s) = None \<longleftrightarrow> passwords_resolve (view s) cl"
proof -
  have "fst (reconcileAgentConfigMap K cl s) = None \<longleftrightarrow>
      (\<exists>cfgs. fst (peerConfigs K (cl_ns cl) (clusterPeers cl) s) = Inr cfgs)"
    by (cases "peerConfigs K (cl_ns cl) (clusterPeers cl) s")
      (auto simp: reconcileAgentConfigMap_def createOrUpdateOwned_accepted [OF assms] objects_unowned
        split: sum.splits)
  then show ?thesis
    using peerConfigs_accepted [OF assms(1) acceptingD(1) [OF assms(2)]]
    by (simp add: reconcileConfigMaps_def seq_None reconcileFRRBootstrapConfigMap_def
        createOrUpdateOwned_accepted [OF assms] objects_unowned passwords_resolve_def list_all_iff)
qed

lemma reconcileDaemonSet_accepted:
  assumes "api_ok K view adm" and "accepting K view"
  shows "fst (reconcileDaemonSet K cl s) = None"
proof -
  obtain tx s1 where "secretText K (cl_ns cl) (sort (secretRefs cl)) s = (Inr tx, s1)"
    using secretText_accepted [OF assms(1) acceptingD(1) [OF assms(2)]] by (metis prod.collapse)
  then show ?thesis
    by (simp add: reconcileDaemonSet_def computeSecretHash_def Let_def
        createOrUpdateOwned_accepted [OF assms] objects_unowned)
qed

text \<open>The parts an unresolved password does not affect.\<close>

definition deployed_rest :: "admission \<Rightarrow> NovaRouteCluster \<Rightarrow> store \<Rightarrow> bool" where
  "deployed_rest adm cl V \<longleftrightarrow>
     rbac_deployed adm cl V \<and> daemons_deployed adm cl V \<and> stored_owned adm cl (metricsService cl) V"

lemma reconcileParts_accepted:
  assumes "api_ok K view adm" and "accepting K view" and "reconcileParts K cl s = (errs, s')"
  shows "errs = [] \<longleftrightarrow> passwords_resolve (view s) cl" and "deployed_rest adm cl (view s')"
proof -
  obtain e1 s1 where 1: "reconcileRBAC K cl s = (e1, s1)" by fastforce
  obtain e2 s2 where 2: "reconcileConfigMaps K cl s1 = (e2, s2)" by fastforce
  obtain e3 s3 where 3: "reconcileDaemonSet K cl s2 = (e3, s3)" by fastforce
  obtain e4 s4 where 4: "reconcileService K cl s3 = (e4, s4)" by fastforce
  have e: "e1 = None" "e3 = None" "e4 = None" "e2 = None \<longleftrightarrow> passwords_resolve (view s1) cl"
    using reconcileRBAC_accepted [OF assms(1,2), of cl s] 1
      reconcileConfigMaps_accepted [OF assms(1,2), of cl s1] 2
      reconcileDaemonSet_accepted [OF assms(1,2), of cl s2] 3
      createOrUpdateOwned_accepted [OF assms(1,2) objects_unowned(5), of cl cl s3] 4
    by (simp_all add: reconcileService_def)
  note a1 = reconcileRBAC_achieves [OF assms(1), of cl s, unfolded 1 achieves_def fst_conv snd_conv]
  note a2 = reconcileConfigMaps_achieves [OF assms(1), of cl s1, unfolded 2 achieves_def fst_conv snd_conv]
  note a3 = reconcileDaemonSet_achieves [OF assms(1), of cl s2, unfolded 3 achieves_def fst_conv snd_conv]
  have a4: "touches {(KService, cl_ns cl, cl_name cl @ ''-metrics'')} (view s3) (view s4)"
    "stored_owned adm cl (metricsService cl) (view s4)"
    using createOrUpdateOwned_effect [OF assms(1) 4 [unfolded reconcileService_def]] e
    by (simp_all add: object_keys objects_live)
  have pw: "password_of (view s1) = password_of (view s)"
    by (rule secrets_kept(2) [OF conjunct1 [OF a1]]) simp
  have r: "s' = s4" "errs = [] \<longleftrightarrow> e2 = None"
    using assms(3) 1 2 3 4 e
    by (auto simp: reconcileParts_def wrap_def List.map_filter_simps split: option.splits)
  show "errs = [] \<longleftrightarrow> passwords_resolve (view s) cl" using r(2) e(4) pw by (simp add: passwords_resolve_def)
  let ?ks = "{(KConfigMap, cl_ns cl, cl_name cl @ ''-config''), (KConfigMap, cl_ns cl, cl_name cl @ ''-frr-bootstrap''),
    (KDaemonSet, cl_ns cl, cl_name cl @ ''-agent''), (KService, cl_ns cl, cl_name cl @ ''-metrics'')}"
  have "touches ?ks (view s1) (view s3)"
    by (rule touches_trans [OF conjunct1 [OF a2] conjunct1 [OF a3]]) simp
  then have t: "touches ?ks (view s1) (view s4)" by (rule touches_trans [OF _ a4(1)]) simp
  have "rbac_deployed adm cl (view s4)"
    by (rule stableD [OF stable_rbac_deployed t]) (use a1 e in simp_all)
  moreover have "daemons_deployed adm cl (view s4)"
    by (rule stableD [OF stable_daemons_deployed a4(1)]) (use a3 e in auto)
  ultimately show "deployed_rest adm cl (view s')" using a4(2) by (simp add: deployed_rest_def r(1))
qed

section \<open>The whole reconciliation\<close>

lemma ensureFinalizer_accepted:
  assumes "api_ok K view adm" and "accepting K view" and "view s (own_key cl) = Some (OCluster cl)"
  obtains cl' s' where "ensureFinalizer K cl s = (Inr cl', s')"
proof (cases "ContainsFinalizer K (nc_Meta cl) novaRouteClusterFinalizer")
  case True
  with that show thesis by (simp add: ensureFinalizer_def)
next
  case False
  let ?m = "AddFinalizer K (nc_Meta cl) novaRouteClusterFinalizer"
  let ?cl = "cl\<lparr>nc_Meta := ?m\<rparr>"
  have m: "om_ResourceVersion ?m = om_ResourceVersion (nc_Meta cl)"
    using api_okD(6) [OF assms(1)] by (simp add: helpers_ok_def)
  have "key_of (OCluster ?cl) = own_key cl" by (simp add: own_key_def add_finalizer_meta [OF assms(1)])
  then have "\<exists>r. fst (kUpdate K (OCluster ?cl) s) = Inr r"
    by (intro acceptingD(3) [OF assms(2), of _ _ "OCluster cl"]) (use assms(3) m in simp_all)
  then obtain r s1 where "kUpdate K (OCluster ?cl) s = (Inr r, s1)" by (metis prod.collapse)
  with False that show thesis by (simp add: ensureFinalizer_def Let_def)
qed

lemma initStatus_accepted:
  assumes "api_ok K view adm" and "accepting K view" and "view s (own_key cl) = Some (OCluster cl)"
  obtains cl' s' where "initStatus K cl s = (Inr cl', s')" "view s' (own_key cl') = Some (OCluster cl')"
proof (cases "st_Phase (nc_Status cl) = []")
  case False
  with assms(3) that show thesis by (simp add: initStatus_def)
next
  case True
  let ?cl = "cl\<lparr>nc_Status := (nc_Status cl)\<lparr>st_Phase := ClusterPhasePending\<rparr>\<rparr>"
  have key: "own_key ?cl = own_key cl" by (simp add: own_key_def)
  then have "\<exists>r. fst (kStatusUpdate K (OCluster ?cl) s) = Inr r"
    by (intro acceptingD(4) [OF assms(2), of _ _ cl]) (use assms(3) in simp_all)
  then obtain r s1 where u: "kStatusUpdate K (OCluster ?cl) s = (Inr r, s1)" by (metis prod.collapse)
  have i: "initStatus K cl s = (Inr (answered ?cl r), s1)" using u True by (simp add: initStatus_def Let_def)
  have "own_key (answered ?cl r) = own_key cl"
    using initStatus_keys [OF assms(1) i] by (simp add: own_key_def)
  with kStatusUpdate_effect(3) [OF assms(1) u] key i that show thesis by simp
qed

lemma updateStatus_accepted:
  assumes "api_ok K view adm" and "accepting K view" and "view s (own_key cl) = Some (OCluster cl)"
  shows "fst (updateStatus K cl s) = None"
proof -
  obtain st s1 where c: "computeStatus K cl s = (st, s1)" by fastforce
  have v: "view s1 = view s" using computeStatus_view [OF assms(1)] c by (metis snd_conv)
  have "\<exists>r. fst (kStatusUpdate K (OCluster (cl\<lparr>nc_Status := st\<rparr>)) s1) = Inr r"
    by (rule acceptingD(4) [OF assms(2), of _ _ cl]) (use assms(3) v in \<open>simp_all add: own_key_def\<close>)
  with c show ?thesis by (auto simp: updateStatus_def split: prod.splits sum.splits)
qed

lemma reconcileLive_accepted:
  assumes "api_ok K view adm" and "accepting K view" and "view s (own_key cl) = Some (OCluster cl)"
  shows "fst (reconcileLive K cl s) = Inr \<lparr>RequeueAfter = (if passwords_resolve (view s) cl then 60 else 30)\<rparr>"
    and "deployed_rest adm cl (view (snd (reconcileLive K cl s)))"
proof -
  obtain cl' s1 where 1: "initStatus K cl s = (Inr cl', s1)" "view s1 (own_key cl') = Some (OCluster cl')"
    by (rule initStatus_accepted [OF assms])
  note i = initStatus_effect [OF assms(1) 1(1)]
  have same: "same_cluster cl cl'" using i(2) assms(3) by blast
  obtain errs s2 where 2: "reconcileParts K cl' s1 = (errs, s2)" by fastforce
  note p = reconcileParts_accepted [OF assms(1,2) 2]
  have "view s2 (own_key cl') = view s1 (own_key cl')"
    by (rule touchesD [OF reconcileParts_effect(1) [OF assms(1) 2]]) (simp add: own_key_def managed_keys_def)
  then have u: "fst (updateStatus K cl' s2) = None"
    using updateStatus_accepted [OF assms(1,2)] 1(2) by simp
  obtain s3 where 3: "updateStatus K cl' s2 = (None, s3)" using u by (metis prod.collapse)
  have live: "reconcileLive K cl s = (Inr \<lparr>RequeueAfter = (if errs \<noteq> [] then 30 else 60)\<rparr>, s3)"
    by (simp add: reconcileLive_def 1(1) 2 3)
  have "password_of (view s1) = password_of (view s)"
    by (rule secrets_kept(2) [OF i(1)]) (simp add: own_key_def)
  then have "passwords_resolve (view s1) cl' = passwords_resolve (view s) cl"
    using same by (simp add: passwords_resolve_def same_objects [OF same] same_cluster_def)
  with p(1) live show "fst (reconcileLive K cl s) =
      Inr \<lparr>RequeueAfter = (if passwords_resolve (view s) cl then 60 else 30)\<rparr>" by simp
  have t: "touches {own_key cl} (view s2) (view s3)"
    using updateStatus_effect [OF assms(1), of cl' s2] 3 own_key_same [OF same] by simp
  have "stable {own_key cl} (deployed_rest adm cl)"
    unfolding deployed_rest_def [abs_def] own_key_def
    by (intro stable_conj stable_rbac_deployed stable_daemons_deployed stable_stored_owned)
      (simp_all add: object_keys)
  moreover have "deployed_rest adm cl (view s2)"
  proof -
    have eq: "stored_owned adm cl' = stored_owned adm cl" "secret_fingerprint (view s2) cl' = secret_fingerprint (view s2) cl"
      using same by (simp_all add: fun_eq_iff stored_owned_def same_cluster_def secret_fingerprint_def hashed_text_def
          same_objects [OF same])
    show ?thesis using p(2) by (simp add: deployed_rest_def rbac_deployed_def daemons_deployed_def eq same_objects [OF same])
  qed
  ultimately show "deployed_rest adm cl (view (snd (reconcileLive K cl s)))"
    using stableD [OF _ t] live by simp
qed

lemma ReconcileCluster_accepted:
  assumes "api_ok K view adm" and "accepting K view" and "view s (KCluster, ns, n) = Some (OCluster cl)"
    and "om_DeletionTimestamp (nc_Meta cl) = None"
  shows "fst (ReconcileCluster K ns n s) = Inr \<lparr>RequeueAfter = (if passwords_resolve (view s) cl then 60 else 30)\<rparr>"
    and "deployed_rest adm cl (view (snd (ReconcileCluster K ns n s)))"
proof -
  obtain s1 where g: "kGet K (KCluster, ns, n) s = (Inr (OCluster cl), s1)"
    using kGet_accepted [OF assms(1) acceptingD(1) [OF assms(2)], of "(KCluster, ns, n)" s] assms(3)
    by (metis option.simps(5) prod.collapse)
  note ge = kGet_effect [OF assms(1) g]
  have own: "own_key cl = (KCluster, ns, n)" using ge(4) by simp
  obtain cl' s2 where f: "ensureFinalizer K cl s1 = (Inr cl', s2)"
    using ensureFinalizer_accepted [OF assms(1,2), of s1 cl] assms(3) own ge(1) by auto
  note fe = ensureFinalizer_effect [OF assms(1) f]
  have same: "same_cluster cl cl'" using fe(2) by blast
  have v: "view s2 (own_key cl') = Some (OCluster cl')" using fe(3) assms(3,4) own ge(1) by simp
  note l = reconcileLive_accepted [OF assms(1,2) v]
  have rec: "ReconcileCluster K ns n s = reconcileLive K cl' s2"
    using assms(4) by (simp add: ReconcileCluster_def getCluster_def g f)
  have "password_of (view s2) = password_of (view s)"
    using secrets_kept(2) [OF fe(1)] ge(1) by (simp add: own_key_def)
  then have "passwords_resolve (view s2) cl' = passwords_resolve (view s) cl"
    using same by (simp add: passwords_resolve_def same_objects [OF same] same_cluster_def)
  with l(1) rec show "fst (ReconcileCluster K ns n s) =
      Inr \<lparr>RequeueAfter = (if passwords_resolve (view s) cl then 60 else 30)\<rparr>" by simp
  have eq: "stored_owned adm cl' = stored_owned adm cl" "secret_fingerprint V cl' = secret_fingerprint V cl" for V
    using same by (simp_all add: fun_eq_iff stored_owned_def same_cluster_def secret_fingerprint_def hashed_text_def
        same_objects [OF same])
  show "deployed_rest adm cl (view (snd (ReconcileCluster K ns n s)))"
    using l(2) rec
    by (simp add: deployed_rest_def rbac_deployed_def daemons_deployed_def eq same_objects [OF same])
qed

end
