(* ===== verification/Operator_Properties.thy ===== *)
theory Operator_Properties
  imports Operator_Accepts
begin

text \<open>
  The properties of the operator: what a reconciliation that reports success has deployed,
  what it can touch, that it succeeds against an accepting server, how a missing secret
  and a deletion are handled, and how secrets reach the pods.
\<close>

section \<open>Deploying\<close>

lemma getCluster_effect:
  assumes "api_ok K view adm" and "getCluster K ns n s = (r, s')"
  shows "view s' = view s" and "r = Inr cl \<Longrightarrow> view s (KCluster, ns, n) = Some (OCluster cl) \<and> own_key cl = (KCluster, ns, n)"
proof -
  obtain q s1 where g: "kGet K (KCluster, ns, n) s = (q, s1)" by fastforce
  note eff = kGet_effect [OF assms(1) g]
  show "view s' = view s"
    using assms(2) g eff(1) by (auto simp: getCluster_def split: sum.splits kobject.splits)
  show "r = Inr cl \<Longrightarrow> view s (KCluster, ns, n) = Some (OCluster cl) \<and> own_key cl = (KCluster, ns, n)"
    using assms(2) g eff(2,4) by (auto simp: getCluster_def split: sum.splits kobject.splits)
qed

text \<open>The two paths of a resource that could be read.\<close>

lemma ReconcileCluster_finalizing:
  assumes "api_ok K view adm" and "ReconcileCluster K ns n s = (r, s')" and g: "getCluster K ns n s = (Inr cl, s1)"
    and "om_DeletionTimestamp (nc_Meta cl) \<noteq> None"
  shows "touches (insert (own_key cl) (set (managed_keys cl))) (view s) (view s')" and "r \<noteq> Inr \<lparr>RequeueAfter = 60\<rparr>"
proof -
  obtain e s2 where f: "finalize K cl s1 = (e, s2)" by fastforce
  have "s' = s2" and r: "r \<noteq> Inr \<lparr>RequeueAfter = 60\<rparr>"
    using assms(2,4) g f by (auto simp: ReconcileCluster_def split: option.splits)
  moreover have "touches (insert (own_key cl) (set (managed_keys cl))) (view s) (view s2)"
    by (rule touches_mono [OF finalize_effect(1) [OF assms(1) f, unfolded getCluster_effect(1) [OF assms(1) g]]])
      (auto simp: managed_keys_def)
  ultimately show "touches (insert (own_key cl) (set (managed_keys cl))) (view s) (view s')"
    "r \<noteq> Inr \<lparr>RequeueAfter = 60\<rparr>" by simp_all
qed

lemma ReconcileCluster_live:
  assumes "api_ok K view adm" and "ReconcileCluster K ns n s = (r, s')" and g: "getCluster K ns n s = (Inr cl, s1)"
    and "om_DeletionTimestamp (nc_Meta cl) = None"
  shows "touches (insert (own_key cl) (set (managed_keys cl))) (view s) (view s') \<and>
    (r = Inr \<lparr>RequeueAfter = 60\<rparr> \<longrightarrow> deployed adm cl (view s'))"
proof -
  note ge = getCluster_effect [OF assms(1) g]
  have v: "view s (own_key cl) = Some (OCluster cl)" using ge(2) by simp
  obtain q2 s2 where f: "ensureFinalizer K cl s1 = (q2, s2)" by fastforce
  note fe = ensureFinalizer_effect [OF assms(1) f, unfolded ge(1)]
  show ?thesis
  proof (cases q2)
    case (Inl e)
    have "touches (insert (own_key cl) (set (managed_keys cl))) (view s) (view s2)"
      by (rule touches_mono [OF fe(1)]) simp
    then show ?thesis using assms(2,4) g f Inl by (auto simp: ReconcileCluster_def)
  next
    case (Inr cl')
    have same: "same_cluster cl cl'" using fe(2) Inr .
    have w: "view s2 (own_key cl') = Some (OCluster cl')" using fe(3) Inr assms(4) v by simp
    have l: "reconcileLive K cl' s2 = (r, s')" using assms(2,4) g f Inr by (simp add: ReconcileCluster_def)
    note le = reconcileLive_effect [OF assms(1) l, unfolded own_key_same [OF same] same_objects [OF same]]
    have "touches (insert (own_key cl) (set (managed_keys cl))) (view s) (view s')"
      by (rule touches_trans [OF fe(1) le(1)]) simp
    moreover have "r = Inr \<lparr>RequeueAfter = 60\<rparr> \<Longrightarrow> deployed adm cl (view s')"
      using le(2) w same_deployed [OF same] own_key_same [OF same] by simp
    ultimately show ?thesis by blast
  qed
qed

lemma ReconcileCluster_effect:
  assumes "api_ok K view adm" and "ReconcileCluster K ns n s = (r, s')"
  shows "case view s (KCluster, ns, n) of
      Some (OCluster cl) \<Rightarrow> touches (insert (own_key cl) (set (managed_keys cl))) (view s) (view s')
    | _ \<Rightarrow> view s' = view s" (is ?T)
    and "r = Inr \<lparr>RequeueAfter = 60\<rparr> \<Longrightarrow>
      \<exists>cl. view s (KCluster, ns, n) = Some (OCluster cl) \<and> om_DeletionTimestamp (nc_Meta cl) = None \<and>
           deployed adm cl (view s')" (is "?R \<Longrightarrow> ?D")
proof -
  obtain q s1 where g: "getCluster K ns n s = (q, s1)" by fastforce
  have "?T \<and> (?R \<longrightarrow> ?D)"
  proof (cases q)
    case (Inl e)
    then have "s' = s1" "\<not> ?R" using assms(2) g by (auto simp: ReconcileCluster_def split: if_splits)
    with getCluster_effect(1) [OF assms(1) g] show ?thesis by (auto split: option.splits kobject.splits)
  next
    case (Inr cl)
    then show ?thesis
      using getCluster_effect(2) [OF assms(1) g, of cl] ReconcileCluster_finalizing [OF assms, of cl s1]
        ReconcileCluster_live [OF assms, of cl s1] g
      by (cases "om_DeletionTimestamp (nc_Meta cl) = None") simp_all
  qed
  then show ?T "?R \<Longrightarrow> ?D" by blast+
qed

lemma ex_reconcile:
  "fst (ReconcileCluster (mem_kube (\<lambda>_. False)) ''net'' ''nr'' ex_before) = Inr \<lparr>RequeueAfter = 60\<rparr>"
proof -
  have "mem_view ex_before (KCluster, ''net'', ''nr'') = Some (OCluster ex_cluster)"
    "passwords_resolve (mem_view ex_before) ex_cluster" by code_simp+
  then show ?thesis
    using ReconcileCluster_accepted(1) [OF mem_api_ok mem_accepting, of ex_before "''net''" "''nr''" ex_cluster]
    by (simp add: ex_cluster_def)
qed

text \<open>C13 (functional). A reconciliation that asks to be repeated after 60 seconds, the controller's
  way of reporting success, has deployed everything: the service account, the cluster role
  and its binding, the agent's configuration with the passwords the secrets hold, the FRR
  bootstrap files, the DaemonSet with the fingerprint of the secrets and the metrics
  service are in the store as they follow from the resource, and those of its namespace
  are owned by it.\<close>

theorem operator_deploys:
  assumes "api_ok K view adm"
    and "fst (ReconcileCluster K ns n s) = Inr \<lparr>RequeueAfter = 60\<rparr>"
  shows "\<exists>cl. view s (KCluster, ns, n) = Some (OCluster cl) \<and> om_DeletionTimestamp (nc_Meta cl) = None \<and>
    deployed adm cl (view (snd (ReconcileCluster K ns n s)))"
  using ReconcileCluster_effect(2) [OF assms(1), of ns n s] assms(2) by (metis prod.collapse)

theorem operator_deploys_witness:
  "\<exists>cl. mem_view ex_before (KCluster, ''net'', ''nr'') = Some (OCluster cl) \<and>
    om_DeletionTimestamp (nc_Meta cl) = None \<and>
    deployed as_is cl (mem_view (snd (ReconcileCluster (mem_kube (\<lambda>_. False)) ''net'' ''nr'' ex_before)))"
  by (rule operator_deploys [OF mem_api_ok ex_reconcile])

text \<open>C14 (safety). A reconciliation changes no object but the seven it manages for this resource
  and the resource itself, whatever the server answers; without the resource it changes
  nothing.\<close>

theorem operator_confined:
  assumes "api_ok K view adm"
  shows "case view s (KCluster, ns, n) of
      Some (OCluster cl) \<Rightarrow>
        \<forall>k. k \<notin> set (own_key cl # managed_keys cl) \<longrightarrow> view (snd (ReconcileCluster K ns n s)) k = view s k
    | _ \<Rightarrow> view (snd (ReconcileCluster K ns n s)) = view s"
  using ReconcileCluster_effect(1) [OF assms, of ns n s]
  by (cases "ReconcileCluster K ns n s") (auto simp: touches_def split: option.splits kobject.splits)

theorem operator_confined_witness:
  "mem_view (snd (ReconcileCluster (mem_kube (\<lambda>_. False)) ''net'' ''nr'' ex_before)) (KSecret, ''net'', ''bgp'') =
   Some (OSecret ex_secret)"
proof -
  have "mem_view ex_before (KCluster, ''net'', ''nr'') = Some (OCluster ex_cluster)"
    "(KSecret, ''net'', ''bgp'') \<notin> set (own_key ex_cluster # managed_keys ex_cluster)"
    "mem_view ex_before (KSecret, ''net'', ''bgp'') = Some (OSecret ex_secret)" by code_simp+
  with operator_confined [OF mem_api_ok [of "\<lambda>_. False"], where s = ex_before and ns = "''net''" and n = "''nr''"]
  show ?thesis by simp
qed

text \<open>C15 (liveness). Against a server that accepts what it can, one reconciliation of a live resource
  whose passwords can all be resolved succeeds and deploys everything.\<close>

theorem operator_converges:
  assumes "api_ok K view adm" and "accepting K view"
    and "view s (KCluster, ns, n) = Some (OCluster cl)" and "om_DeletionTimestamp (nc_Meta cl) = None"
    and "passwords_resolve (view s) cl"
  shows "fst (ReconcileCluster K ns n s) = Inr \<lparr>RequeueAfter = 60\<rparr> \<and>
    deployed adm cl (view (snd (ReconcileCluster K ns n s)))"
proof -
  obtain r s' where rec: "ReconcileCluster K ns n s = (r, s')" by fastforce
  have "r = Inr \<lparr>RequeueAfter = 60\<rparr>" using ReconcileCluster_accepted(1) [OF assms(1-4)] assms(5) rec by simp
  with ReconcileCluster_effect(2) [OF assms(1) rec] assms(3) rec show ?thesis by auto
qed

theorem operator_converges_witness:
  "fst (ReconcileCluster (mem_kube (\<lambda>_. False)) ''net'' ''nr'' ex_before) = Inr \<lparr>RequeueAfter = 60\<rparr> \<and>
   deployed as_is ex_cluster (mem_view (snd (ReconcileCluster (mem_kube (\<lambda>_. False)) ''net'' ''nr'' ex_before)))"
  by (rule operator_converges [OF mem_api_ok mem_accepting]) code_simp+



section \<open>Deletion\<close>

lemma ReconcileCluster_deleting:
  assumes "api_ok K view adm" and "view s (KCluster, ns, n) = Some (OCluster cl)"
    and "om_DeletionTimestamp (nc_Meta cl) \<noteq> None" and "fst (ReconcileCluster K ns n s) = Inr res"
    and "\<And>m. fst (kGet K (KCluster, ns, n) s) \<noteq> Inl m"
  obtains s1 where "view s1 = view s" "finalize K cl s1 = (None, snd (ReconcileCluster K ns n s))"
proof -
  obtain ob s1 where g: "kGet K (KCluster, ns, n) s = (Inr ob, s1)"
    using assms(5) by (cases "kGet K (KCluster, ns, n) s"; cases "fst (kGet K (KCluster, ns, n) s)") auto
  note ge = kGet_effect [OF assms(1) g]
  have ob: "ob = OCluster cl" using ge(2) assms(2) by simp
  obtain e s2 where f: "finalize K cl s1 = (e, s2)" by fastforce
  have "e = None" "snd (ReconcileCluster K ns n s) = s2"
    using assms(3,4) g ob f by (auto simp: ReconcileCluster_def getCluster_def split: option.splits)
  with f ge(1) that show thesis by simp
qed

text \<open>C26 (safety). When the reconciliation of a resource that is being deleted succeeds, and reads
  fail only for missing objects, the cluster role and its binding, which no owner reference
  protects, are gone: the finalizer is removed only after them.\<close>

theorem operator_delete_cleans:
  assumes "api_ok K view adm" and "reads_reliable K"
    and "view s (KCluster, ns, n) = Some (OCluster cl)" and "om_DeletionTimestamp (nc_Meta cl) \<noteq> None"
    and "novaRouteClusterFinalizer \<in> set (om_Finalizers (nc_Meta cl))"
    and "fst (ReconcileCluster K ns n s) = Inr res"
  shows "view (snd (ReconcileCluster K ns n s)) (KClusterRole, [], clusterRoleName cl) = None \<and>
    view (snd (ReconcileCluster K ns n s)) (KClusterRoleBinding, [], clusterRoleName cl) = None"
proof -
  have "fst (kGet K (KCluster, ns, n) s) \<noteq> Inl m" for m
    using kGet_accepted [OF assms(1,2)] assms(3) by simp
  from ReconcileCluster_deleting [OF assms(1,3,4,6) this] obtain s1
    where "finalize K cl s1 = (None, snd (ReconcileCluster K ns n s))" by blast
  from finalize_effect(2) [OF assms(1) this refl assms(5,2)] show ?thesis by simp
qed

theorem operator_delete_cleans_witness:
  "mem_view (snd (ReconcileCluster (mem_kube (\<lambda>_. False)) ''net'' ''nr'' ex_deleting))
     (KClusterRole, [], ''net-nr-agent'') = None"
proof -
  have "mem_view ex_deleting (KCluster, ''net'', ''nr'') = Some (OCluster ex_deleted)"
    "om_DeletionTimestamp (nc_Meta ex_deleted) \<noteq> None"
    "novaRouteClusterFinalizer \<in> set (om_Finalizers (nc_Meta ex_deleted))"
    "fst (ReconcileCluster (mem_kube (\<lambda>_. False)) ''net'' ''nr'' ex_deleting) = Inr \<lparr>RequeueAfter = 0\<rparr>"
    "clusterRoleName ex_deleted = ''net-nr-agent''" by code_simp+
  with operator_delete_cleans [OF mem_api_ok acceptingD(1) [OF mem_accepting], of ex_deleting "''net''" "''nr''" ex_deleted]
  show ?thesis by simp
qed



section \<open>Secrets\<close>

lemma secretRefs_mset:
  assumes "mset (clusterPeers cl') = mset (clusterPeers cl)"
  shows "sort (secretRefs cl') = sort (secretRefs cl)"
proof -
  have "mset (secretRefs cl') = mset (secretRefs cl)"
    using assms by (simp add: secretRefs_def List.map_filter_def mset_filter)
  then show ?thesis by (metis sorted_list_of_multiset_mset)
qed

text \<open>C28 (equivalence). The fingerprint does not depend on the order in which the peers are listed:
  two resources of one namespace with the same peers in any order make the same calls and
  get the same result, so reordering the list restarts no pod.\<close>

theorem secret_hash_order:
  assumes "mset (clusterPeers cl') = mset (clusterPeers cl)" and "cl_ns cl' = cl_ns cl"
  shows "computeSecretHash K cl' s = computeSecretHash K cl s"
proof -
  have "sort (secretRefs cl') = sort (secretRefs cl)" by (rule secretRefs_mset [OF assms(1)])
  moreover from this have "secretRefs cl' = [] \<longleftrightarrow> secretRefs cl = []"
    by (metis length_0_conv length_sort)
  ultimately show ?thesis using assms(2) by (simp add: computeSecretHash_def Let_def)
qed

definition ex_peers :: "BGPPeerSpec list \<Rightarrow> NovaRouteCluster" where
  "ex_peers ps =
     ex_cluster\<lparr>nc_Spec := (nc_Spec ex_cluster)\<lparr>sp_Agent := (cl_agent ex_cluster)
       \<lparr>as_BGP := map_option (\<lambda>b. b\<lparr>bs_Peers := ps\<rparr>) (as_BGP (cl_agent ex_cluster))\<rparr>\<rparr>\<rparr>"

definition ex_other_peer :: BGPPeerSpec where
  "ex_other_peer = ex_peer_spec\<lparr>ps_Address := ''10.0.0.2'',
     ps_PasswordSecretRef := Some \<lparr>sk_Name = ''alt'', sk_Key = ''pw''\<rparr>\<rparr>"

theorem secret_hash_order_witness:
  "computeSecretHash (mem_kube (\<lambda>_. False)) (ex_peers [ex_peer_spec, ex_other_peer]) ex_before =
   computeSecretHash (mem_kube (\<lambda>_. False)) (ex_peers [ex_other_peer, ex_peer_spec]) ex_before"
  by (rule secret_hash_order) (simp_all add: ex_peers_def ex_cluster_def clusterPeers_def add_mset_commute)







text \<open>C30 (safety). The watch on secrets misses nothing: if a change of one secret changes the
  fingerprint or a password of a resource in its namespace, the resource is among those
  that are queued for reconciliation.\<close>

theorem watch_covers_secrets:
  assumes "\<And>k. k \<noteq> (KSecret, om_Namespace (sec_Meta sec), om_Name (sec_Meta sec)) \<Longrightarrow> V' k = V k"
    and "cl_ns cl = om_Namespace (sec_Meta sec)"
    and "secret_fingerprint V' cl \<noteq> secret_fingerprint V cl \<or>
      map (password_of V' (cl_ns cl)) (clusterPeers cl) \<noteq> map (password_of V (cl_ns cl)) (clusterPeers cl)"
    and "fst (kList K (om_Namespace (sec_Meta sec)) s) = Inr items" and "cl \<in> set items"
  shows "(cl_ns cl, cl_name cl) \<in> set (fst (findClustersReferencingSecret K (OSecret sec) s))"
proof -
  let ?n = "om_Name (sec_Meta sec)"
  have "clusterReferencesSecret cl ?n"
  proof (rule ccontr)
    assume no: "\<not> clusterReferencesSecret cl ?n"
    have same: "secret_data V' (cl_ns cl) m = secret_data V (cl_ns cl) m" if "m \<noteq> ?n" for m
      using assms(1) [of "(KSecret, cl_ns cl, m)"] that by (simp add: secret_data_def)
    have ref: "sk_Name ref \<noteq> ?n" if "p \<in> set (clusterPeers cl)" "ps_PasswordSecretRef p = Some ref" for p ref
      using no that by (fastforce simp: clusterReferencesSecret_def list_ex_iff)
    have "password_of V' (cl_ns cl) p = password_of V (cl_ns cl) p" if "p \<in> set (clusterPeers cl)" for p
      using ref [OF that] same by (auto simp: password_of_def split: option.splits)
    moreover have "fst r \<noteq> ?n" if "r \<in> set (secretRefs cl)" for r
      using that ref by (auto simp: secretRefs_def List.map_filter_def)
    then have "secret_line V' (cl_ns cl) r = secret_line V (cl_ns cl) r" if "r \<in> set (secretRefs cl)" for r
      using that same by (simp add: secret_line_def)
    then have "map (secret_line V' (cl_ns cl)) (sort (secretRefs cl)) =
        map (secret_line V (cl_ns cl)) (sort (secretRefs cl))" by simp
    then have "hashed_text V' cl = hashed_text V cl" by (simp only: hashed_text_def)
    then have "secret_fingerprint V' cl = secret_fingerprint V cl" by (simp add: secret_fingerprint_def)
    ultimately show False using assms(3) by simp
  qed
  then show ?thesis
    using assms(4,5) by (cases "kList K (om_Namespace (sec_Meta sec)) s")
      (auto simp: findClustersReferencingSecret_def)
qed

theorem watch_covers_secrets_witness:
  "(''net'', ''nr'') \<in> set (fst (findClustersReferencingSecret (mem_kube (\<lambda>_. False)) (OSecret ex_secret) ex_before))"
proof -
  have "mem_view [OCluster ex_cluster] k = mem_view ex_before k"
    if "k \<noteq> (KSecret, om_Namespace (sec_Meta ex_secret), om_Name (sec_Meta ex_secret))" for k
    using that by (auto simp: mem_view_def ex_before_def key_of_def)
  moreover have "cl_ns ex_cluster = om_Namespace (sec_Meta ex_secret)"
    "map (password_of (mem_view [OCluster ex_cluster]) (cl_ns ex_cluster)) (clusterPeers ex_cluster) \<noteq>
     map (password_of (mem_view ex_before) (cl_ns ex_cluster)) (clusterPeers ex_cluster)"
    "fst (kList (mem_kube (\<lambda>_. False)) (om_Namespace (sec_Meta ex_secret)) ex_before) = Inr [ex_cluster]"
    "cl_ns ex_cluster = ''net''" "cl_name ex_cluster = ''nr''" by code_simp+
  ultimately show ?thesis
    using watch_covers_secrets [of ex_secret "mem_view [OCluster ex_cluster]" "mem_view ex_before" ex_cluster
        "mem_kube (\<lambda>_. False)" ex_before "[ex_cluster]"] by simp
qed

section \<open>The pods\<close>


end
