(* ===== verification/Operator_Config.thy ===== *)
theory Operator_Config
  imports Operator_Properties Agent
begin

text \<open>
  From the operator to the agent: the configuration the operator writes into the ConfigMap
  is the one the agent loads from its file.  The encoder of the one and the decoder of the
  other are composed: \<open>MarshalIndent\<close>, then \<open>LoadFromFile\<close>.
\<close>

section \<open>What the agent should read\<close>

definition loaded_peer :: "agentPeerConfig \<Rightarrow> PeerConfig" where
  "loaded_peer p =
     \<lparr>pc_NeighborAddress = ap_NeighborAddress p, pc_RemoteAS = ap_RemoteAS p,
      pc_Description = ap_Description p, pc_BFDEnabled = ap_BFDEnabled p,
      pc_BFDMinRxMs = ap_BFDMinRxMs p, pc_BFDMinTxMs = ap_BFDMinTxMs p,
      pc_BFDDetectMultiplier = ap_BFDDetectMult p, pc_Keepalive = ap_Keepalive p,
      pc_HoldTime = ap_HoldTime p, pc_AddressFamilies = [], pc_SourceAddress = [],
      pc_EBGPMultihop = 0, pc_Password = ap_Password p, pc_MaxPrefixes = ap_MaxPrefixes p\<rparr>"

definition loaded_bgp :: "agentBGPConfig option \<Rightarrow> BGPConfig" where
  "loaded_bgp b =
     (case b of
        None \<Rightarrow> cfg_BGP DefaultConfig
      | Some b \<Rightarrow> \<lparr>bgp_LocalAS = ab_LocalAS b, bgp_AsBase = ab_AsBase b, bgp_RouterID = ab_RouterID b,
          bgp_AutoRouterID = ab_AutoRouterID b, bgp_Peers = map loaded_peer (ab_Peers b)\<rparr>)"

definition loaded_owner :: "agentOwnerEntry \<Rightarrow> OwnerConfig" where
  "loaded_owner e =
     \<lparr>oc_Token = ao_Token e,
      oc_AllowedPrefixes = \<lparr>pp_Type = aa_Type (ao_AllowedPrefixes e),
        pp_AllowedCIDRs = aa_AllowedCIDRs (ao_AllowedPrefixes e)\<rparr>\<rparr>"

definition loaded_config :: "agentConfig \<Rightarrow> Config" where
  "loaded_config c =
     \<lparr>cfg_ListenSocket = ac_ListenSocket c,
      cfg_FRR = \<lparr>frr_SocketDir = af_SocketDir (ac_FRR c), frr_ConnectTimeout = af_ConnectTimeout (ac_FRR c),
        frr_RetryInterval = af_RetryInterval (ac_FRR c)\<rparr>,
      cfg_BGP = loaded_bgp (ac_BGP c),
      cfg_Owners = map (\<lambda>(k, e). (k, loaded_owner e)) (sort_key fst (ac_Owners c)),
      cfg_LogLevel = ac_LogLevel c,
      cfg_MetricsAddress = ac_MetricsAddress c,
      cfg_DisconnectGracePeriod = ac_DisconnectGracePeriod c\<rparr>"

text \<open>Text is UTF-8, as Kubernetes requires of every string of an object, numbers are not
  negative and fit, and the names of the owners are distinct, as the keys of a map are.\<close>

definition peer_text_ok :: "agentPeerConfig \<Rightarrow> bool" where
  "peer_text_ok p \<longleftrightarrow> utf8_ok (ap_NeighborAddress p) \<and> utf8_ok (ap_Description p) \<and> utf8_ok (ap_Password p)"

definition owner_text_ok :: "string \<times> agentOwnerEntry \<Rightarrow> bool" where
  "owner_text_ok e \<longleftrightarrow> utf8_ok (fst e) \<and> utf8_ok (ao_Token (snd e)) \<and>
     utf8_ok (aa_Type (ao_AllowedPrefixes (snd e))) \<and>
     list_all utf8_ok (aa_AllowedCIDRs (ao_AllowedPrefixes (snd e)))"

definition text_ok :: "agentConfig \<Rightarrow> bool" where
  "text_ok c \<longleftrightarrow> utf8_ok (ac_ListenSocket c) \<and> utf8_ok (af_SocketDir (ac_FRR c)) \<and>
     (case ac_BGP c of None \<Rightarrow> True | Some b \<Rightarrow> utf8_ok (ab_RouterID b) \<and> list_all peer_text_ok (ab_Peers b)) \<and>
     list_all owner_text_ok (ac_Owners c) \<and> utf8_ok (ac_LogLevel c) \<and> utf8_ok (ac_MetricsAddress c)"

definition small :: "int \<Rightarrow> bool" where
  "small i \<longleftrightarrow> 0 \<le> i \<and> i < 2 ^ 63"

definition numbers_fit :: "agentConfig \<Rightarrow> bool" where
  "numbers_fit c \<longleftrightarrow> small (af_ConnectTimeout (ac_FRR c)) \<and> small (af_RetryInterval (ac_FRR c)) \<and>
     small (ac_DisconnectGracePeriod c)"

section \<open>The text is read back\<close>

lemma to_valid_literals:
  "to_valid ''listen_socket'' = ''listen_socket''" "to_valid ''frr'' = ''frr''" "to_valid ''bgp'' = ''bgp''"
  "to_valid ''owners'' = ''owners''" "to_valid ''log_level'' = ''log_level''"
  "to_valid ''metrics_address'' = ''metrics_address''"
  "to_valid ''disconnect_grace_period'' = ''disconnect_grace_period''"
  "to_valid ''socket_dir'' = ''socket_dir''" "to_valid ''connect_timeout'' = ''connect_timeout''"
  "to_valid ''retry_interval'' = ''retry_interval''" "to_valid ''local_as'' = ''local_as''"
  "to_valid ''as_base'' = ''as_base''" "to_valid ''router_id'' = ''router_id''"
  "to_valid ''auto_router_id'' = ''auto_router_id''" "to_valid ''peers'' = ''peers''"
  "to_valid ''neighbor_address'' = ''neighbor_address''" "to_valid ''remote_as'' = ''remote_as''"
  "to_valid ''description'' = ''description''" "to_valid ''bfd_enabled'' = ''bfd_enabled''"
  "to_valid ''bfd_min_rx_ms'' = ''bfd_min_rx_ms''" "to_valid ''bfd_min_tx_ms'' = ''bfd_min_tx_ms''"
  "to_valid ''bfd_detect_multiplier'' = ''bfd_detect_multiplier''" "to_valid ''keepalive'' = ''keepalive''"
  "to_valid ''hold_time'' = ''hold_time''" "to_valid ''password'' = ''password''"
  "to_valid ''max_prefixes'' = ''max_prefixes''" "to_valid ''token'' = ''token''"
  "to_valid ''allowed_prefixes'' = ''allowed_prefixes''" "to_valid ''type'' = ''type''"
  "to_valid ''allowed_cidrs'' = ''allowed_cidrs''"
  by code_simp+

declare to_valid.simps [simp del]

lemma json_valid_omit:
  "to_valid k = k \<Longrightarrow> utf8_ok s \<Longrightarrow>
    map (\<lambda>m. (to_valid (fst m), json_valid (snd m))) (omit_string k s) = omit_string k s"
  "to_valid k = k \<Longrightarrow> map (\<lambda>m. (to_valid (fst m), json_valid (snd m))) (omit_uint k w) = omit_uint k w"
  "to_valid k = k \<Longrightarrow> map (\<lambda>m. (to_valid (fst m), json_valid (snd m))) (omit_bool k b) = omit_bool k b"
  by (simp_all add: omit_string_def omit_uint_def omit_bool_def omitempty_def utf8_ok_def)

lemma json_valid_peer: "peer_text_ok p \<Longrightarrow> json_valid (encode_agentPeerConfig p) = encode_agentPeerConfig p"
  by (simp add: encode_agentPeerConfig_def peer_text_ok_def json_valid_omit to_valid_literals)
    (simp add: utf8_ok_def)

lemma json_valid_owner:
  "owner_text_ok (k, e) \<Longrightarrow> json_valid (encode_agentOwnerEntry e) = encode_agentOwnerEntry e"
  by (simp add: encode_agentOwnerEntry_def owner_text_ok_def to_valid_literals utf8_ok_def list_all_iff)

lemma json_valid_bgp:
  assumes "utf8_ok (ab_RouterID b)" and "list_all peer_text_ok (ab_Peers b)"
  shows "json_valid (encode_agentBGPConfig b) = encode_agentBGPConfig b"
proof -
  have "map (\<lambda>p. json_valid (encode_agentPeerConfig p)) (ab_Peers b) = map encode_agentPeerConfig (ab_Peers b)"
    using assms(2) by (simp add: list_all_iff json_valid_peer)
  then show ?thesis
    using assms(1) by (simp add: encode_agentBGPConfig_def json_valid_omit to_valid_literals omitempty_def comp_def)
qed

lemma json_valid_config:
  assumes "text_ok c"
  shows "json_valid (encode_agentConfig c) = encode_agentConfig c"
proof -
  have o: "map (\<lambda>m. (to_valid (fst m), json_valid (encode_agentOwnerEntry (snd m)))) (sort_key fst (ac_Owners c)) =
      map (\<lambda>m. (fst m, encode_agentOwnerEntry (snd m))) (sort_key fst (ac_Owners c))"
    using assms json_valid_owner by (auto simp: text_ok_def list_all_iff owner_text_ok_def utf8_ok_def)
  have b: "json_valid (encode_agentBGPConfig b) = encode_agentBGPConfig b" if "ac_BGP c = Some b" for b
    using assms that by (simp add: text_ok_def json_valid_bgp)
  show ?thesis
    using assms o b
    by (simp add: encode_agentConfig_def encode_agentFRRConfig_def text_ok_def to_valid_literals utf8_ok_def
        case_prod_beta comp_def split: option.splits)
qed

lemma number_text_dec [simp]: "number_text (dec n)"
proof -
  have "dec n = ''0'' \<or> hd (dec n) \<noteq> CHR ''0''"
  proof (induction n rule: dec.induct)
    case (1 n)
    show ?case
    proof (cases "n < 10")
      case True
      then have "n = 0 \<or> n = 1 \<or> n = 2 \<or> n = 3 \<or> n = 4 \<or> n = 5 \<or> n = 6 \<or> n = 7 \<or> n = 8 \<or> n = 9" by presburger
      then show ?thesis by (elim disjE) (simp_all add: dec.simps)
    next
      case False
      have "dec (n div 10) \<noteq> ''0''"
      proof
        assume "dec (n div 10) = ''0''"
        then have "n div 10 = 0" by (metis dec.simps dec_inject nth_Cons_0 zero_less_numeral)
        with False show False by simp
      qed
      with "1.IH" [OF False] False show ?thesis by (subst (1 2) dec.simps) (simp add: hd_append)
    qed
  qed
  then show ?thesis
    using dec_digits [of n] by (simp add: number_text_def all_digits_def list_all_iff)
qed

lemma number_text_dec32 [simp]: "number_text (dec32 w)"
  by (simp add: dec32_def)

lemma number_text_itoa: "small i \<Longrightarrow> number_text (itoa i)"
  by (simp add: itoa_def small_def)

lemma numbers_ok_omit [simp]:
  "list_all (\<lambda>m. numbers_ok (snd m)) (omit_string k s)"
  "list_all (\<lambda>m. numbers_ok (snd m)) (omit_uint k w)"
  "list_all (\<lambda>m. numbers_ok (snd m)) (omit_bool k b)"
  by (simp_all add: omit_string_def omit_uint_def omit_bool_def omitempty_def)

lemma numbers_ok_config:
  assumes "numbers_fit c"
  shows "numbers_ok (encode_agentConfig c)"
proof -
  have p: "numbers_ok (encode_agentPeerConfig p)" for p by (simp add: encode_agentPeerConfig_def)
  have pl: "list_all numbers_ok (map encode_agentPeerConfig ps)" for ps by (simp add: list_all_iff p)
  have b: "numbers_ok (encode_agentBGPConfig b)" for b
    by (simp add: encode_agentBGPConfig_def omitempty_def pl)
  have o: "numbers_ok (encode_agentOwnerEntry e)" for e
    by (simp add: encode_agentOwnerEntry_def list_all_iff)
  show ?thesis
    using assms by (cases "ac_BGP c") (simp_all add: encode_agentConfig_def encode_agentFRRConfig_def
        numbers_fit_def number_text_itoa list_all_iff b o case_prod_beta)
qed

text \<open>The value is at most five levels deep.\<close>

lemma json_depth_members:
  "(\<And>m. m \<in> set ms \<Longrightarrow> json_depth (snd m) \<le> d) \<Longrightarrow> json_depth (JObj ms) \<le> Suc d"
  "(\<And>e. e \<in> set es \<Longrightarrow> json_depth e \<le> d) \<Longrightarrow> json_depth (JArr es) \<le> Suc d"
proof -
  have "fold (\<lambda>x. max (f x)) xs n \<le> d" if "n \<le> d" "\<And>x. x \<in> set xs \<Longrightarrow> f x \<le> d"
    for f :: "'x \<Rightarrow> nat" and xs n
    using that by (induction xs arbitrary: n) auto
  from this [of 0 ms "\<lambda>m. json_depth (snd m)"] this [of 0 es json_depth]
  show "(\<And>m. m \<in> set ms \<Longrightarrow> json_depth (snd m) \<le> d) \<Longrightarrow> json_depth (JObj ms) \<le> Suc d"
    "(\<And>e. e \<in> set es \<Longrightarrow> json_depth e \<le> d) \<Longrightarrow> json_depth (JArr es) \<le> Suc d" by simp_all
qed

lemma json_depth_config: "json_depth (encode_agentConfig c) \<le> 10000"
proof -
  have om: "(a, j) \<in> set (omit_string k s) \<Longrightarrow> json_depth j = 0" "(a, j) \<in> set (omit_uint k w) \<Longrightarrow> json_depth j = 0"
    "(a, j) \<in> set (omit_bool k b) \<Longrightarrow> json_depth j = 0" for a j k s w b
    by (auto simp: omit_string_def omit_uint_def omit_bool_def omitempty_def split: if_splits)
  have p: "json_depth (encode_agentPeerConfig p) \<le> Suc 0" for p
    unfolding encode_agentPeerConfig_def by (rule json_depth_members) (auto dest: om)
  have pa: "json_depth (JArr (map encode_agentPeerConfig ps)) \<le> Suc (Suc 0)" for ps
    by (rule json_depth_members) (auto simp: p)
  have b: "json_depth (encode_agentBGPConfig b) \<le> Suc (Suc (Suc 0))" for b
    unfolding encode_agentBGPConfig_def
    by (rule json_depth_members)
      (use pa in \<open>auto simp: omitempty_def simp del: json_depth.simps(1,2) dest: om split: if_splits\<close>)
  have o: "json_depth (encode_agentOwnerEntry e) \<le> Suc (Suc (Suc 0))" for e
  proof -
    have a: "json_depth (JArr (map JStr xs)) \<le> Suc 0" for xs by (rule json_depth_members) auto
    have q: "json_depth (JObj [(''type'', JStr x), (''allowed_cidrs'', JArr (map JStr xs))]) \<le> Suc (Suc 0)" for x xs
      by (rule json_depth_members) (use a in \<open>auto simp del: json_depth.simps(1)\<close>)
    show ?thesis unfolding encode_agentOwnerEntry_def
      by (rule json_depth_members) (use q in \<open>auto simp del: json_depth.simps(1,2)\<close>)
  qed
  have f: "json_depth (encode_agentFRRConfig f) \<le> Suc 0" for f
    unfolding encode_agentFRRConfig_def by (auto intro!: json_depth_members)
  have "json_depth (encode_agentConfig c) \<le> Suc (Suc (Suc (Suc (Suc 0))))"
    unfolding encode_agentConfig_def
  proof (rule json_depth_members)
    have os: "json_depth (JObj (map (\<lambda>(k, e). (k, encode_agentOwnerEntry e)) es)) \<le> Suc (Suc (Suc (Suc 0)))" for es
      by (rule json_depth_members) (use o in auto)
    have f': "json_depth (encode_agentFRRConfig f) \<le> Suc (Suc (Suc (Suc 0)))"
      "json_depth (encode_agentBGPConfig b) \<le> Suc (Suc (Suc (Suc 0)))" for f b
      using f [of f] b [of b] by simp_all
    fix m assume "m \<in> set ([(''listen_socket'', JStr (ac_ListenSocket c)), (''frr'', encode_agentFRRConfig (ac_FRR c))] @
        (case ac_BGP c of None \<Rightarrow> [] | Some b \<Rightarrow> [(''bgp'', encode_agentBGPConfig b)]) @
        [(''owners'', JObj (map (\<lambda>(k, e). (k, encode_agentOwnerEntry e)) (sort_key fst (ac_Owners c)))),
         (''log_level'', JStr (ac_LogLevel c)), (''metrics_address'', JStr (ac_MetricsAddress c)),
         (''disconnect_grace_period'', JNum (itoa (ac_DisconnectGracePeriod c)))])"
    then show "json_depth (snd m) \<le> Suc (Suc (Suc (Suc 0)))"
      using os f' by (auto simp del: json_depth.simps(1,2) split: option.splits)
  qed
  then show ?thesis by simp
qed

lemma config_text_parses:
  assumes "text_ok c" and "numbers_fit c"
  shows "parse_json (MarshalIndent (encode_agentConfig c)) = Some (encode_agentConfig c)"
  using parse_MarshalIndent [OF numbers_ok_config [OF assms(2)] json_depth_config] json_valid_config [OF assms(1)]
  by simp

section \<open>The value is decoded\<close>

text \<open>The names of the fields are their own folded form.\<close>

lemma case_fold_literals:
  "case_fold ''listen_socket'' = ''listen_socket''" "case_fold ''frr'' = ''frr''" "case_fold ''bgp'' = ''bgp''"
  "case_fold ''owners'' = ''owners''" "case_fold ''log_level'' = ''log_level''"
  "case_fold ''metrics_address'' = ''metrics_address''"
  "case_fold ''disconnect_grace_period'' = ''disconnect_grace_period''"
  "case_fold ''socket_dir'' = ''socket_dir''" "case_fold ''connect_timeout'' = ''connect_timeout''"
  "case_fold ''retry_interval'' = ''retry_interval''" "case_fold ''local_as'' = ''local_as''"
  "case_fold ''as_base'' = ''as_base''" "case_fold ''router_id'' = ''router_id''"
  "case_fold ''auto_router_id'' = ''auto_router_id''" "case_fold ''peers'' = ''peers''"
  "case_fold ''neighbor_address'' = ''neighbor_address''" "case_fold ''remote_as'' = ''remote_as''"
  "case_fold ''description'' = ''description''" "case_fold ''bfd_enabled'' = ''bfd_enabled''"
  "case_fold ''bfd_min_rx_ms'' = ''bfd_min_rx_ms''" "case_fold ''bfd_min_tx_ms'' = ''bfd_min_tx_ms''"
  "case_fold ''bfd_detect_multiplier'' = ''bfd_detect_multiplier''" "case_fold ''keepalive'' = ''keepalive''"
  "case_fold ''hold_time'' = ''hold_time''" "case_fold ''address_families'' = ''address_families''"
  "case_fold ''source_address'' = ''source_address''" "case_fold ''ebgp_multihop'' = ''ebgp_multihop''"
  "case_fold ''password'' = ''password''" "case_fold ''max_prefixes'' = ''max_prefixes''"
  "case_fold ''token'' = ''token''" "case_fold ''allowed_prefixes'' = ''allowed_prefixes''"
  "case_fold ''type'' = ''type''" "case_fold ''allowed_cidrs'' = ''allowed_cidrs''"
  by code_simp+

declare case_fold.simps [simp del]

text \<open>A field that is left out because it is empty would not have changed the structure.\<close>

lemma into_fields_omit:
  "(s = [] \<Longrightarrow> F k (JStr []) r = Some r) \<Longrightarrow>
    into_fields F (omit_string k s @ ms) r = Option.bind (F k (JStr s) r) (into_fields F ms)"
  "(w = 0 \<Longrightarrow> F k (JNum (dec32 0)) r = Some r) \<Longrightarrow>
    into_fields F (omit_uint k w @ ms) r = Option.bind (F k (JNum (dec32 w)) r) (into_fields F ms)"
  "(\<not> b \<Longrightarrow> F k (JBool False) r = Some r) \<Longrightarrow>
    into_fields F (omit_bool k b @ ms) r = Option.bind (F k (JBool b) r) (into_fields F ms)"
  by (auto simp: omit_string_def omit_uint_def omit_bool_def omitempty_def split: option.splits)

lemmas omit_last = into_fields_omit [where ms = "[]", unfolded append_Nil2]

lemma into_values [simp]:
  "into_string old_s (JStr s) = Some s" "into_bool old_b (JBool b) = Some b"
  "into_uint old_w (JNum (dec32 w)) = Some w"
  by (simp_all add: into_string_def into_bool_def into_uint_dec dec32_def)

lemma into_int_itoa: "small i \<Longrightarrow> into_int old (JNum (itoa i)) = Some i"
  using into_int_dec [of "nat i" old] by (auto simp: itoa_def small_def nat_less_iff)

lemma decode_peer: "decode_PeerConfig (encode_agentPeerConfig p) = Some (loaded_peer p)"
  by (simp add: decode_PeerConfig_def encode_agentPeerConfig_def into_struct_def zero_PeerConfig_def
      into_fields_omit omit_last PeerConfig_field_def EqualFold_def case_fold_literals loaded_peer_def)

lemma decode_bgp:
  "into_struct BGPConfig_field (cfg_BGP DefaultConfig) (encode_agentBGPConfig b) = Some (loaded_bgp (Some b))"
proof -
  have peers: "into_slice decode_PeerConfig (JArr (map encode_agentPeerConfig ps)) = Some (map loaded_peer ps)" for ps
    by (simp add: into_slice_def into_elems_map [of ps decode_PeerConfig encode_agentPeerConfig loaded_peer]
        decode_peer)
  show ?thesis
    by (simp add: encode_agentBGPConfig_def into_struct_def DefaultConfig_def into_fields_omit omitempty_def
        BGPConfig_field_def EqualFold_def case_fold_literals loaded_bgp_def peers)
qed

lemma decode_owner: "decode_OwnerConfig (encode_agentOwnerEntry e) = Some (loaded_owner e)"
  by (simp add: decode_OwnerConfig_def encode_agentOwnerEntry_def into_struct_def OwnerConfig_field_def
      PrefixPolicy_field_def EqualFold_def case_fold_literals loaded_owner_def into_strings_map)

lemma decode_owners:
  assumes "gm_ok es"
  shows "into_map decode_OwnerConfig [] (JObj (map (\<lambda>(k, e). (k, encode_agentOwnerEntry e)) (sort_key fst es))) =
    Some (map (\<lambda>(k, e). (k, loaded_owner e)) (sort_key fst es))"
proof -
  have "mset (map fst (sort_key fst es)) = mset (map fst es)" by simp
  then have "distinct (map fst (sort_key fst es))"
    using assms mset_eq_imp_distinct_iff by (fastforce simp: gm_ok_def)
  then show ?thesis
    using into_map_map [of "sort_key fst es" decode_OwnerConfig "\<lambda>e. encode_agentOwnerEntry (snd e)"
        "\<lambda>e. loaded_owner (snd e)" fst]
    by (simp add: decode_owner case_prod_unfold)
qed

lemma decode_config:
  assumes "gm_ok (ac_Owners c)" and "numbers_fit c"
  shows "into_struct Config_field DefaultConfig (encode_agentConfig c) = Some (loaded_config c)"
proof -
  have frr: "into_struct FRRConfig_field r (encode_agentFRRConfig (ac_FRR c)) = Some (cfg_FRR (loaded_config c))" for r
    using assms(2)
    by (simp add: encode_agentFRRConfig_def into_struct_def FRRConfig_field_def EqualFold_def case_fold_literals
        into_int_itoa numbers_fit_def loaded_config_def)
  have grace: "into_int r (JNum (itoa (ac_DisconnectGracePeriod c))) = Some (ac_DisconnectGracePeriod c)" for r
    using assms(2) by (simp add: into_int_itoa numbers_fit_def)
  have owners: "cfg_Owners DefaultConfig = []" by (simp add: DefaultConfig_def)
  note field = Config_field_def EqualFold_def case_fold_literals frr grace
  show ?thesis
  proof (cases "ac_BGP c")
    case None
    show ?thesis
      by (simp add: encode_agentConfig_def None into_struct_def [of Config_field] field decode_owners [OF assms(1)] owners
          loaded_config_def loaded_bgp_def)
  next
    case (Some b)
    show ?thesis
      by (simp add: encode_agentConfig_def Some into_struct_def [of Config_field] field decode_owners [OF assms(1)]
          owners decode_bgp loaded_config_def)
  qed
qed

lemma agentConfig_numbers: "numbers_fit (agentConfig_of cl peers)"
  by (simp add: numbers_fit_def agentConfig_of_def small_def)

lemma gm_ok_ownerEntries: "gm_ok (ownerEntries owners)"
  unfolding ownerEntries_def by (rule for_each_invariant) simp_all

text \<open>The file the agent finds when the ConfigMap is mounted.\<close>

definition mounted :: "file_reader \<Rightarrow> string \<Rightarrow> kobject \<Rightarrow> bool" where
  "mounted readFile path ob \<longleftrightarrow>
     (\<exists>cm data. ob = OConfigMap cm \<and> map_of (cm_Data cm) ''config.json'' = Some data \<and>
        readFile (Clean path) = Inr data)"

lemma config_loads:
  assumes "text_ok (agentConfig_of cl peers)" and "mounted readFile path (agentConfigMap cl (agentConfig_of cl peers))"
  shows "LoadFromFile readFile path = Inr (loaded_config (agentConfig_of cl peers))"
proof -
  let ?c = "agentConfig_of cl peers"
  have "readFile (Clean path) = Inr (MarshalIndent (encode_agentConfig ?c))"
    using assms(2) by (auto simp: mounted_def agentConfigMap_def)
  moreover have "parse_json (MarshalIndent (encode_agentConfig ?c)) = Some (encode_agentConfig ?c)"
    by (rule config_text_parses [OF assms(1) agentConfig_numbers])
  moreover have "into_struct Config_field DefaultConfig (encode_agentConfig ?c) = Some (loaded_config ?c)"
    by (rule decode_config [OF _ agentConfig_numbers]) (simp add: agentConfig_of_def gm_ok_ownerEntries)
  ultimately show ?thesis by (simp add: LoadFromFile_def Let_def)
qed

section \<open>Which resources give an agent that starts\<close>

lemma gm_put_middle: "k \<notin> fst ` set xs \<Longrightarrow> gm_put (xs @ (k, v) # ys) k w = xs @ (k, w) # ys"
  by (induction xs) auto

lemma update_all:
  assumes "gm_ok m"
  shows "for_each (\<lambda>(k, v) acc. gm_put acc k (f v)) m m = map (\<lambda>(k, v). (k, f v)) m"
proof -
  have "for_each (\<lambda>(k, v) acc. gm_put acc k (f v)) ys (map (\<lambda>(k, v). (k, f v)) xs @ ys) =
      map (\<lambda>(k, v). (k, f v)) (xs @ ys)" if "gm_ok (xs @ ys)" for xs ys
    using that
  proof (induction ys arbitrary: xs)
    case (Cons e ys)
    obtain k v where e: "e = (k, v)" by fastforce
    have "k \<notin> fst ` set (map (\<lambda>(k, v). (k, f v)) xs)" using Cons.prems by (force simp: gm_ok_def e)
    then have "gm_put (map (\<lambda>(k, v). (k, f v)) xs @ e # ys) k (f v) = map (\<lambda>(k, v). (k, f v)) (xs @ [e]) @ ys"
      by (simp add: gm_put_middle e)
    with Cons.IH [of "xs @ [e]"] Cons.prems show ?case by (simp add: e)
  qed simp
  from this [of "[]" m] assms show ?thesis by simp
qed

definition router_id_ok :: "environment \<Rightarrow> BGPConfig \<Rightarrow> bool" where
  "router_id_ok env b \<longleftrightarrow>
     (let b' = expand_overrides env (expand_as_base env (expand_router_id env b))
      in bgp_RouterID b' = [] \<or> ParseIP (bgp_RouterID b') \<noteq> None)"

definition agent_accepts :: "environment \<Rightarrow> NovaRouteCluster \<Rightarrow> agentPeerConfig list \<Rightarrow> bool" where
  "agent_accepts env cl peers \<longleftrightarrow>
     as_Owners (cl_agent cl) \<noteq> [] \<and>
     list_all (\<lambda>(k, e). ExpandEnv env (ao_Token e) \<noteq> [] \<and>
         ToLower (aa_Type (ao_AllowedPrefixes e)) \<in> {''host_only'', ''subnet'', ''any''} \<and>
         list_all (\<lambda>cidr. ParseCIDR cidr \<noteq> None) (aa_AllowedCIDRs (ao_AllowedPrefixes e)))
       (ownerEntries (as_Owners (cl_agent cl))) \<and>
     (as_BGP (cl_agent cl) \<noteq> None \<longrightarrow>
        list_all (\<lambda>p. ParseIP (ap_NeighborAddress p) \<noteq> None \<and> ap_RemoteAS p \<noteq> 0) peers) \<and>
     router_id_ok env (loaded_bgp (ac_BGP (agentConfig_of cl peers))) \<and>
     (as_LogLevel (cl_agent cl) \<noteq> [] \<longrightarrow>
        ToLower (as_LogLevel (cl_agent cl)) \<in> {''debug'', ''info'', ''warn'', ''error''})"

lemma gm_put_not_Nil [simp]: "gm_put m k v \<noteq> []"
  by (cases m) (auto split: if_splits)

lemma sort_key_Nil_iff [simp]: "sort_key f xs = [] \<longleftrightarrow> xs = []"
  by (metis length_0_conv length_sort)

lemma gm_ok_sort_key [simp]: "gm_ok (sort_key fst m) = gm_ok m"
  by (rule gm_ok_same_entries) simp

lemma gm_ok_map_values [simp]: "gm_ok (map (\<lambda>(k, v). (k, f v)) m) = gm_ok m"
  by (simp add: gm_ok_def case_prod_unfold comp_def)

lemma ownerEntries_Nil: "ownerEntries owners = [] \<longleftrightarrow> owners = []"
proof -
  have "m \<noteq> [] \<Longrightarrow> for_each (\<lambda>o' m. gm_put m (ow_Name o') (g o')) os m \<noteq> []"
    for m os and g :: "OwnerSpec \<Rightarrow> agentOwnerEntry"
    by (induction os arbitrary: m) auto
  then show ?thesis by (cases owners) (auto simp: ownerEntries_def)
qed

lemma expand_peers: "bgp_Peers (expand_overrides env (expand_as_base env (expand_router_id env b))) = bgp_Peers b"
proof -
  have r: "bgp_Peers (expand_router_id env b) = bgp_Peers b" for b by (simp add: expand_router_id_def Let_def)
  have a: "bgp_Peers (expand_as_base env b) = bgp_Peers b" for b
    by (simp add: expand_as_base_def Let_def split: option.splits)
  have o: "bgp_Peers (expand_overrides env b) = bgp_Peers b" for b
    by (simp add: expand_overrides_def Let_def split: option.splits)
  show ?thesis by (simp add: r a o)
qed

lemma loaded_owners_valid:
  assumes "gm_ok es"
  shows "validateOwners sch (cfg_Owners (ExpandEnvVars env (cfg\<lparr>cfg_Owners := map (\<lambda>(k, e). (k, loaded_owner e)) (sort_key fst es)\<rparr>))) = None \<longleftrightarrow>
    es \<noteq> [] \<and> (\<forall>(k, e) \<in> set es. ExpandEnv env (ao_Token e) \<noteq> [] \<and>
      ToLower (aa_Type (ao_AllowedPrefixes e)) \<in> {''host_only'', ''subnet'', ''any''} \<and>
      (\<forall>cidr \<in> set (aa_AllowedCIDRs (ao_AllowedPrefixes e)). ParseCIDR cidr \<noteq> None))"
proof -
  let ?os = "map (\<lambda>(k, e). (k, loaded_owner e)) (sort_key fst es)"
  have ok: "gm_ok ?os" using assms by simp
  have "cfg_Owners (ExpandEnvVars env (cfg\<lparr>cfg_Owners := ?os\<rparr>)) =
      map (\<lambda>(k, v). (k, v\<lparr>oc_Token := ExpandEnv env (oc_Token v)\<rparr>)) ?os"
    using update_all [OF ok, of "\<lambda>v. v\<lparr>oc_Token := ExpandEnv env (oc_Token v)\<rparr>"]
    by (simp add: ExpandEnvVars_def Let_def)
  then show ?thesis
    by (auto simp: validateOwners_None owner_valid_def loaded_owner_def)
qed

lemma validate_peers:
  "first_error validateBGPPeer (map loaded_peer ps) = None \<longleftrightarrow>
   list_all (\<lambda>p. ParseIP (ap_NeighborAddress p) \<noteq> None \<and> ap_RemoteAS p \<noteq> 0) ps"
proof -
  have "ParseIP [] = None" by code_simp
  then show ?thesis
    by (auto simp: first_error_None validateBGPPeer_def loaded_peer_def list_all_iff)
qed

lemma agent_validates:
  "Validate sch (ExpandEnvVars env (loaded_config (agentConfig_of cl peers))) = None \<longleftrightarrow> agent_accepts env cl peers"
proof -
  let ?c = "loaded_config (agentConfig_of cl peers)"
  let ?e = "ExpandEnvVars env ?c"
  let ?es = "ownerEntries (as_Owners (cl_agent cl))"
  have basic: "cfg_ListenSocket ?e \<noteq> []" "frr_SocketDir (cfg_FRR ?e) = ''/run/frr''"
    "frr_ConnectTimeout (cfg_FRR ?e) = 10" "frr_RetryInterval (cfg_FRR ?e) = 5"
    "cfg_DisconnectGracePeriod ?e = 30"
    "cfg_LogLevel ?e = (if as_LogLevel (cl_agent cl) \<noteq> [] then as_LogLevel (cl_agent cl) else ''info'')"
    by (simp_all add: ExpandEnvVars_def loaded_config_def agentConfig_of_def Let_def)
  have info: "ToLower ''info'' = ''info''" by code_simp
  have bgp: "cfg_BGP ?e = expand_overrides env (expand_as_base env (expand_router_id env
      (loaded_bgp (ac_BGP (agentConfig_of cl peers)))))"
    by (simp add: ExpandEnvVars_def loaded_config_def Let_def)
  have router: "bgp_RouterID (cfg_BGP ?e) \<noteq> [] \<and> ParseIP (bgp_RouterID (cfg_BGP ?e)) = None \<longleftrightarrow>
      \<not> router_id_ok env (loaded_bgp (ac_BGP (agentConfig_of cl peers)))"
    by (simp add: bgp router_id_ok_def Let_def)
  have "bgp_Peers (cfg_BGP ?e) = (if as_BGP (cl_agent cl) = None then [] else map loaded_peer peers)"
    unfolding bgp expand_peers
    by (cases "as_BGP (cl_agent cl)") (simp_all add: loaded_bgp_def agentConfig_of_def DefaultConfig_def)
  then have peers: "first_error validateBGPPeer (bgp_Peers (cfg_BGP ?e)) = None \<longleftrightarrow>
      (as_BGP (cl_agent cl) \<noteq> None \<longrightarrow> list_all (\<lambda>p. ParseIP (ap_NeighborAddress p) \<noteq> None \<and> ap_RemoteAS p \<noteq> 0) peers)"
    by (simp add: validate_peers)
  have "?c = ?c\<lparr>cfg_Owners := map (\<lambda>(k, e). (k, loaded_owner e)) (sort_key fst ?es)\<rparr>"
    by (simp add: loaded_config_def agentConfig_of_def)
  then have owners: "validateOwners sch (cfg_Owners ?e) = None \<longleftrightarrow> as_Owners (cl_agent cl) \<noteq> [] \<and>
      (\<forall>(k, e) \<in> set ?es. ExpandEnv env (ao_Token e) \<noteq> [] \<and>
      ToLower (aa_Type (ao_AllowedPrefixes e)) \<in> {''host_only'', ''subnet'', ''any''} \<and>
      (\<forall>cidr \<in> set (aa_AllowedCIDRs (ao_AllowedPrefixes e)). ParseCIDR cidr \<noteq> None))"
    using loaded_owners_valid [OF gm_ok_ownerEntries [of "as_Owners (cl_agent cl)"], where cfg = ?c and env = env and sch = sch]
    by (simp add: ownerEntries_Nil)
  have "Validate sch ?e = None \<longleftrightarrow> router_id_ok env (loaded_bgp (ac_BGP (agentConfig_of cl peers))) \<and>
      first_error validateBGPPeer (bgp_Peers (cfg_BGP ?e)) = None \<and> validateOwners sch (cfg_Owners ?e) = None \<and>
      (as_LogLevel (cl_agent cl) \<noteq> [] \<longrightarrow>
        ToLower (as_LogLevel (cl_agent cl)) \<in> {''debug'', ''info'', ''warn'', ''error''})"
    using basic info router by (auto simp: Validate_def split: option.splits)
  then show ?thesis
    unfolding peers owners agent_accepts_def by (auto simp: list_all_iff)
qed

section \<open>The properties\<close>

text \<open>C16 (roundtrip). The agent loads from the mounted ConfigMap exactly the configuration that the
  operator derived from the resource: every field of the socket, FRR, BGP, peers and owners
  comes back, the fields the operator leaves out have their defaults, and nothing in the
  text of a name, token or password can change another field.\<close>

theorem operator_config_roundtrip:
  assumes "text_ok (agentConfig_of cl peers)"
    and "mounted readFile path (agentConfigMap cl (agentConfig_of cl peers))"
  shows "LoadFromFile readFile path = Inr (loaded_config (agentConfig_of cl peers))"
  by (rule config_loads [OF assms])

definition ex_agent_peers :: "agentPeerConfig list" where
  "ex_agent_peers = [peerConfig_of ex_peer_spec ''s\"3<cr>et'']"

definition ex_reader :: file_reader where
  "ex_reader p =
     (if p = ''/etc/novaroute/config.json''
      then Inr (MarshalIndent (encode_agentConfig (agentConfig_of ex_cluster ex_agent_peers)))
      else Inl ''no such file'')"

lemma ex_config_ok:
  "text_ok (agentConfig_of ex_cluster ex_agent_peers)"
  "mounted ex_reader ''/etc/novaroute/config.json'' (agentConfigMap ex_cluster (agentConfig_of ex_cluster ex_agent_peers))"
proof -
  show "text_ok (agentConfig_of ex_cluster ex_agent_peers)" by code_simp
  have "Clean ''/etc/novaroute/config.json'' = ''/etc/novaroute/config.json''" by code_simp
  then show "mounted ex_reader ''/etc/novaroute/config.json''
      (agentConfigMap ex_cluster (agentConfig_of ex_cluster ex_agent_peers))"
    by (simp add: mounted_def agentConfigMap_def ex_reader_def)
qed

theorem operator_config_roundtrip_witness:
  "LoadFromFile ex_reader ''/etc/novaroute/config.json'' =
   Inr (loaded_config (agentConfig_of ex_cluster ex_agent_peers))"
  by (rule operator_config_roundtrip [OF ex_config_ok])

text \<open>C17 (error). Which resources give an agent that starts: with the mounted configuration the agent's
  \<open>loadAndValidateConfig\<close> succeeds if and only if the resource names at least one owner,
  every owner has a token after expansion, a known prefix type and well-formed networks,
  every peer an address and an AS number, and router identifier and log level are valid.
  In particular the owners, optional in the resource, are not optional for the agent.\<close>

theorem operator_agent_starts:
  assumes "text_ok (agentConfig_of cl peers)"
    and "mounted readFile path (agentConfigMap cl (agentConfig_of cl peers))"
  shows "(\<exists>cfg. loadAndValidateConfig readFile env sch path = Inr cfg) \<longleftrightarrow> agent_accepts env cl peers"
proof -
  have "LoadFromFile readFile path = Inr (loaded_config (agentConfig_of cl peers))"
    by (rule config_loads [OF assms])
  then show ?thesis
    using agent_validates [of sch env cl peers]
    by (auto simp: loadAndValidateConfig_def Let_def split: option.splits)
qed

theorem operator_agent_starts_witness:
  "\<exists>cfg. loadAndValidateConfig ex_reader (\<lambda>_. None) [] ''/etc/novaroute/config.json'' = Inr cfg"
proof -
  have "agent_accepts (\<lambda>_. None) ex_cluster ex_agent_peers" by code_simp
  then show ?thesis using operator_agent_starts [OF ex_config_ok] by blast
qed

end
