(* ===== verification/Route_Client.thy ===== *)
theory Route_Client
  imports Server_Status
begin

text \<open>
  The client side of the RouteControl service (\<open>RouteControlClient\<close> of
  \<open>api/v1/novaroute_grpc.pb.go\<close>), as the command-line tool and the end-to-end test use it: a
  record of calls over the state of the world behind the connection.  A call fails with the
  status the server returned or with an error of the connection.  Nothing is assumed about
  a client in general; \<open>server_client\<close> is the one that is connected to the modelled server.
\<close>

section \<open>Clients\<close>

datatype rpc_error = RpcStatus status | RpcTransport string

text \<open>
  A stream is what has been received from it so far, and how it ended, unless it is still
  open.  \<open>GetStatusRequest\<close> and \<open>StreamEventsRequest\<close> are given by their fields.
\<close>

type_synonym event_stream = "RouteEvent list \<times> rpc_error option"

record 's RouteControlClient =
  cl_Register :: "RegisterRequest \<Rightarrow> 's \<Rightarrow> (rpc_error + RegisterResponse) \<times> 's"
  cl_Deregister :: "DeregisterRequest \<Rightarrow> 's \<Rightarrow> (rpc_error + unit) \<times> 's"
  cl_ConfigureBGP :: "ConfigureBGPRequest \<Rightarrow> 's \<Rightarrow> (rpc_error + ConfigureBGPResponse) \<times> 's"
  cl_ApplyPeer :: "ApplyPeerRequest \<Rightarrow> 's \<Rightarrow> (rpc_error + unit) \<times> 's"
  cl_RemovePeer :: "RemovePeerRequest \<Rightarrow> 's \<Rightarrow> (rpc_error + unit) \<times> 's"
  cl_AdvertisePrefix :: "AdvertisePrefixRequest \<Rightarrow> 's \<Rightarrow> (rpc_error + unit) \<times> 's"
  cl_WithdrawPrefix :: "WithdrawPrefixRequest \<Rightarrow> 's \<Rightarrow> (rpc_error + unit) \<times> 's"
  cl_EnableBFD :: "EnableBFDRequest \<Rightarrow> 's \<Rightarrow> (rpc_error + unit) \<times> 's"
  cl_DisableBFD :: "DisableBFDRequest \<Rightarrow> 's \<Rightarrow> (rpc_error + unit) \<times> 's"
  cl_EnableOSPF :: "EnableOSPFRequest \<Rightarrow> 's \<Rightarrow> (rpc_error + unit) \<times> 's"
  cl_DisableOSPF :: "DisableOSPFRequest \<Rightarrow> 's \<Rightarrow> (rpc_error + unit) \<times> 's"
  cl_GetStatus :: "string \<Rightarrow> 's \<Rightarrow> (rpc_error + GetStatusResponse) \<times> 's"
  cl_StreamEvents :: "string \<Rightarrow> string list \<Rightarrow> 's \<Rightarrow> (rpc_error + event_stream) \<times> 's"

section \<open>The client of the modelled server\<close>

text \<open>
  Behind the connection is the server and the number of calls made so far, which selects
  the context of the next one.
\<close>

type_synonym connection = "Server \<times> nat"

definition unary ::
    "(nat \<Rightarrow> Ctx) \<Rightarrow> (Ctx \<Rightarrow> 'q \<Rightarrow> Server \<Rightarrow> 'a rpc) \<Rightarrow> 'q \<Rightarrow> connection \<Rightarrow> (rpc_error + 'a) \<times> connection" where
  "unary cxs handler q = (\<lambda>(s, n).
     case handler (cxs n) q s of (r, s') \<Rightarrow> (map_sum RpcStatus (\<lambda>a. a) r, (s', Suc n)))"

fun stream_error :: "stream_result \<Rightarrow> rpc_error" where
  "stream_error StreamClosed = RpcTransport ''EOF''"
| "stream_error (StreamSendError e) = RpcTransport e"
| "stream_error (StreamContextErr e) = RpcTransport e"

definition server_client ::
    "vtysh \<Rightarrow> (string \<Rightarrow> bool) \<Rightarrow> (nat \<Rightarrow> Ctx) \<Rightarrow> (nat \<Rightarrow> stream_act list) \<Rightarrow> connection RouteControlClient" where
  "server_client vt exists cxs acts =
     \<lparr>cl_Register = unary cxs Register, cl_Deregister = unary cxs Deregister,
      cl_ConfigureBGP = unary cxs ConfigureBGP, cl_ApplyPeer = unary cxs ApplyPeer,
      cl_RemovePeer = unary cxs RemovePeer, cl_AdvertisePrefix = unary cxs AdvertisePrefix,
      cl_WithdrawPrefix = unary cxs WithdrawPrefix, cl_EnableBFD = unary cxs EnableBFD,
      cl_DisableBFD = unary cxs DisableBFD, cl_EnableOSPF = unary cxs EnableOSPF,
      cl_DisableOSPF = unary cxs DisableOSPF, cl_GetStatus = unary cxs (GetStatus vt exists),
      cl_StreamEvents = (\<lambda>ownerFilter eventTypes (s, n).
        case StreamEvents ownerFilter eventTypes (cx_order (cxs n) 0) (acts n) (sv_eventBus s) of
          (r, evs, eb) \<Rightarrow> (Inr (evs, map_option stream_error r), (s\<lparr>sv_eventBus := eb\<rparr>, Suc n)))\<rparr>"

lemma server_client_calls [simp]:
  "cl_Register (server_client vt ex cxs acts) = unary cxs Register"
  "cl_Deregister (server_client vt ex cxs acts) = unary cxs Deregister"
  "cl_ConfigureBGP (server_client vt ex cxs acts) = unary cxs ConfigureBGP"
  "cl_ApplyPeer (server_client vt ex cxs acts) = unary cxs ApplyPeer"
  "cl_RemovePeer (server_client vt ex cxs acts) = unary cxs RemovePeer"
  "cl_AdvertisePrefix (server_client vt ex cxs acts) = unary cxs AdvertisePrefix"
  "cl_WithdrawPrefix (server_client vt ex cxs acts) = unary cxs WithdrawPrefix"
  "cl_EnableBFD (server_client vt ex cxs acts) = unary cxs EnableBFD"
  "cl_DisableBFD (server_client vt ex cxs acts) = unary cxs DisableBFD"
  "cl_EnableOSPF (server_client vt ex cxs acts) = unary cxs EnableOSPF"
  "cl_DisableOSPF (server_client vt ex cxs acts) = unary cxs DisableOSPF"
  "cl_GetStatus (server_client vt ex cxs acts) = unary cxs (GetStatus vt ex)"
  by (simp_all add: server_client_def)

lemma unary_eq:
  "unary cxs h q (s, n) =
     (case h (cxs n) q s of (r, s') \<Rightarrow> (map_sum RpcStatus (\<lambda>a. a) r, (s', Suc n)))"
  by (simp add: unary_def)

end
