(* ===== verification/Route_Service.thy ===== *)
theory Route_Service
  imports Route_Client
begin

text \<open>
  What a client may rely on, as an abstract specification of the RouteControl service: the
  service keeps who holds what (\<open>holdings\<close>), and every call moves it in the obvious way or
  is refused and leaves it alone.  The locale \<open>routing_service\<close> states this for a client;
  the server behind \<open>server_client\<close> is shown to satisfy it, with the holdings read off its
  intent store.
\<close>

section \<open>Holdings\<close>

text \<open>By owner and key of the intent.  A peer is mapped to whether it asks for BFD.\<close>

record holdings =
  h_peers :: "string \<times> string \<Rightarrow> bool option"
  h_prefixes :: "(string \<times> string) set"
  h_bfd :: "(string \<times> string) set"
  h_ospf :: "(string \<times> string) set"

definition no_holdings :: holdings where
  "no_holdings = \<lparr>h_peers = Map.empty, h_prefixes = {}, h_bfd = {}, h_ospf = {}\<rparr>"

definition add_peer :: "string \<Rightarrow> BGPPeer \<Rightarrow> holdings \<Rightarrow> holdings" where
  "add_peer ow p h = h\<lparr>h_peers := (h_peers h)((ow, peerKey (bp_NeighborAddress p)) \<mapsto> bp_BfdEnabled p)\<rparr>"

definition del_peer :: "string \<Rightarrow> string \<Rightarrow> holdings \<Rightarrow> holdings" where
  "del_peer ow a h = h\<lparr>h_peers := (h_peers h)((ow, peerKey a) := None)\<rparr>"

definition held_prefix :: "string \<Rightarrow> string \<Rightarrow> Protocol \<Rightarrow> string \<times> string" where
  "held_prefix ow pfx pr = (ow, prefixKey (protocolString pr) pfx)"

definition add_prefix :: "string \<Rightarrow> string \<Rightarrow> Protocol \<Rightarrow> holdings \<Rightarrow> holdings" where
  "add_prefix ow pfx pr h = h\<lparr>h_prefixes := insert (held_prefix ow pfx pr) (h_prefixes h)\<rparr>"

definition del_prefix :: "string \<Rightarrow> string \<Rightarrow> Protocol \<Rightarrow> holdings \<Rightarrow> holdings" where
  "del_prefix ow pfx pr h = h\<lparr>h_prefixes := h_prefixes h - {held_prefix ow pfx pr}\<rparr>"

definition drop_owner :: "string \<Rightarrow> holdings \<Rightarrow> holdings" where
  "drop_owner ow h =
     \<lparr>h_peers = h_peers h |` {k. fst k \<noteq> ow}, h_prefixes = {k \<in> h_prefixes h. fst k \<noteq> ow},
      h_bfd = {k \<in> h_bfd h. fst k \<noteq> ow}, h_ospf = {k \<in> h_ospf h. fst k \<noteq> ow}\<rparr>"

text \<open>What a status call with a filter is about.\<close>

definition of_owner :: "string \<Rightarrow> (string \<times> string) set \<Rightarrow> (string \<times> string) set" where
  "of_owner f ks = {k \<in> ks. f = [] \<or> fst k = f}"

definition no_bfd :: "holdings \<Rightarrow> bool" where
  "no_bfd h \<longleftrightarrow> h_bfd h = {} \<and> (\<forall>k. h_peers h k \<noteq> Some True)"

section \<open>Requests that pass\<close>

text \<open>The part of the checks of \<open>AdvertisePrefix\<close> that does not depend on what others hold.\<close>

definition advertisable :: "Engine \<Rightarrow> AdvertisePrefixRequest \<Rightarrow> bool" where
  "advertisable e q \<longleftrightarrow>
     advq_Owner q \<noteq> [] \<and> advq_Token q \<noteq> [] \<and> advq_Prefix q \<noteq> [] \<and> ParseCIDR (advq_Prefix q) \<noteq> None \<and>
     advq_Protocol q \<noteq> PROTOCOL_UNSPECIFIED \<and> ValidateToken e (advq_Owner q) (advq_Token q) = None \<and>
     ValidatePrefix e (advq_Owner q) (advq_Prefix q) = None \<and>
     (case advq_Attributes q of None \<Rightarrow> True | Some a \<Rightarrow>
        (advq_Protocol q = PROTOCOL_OSPF \<longrightarrow> pa_LocalPreference a = 0 \<and> pa_Communities a = [] \<and>
           pa_Med a = 0 \<and> pa_NextHop a = []) \<and>
        (pa_NextHop a \<noteq> [] \<longrightarrow> ParseIP (pa_NextHop a) \<noteq> None))"

definition withdrawable :: "Engine \<Rightarrow> WithdrawPrefixRequest \<Rightarrow> bool" where
  "withdrawable e q \<longleftrightarrow>
     wdrq_Owner q \<noteq> [] \<and> wdrq_Token q \<noteq> [] \<and> wdrq_Prefix q \<noteq> [] \<and> ParseCIDR (wdrq_Prefix q) \<noteq> None \<and>
     wdrq_Protocol q \<in> {PROTOCOL_BGP, PROTOCOL_OSPF} \<and> ValidateToken e (wdrq_Owner q) (wdrq_Token q) = None"

definition removable :: "Engine \<Rightarrow> RemovePeerRequest \<Rightarrow> bool" where
  "removable e q \<longleftrightarrow>
     remq_Owner q \<noteq> [] \<and> remq_Token q \<noteq> [] \<and> remq_NeighborAddress q \<noteq> [] \<and>
     ParseIP (remq_NeighborAddress q) \<noteq> None \<and> ValidateToken e (remq_Owner q) (remq_Token q) = None"

section \<open>The contract\<close>

locale routing_service =
  fixes client :: "'s RouteControlClient"
    and ok :: "'s \<Rightarrow> bool"
    and view :: "'s \<Rightarrow> holdings"
    and policy :: Engine
  assumes register_keeps: "\<And>q r s s'. ok s \<Longrightarrow> cl_Register client q s = (r, s') \<Longrightarrow> ok s' \<and> view s' = view s"
    and register_passes: "\<And>q r s s'. ok s \<Longrightarrow> regq_Owner q \<noteq> [] \<Longrightarrow> regq_Token q \<noteq> [] \<Longrightarrow>
      ValidateToken policy (regq_Owner q) (regq_Token q) = None \<Longrightarrow> cl_Register client q s = (r, s') \<Longrightarrow>
      \<exists>resp. r = Inr resp \<and> regr_SessionId resp \<noteq> []"
    and register_refuses: "\<And>q r s s'. ok s \<Longrightarrow> regq_Owner q \<noteq> [] \<Longrightarrow> regq_Token q \<noteq> [] \<Longrightarrow>
      ValidateToken policy (regq_Owner q) (regq_Token q) \<noteq> None \<Longrightarrow> cl_Register client q s = (r, s') \<Longrightarrow>
      \<exists>m. r = Inl (RpcStatus (Status Unauthenticated m))"
    and deregister: "\<And>q r s s'. ok s \<Longrightarrow> derq_Owner q \<noteq> [] \<Longrightarrow> derq_Token q \<noteq> [] \<Longrightarrow> derq_WithdrawAll q \<Longrightarrow>
      ValidateToken policy (derq_Owner q) (derq_Token q) = None \<Longrightarrow> cl_Deregister client q s = (r, s') \<Longrightarrow>
      r = Inr () \<and> ok s' \<and> view s' = drop_owner (derq_Owner q) (view s)"
    and apply_peer: "\<And>q p r s s'. ok s \<Longrightarrow> validateApplyPeerRequest q = None \<Longrightarrow> appq_Peer q = Some p \<Longrightarrow>
      ValidateToken policy (appq_Owner q) (appq_Token q) = None \<Longrightarrow> cl_ApplyPeer client q s = (r, s') \<Longrightarrow>
      r = Inr () \<and> ok s' \<and> view s' = add_peer (appq_Owner q) p (view s)"
    and remove_peer: "\<And>q r s s'. ok s \<Longrightarrow> removable policy q \<Longrightarrow>
      h_peers (view s) (remq_Owner q, peerKey (remq_NeighborAddress q)) \<noteq> None \<Longrightarrow>
      cl_RemovePeer client q s = (r, s') \<Longrightarrow>
      r = Inr () \<and> ok s' \<and> view s' = del_peer (remq_Owner q) (remq_NeighborAddress q) (view s)"
    and advertise: "\<And>q r s s'. ok s \<Longrightarrow> advertisable policy q \<Longrightarrow>
      (\<forall>ow. ow = advq_Owner q \<or> held_prefix ow (advq_Prefix q) (advq_Protocol q) \<notin> h_prefixes (view s)) \<Longrightarrow>
      cl_AdvertisePrefix client q s = (r, s') \<Longrightarrow>
      r = Inr () \<and> ok s' \<and> view s' = add_prefix (advq_Owner q) (advq_Prefix q) (advq_Protocol q) (view s)"
    and advertise_refuses: "\<And>q r s s'. ok s \<Longrightarrow> ValidatePrefix policy (advq_Owner q) (advq_Prefix q) \<noteq> None \<Longrightarrow>
      cl_AdvertisePrefix client q s = (r, s') \<Longrightarrow> (\<exists>e. r = Inl e) \<and> ok s' \<and> view s' = view s"
    and withdraw: "\<And>q r s s'. ok s \<Longrightarrow> withdrawable policy q \<Longrightarrow>
      held_prefix (wdrq_Owner q) (wdrq_Prefix q) (wdrq_Protocol q) \<in> h_prefixes (view s) \<Longrightarrow>
      cl_WithdrawPrefix client q s = (r, s') \<Longrightarrow>
      r = Inr () \<and> ok s' \<and> view s' = del_prefix (wdrq_Owner q) (wdrq_Prefix q) (wdrq_Protocol q) (view s)"
    and status: "\<And>f r s s'. ok s \<Longrightarrow> cl_GetStatus client f s = (r, s') \<Longrightarrow>
      ok s' \<and> view s' = view s \<and> (\<exists>resp. r = Inr resp \<and>
        length (sr_Peers resp) = card (of_owner f (dom (h_peers (view s)))) \<and>
        length (sr_Prefixes resp) = card (of_owner f (h_prefixes (view s))) \<and>
        length (sr_OspfInterfaces resp) = card (of_owner f (h_ospf (view s))) \<and>
        (no_bfd (view s) \<longrightarrow> sr_BfdSessions resp = []))"

section \<open>The server's holdings\<close>

definition held :: "Store \<Rightarrow> holdings" where
  "held st =
     \<lparr>h_peers = (\<lambda>(ow, k). map_option peer_BFDEnabled (look Peers st ow k)),
      h_prefixes = {(ow, k). look Prefixes st ow k \<noteq> None}, h_bfd = {(ow, k). look BFD st ow k \<noteq> None},
      h_ospf = {(ow, k). look OSPF st ow k \<noteq> None}\<rparr>"

lemma map_of_filter_keys: "map_of (filter (\<lambda>e. P (fst e)) m) k = (if P k then map_of m k else None)"
  by (induction m) auto

lemma length_owned:
  assumes "gm_ok m" and "\<And>ow oi. (ow, oi) \<in> set m \<Longrightarrow> gm_ok (sel oi)"
  shows "length (owned sel m) = card {(ow, k). \<exists>oi. map_of m ow = Some oi \<and> map_of (sel oi) k \<noteq> None}"
proof -
  let ?ks = "concat (map (\<lambda>(ow, oi). map (\<lambda>(k, i). (ow, k)) (sel oi)) m)"
  have len: "length (owned sel m) = length ?ks"
    by (simp add: owned_def length_concat case_prod_unfold comp_def)
  have "distinct (map fst m)" using assms(1) by (simp add: gm_ok_def)
  then have dis: "distinct ?ks"
    using assms(2)
  proof (induction m)
    case (Cons e m)
    obtain ow oi where e: "e = (ow, oi)" by fastforce
    have "distinct (map fst (sel oi))" using Cons.prems(2) [of ow oi] e by (simp add: gm_ok_def)
    then have "distinct (map (\<lambda>(k, i). (ow, k)) (sel oi))"
      by (simp add: distinct_map inj_on_def case_prod_unfold)
    moreover have "set (map (\<lambda>(k, i). (ow, k)) (sel oi)) \<inter>
        set (concat (map (\<lambda>(ow, oi). map (\<lambda>(k, i). (ow, k)) (sel oi)) m)) = {}"
      using Cons.prems(1) by (force simp: e)
    moreover have "distinct (concat (map (\<lambda>(ow, oi). map (\<lambda>(k, i). (ow, k)) (sel oi)) m))"
      using Cons.prems by (intro Cons.IH) auto
    ultimately show ?case by (simp add: e)
  qed simp
  have "set ?ks = {(ow, k). \<exists>oi. map_of m ow = Some oi \<and> map_of (sel oi) k \<noteq> None}"
  proof (rule set_eqI)
    fix x :: "string \<times> string"
    obtain ow k where x: "x = (ow, k)" by fastforce
    have "(ow, k) \<in> set ?ks \<longleftrightarrow> (\<exists>oi. map_of m ow = Some oi \<and> map_of (sel oi) k \<noteq> None)"
    proof
      assume "(ow, k) \<in> set ?ks"
      then obtain oi i where "(ow, oi) \<in> set m" "(k, i) \<in> set (sel oi)" by force
      then show "\<exists>oi. map_of m ow = Some oi \<and> map_of (sel oi) k \<noteq> None"
        using gm_entry_lookup [OF assms(1)] gm_entry_lookup [OF assms(2)] by fastforce
    next
      assume "\<exists>oi. map_of m ow = Some oi \<and> map_of (sel oi) k \<noteq> None"
      then obtain oi i where "(ow, oi) \<in> set m" "(k, i) \<in> set (sel oi)" by (auto dest!: map_of_SomeD)
      then show "(ow, k) \<in> set ?ks" by force
    qed
    then show "x \<in> set ?ks \<longleftrightarrow> x \<in> {(ow, k). \<exists>oi. map_of m ow = Some oi \<and> map_of (sel oi) k \<noteq> None}"
      by (simp only: x mem_Collect_eq case_prod_conv)
  qed
  then show ?thesis using len distinct_card [OF dis] by (simp only:)
qed


lemma store_ok_maps:
  assumes "store_ok st"
  shows "gm_ok (intents st)"
    and "(ow, oi) \<in> set (intents st) \<Longrightarrow>
      gm_ok (Peers oi) \<and> gm_ok (Prefixes oi) \<and> gm_ok (BFD oi) \<and> gm_ok (OSPF oi)"
  using assms by (auto simp: store_ok_def entries_ok_def owner_ok_def)

text \<open>The status lists are as long as the holdings they are about.\<close>

lemma length_shown:
  assumes "store_ok st" and "\<And>ow oi. (ow, oi) \<in> set (intents st) \<Longrightarrow> gm_ok (sel oi)"
  shows "length (owned sel (shown f st)) = card (of_owner f {(ow, k). look sel st ow k \<noteq> None})"
proof -
  have g: "gm_ok (shown f st)"
    using store_ok_maps(1) [OF assms(1)] by (auto simp: shown_def gm_ok_def distinct_map_filter)
  have m: "map_of (shown f st) ow = (if f = [] \<or> ow = f then map_of (intents st) ow else None)" for ow
    using map_of_filter_keys [of "\<lambda>k. f = [] \<or> k = f" "intents st" ow] by (simp add: shown_def)
  have "{(ow, k). \<exists>oi. map_of (shown f st) ow = Some oi \<and> map_of (sel oi) k \<noteq> None} =
      of_owner f {(ow, k). look sel st ow k \<noteq> None}"
    by (auto simp: m of_owner_def look_def split: option.splits if_splits)
  moreover have "(ow, oi) \<in> set (shown f st) \<Longrightarrow> gm_ok (sel oi)" for ow oi
    using assms(2) [of ow oi] by (simp add: shown_def)
  ultimately show ?thesis using length_owned [OF g, of sel] by simp
qed


lemma held_sel [simp]:
  "h_peers (held st) (ow, k) = map_option peer_BFDEnabled (look Peers st ow k)"
  "(ow, k) \<in> h_prefixes (held st) \<longleftrightarrow> look Prefixes st ow k \<noteq> None"
  "(ow, k) \<in> h_bfd (held st) \<longleftrightarrow> look BFD st ow k \<noteq> None"
  "(ow, k) \<in> h_ospf (held st) \<longleftrightarrow> look OSPF st ow k \<noteq> None"
  by (simp_all add: held_def)

lemma held_eqI:
  assumes "\<And>ow k. h_peers h (ow, k) = map_option peer_BFDEnabled (look Peers st ow k)"
    and "\<And>ow k. (ow, k) \<in> h_prefixes h \<longleftrightarrow> look Prefixes st ow k \<noteq> None"
    and "\<And>ow k. (ow, k) \<in> h_bfd h \<longleftrightarrow> look BFD st ow k \<noteq> None"
    and "\<And>ow k. (ow, k) \<in> h_ospf h \<longleftrightarrow> look OSPF st ow k \<noteq> None"
  shows "held st = h"
  using assms by (auto intro!: holdings.equality simp: fun_eq_iff)

lemma held_NewStore: "held NewStore = no_holdings"
  by (rule held_eqI) (simp_all add: no_holdings_def look_def NewStore_def)

text \<open>The operations of the store, in terms of the holdings.\<close>

lemma held_set_peer:
  assumes "fst (SetPeerIntent ow (Some i) t st) = None" and "peer_NeighborAddress i = bp_NeighborAddress p"
    and "peer_BFDEnabled i = bp_BfdEnabled p"
  shows "held (snd (SetPeerIntent ow (Some i) t st)) = add_peer ow p (held st)"
  using assms by (intro held_eqI) (auto simp: add_peer_def pk.set_look set_frames stampPeer_def)

lemma held_set_prefix:
  assumes "fst (SetPrefixIntent ow (Some i) t st) = None"
  shows "held (snd (SetPrefixIntent ow (Some i) t st)) = add_prefix ow (pfx_Prefix i) (pfx_Protocol i) (held st)"
  using assms by (intro held_eqI) (auto simp: add_prefix_def held_prefix_def xk.set_look set_frames)

lemma remove_frames:
  "look Prefixes (snd (RemovePeerIntent ow a st)) ow' k = look Prefixes st ow' k"
  "look BFD (snd (RemovePeerIntent ow a st)) ow' k = look BFD st ow' k"
  "look OSPF (snd (RemovePeerIntent ow a st)) ow' k = look OSPF st ow' k"
  "look Peers (snd (RemovePrefixIntent ow a pr st)) ow' k = look Peers st ow' k"
  "look BFD (snd (RemovePrefixIntent ow a pr st)) ow' k = look BFD st ow' k"
  "look OSPF (snd (RemovePrefixIntent ow a pr st)) ow' k = look OSPF st ow' k"
  by (auto simp: look_def RemovePeerIntent_def RemovePrefixIntent_def Let_def split: option.splits)

lemma held_remove_peer:
  assumes "fst (RemovePeerIntent ow a st) = None"
  shows "held (snd (RemovePeerIntent ow a st)) = del_peer ow a (held st)"
  using assms by (intro held_eqI) (auto simp: del_peer_def pk.remove_look remove_frames)

lemma held_remove_prefix:
  assumes "fst (RemovePrefixIntent ow a (protocolString pr) st) = None"
  shows "held (snd (RemovePrefixIntent ow a (protocolString pr) st)) = del_prefix ow a pr (held st)"
  using assms xk.remove_look [of ow "(a, protocolString pr)" st]
  by (intro held_eqI) (auto simp: del_prefix_def held_prefix_def remove_frames)

lemma held_remove_all: "held (RemoveAllByOwner ow st) = drop_owner ow (held st)"
  by (rule held_eqI)
    (auto simp: drop_owner_def look_def RemoveAllByOwner_def restrict_map_def split: option.splits)


section \<open>The server provides the service\<close>

definition serving :: "Engine \<Rightarrow> connection \<Rightarrow> bool" where
  "serving e c \<longleftrightarrow> server_ok (fst c) \<and> sv_policy (fst c) = e"

definition holds :: "connection \<Rightarrow> holdings" where
  "holds c = held (sv_intentStore (fst c))"

text \<open>What every call gives: the invariants, and unchanged holdings when it is refused.\<close>

context rpc_handler
begin

lemma serving_kept:
  assumes "serving e (s, n)" and "unary cxs call q (s, n) = (r, c')"
  shows "serving e c'"
proof -
  obtain y s' where y: "call (cxs n) q s = (y, s')" by fastforce
  then have "server_ok s'" "sv_policy s' = e"
    using run_ok [of s "[(cxs n, q)]"] run_fixed [of "[(cxs n, q)]" s] assms(1) by (simp_all add: serving_def)
  then show ?thesis using assms(2) y by (auto simp: unary_eq serving_def)
qed

lemma refused_kept:
  assumes "unary cxs call q (s, n) = (Inl err, c')"
  shows "holds c' = holds (s, n)"
proof -
  obtain y s' where y: "call (cxs n) q s = (y, s')" by fastforce
  then obtain e where "y = Inl e" using assms by (cases y) (auto simp: unary_eq)
  then show ?thesis using refused [of "cxs n" q s e] assms y by (auto simp: unary_eq holds_def quiet_def)
qed

end


lemma Register_result:
  assumes "regq_Owner q \<noteq> []" and "regq_Token q \<noteq> []"
  shows "ValidateToken (sv_policy s) (regq_Owner q) (regq_Token q) = None \<Longrightarrow>
      \<exists>resp. fst (Register cx q s) = Inr resp \<and> regr_SessionId resp \<noteq> []"
    and "ValidateToken (sv_policy s) (regq_Owner q) (regq_Token q) = Some e \<Longrightarrow>
      \<exists>m. fst (Register cx q s) = Inl (Status Unauthenticated m)"
  using assms by (auto simp: Register_def observed_def authenticated_def reject_def Let_def)

lemma Register_store: "sv_intentStore (snd (Register cx q s)) = sv_intentStore s"
  by (simp add: Register_def Let_def authenticated_def emit_bus split: option.split)

lemma Deregister_result:
  assumes "derq_Owner q \<noteq> []" and "derq_Token q \<noteq> []" and "derq_WithdrawAll q"
    and "ValidateToken (sv_policy s) (derq_Owner q) (derq_Token q) = None"
  shows "fst (Deregister cx q s) = Inr ()"
    and "sv_intentStore (snd (Deregister cx q s)) = RemoveAllByOwner (derq_Owner q) (sv_intentStore s)"
  using assms by (simp_all add: Deregister_def observed_def authenticated_def Let_def emit_bus)

lemma ApplyPeer_store:
  assumes "validateApplyPeerRequest q = None" and "appq_Peer q = Some p"
    and "ValidateToken (sv_policy s) (appq_Owner q) (appq_Token q) = None"
  shows "held (sv_intentStore (snd (ApplyPeer cx q s))) = add_peer (appq_Owner q) p (held (sv_intentStore s))"
proof -
  let ?ow = "appq_Owner q" and ?i = "peerIntent_of (appq_Owner q) p"
  have op: "ValidatePeerOperation (sv_policy s) ?ow = None"
    using assms(3) by (auto simp: ValidateToken_def ValidatePeerOperation_def split: option.splits)
  have "peer_NeighborAddress ?i \<noteq> []" "?ow \<noteq> []"
    using assms(1,2) by (auto simp: validateApplyPeerRequest_def peerIntent_of_def Let_def split: if_splits)
  then have acc: "fst (SetPeerIntent ?ow (Some ?i) (cx_now cx 0) (sv_intentStore s)) = None"
    using pk.set_accepts by simp
  then obtain st where st: "SetPeerIntent ?ow (Some ?i) (cx_now cx 0) (sv_intentStore s) = (None, st)"
    by (metis prod.collapse)
  then have "sv_intentStore (snd (ApplyPeer cx q s)) = st"
    using assms op by (simp add: ApplyPeer_def authenticated_def Let_def)
  then show ?thesis
    using held_set_peer [OF acc, of p] st by (simp add: peerIntent_of_def Let_def)
qed

lemma RemovePeer_result:
  assumes "removable (sv_policy s) q" and "look Peers (sv_intentStore s) (remq_Owner q) (peerKey (remq_NeighborAddress q)) \<noteq> None"
  shows "fst (RemovePeer cx q s) = Inr ()"
    and "held (sv_intentStore (snd (RemovePeer cx q s))) =
      del_peer (remq_Owner q) (remq_NeighborAddress q) (held (sv_intentStore s))"
proof -
  let ?ow = "remq_Owner q" and ?a = "remq_NeighborAddress q"
  have op: "ValidatePeerOperation (sv_policy s) ?ow = None"
    using assms(1) by (auto simp: removable_def ValidateToken_def ValidatePeerOperation_def split: option.splits)
  have acc: "fst (RemovePeerIntent ?ow ?a (sv_intentStore s)) = None"
    using assms pk.remove_accepts by (auto simp: removable_def)
  then obtain st where st: "RemovePeerIntent ?ow ?a (sv_intentStore s) = (None, st)" by (metis prod.collapse)
  then have r: "fst (RemovePeer cx q s) = Inr () \<and> sv_intentStore (snd (RemovePeer cx q s)) = st"
    using assms(1) op
    by (auto simp: removable_def RemovePeer_def handleRemoveIntent_def observed_def authenticated_def Let_def)
  then show "fst (RemovePeer cx q s) = Inr ()"
    "held (sv_intentStore (snd (RemovePeer cx q s))) = del_peer ?ow ?a (held (sv_intentStore s))"
    using held_remove_peer [OF acc] st by simp_all
qed

text \<open>No conflict is found when no other owner holds the prefix.\<close>

lemma no_conflict:
  assumes "store_ok (sv_intentStore s)"
    and "\<forall>ow'. ow' = ow \<or> held_prefix ow' pfx pr \<notin> h_prefixes (held (sv_intentStore s))"
  shows "CheckConflict e ow pfx str (findPrefixOwner order pfx (protocolString_s pr) s) = None"
proof -
  let ?st = "sv_intentStore s"
  let ?P = "\<lambda>(owner, oi). list_ex (\<lambda>(k, p). pfx_Prefix p = pfx \<and>
      EqualFold (protocolString_s (pfx_Protocol p)) (protocolString_s pr)) (Prefixes oi)"
  have all: "GetAllIntents ?st = intents ?st" using GetAllIntents_eq [OF assms(1)] .
  have "ow' = ow" if f: "find ?P (range_perm order (intents ?st)) = Some (ow', oi)" for ow' oi
  proof -
    from find_SomeD [OF f] have m: "(ow', oi) \<in> set (intents ?st)" "?P (ow', oi)" by auto
    then obtain k p where p: "(k, p) \<in> set (Prefixes oi)" "pfx_Prefix p = pfx" "pfx_Protocol p = pr"
      by (auto simp: list_ex_iff EqualFold_protocol)
    have l: "map_of (intents ?st) ow' = Some oi" using m(1) store_ok_maps(1) [OF assms(1)] gm_entry_lookup by fastforce
    have "entries_ok (prefix_entry ow') (Prefixes oi)" using store_ok_owner [OF assms(1) l] by (simp add: owner_ok_def)
    then have "map_of (Prefixes oi) (prefixKey (protocolString pr) pfx) = Some p"
      using p gm_entry_lookup [of "Prefixes oi" k p] by (fastforce simp: entries_ok_def prefix_entry_def)
    then have "held_prefix ow' pfx pr \<in> h_prefixes (held ?st)" using l by (simp add: held_prefix_def look_def)
    then show ?thesis using assms(2) by blast
  qed
  then show ?thesis by (auto simp: CheckConflict_def findPrefixOwner_def all split: option.split)
qed

lemma AdvertisePrefix_result:
  assumes "store_ok (sv_intentStore s)" and "advertisable (sv_policy s) q"
    and "\<forall>ow. ow = advq_Owner q \<or>
      held_prefix ow (advq_Prefix q) (advq_Protocol q) \<notin> h_prefixes (held (sv_intentStore s))"
  shows "fst (AdvertisePrefix cx q s) = Inr ()"
    and "held (sv_intentStore (snd (AdvertisePrefix cx q s))) =
      add_prefix (advq_Owner q) (advq_Prefix q) (advq_Protocol q) (held (sv_intentStore s))"
proof -
  have "\<exists>i. advertiseCheck cx q s = (Inr i, s)"
    using assms(2) no_conflict [OF assms(1,3)]
    by (auto simp: advertisable_def advertiseCheck_def authenticated_def Let_def word_gt_0 split: option.splits)
  then obtain i where i: "advertiseCheck cx q s = (Inr i, s)" by blast
  have c: "pfx_Prefix i = advq_Prefix q" "pfx_Protocol i = advq_Protocol q"
    using advertiseCheck_spec(2) [OF i refl] by simp_all
  have ne: "advq_Owner q \<noteq> []" "advq_Prefix q \<noteq> []" using assms(2) by (auto simp: advertisable_def)
  note cs = commit_stores [OF ne c(1), of cx s]
  show "fst (AdvertisePrefix cx q s) = Inr ()" using cs(1) by (simp add: AdvertisePrefix_def i observed_def)
  have "fst (SetPrefixIntent (advq_Owner q) (Some i) (cx_now cx 1) (sv_intentStore s)) = None"
    using xk.set_accepts ne c by simp
  from held_set_prefix [OF this] show "held (sv_intentStore (snd (AdvertisePrefix cx q s))) =
      add_prefix (advq_Owner q) (advq_Prefix q) (advq_Protocol q) (held (sv_intentStore s))"
    using cs(2) by (simp add: AdvertisePrefix_def i c)
qed

lemma AdvertisePrefix_denied:
  assumes "ValidatePrefix (sv_policy s) (advq_Owner q) (advq_Prefix q) \<noteq> None"
  shows "\<exists>e. fst (AdvertisePrefix cx q s) = Inl e"
proof -
  obtain y s' where c: "advertiseCheck cx q s = (y, s')" by fastforce
  then have "\<exists>e. y = Inl e" using advertiseCheck_spec(2) [OF c] assms by (cases y) auto
  then show ?thesis by (auto simp: AdvertisePrefix_def c observed_def)
qed

lemma WithdrawPrefix_result:
  assumes "withdrawable (sv_policy s) q"
    and "held_prefix (wdrq_Owner q) (wdrq_Prefix q) (wdrq_Protocol q) \<in> h_prefixes (held (sv_intentStore s))"
  shows "fst (WithdrawPrefix cx q s) = Inr ()"
    and "held (sv_intentStore (snd (WithdrawPrefix cx q s))) =
      del_prefix (wdrq_Owner q) (wdrq_Prefix q) (wdrq_Protocol q) (held (sv_intentStore s))"
proof -
  let ?ow = "wdrq_Owner q" and ?p = "wdrq_Prefix q" and ?pr = "wdrq_Protocol q"
  have str: "protocolString_s ?pr = protocolString ?pr" "?pr \<noteq> PROTOCOL_UNSPECIFIED"
    using assms(1) by (auto simp: withdrawable_def)
  have acc: "fst (RemovePrefixIntent ?ow ?p (protocolString ?pr) (sv_intentStore s)) = None"
    using assms xk.remove_accepts [of ?ow "(?p, protocolString ?pr)" "sv_intentStore s"]
    by (auto simp: withdrawable_def held_prefix_def)
  then obtain st where st: "RemovePrefixIntent ?ow ?p (protocolString ?pr) (sv_intentStore s) = (None, st)"
    by (metis prod.collapse)
  then have "fst (WithdrawPrefix cx q s) = Inr () \<and> sv_intentStore (snd (WithdrawPrefix cx q s)) = st"
    using assms(1) str by (auto simp: withdrawable_def WithdrawPrefix_def observed_def authenticated_def Let_def emit_bus)
  then show "fst (WithdrawPrefix cx q s) = Inr ()"
    "held (sv_intentStore (snd (WithdrawPrefix cx q s))) = del_prefix ?ow ?p ?pr (held (sv_intentStore s))"
    using held_remove_prefix [OF acc] st by simp_all
qed


lemma dom_held: "dom (h_peers (held st)) = {(ow, k). look Peers st ow k \<noteq> None}"
  by (auto simp: held_def)

lemma GetStatus_counts:
  assumes "store_ok (sv_intentStore s)"
  shows "\<exists>resp. fst (GetStatus vt ex cx f s) = Inr resp \<and>
    length (sr_Peers resp) = card (of_owner f (dom (h_peers (held (sv_intentStore s))))) \<and>
    length (sr_Prefixes resp) = card (of_owner f (h_prefixes (held (sv_intentStore s)))) \<and>
    length (sr_OspfInterfaces resp) = card (of_owner f (h_ospf (held (sv_intentStore s)))) \<and>
    (no_bfd (held (sv_intentStore s)) \<longrightarrow> sr_BfdSessions resp = [])"
proof -
  let ?st = "sv_intentStore s"
  let ?m = "shown f ?st"
  obtain resp c bg bf bs os where r: "fst (GetStatus vt ex cx f s) = Inr resp"
      "sr_Peers resp = buildPeerStatusList cx ?m c bg bf" "sr_Prefixes resp = buildPrefixStatusList cx ?m"
      "sr_BfdSessions resp = buildBFDStatusList cx ?m c bs" "sr_OspfInterfaces resp = buildOSPFStatusList cx ?m c os"
    using GetStatus_response [OF assms, of vt ex cx f] by metis
  have gm: "gm_ok (Peers oi)" "gm_ok (Prefixes oi)" "gm_ok (BFD oi)" "gm_ok (OSPF oi)"
    if "(ow, oi) \<in> set (intents ?st)" for ow oi
    using store_ok_maps(2) [OF assms that] by simp_all
  have none: "sr_BfdSessions resp = []" if nb: "no_bfd (held ?st)"
  proof -
    have "of_owner f {(ow, k). look BFD ?st ow k \<noteq> None} = {}"
      using nb by (auto simp: no_bfd_def held_def of_owner_def)
    then have b: "owned BFD ?m = []" using length_shown [OF assms, of BFD f] gm(3) by simp
    have "\<not> peer_BFDEnabled p" if mem: "(ow, p) \<in> set (owned Peers ?m)" for ow p
    proof -
      obtain oi k where "(ow, oi) \<in> set (intents ?st)" "(k, p) \<in> set (Peers oi)"
        using mem by (force simp: owned_def shown_def)
      then have "look Peers ?st ow k = Some p"
        using look_iff [OF store_ok_maps(1) [OF assms], of Peers ow k p] gm(1) by blast
      then show ?thesis using nb by (auto simp: no_bfd_def dest: spec [of _ "(ow, k)"])
    qed
    then have l: "linked (owned Peers ?m) = {}" by (auto simp: linked_def)
    obtain expl aut where "buildBFDStatusList cx ?m c bs = expl @ aut"
        "mset (map (\<lambda>b. (bs_Owner b, bs_PeerAddress b)) expl) = mset (map (\<lambda>(ow, b). (ow, bfd_PeerAddress b)) (owned BFD ?m))"
        "set (map bs_PeerAddress aut) = linked (owned Peers ?m) - (\<lambda>e. bfd_PeerAddress (snd e)) ` set (owned BFD ?m)"
      using buildBFDStatusList_parts [of cx ?m c bs] by metis
    with b l r(4) show ?thesis by simp
  qed
  have "length (owned Peers ?m) = card (of_owner f (dom (h_peers (held ?st))))"
    "length (owned Prefixes ?m) = card (of_owner f (h_prefixes (held ?st)))"
    "length (owned OSPF ?m) = card (of_owner f (h_ospf (held ?st)))"
    using length_shown [OF assms, of Peers f] length_shown [OF assms, of Prefixes f]
      length_shown [OF assms, of OSPF f] gm
    by (simp_all only: dom_held) (simp_all add: held_def)
  then show ?thesis
    using r none by (auto simp: buildPeerStatusList_def buildPrefixStatusList_def buildOSPFStatusList_def)
qed

lemma GetStatus_state:
  "sv_intentStore (snd (GetStatus vt ex cx f s)) = sv_intentStore s"
  "sv_policy (snd (GetStatus vt ex cx f s)) = sv_policy s"
  "server_ok (snd (GetStatus vt ex cx f s)) = server_ok s"
  by (simp_all add: GetStatus_def observed_def server_ok_def Let_def case_prod_unfold)

text \<open>A successful call, in terms of the connection.\<close>

lemma unary_ok:
  assumes "fst (h (cxs n) q s) = Inr y" and "unary cxs h q (s, n) = (r, c')"
  shows "r = Inr y" and "holds c' = held (sv_intentStore (snd (h (cxs n) q s)))"
  using assms by (auto simp: unary_eq holds_def split: prod.splits)

lemma unary_error:
  assumes "fst (h (cxs n) q s) = Inl e" and "unary cxs h q (s, n) = (r, c')"
  shows "r = Inl (RpcStatus e)"
  using assms by (auto simp: unary_eq split: prod.splits)

interpretation srv: routing_service "server_client vt ex cxs acts" "serving pol" holds pol
  for vt ex cxs acts pol
proof (unfold_locales, goal_cases)
  case (1 q r c c')
  obtain s n where c: "c = (s, n)" by fastforce
  show ?case
    using 1 register.serving_kept [of pol s n cxs q r c'] Register_store [of "cxs n" q s]
    by (auto simp: c unary_eq holds_def split: prod.splits)
next
  case (2 q r c c')
  obtain s n where c: "c = (s, n)" by fastforce
  show ?case
    using 2 Register_result(1) [of q s "cxs n"] unary_ok(1) [of Register cxs n q s _ r c'] by (auto simp: c serving_def)
next
  case (3 q r c c')
  obtain s n where c: "c = (s, n)" by fastforce
  show ?case
    using 3 Register_result(2) [of q s _ "cxs n"] unary_error [of Register cxs n q s _ r c']
    by (fastforce simp: c serving_def)
next
  case (4 q r c c')
  obtain s n where c: "c = (s, n)" by fastforce
  show ?case
    using 4 Deregister_result [of q s "cxs n"] unary_ok [of Deregister cxs n q s "()" r c']
      deregister.serving_kept [of pol s n cxs q r c']
    by (simp add: c serving_def holds_def held_remove_all)
next
  case (5 q p r c c')
  obtain s n where c: "c = (s, n)" by fastforce
  show ?case
    using 5 ApplyPeer_succeeds [of q s "cxs n"] ApplyPeer_store [of q p s "cxs n"]
      unary_ok [of ApplyPeer cxs n q s "()" r c'] apply_peer.serving_kept [of pol s n cxs q r c']
    by (simp add: c serving_def holds_def)
next
  case (6 q r c c')
  obtain s n where c: "c = (s, n)" by fastforce
  show ?case
    using 6 RemovePeer_result [of s q "cxs n"] unary_ok [of RemovePeer cxs n q s "()" r c']
      remove_peer.serving_kept [of pol s n cxs q r c']
    by (simp add: c serving_def holds_def)
next
  case (7 q r c c')
  obtain s n where c: "c = (s, n)" by fastforce
  show ?case
    using 7 AdvertisePrefix_result [of s q "cxs n"] unary_ok [of AdvertisePrefix cxs n q s "()" r c']
      advertise.serving_kept [of pol s n cxs q r c']
    by (simp add: c serving_def holds_def server_ok_def)
next
  case (8 q r c c')
  obtain s n where c: "c = (s, n)" by fastforce
  obtain e where "fst (AdvertisePrefix (cxs n) q s) = Inl e"
    using 8(1,2) AdvertisePrefix_denied [of s q "cxs n"] by (auto simp: c serving_def)
  then show ?case
    using 8 unary_error [of AdvertisePrefix cxs n q s e r c'] advertise.serving_kept [of pol s n cxs q r c']
      advertise.refused_kept [of cxs q s n "RpcStatus e" c']
    by (simp add: c)
next
  case (9 q r c c')
  obtain s n where c: "c = (s, n)" by fastforce
  show ?case
    using 9 WithdrawPrefix_result [of s q "cxs n"] unary_ok [of WithdrawPrefix cxs n q s "()" r c']
      withdraw.serving_kept [of pol s n cxs q r c']
    by (simp add: c serving_def holds_def)
next
  case (10 f r c c')
  obtain s n where c: "c = (s, n)" by fastforce
  obtain y s' where y: "GetStatus vt ex (cxs n) f s = (y, s')" by fastforce
  have "server_ok s" using 10(1) by (simp add: c serving_def)
  then have "store_ok (sv_intentStore s)" by (simp add: server_ok_def)
  from GetStatus_counts [OF this, of vt ex "cxs n" f] show ?case
    using 10 y GetStatus_state [of vt ex "cxs n" f s] by (auto simp: c unary_eq serving_def holds_def)
qed


section \<open>Property\<close>

text \<open>
  C6 (refinement).  The server implements the abstract service: seen through a connection, a
  well-formed server keeps the holdings the way the contract says.  Registering needs the
  owner's token and changes nothing held; applying, removing, advertising, withdrawing and
  deregistering move exactly the entry, or the entries, they name; a prefix the policy forbids
  is refused without a trace; and a status call counts what its owner filter selects.
\<close>

theorem server_implements_service: "routing_service (server_client vt ex cxs acts) (serving pol) holds pol"
  by (rule srv.routing_service_axioms)

end
