(* ===== verification/E2e_Test.thy ===== *)
theory E2e_Test
  imports Route_Service
begin

text \<open>
  The end-to-end test (\<open>cmd/novaroute-test/main.go\<close>): the suite as a program over a client of
  the RouteControl service, with its counters of passed and failed tests.  What it prints
  is not modelled.  The suite passes on every service that keeps the contract
  \<open>routing_service\<close> with the policies of \<open>deploy/configmap.yaml\<close> and holds nothing at
  the start, and leaves such a service as it found it; so it passes on the modelled server.
\<close>

section \<open>Tests\<close>

datatype e2e_error =
    CallFailed rpc_error
  | ExpectedSessionID
  | ExpectedError
  | ExpectedUnauthenticated
  | ExpectedRejection
  | UnexpectedCount

type_synonym 's test_fn = "'s \<Rightarrow> e2e_error option \<times> 's"

record 's suite =
  passed :: nat
  failed :: nat
  world :: 's

definition test :: "'s test_fn \<Rightarrow> 's suite \<Rightarrow> 's suite" where
  "test fn t =
     (case fn (world t) of
        (Some err, s) \<Rightarrow> t\<lparr>failed := failed t + 1, world := s\<rparr>
      | (None, s) \<Rightarrow> t\<lparr>passed := passed t + 1, world := s\<rparr>)"

text \<open>\<open>return err\<close>.\<close>

definition expect_success :: "(rpc_error + 'a) \<times> 's \<Rightarrow> e2e_error option \<times> 's" where
  "expect_success = (\<lambda>(r, s). (case r of Inl err \<Rightarrow> Some (CallFailed err) | Inr _ \<Rightarrow> None, s))"

definition expect_session :: "(rpc_error + RegisterResponse) \<times> 's \<Rightarrow> e2e_error option \<times> 's" where
  "expect_session = (\<lambda>(r, s).
     (case r of
        Inl err \<Rightarrow> Some (CallFailed err)
      | Inr resp \<Rightarrow> if regr_SessionId resp = [] then Some ExpectedSessionID else None, s))"

text \<open>\<open>status.FromError\<close> finds the code of a status; an error of the connection has another.\<close>

definition expect_unauthenticated :: "(rpc_error + 'a) \<times> 's \<Rightarrow> e2e_error option \<times> 's" where
  "expect_unauthenticated = (\<lambda>(r, s).
     (case r of
        Inr _ \<Rightarrow> Some ExpectedError
      | Inl (RpcStatus st) \<Rightarrow> if status_code st = Unauthenticated then None else Some ExpectedUnauthenticated
      | Inl (RpcTransport _) \<Rightarrow> Some ExpectedUnauthenticated, s))"

definition expect_rejection :: "(rpc_error + 'a) \<times> 's \<Rightarrow> e2e_error option \<times> 's" where
  "expect_rejection = (\<lambda>(r, s). (case r of Inl err \<Rightarrow> None | Inr _ \<Rightarrow> Some ExpectedRejection, s))"

definition expect_counts :: "nat \<Rightarrow> nat \<Rightarrow> (rpc_error + GetStatusResponse) \<times> 's \<Rightarrow> e2e_error option \<times> 's" where
  "expect_counts npeers nprefixes = (\<lambda>(r, s).
     (case r of
        Inl err \<Rightarrow> Some (CallFailed err)
      | Inr resp \<Rightarrow>
          if length (sr_Peers resp) \<noteq> npeers then Some UnexpectedCount
          else if length (sr_Prefixes resp) \<noteq> nprefixes then Some UnexpectedCount
          else None, s))"

section \<open>Requests\<close>

definition e2e_register :: "string \<Rightarrow> string \<Rightarrow> RegisterRequest" where
  "e2e_register owner token = \<lparr>regq_Owner = owner, regq_Token = token, regq_ReassertIntents = False\<rparr>"

definition e2e_peer ::
    "string \<Rightarrow> uint32 \<Rightarrow> PeerType \<Rightarrow> string \<Rightarrow> AddressFamily list \<Rightarrow> BGPPeer" where
  "e2e_peer addr as pt descr afs =
     \<lparr>bp_NeighborAddress = addr, bp_RemoteAs = as, bp_PeerType = pt, bp_Keepalive = 30, bp_HoldTime = 90,
      bp_BfdEnabled = False, bp_Description = descr, bp_AddressFamilies = afs, bp_SourceAddress = [],
      bp_EbgpMultihop = 0, bp_Password = [], bp_MaxPrefix = 0, bp_BfdMinRxMs = 0, bp_BfdMinTxMs = 0,
      bp_BfdDetectMultiplier = 0\<rparr>"

definition e2e_advertise :: "string \<Rightarrow> string \<Rightarrow> string \<Rightarrow> PrefixAttributes option \<Rightarrow> AdvertisePrefixRequest" where
  "e2e_advertise owner token pfx attrs =
     \<lparr>advq_Owner = owner, advq_Token = token, advq_Prefix = pfx, advq_Protocol = PROTOCOL_BGP,
      advq_Attributes = attrs\<rparr>"

definition e2e_deregister :: "string \<Rightarrow> string \<Rightarrow> DeregisterRequest" where
  "e2e_deregister owner token = \<lparr>derq_Owner = owner, derq_Token = token, derq_WithdrawAll = True\<rparr>"

section \<open>The suite\<close>

definition testSessionManagement :: "'s RouteControlClient \<Rightarrow> 's suite \<Rightarrow> 's suite" where
  "testSessionManagement client = for_each test
     [\<lambda>s. expect_session (cl_Register client (e2e_register ''novaedge'' ''novaedge-test-token-2024'') s),
      \<lambda>s. expect_session (cl_Register client (e2e_register ''admin'' ''admin-test-token-2024'') s),
      \<lambda>s. expect_unauthenticated (cl_Register client (e2e_register ''novaedge'' ''wrong-token'') s),
      \<lambda>s. expect_unauthenticated (cl_Register client (e2e_register ''unknown'' ''anything'') s)]"

definition adminPeer :: ApplyPeerRequest where
  "adminPeer = \<lparr>appq_Owner = ''admin'', appq_Token = ''admin-test-token-2024'',
     appq_Peer = Some (e2e_peer ''192.168.100.1'' 65001 PEER_TYPE_EXTERNAL ''test-peer-admin''
       [ADDRESS_FAMILY_IPV4_UNICAST])\<rparr>"

definition novaedgePeer :: ApplyPeerRequest where
  "novaedgePeer = \<lparr>appq_Owner = ''novaedge'', appq_Token = ''novaedge-test-token-2024'',
     appq_Peer = Some (e2e_peer ''10.0.0.1'' 65002 PEER_TYPE_INTERNAL ''test-peer-novaedge'' [])\<rparr>"

definition testBGPPeerManagement :: "'s RouteControlClient \<Rightarrow> 's suite \<Rightarrow> 's suite" where
  "testBGPPeerManagement client = for_each test
     [\<lambda>s. expect_success (cl_ApplyPeer client adminPeer s),
      \<lambda>s. expect_success (cl_ApplyPeer client novaedgePeer s)]"

definition testPrefixAdvertisement :: "'s RouteControlClient \<Rightarrow> 's suite \<Rightarrow> 's suite" where
  "testPrefixAdvertisement client = for_each test
     [\<lambda>s. expect_success (cl_AdvertisePrefix client (e2e_advertise ''novaedge'' ''novaedge-test-token-2024''
        ''10.0.0.100/32'' (Some \<lparr>pa_LocalPreference = 100, pa_Communities = [''65000:100''], pa_Med = 0,
          pa_NextHop = []\<rparr>)) s),
      \<lambda>s. expect_rejection (cl_AdvertisePrefix client (e2e_advertise ''novaedge'' ''novaedge-test-token-2024''
        ''10.0.0.0/24'' None) s),
      \<lambda>s. expect_success (cl_AdvertisePrefix client (e2e_advertise ''admin'' ''admin-test-token-2024''
        ''172.16.0.0/24'' (Some \<lparr>pa_LocalPreference = 200, pa_Communities = [], pa_Med = 50, pa_NextHop = []\<rparr>)) s),
      \<lambda>s. expect_rejection (cl_AdvertisePrefix client (e2e_advertise ''novaedge'' ''novaedge-test-token-2024''
        ''8.8.8.8/32'' None) s)]"

definition testStatusVerification :: "'s RouteControlClient \<Rightarrow> 's suite \<Rightarrow> 's suite" where
  "testStatusVerification client = for_each test
     [\<lambda>s. expect_counts 2 2 (cl_GetStatus client [] s),
      \<lambda>s. expect_counts 1 1 (cl_GetStatus client ''novaedge'' s)]"

definition testNovanetOwnerPolicy :: "'s RouteControlClient \<Rightarrow> 's suite \<Rightarrow> 's suite" where
  "testNovanetOwnerPolicy client = for_each test
     [\<lambda>s. expect_success (cl_Register client (e2e_register ''novanet'' ''novanet-test-token-2024'') s),
      \<lambda>s. expect_success (cl_AdvertisePrefix client (e2e_advertise ''novanet'' ''novanet-test-token-2024''
        ''10.244.0.0/16'' None) s),
      \<lambda>s. expect_rejection (cl_AdvertisePrefix client (e2e_advertise ''novanet'' ''novanet-test-token-2024''
        ''10.244.1.1/32'' None) s)]"

definition testCleanupOperations :: "'s RouteControlClient \<Rightarrow> 's suite \<Rightarrow> 's suite" where
  "testCleanupOperations client = for_each test
     [\<lambda>s. expect_success (cl_WithdrawPrefix client \<lparr>wdrq_Owner = ''novaedge'',
        wdrq_Token = ''novaedge-test-token-2024'', wdrq_Prefix = ''10.0.0.100/32'', wdrq_Protocol = PROTOCOL_BGP\<rparr> s),
      \<lambda>s. expect_success (cl_RemovePeer client \<lparr>remq_Owner = ''novaedge'',
        remq_Token = ''novaedge-test-token-2024'', remq_NeighborAddress = ''10.0.0.1''\<rparr> s),
      \<lambda>s. expect_counts 0 0 (cl_GetStatus client ''novaedge'' s),
      \<lambda>s. expect_counts 1 1 (cl_GetStatus client ''admin'' s),
      \<lambda>s. expect_success (cl_Deregister client (e2e_deregister ''admin'' ''admin-test-token-2024'') s),
      \<lambda>s. expect_counts 0 0 (cl_GetStatus client ''admin'' s),
      \<lambda>s. expect_success (cl_Deregister client (e2e_deregister ''novanet'' ''novanet-test-token-2024'') s)]"

definition expect_clean :: "(rpc_error + GetStatusResponse) \<times> 's \<Rightarrow> e2e_error option \<times> 's" where
  "expect_clean = (\<lambda>(r, s).
     (case r of
        Inl err \<Rightarrow> Some (CallFailed err)
      | Inr resp \<Rightarrow>
          if length (sr_Peers resp) + length (sr_Prefixes resp) + length (sr_BfdSessions resp) +
             length (sr_OspfInterfaces resp) \<noteq> 0 then Some UnexpectedCount
          else None, s))"

definition testFinalCleanState :: "'s RouteControlClient \<Rightarrow> 's suite \<Rightarrow> 's suite" where
  "testFinalCleanState client = for_each test [\<lambda>s. expect_clean (cl_GetStatus client [] s)]"

text \<open>\<open>run\<close>: the exit code and the counters.  \<open>newClient\<close> stands for \<open>grpc.NewClient\<close> with
  the stub.\<close>

definition e2e_run ::
    "(string \<Rightarrow> string + 's RouteControlClient) \<Rightarrow> (string \<Rightarrow> string) \<Rightarrow> 's \<Rightarrow> int \<times> 's suite" where
  "e2e_run newClient getenv s =
     (let env = getenv ''NOVAROUTE_SOCKET'';
          socket = (if env \<noteq> [] then env else ''/run/novaroute/novaroute.sock'');
          t = \<lparr>passed = 0, failed = 0, world = s\<rparr> in
      case newClient (''unix://'' @ socket) of
        Inl err \<Rightarrow> (1, t)
      | Inr client \<Rightarrow>
          (let t = testSessionManagement client t;
               t = testBGPPeerManagement client t;
               t = testPrefixAdvertisement client t;
               t = testStatusVerification client t;
               t = testNovanetOwnerPolicy client t;
               t = testCleanupOperations client t;
               t = testFinalCleanState client t
           in (if failed t > 0 then 1 else 0, t)))"

end
