(* ===== verification/E2e_Properties.thy ===== *)
theory E2e_Properties
  imports E2e_Test
begin

text \<open>
  The end-to-end test passes.  The lemmas are about any service with the contract
  \<open>routing_service\<close>; each test of the suite moves the holdings and adds one to the count of
  passed tests.
\<close>

section \<open>Calculating with holdings\<close>

lemma peers_simps [simp]:
  "dom (h_peers (add_peer ow p h)) = insert (ow, peerKey (bp_NeighborAddress p)) (dom (h_peers h))"
  "h_peers (add_prefix ow x pr h) = h_peers h" "dom (h_peers no_holdings) = {}"
  by (simp_all add: add_peer_def add_prefix_def no_holdings_def)

lemma peer_lookup [simp]:
  "h_peers (add_peer ow p h) k = (if k = (ow, peerKey (bp_NeighborAddress p)) then Some (bp_BfdEnabled p) else h_peers h k)"
  by (simp add: add_peer_def)

lemma prefixes_simps [simp]:
  "h_prefixes (add_prefix ow x pr h) = insert (held_prefix ow x pr) (h_prefixes h)"
  "h_prefixes (add_peer ow p h) = h_prefixes h" "h_prefixes no_holdings = {}"
  by (simp_all add: add_peer_def add_prefix_def no_holdings_def)

lemma ospf_simps [simp]:
  "h_ospf (add_prefix ow x pr h) = h_ospf h" "h_ospf (add_peer ow p h) = h_ospf h" "h_ospf no_holdings = {}"
  by (simp_all add: add_peer_def add_prefix_def no_holdings_def)

lemma drop_owner_simps [simp]:
  "drop_owner ow (add_peer ow' p h) = (if ow' = ow then drop_owner ow h else add_peer ow' p (drop_owner ow h))"
  "drop_owner ow (add_prefix ow' x pr h) = (if ow' = ow then drop_owner ow h else add_prefix ow' x pr (drop_owner ow h))"
  "drop_owner ow no_holdings = no_holdings"
  by (auto simp: drop_owner_def add_peer_def add_prefix_def no_holdings_def held_prefix_def restrict_map_def fun_eq_iff)

lemma del_simps [simp]:
  "del_peer ow a (add_peer ow' p h) =
     (if ow' = ow \<and> bp_NeighborAddress p = a then del_peer ow a h else add_peer ow' p (del_peer ow a h))"
  "del_peer ow a (add_prefix ow' x pr h) = add_prefix ow' x pr (del_peer ow a h)" "del_peer ow a no_holdings = no_holdings"
  "del_prefix ow x pr (add_peer ow' p h) = add_peer ow' p (del_prefix ow x pr h)" "del_prefix ow x pr no_holdings = no_holdings"
  by (auto simp: del_peer_def add_peer_def add_prefix_def del_prefix_def no_holdings_def held_prefix_def fun_eq_iff)

lemma del_add_prefix [simp]:
  "del_prefix ow x pr (add_prefix ow' x' pr' h) =
     (if held_prefix ow' x' pr' = held_prefix ow x pr then del_prefix ow x pr h
      else add_prefix ow' x' pr' (del_prefix ow x pr h))"
  by (auto simp: del_prefix_def add_prefix_def insert_Diff_if)

lemma held_prefix_eq [simp]:
  "held_prefix ow x pr = held_prefix ow' x' pr' \<longleftrightarrow> ow = ow' \<and> x = x' \<and> protocolString pr = protocolString pr'"
  by (auto simp: held_prefix_def prefixKey_inject)

lemma of_owner_simps [simp]:
  "of_owner f {} = {}" "of_owner f (insert k A) = (if f = [] \<or> fst k = f then insert k (of_owner f A) else of_owner f A)"
  by (auto simp: of_owner_def)

lemma fst_held_prefix [simp]: "fst (held_prefix ow x pr) = ow"
  by (simp add: held_prefix_def)

section \<open>The tests\<close>

definition stands :: "('s \<Rightarrow> bool) \<Rightarrow> ('s \<Rightarrow> holdings) \<Rightarrow> nat \<Rightarrow> holdings \<Rightarrow> 's suite \<Rightarrow> bool" where
  "stands ok view n h t \<longleftrightarrow> passed t = n \<and> failed t = 0 \<and> ok (world t) \<and> view (world t) = h"

text \<open>A test is a call and a judgement on its result.\<close>

lemma test_passes:
  assumes "stands ok view n h t"
    and "\<And>s r s'. ok s \<Longrightarrow> view s = h \<Longrightarrow> call s = (r, s') \<Longrightarrow> judge (r, s') = (None, s') \<and> ok s' \<and> view s' = h'"
  shows "stands ok view (Suc n) h' (test (\<lambda>s. judge (call s)) t)"
proof -
  obtain r s' where f: "call (world t) = (r, s')" by fastforce
  have "judge (r, s') = (None, s') \<and> ok s' \<and> view s' = h'"
    using assms(1) by (intro assms(2) [OF _ _ f]) (auto simp: stands_def)
  then show ?thesis using assms(1) by (auto simp: stands_def test_def f)
qed

lemma judged:
  "expect_success (Inr x, s) = (None, s)" "expect_rejection (Inl e, s) = (None, s)"
  "regr_SessionId resp \<noteq> [] \<Longrightarrow> expect_session (Inr resp, s) = (None, s)"
  "expect_unauthenticated (Inl (RpcStatus (Status Unauthenticated m)), s) = (None, s)"
  "length (sr_Peers rsp) = a \<Longrightarrow> length (sr_Prefixes rsp) = b \<Longrightarrow> expect_counts a b (Inr rsp, s) = (None, s)"
  by (simp_all add: expect_success_def expect_rejection_def expect_session_def expect_unauthenticated_def expect_counts_def)

lemma passes_success:
  assumes "stands ok view n h t"
    and "\<And>s r s'. ok s \<Longrightarrow> view s = h \<Longrightarrow> call s = (r, s') \<Longrightarrow> (\<exists>x. r = Inr x) \<and> ok s' \<and> view s' = h'"
  shows "stands ok view (Suc n) h' (test (\<lambda>s. expect_success (call s)) t)"
proof (rule test_passes [where judge = expect_success, OF assms(1)])
  fix s r s'
  assume "ok s" "view s = h" "call s = (r, s')"
  from assms(2) [OF this] show "expect_success (r, s') = (None, s') \<and> ok s' \<and> view s' = h'" by (auto simp: judged)
qed

lemma passes_rejection:
  assumes "stands ok view n h t"
    and "\<And>s r s'. ok s \<Longrightarrow> view s = h \<Longrightarrow> call s = (r, s') \<Longrightarrow> (\<exists>e. r = Inl e) \<and> ok s' \<and> view s' = h'"
  shows "stands ok view (Suc n) h' (test (\<lambda>s. expect_rejection (call s)) t)"
proof (rule test_passes [where judge = expect_rejection, OF assms(1)])
  fix s r s'
  assume "ok s" "view s = h" "call s = (r, s')"
  from assms(2) [OF this] show "expect_rejection (r, s') = (None, s') \<and> ok s' \<and> view s' = h'" by (auto simp: judged)
qed

context routing_service
begin

lemma test_register:
  assumes "stands ok view n h t" and "o' \<noteq> []" "tk \<noteq> []" and "ValidateToken policy o' tk = None"
  shows "stands ok view (Suc n) h (test (\<lambda>s. expect_session (cl_Register client (e2e_register o' tk) s)) t)"
    and "stands ok view (Suc n) h (test (\<lambda>s. expect_success (cl_Register client (e2e_register o' tk) s)) t)"
proof -
  let ?q = "e2e_register o' tk"
  have q: "regq_Owner ?q = o'" "regq_Token ?q = tk" by (simp_all add: e2e_register_def)
  have pass: "(\<exists>resp. r = Inr resp \<and> regr_SessionId resp \<noteq> []) \<and> ok s' \<and> view s' = h"
    if "ok s" "view s = h" "cl_Register client ?q s = (r, s')" for s r s'
    using register_passes [of s ?q r s'] register_keeps [OF that(1,3)] that assms(2-4) by (simp add: q)
  show "stands ok view (Suc n) h (test (\<lambda>s. expect_session (cl_Register client ?q s)) t)"
    "stands ok view (Suc n) h (test (\<lambda>s. expect_success (cl_Register client ?q s)) t)"
    by (rule test_passes [where judge = expect_session, OF assms(1)], use pass judged(3) in metis)
      (rule passes_success [OF assms(1)], use pass in metis)
qed

lemma test_register_refused:
  assumes "stands ok view n h t" and "o' \<noteq> []" "tk \<noteq> []" and "ValidateToken policy o' tk \<noteq> None"
  shows "stands ok view (Suc n) h (test (\<lambda>s. expect_unauthenticated (cl_Register client (e2e_register o' tk) s)) t)"
proof (rule test_passes [where judge = expect_unauthenticated, OF assms(1)])
  fix s r s'
  let ?q = "e2e_register o' tk"
  assume s: "ok s" "view s = h" "cl_Register client ?q s = (r, s')"
  have "\<exists>m. r = Inl (RpcStatus (Status Unauthenticated m))"
    using register_refuses [of s ?q r s'] s assms(2-4) by (simp add: e2e_register_def)
  then show "expect_unauthenticated (r, s') = (None, s') \<and> ok s' \<and> view s' = h"
    using register_keeps [OF s(1,3)] s(2) judged(4) by auto
qed

lemma test_apply:
  assumes "stands ok view n h t" and "validateApplyPeerRequest q = None" and "appq_Peer q = Some p"
    and "ValidateToken policy (appq_Owner q) (appq_Token q) = None"
  shows "stands ok view (Suc n) (add_peer (appq_Owner q) p h) (test (\<lambda>s. expect_success (cl_ApplyPeer client q s)) t)"
  by (rule passes_success [OF assms(1)]) (use apply_peer [OF _ assms(2-4)] in metis)

lemma test_remove:
  assumes "stands ok view n h t" and "removable policy q"
    and "h_peers h (remq_Owner q, peerKey (remq_NeighborAddress q)) \<noteq> None"
  shows "stands ok view (Suc n) (del_peer (remq_Owner q) (remq_NeighborAddress q) h)
    (test (\<lambda>s. expect_success (cl_RemovePeer client q s)) t)"
  by (rule passes_success [OF assms(1)]) (use remove_peer [OF _ assms(2)] assms(3) in metis)

lemma test_advertise:
  assumes "stands ok view n h t" and "advertisable policy q"
    and "\<forall>ow. ow = advq_Owner q \<or> held_prefix ow (advq_Prefix q) (advq_Protocol q) \<notin> h_prefixes h"
  shows "stands ok view (Suc n) (add_prefix (advq_Owner q) (advq_Prefix q) (advq_Protocol q) h)
    (test (\<lambda>s. expect_success (cl_AdvertisePrefix client q s)) t)"
  by (rule passes_success [OF assms(1)]) (use advertise [OF _ assms(2)] assms(3) in metis)

lemma test_advertise_refused:
  assumes "stands ok view n h t" and "ValidatePrefix policy (advq_Owner q) (advq_Prefix q) \<noteq> None"
  shows "stands ok view (Suc n) h (test (\<lambda>s. expect_rejection (cl_AdvertisePrefix client q s)) t)"
  by (rule passes_rejection [OF assms(1)]) (use advertise_refuses [OF _ assms(2)] in metis)

lemma test_withdraw:
  assumes "stands ok view n h t" and "withdrawable policy q"
    and "held_prefix (wdrq_Owner q) (wdrq_Prefix q) (wdrq_Protocol q) \<in> h_prefixes h"
  shows "stands ok view (Suc n) (del_prefix (wdrq_Owner q) (wdrq_Prefix q) (wdrq_Protocol q) h)
    (test (\<lambda>s. expect_success (cl_WithdrawPrefix client q s)) t)"
  by (rule passes_success [OF assms(1)]) (use withdraw [OF _ assms(2)] assms(3) in metis)

lemma test_deregister:
  assumes "stands ok view n h t" and "o' \<noteq> []" "tk \<noteq> []" and "ValidateToken policy o' tk = None"
  shows "stands ok view (Suc n) (drop_owner o' h)
    (test (\<lambda>s. expect_success (cl_Deregister client (e2e_deregister o' tk) s)) t)"
  by (rule passes_success [OF assms(1)])
    (use deregister [of _ "e2e_deregister o' tk"] assms(2-) in \<open>fastforce simp: e2e_deregister_def\<close>)

lemma test_status:
  assumes "stands ok view n h t"
    and "card (of_owner f (dom (h_peers h))) = a" and "card (of_owner f (h_prefixes h)) = b"
  shows "stands ok view (Suc n) h (test (\<lambda>s. expect_counts a b (cl_GetStatus client f s)) t)"
  by (rule test_passes [where judge = "expect_counts a b", OF assms(1)]) (use status assms(2,3) judged(5) in metis)

lemma test_clean:
  assumes "stands ok view n no_holdings t"
  shows "stands ok view (Suc n) no_holdings (test (\<lambda>s. expect_clean (cl_GetStatus client [] s)) t)"
proof (rule test_passes [where judge = expect_clean, OF assms])
  fix s r s'
  assume "ok s" "view s = no_holdings" "cl_GetStatus client [] s = (r, s')"
  from status [OF this(1,3)] this(2) show "expect_clean (r, s') = (None, s') \<and> ok s' \<and> view s' = no_holdings"
    by (auto simp: expect_clean_def no_bfd_def no_holdings_def of_owner_def)
qed

lemmas tests = test_register test_register_refused test_apply test_remove test_advertise test_advertise_refused
  test_withdraw test_deregister test_status test_clean

end


section \<open>The suite passes\<close>

text \<open>The owners of \<open>deploy/configmap.yaml\<close>.\<close>

definition deploy_policy :: Engine where
  "deploy_policy = NewEngine (Some
     [(''novaedge'', \<lparr>oc_Token = ''novaedge-test-token-2024'', oc_AllowedPrefixes =
         \<lparr>pp_Type = ''host_only'', pp_AllowedCIDRs = [''10.0.0.0/8'', ''172.16.0.0/12'', ''192.168.0.0/16'']\<rparr>\<rparr>),
      (''novanet'', \<lparr>oc_Token = ''novanet-test-token-2024'', oc_AllowedPrefixes =
         \<lparr>pp_Type = ''subnet'', pp_AllowedCIDRs = [''10.244.0.0/16'']\<rparr>\<rparr>),
      (''admin'', \<lparr>oc_Token = ''admin-test-token-2024'', oc_AllowedPrefixes =
         \<lparr>pp_Type = ''any'', pp_AllowedCIDRs = []\<rparr>\<rparr>)])"

lemma deploy_tokens:
  "ValidateToken deploy_policy ''novaedge'' ''novaedge-test-token-2024'' = None"
  "ValidateToken deploy_policy ''novanet'' ''novanet-test-token-2024'' = None"
  "ValidateToken deploy_policy ''admin'' ''admin-test-token-2024'' = None"
  "ValidateToken deploy_policy ''novaedge'' ''wrong-token'' \<noteq> None"
  "ValidateToken deploy_policy ''unknown'' ''anything'' \<noteq> None"
  by (simp_all add: deploy_policy_def NewEngine_def ValidateToken_def)

lemma deploy_prefixes:
  "ValidatePrefix deploy_policy ''novaedge'' ''10.0.0.100/32'' = None"
  "ValidatePrefix deploy_policy ''novaedge'' ''10.0.0.0/24'' \<noteq> None"
  "ValidatePrefix deploy_policy ''admin'' ''172.16.0.0/24'' = None"
  "ValidatePrefix deploy_policy ''novaedge'' ''8.8.8.8/32'' \<noteq> None"
  "ValidatePrefix deploy_policy ''novanet'' ''10.244.0.0/16'' = None"
  "ValidatePrefix deploy_policy ''novanet'' ''10.244.1.1/32'' \<noteq> None"
  by code_simp+

lemma e2e_parses:
  "ParseCIDR ''10.0.0.100/32'' \<noteq> None" "ParseCIDR ''172.16.0.0/24'' \<noteq> None" "ParseCIDR ''10.244.0.0/16'' \<noteq> None"
  "ParseIP ''10.0.0.1'' \<noteq> None" "ParseIP ''192.168.100.1'' \<noteq> None"
  by code_simp+

lemma e2e_peers: "validateApplyPeerRequest adminPeer = None" "validateApplyPeerRequest novaedgePeer = None"
  by code_simp+


text \<open>What is held after the peers and prefixes have been set up.\<close>

definition e2e_peered :: holdings where
  "e2e_peered = add_peer ''novaedge'' (the (appq_Peer novaedgePeer)) (add_peer ''admin'' (the (appq_Peer adminPeer)) no_holdings)"

definition e2e_full :: holdings where
  "e2e_full = add_prefix ''admin'' ''172.16.0.0/24'' PROTOCOL_BGP
     (add_prefix ''novaedge'' ''10.0.0.100/32'' PROTOCOL_BGP e2e_peered)"

lemma e2e_requests [simp]:
  "advq_Owner (e2e_advertise ow tk x a) = ow" "advq_Token (e2e_advertise ow tk x a) = tk"
  "advq_Prefix (e2e_advertise ow tk x a) = x" "advq_Protocol (e2e_advertise ow tk x a) = PROTOCOL_BGP"
  "advq_Attributes (e2e_advertise ow tk x a) = a" "bp_NeighborAddress (e2e_peer ad as pt ds fs) = ad"
  by (simp_all add: e2e_advertise_def e2e_peer_def)

context routing_service
begin

lemma session_tests:
  assumes "policy = deploy_policy" and "stands ok view 0 h t"
  shows "stands ok view 4 h (testSessionManagement client t)"
proof -
  have "stands ok view (Suc (Suc (Suc (Suc 0)))) h (testSessionManagement client t)"
    unfolding testSessionManagement_def for_each.simps
    by (intro tests assms(2)) (simp_all add: assms(1) deploy_tokens)
  then show ?thesis by (simp add: numeral_eq_Suc)
qed

lemma peer_tests:
  assumes "policy = deploy_policy" and "stands ok view 4 no_holdings t"
  shows "stands ok view 6 e2e_peered (testBGPPeerManagement client t)"
proof -
  have "stands ok view (Suc 4) (add_peer ''admin'' (the (appq_Peer adminPeer)) no_holdings)
      (test (\<lambda>s. expect_success (cl_ApplyPeer client adminPeer s)) t)"
    using test_apply [OF assms(2) e2e_peers(1)] deploy_tokens(3) by (simp add: assms(1) adminPeer_def)
  from test_apply [OF this e2e_peers(2)] deploy_tokens(1)
  show ?thesis by (simp add: assms(1) testBGPPeerManagement_def e2e_peered_def novaedgePeer_def)
qed

lemma advertise_step:
  assumes "policy = deploy_policy" and "stands ok view n h t" and "ValidateToken deploy_policy ow tk = None"
    and "ValidatePrefix deploy_policy ow x = None" and "ParseCIDR x \<noteq> None" and "ow \<noteq> []" "tk \<noteq> []" "x \<noteq> []"
    and "\<forall>a. at = Some a \<longrightarrow> pa_NextHop a = []"
    and "\<forall>ow'. ow' = ow \<or> held_prefix ow' x PROTOCOL_BGP \<notin> h_prefixes h"
  shows "stands ok view (Suc n) (add_prefix ow x PROTOCOL_BGP h)
    (test (\<lambda>s. expect_success (cl_AdvertisePrefix client (e2e_advertise ow tk x at) s)) t)"
  using test_advertise [OF assms(2), of "e2e_advertise ow tk x at"] assms
  by (simp add: advertisable_def split: option.splits)

lemma refused_step:
  assumes "policy = deploy_policy" and "stands ok view n h t" and "ValidatePrefix deploy_policy ow x \<noteq> None"
  shows "stands ok view (Suc n) h
    (test (\<lambda>s. expect_rejection (cl_AdvertisePrefix client (e2e_advertise ow tk x at) s)) t)"
  using test_advertise_refused [OF assms(2), of "e2e_advertise ow tk x at"] assms(1,3) by simp

lemma prefix_tests:
  assumes "policy = deploy_policy" and "stands ok view 6 e2e_peered t"
  shows "stands ok view 10 e2e_full (testPrefixAdvertisement client t)"
proof -
  have "stands ok view (Suc (Suc (Suc (Suc 6)))) e2e_full (testPrefixAdvertisement client t)"
    unfolding testPrefixAdvertisement_def for_each.simps e2e_full_def
    by (intro refused_step advertise_step assms)
      (auto simp: deploy_tokens deploy_prefixes e2e_parses e2e_peered_def)
  then show ?thesis by (simp add: numeral_eq_Suc)
qed

lemma status_tests:
  assumes "policy = deploy_policy" and "stands ok view 10 e2e_full t"
  shows "stands ok view 12 e2e_full (testStatusVerification client t)"
proof -
  have "stands ok view (Suc (Suc 10)) e2e_full (testStatusVerification client t)"
    unfolding testStatusVerification_def for_each.simps
    by (intro test_status assms(2)) (simp_all add: e2e_full_def e2e_peered_def adminPeer_def novaedgePeer_def)
  then show ?thesis by simp
qed

lemma novanet_tests:
  assumes "policy = deploy_policy" and "stands ok view 12 e2e_full t"
  shows "stands ok view 15 (add_prefix ''novanet'' ''10.244.0.0/16'' PROTOCOL_BGP e2e_full) (testNovanetOwnerPolicy client t)"
proof -
  have "stands ok view (Suc (Suc (Suc 12))) (add_prefix ''novanet'' ''10.244.0.0/16'' PROTOCOL_BGP e2e_full)
      (testNovanetOwnerPolicy client t)"
    unfolding testNovanetOwnerPolicy_def for_each.simps
    by (intro refused_step advertise_step test_register(2) assms)
      (auto simp: assms(1) deploy_tokens deploy_prefixes e2e_parses e2e_full_def e2e_peered_def)
  then show ?thesis by simp
qed

lemma cleanup_tests:
  assumes "policy = deploy_policy"
    and "stands ok view 15 (add_prefix ''novanet'' ''10.244.0.0/16'' PROTOCOL_BGP e2e_full) t"
  shows "stands ok view 22 no_holdings (testCleanupOperations client t)"
proof -
  let ?admin = "add_prefix ''novanet'' ''10.244.0.0/16'' PROTOCOL_BGP (add_prefix ''admin'' ''172.16.0.0/24'' PROTOCOL_BGP
    (add_peer ''admin'' (the (appq_Peer adminPeer)) no_holdings))"
  let ?w = "\<lparr>wdrq_Owner = ''novaedge'', wdrq_Token = ''novaedge-test-token-2024'', wdrq_Prefix = ''10.0.0.100/32'',
    wdrq_Protocol = PROTOCOL_BGP\<rparr>"
  let ?r = "\<lparr>remq_Owner = ''novaedge'', remq_Token = ''novaedge-test-token-2024'', remq_NeighborAddress = ''10.0.0.1''\<rparr>"
  have w: "withdrawable policy ?w" "removable policy ?r"
    using deploy_tokens(1) e2e_parses by (simp_all add: assms(1) withdrawable_def removable_def)
  define t1 where "t1 = test (\<lambda>s. expect_success (cl_RemovePeer client ?r s))
    (test (\<lambda>s. expect_success (cl_WithdrawPrefix client ?w s)) t)"
  have "stands ok view (Suc (Suc 15)) ?admin t1"
    using test_remove [OF test_withdraw [OF assms(2) w(1)] w(2)]
    by (simp add: t1_def e2e_full_def e2e_peered_def novaedgePeer_def adminPeer_def)
  then have "stands ok view (Suc (Suc (Suc (Suc 15)))) ?admin
      (test (\<lambda>s. expect_counts 1 1 (cl_GetStatus client ''admin'' s))
        (test (\<lambda>s. expect_counts 0 0 (cl_GetStatus client ''novaedge'' s)) t1))" (is "stands _ _ _ _ ?t2")
    by (intro test_status) (simp_all add: adminPeer_def)
  from test_deregister [OF this _ _ deploy_tokens(3) [folded assms(1)]]
  have "stands ok view (Suc 19) (add_prefix ''novanet'' ''10.244.0.0/16'' PROTOCOL_BGP no_holdings)
      (test (\<lambda>s. expect_success (cl_Deregister client (e2e_deregister ''admin'' ''admin-test-token-2024'') s)) ?t2)"
    (is "stands _ _ _ _ ?t3") by simp
  then have "stands ok view (Suc (Suc 19)) (add_prefix ''novanet'' ''10.244.0.0/16'' PROTOCOL_BGP no_holdings)
      (test (\<lambda>s. expect_counts 0 0 (cl_GetStatus client ''admin'' s)) ?t3)"
    by (intro test_status) simp_all
  from test_deregister [OF this _ _ deploy_tokens(2) [folded assms(1)]] show ?thesis
    by (simp add: testCleanupOperations_def t1_def)
qed

text \<open>All twenty-three tests pass, and the service holds nothing in the end.\<close>

lemma suite_passes:
  assumes "policy = deploy_policy" and "ok s" and "view s = no_holdings" and "\<forall>target. newClient target = Inr client"
  shows "\<exists>t. e2e_run newClient getenv s = (0, t) \<and> passed t = 23 \<and> failed t = 0 \<and>
    ok (world t) \<and> view (world t) = no_holdings"
proof -
  let ?t0 = "\<lparr>passed = 0, failed = 0, world = s\<rparr>"
  have "stands ok view 0 no_holdings ?t0" using assms(2,3) by (simp add: stands_def)
  note s4 = session_tests [OF assms(1) this] note s6 = peer_tests [OF assms(1) s4]
  note s10 = prefix_tests [OF assms(1) s6] note s12 = status_tests [OF assms(1) s10]
  note s15 = novanet_tests [OF assms(1) s12] note s22 = cleanup_tests [OF assms(1) s15]
  from test_clean [OF s22] show ?thesis
    using assms(4) by (simp add: e2e_run_def testFinalCleanState_def stands_def Let_def)
qed

end


section \<open>Properties\<close>

text \<open>
  C12 (functional).  The end-to-end test passes: run against a well-formed server whose owners
  are those of \<open>deploy/configmap.yaml\<close> and that holds no intents, all twenty-three tests of
  the suite pass and the exit code is zero, whatever the clock, the order in which maps are
  visited, the state of FRR and the socket path; and the server again holds no intents, so
  the suite can be run again.
\<close>

theorem e2e_suite_passes:
  assumes "server_ok s" and "sv_policy s = deploy_policy" and "held (sv_intentStore s) = no_holdings"
    and "\<forall>target. newClient target = Inr (server_client vt ex cxs acts)"
  shows "\<exists>t. e2e_run newClient getenv (s, n) = (0, t) \<and> passed t = 23 \<and> failed t = 0 \<and>
    server_ok (fst (world t)) \<and> sv_policy (fst (world t)) = deploy_policy \<and>
    held (sv_intentStore (fst (world t))) = no_holdings"
  using srv.suite_passes [of deploy_policy "(s, n)" newClient vt ex cxs acts getenv] assms
  by (simp add: serving_def holds_def)

theorem e2e_suite_passes_witness:
  "\<exists>t. e2e_run (\<lambda>target. Inr (server_client vtysh_ok (\<lambda>_. True) (\<lambda>_. ex_cx) (\<lambda>_. []))) (\<lambda>_. [])
     (NewServer NewStore deploy_policy (NewReconciler None None), 0) = (0, t) \<and> passed t = 23 \<and> failed t = 0"
proof -
  let ?s = "NewServer NewStore deploy_policy (NewReconciler None None)"
  have "server_ok ?s" "sv_policy ?s = deploy_policy" "held (sv_intentStore ?s) = no_holdings"
    using NewServer_ok held_NewStore by (simp_all add: NewServer_def)
  from e2e_suite_passes [OF this, of "\<lambda>target. Inr (server_client vtysh_ok (\<lambda>_. True) (\<lambda>_. ex_cx) (\<lambda>_. []))"
      vtysh_ok "\<lambda>_. True" "\<lambda>_. ex_cx" "\<lambda>_. []" "\<lambda>_. []" 0]
  show ?thesis by auto
qed

end
