(* ===== verification/Ctl.thy ===== *)
theory Ctl
  imports Route_Client Config_File
begin

text \<open>
  The command-line tool \<open>novaroutectl\<close> (\<open>cmd/novaroutectl/main.go\<close> and \<open>watch.go\<close>): what
  each command does with the values of its flags.  A command returns its error, if any,
  what it printed, and the new state behind the connection.  Outside the model are the
  parsing of the flags (\<open>cobra\<close>), the connection (\<open>newClient\<close> stands for
  \<open>grpc.NewClient\<close> with the stub) and the layout of tables by \<open>text/tabwriter\<close>: the text
  that goes through it is kept as \<open>Tabbed\<close>.
\<close>

section \<open>Output\<close>

datatype ctl_error =
    ConnectFailed string string
  | RpcFailed string rpc_error
  | StreamError rpc_error
  | InvalidPeerType string
  | InvalidAddressFamily string
  | ReadingInput string
  | InvalidJSON
  | InvalidYAML string
  | UnknownAction string
  | MissingPeer

datatype printed =
    Text string
  | Tabbed string
  | IntentError nat string ctl_error
  | Stderr ctl_error

definition nl :: string where
  "nl = [CHR 0x0A]"

definition println :: "string \<Rightarrow> printed" where
  "println s = Text (s @ nl)"

text \<open>The verbs \<open>%v\<close> for booleans and for string slices, and \<open>%-<n>s\<close>, which pads with blanks up
  to \<open>n\<close> runes.\<close>

definition show_bool :: "bool \<Rightarrow> string" where
  "show_bool b = (if b then ''true'' else ''false'')"

definition show_strings :: "string list \<Rightarrow> string" where
  "show_strings xs = ''['' @ Join xs '' '' @ '']''"

fun rune_count :: "string \<Rightarrow> nat" where
  "rune_count [] = 0"
| "rune_count (c # cs) =
     Suc (rune_count (drop (case utf8_width (c # cs) of None \<Rightarrow> 0 | Some w \<Rightarrow> w - 1) cs))"

definition pad_right :: "nat \<Rightarrow> string \<Rightarrow> string" where
  "pad_right n s = s @ replicate (n - rune_count s) (CHR '' '')"

text \<open>One line of a table, its cells separated by tabs.\<close>

definition row :: "string list \<Rightarrow> printed" where
  "row cells = Tabbed (Join cells [CHR 0x09] @ nl)"

section \<open>Connecting\<close>

record 's ctl_env =
  socketPath :: string
  newClient :: "string \<Rightarrow> string + 's RouteControlClient"

type_synonym 's command = "'s \<Rightarrow> ctl_error option \<times> printed list \<times> 's"

definition connect :: "'s ctl_env \<Rightarrow> ctl_error + 's RouteControlClient" where
  "connect env =
     (let target = ''unix://'' @ socketPath env in
      case newClient env target of
        Inl err \<Rightarrow> Inl (ConnectFailed target err)
      | Inr client \<Rightarrow> Inr client)"

definition with_client :: "'s ctl_env \<Rightarrow> ('s RouteControlClient \<Rightarrow> 's command) \<Rightarrow> 's command" where
  "with_client env body s =
     (case connect env of Inl err \<Rightarrow> (Some err, [], s) | Inr client \<Rightarrow> body client s)"

text \<open>The result of a call: an error is wrapped, a response printed.\<close>

definition report :: "string \<Rightarrow> ('a \<Rightarrow> printed list) \<Rightarrow> (rpc_error + 'a) \<times> 's \<Rightarrow> ctl_error option \<times> printed list \<times> 's"
  where
  "report rpcName out = (\<lambda>(r, s).
     case r of Inl err \<Rightarrow> (Some (RpcFailed rpcName err), [], s) | Inr resp \<Rightarrow> (None, out resp, s))"

definition getStatus :: "'s ctl_env \<Rightarrow> string \<Rightarrow> 's \<Rightarrow> (ctl_error + GetStatusResponse) \<times> 's" where
  "getStatus env ownerFilter s =
     (case connect env of
        Inl err \<Rightarrow> (Inl err, s)
      | Inr client \<Rightarrow>
          (case cl_GetStatus client ownerFilter s of
             (Inl err, s) \<Rightarrow> (Inl (RpcFailed ''GetStatus'' err), s)
           | (Inr resp, s) \<Rightarrow> (Inr resp, s)))"

definition show_status :: "'s ctl_env \<Rightarrow> string \<Rightarrow> (GetStatusResponse \<Rightarrow> printed list) \<Rightarrow> 's command" where
  "show_status env ownerFilter out s =
     (case getStatus env ownerFilter s of
        (Inl err, s) \<Rightarrow> (Some err, [], s)
      | (Inr resp, s) \<Rightarrow> (None, out resp, s))"

section \<open>Status commands\<close>

definition statusText :: "GetStatusResponse \<Rightarrow> printed list" where
  "statusText resp =
     [println ''=== FRR Status ===''] @
     (case sr_FrrStatus resp of
        None \<Rightarrow> [println ''  (unavailable)'']
      | Some frr \<Rightarrow>
          [println (''  Connection: '' @ (if fs_Connected frr then ''connected'' else ''disconnected''))] @
          (if fs_Version frr \<noteq> [] then [println (''  Version:    '' @ fs_Version frr)] else []) @
          (if fs_Uptime frr \<noteq> [] then [println (''  Uptime:     '' @ fs_Uptime frr)] else [])) @
     [println [], println ''=== Summary ==='',
      println (''  BGP Peers:        '' @ dec (length (sr_Peers resp))),
      println (''  Prefixes:         '' @ dec (length (sr_Prefixes resp))),
      println (''  BFD Sessions:     '' @ dec (length (sr_BfdSessions resp))),
      println (''  OSPF Interfaces:  '' @ dec (length (sr_OspfInterfaces resp)))]"

definition statusCmd :: "'s ctl_env \<Rightarrow> string \<Rightarrow> 's command" where
  "statusCmd env ownerFilter = show_status env ownerFilter statusText"

definition or_dash :: "string \<Rightarrow> string" where
  "or_dash s = (if s = [] then ''-'' else s)"

definition peerRow :: "PeerStatus \<Rightarrow> printed" where
  "peerRow p =
     (let bfd = (if ps_BfdEnabled p then if ps_BfdStatus p = [] then ''yes'' else ps_BfdStatus p else ''no'') in
      row [ps_NeighborAddress p, dec32 (ps_RemoteAs p), ps_State p, ps_Owner p, dec32 (ps_PrefixesReceived p),
           dec32 (ps_PrefixesSent p), bfd, or_dash (ps_Uptime p)])"

definition peersText :: "GetStatusResponse \<Rightarrow> printed list" where
  "peersText resp =
     (if length (sr_Peers resp) = 0 then [println ''No BGP peers configured.'']
      else [row [''NEIGHBOR'', ''REMOTE AS'', ''STATE'', ''OWNER'', ''PFX RECV'', ''PFX SENT'', ''BFD'', ''UPTIME''],
            row [''--------'', ''---------'', ''-----'', ''-----'', ''--------'', ''--------'', ''---'', ''------'']] @
           map peerRow (sr_Peers resp))"

definition peersCmd :: "'s ctl_env \<Rightarrow> string \<Rightarrow> 's command" where
  "peersCmd env ownerFilter = show_status env ownerFilter peersText"

fun protocolName :: "Protocol \<Rightarrow> string" where
  "protocolName PROTOCOL_BGP = ''BGP''"
| "protocolName PROTOCOL_OSPF = ''OSPF''"
| "protocolName PROTOCOL_UNSPECIFIED = ''unknown''"
| "protocolName (PROTOCOL_OTHER n) = ''unknown''"

definition prefixRow :: "PrefixStatus \<Rightarrow> printed" where
  "prefixRow p = row [xs_Prefix p, protocolName (xs_Protocol p), xs_State p, xs_Owner p]"

definition prefixesText :: "GetStatusResponse \<Rightarrow> printed list" where
  "prefixesText resp =
     (if length (sr_Prefixes resp) = 0 then [println ''No prefixes advertised.'']
      else [row [''PREFIX'', ''PROTOCOL'', ''STATE'', ''OWNER''], row [''------'', ''--------'', ''-----'', ''-----'']] @
           map prefixRow (sr_Prefixes resp))"

definition prefixesCmd :: "'s ctl_env \<Rightarrow> string \<Rightarrow> 's command" where
  "prefixesCmd env ownerFilter = show_status env ownerFilter prefixesText"

definition bfdRow :: "BFDSessionStatus \<Rightarrow> printed" where
  "bfdRow b = row [bs_PeerAddress b, bs_State b, bs_Owner b, dec32 (bs_MinRxMs b), dec32 (bs_MinTxMs b),
     dec32 (bs_DetectMultiplier b), or_dash (bs_Uptime b)]"

definition bfdText :: "GetStatusResponse \<Rightarrow> printed list" where
  "bfdText resp =
     (if length (sr_BfdSessions resp) = 0 then [println ''No BFD sessions configured.'']
      else [row [''PEER ADDRESS'', ''STATE'', ''OWNER'', ''MIN RX (ms)'', ''MIN TX (ms)'', ''DETECT MULT'', ''UPTIME''],
            row [''------------'', ''-----'', ''-----'', ''-----------'', ''-----------'', ''-----------'', ''------'']] @
           map bfdRow (sr_BfdSessions resp))"

definition bfdCmd :: "'s ctl_env \<Rightarrow> string \<Rightarrow> 's command" where
  "bfdCmd env ownerFilter = show_status env ownerFilter bfdText"

definition ospfRow :: "OSPFInterfaceStatus \<Rightarrow> printed" where
  "ospfRow i = row [os_InterfaceName i, os_AreaId i, os_State i, os_Owner i, dec32 (os_NeighborCount i), dec32 (os_Cost i)]"

definition ospfText :: "GetStatusResponse \<Rightarrow> printed list" where
  "ospfText resp =
     (if length (sr_OspfInterfaces resp) = 0 then [println ''No OSPF interfaces configured.'']
      else [row [''INTERFACE'', ''AREA'', ''STATE'', ''OWNER'', ''NEIGHBORS'', ''COST''],
            row [''---------'', ''----'', ''-----'', ''-----'', ''---------'', ''----'']] @
           map ospfRow (sr_OspfInterfaces resp))"

definition ospfCmd :: "'s ctl_env \<Rightarrow> string \<Rightarrow> 's command" where
  "ospfCmd env ownerFilter = show_status env ownerFilter ospfText"

section \<open>Events\<close>

text \<open>How a command that may go on forever stands: it has returned, waits for more input, or
  the program has panicked.\<close>

datatype outcome = Returned "ctl_error option" | Waiting | Panicked string

text \<open>\<open>rfc3339\<close> stands for the formatting of a Unix time in the local time zone.\<close>

definition eventLine :: "(time \<Rightarrow> string) \<Rightarrow> RouteEvent \<Rightarrow> printed" where
  "eventLine rfc3339 event =
     Text (''['' @ rfc3339 (ev_TimestampUnix event) @ ''] '' @ pad_right 35 (EventType_String (ev_Type event)) @
           '' owner='' @ pad_right 12 (or_dash (ev_Owner event)) @ '' '' @ ev_Detail event @ nl)"

definition eventsCmd ::
    "'s ctl_env \<Rightarrow> (time \<Rightarrow> string) \<Rightarrow> string \<Rightarrow> string list \<Rightarrow> 's \<Rightarrow> outcome \<times> printed list \<times> 's" where
  "eventsCmd env rfc3339 ownerFilter eventTypes s =
     (case connect env of
        Inl err \<Rightarrow> (Returned (Some err), [], s)
      | Inr client \<Rightarrow>
          (case cl_StreamEvents client ownerFilter eventTypes s of
             (Inl err, s) \<Rightarrow> (Returned (Some (RpcFailed ''StreamEvents'' err)), [], s)
           | (Inr (events, closed), s) \<Rightarrow>
               ((case closed of None \<Rightarrow> Waiting | Some err \<Rightarrow> Returned (Some (StreamError err))),
                map (eventLine rfc3339) events, s)))"

section \<open>Watch mode\<close>

text \<open>
  What the \<open>select\<close> of the watch loop sees, in the order in which it takes it: ticks, each
  with the time that is printed, and a signal.  When the list ends, the loop waits.
\<close>

datatype watch_event = Tick string | Interrupted

definition clearScreen :: printed where
  "clearScreen = Text ([CHR 0x1B] @ ''[2J'' @ [CHR 0x1B] @ ''[H'')"

definition printTimestamp :: "string \<Rightarrow> printed" where
  "printTimestamp now = Text (''Last refresh: '' @ now @ nl @ nl)"

definition refresh :: "string \<Rightarrow> 's command \<Rightarrow> 's \<Rightarrow> printed list \<times> 's" where
  "refresh now runFn s =
     (case runFn s of
        (err, out, s) \<Rightarrow>
          ([clearScreen, printTimestamp now] @ out @ (case err of None \<Rightarrow> [] | Some e \<Rightarrow> [Stderr e]), s))"

fun watch_loop :: "'s command \<Rightarrow> watch_event list \<Rightarrow> 's \<Rightarrow> outcome \<times> printed list \<times> 's" where
  "watch_loop runFn [] s = (Waiting, [], s)"
| "watch_loop runFn (Interrupted # evs) s = (Returned None, [println (nl @ ''Watch mode stopped.'')], s)"
| "watch_loop runFn (Tick now # evs) s =
     (let (out, s) = refresh now runFn s; (res, outs, s) = watch_loop runFn evs s in (res, out @ outs, s))"

text \<open>\<open>interval\<close> is a duration in nanoseconds; \<open>time.NewTicker\<close> panics unless it is positive.\<close>

definition wrapRunEWithWatch ::
    "bool \<Rightarrow> int \<Rightarrow> string \<Rightarrow> watch_event list \<Rightarrow> 's command \<Rightarrow> 's \<Rightarrow> outcome \<times> printed list \<times> 's" where
  "wrapRunEWithWatch watch interval now evs runFn s =
     (if \<not> watch then (case runFn s of (err, out, s) \<Rightarrow> (Returned err, out, s))
      else if interval \<le> 0 then (Panicked ''non-positive interval for NewTicker'', [], s)
      else (let (out, s) = refresh now runFn s; (res, outs, s) = watch_loop runFn evs s in (res, out @ outs, s)))"

end
