(* ===== verification/Ctl_Commands.thy ===== *)
theory Ctl_Commands
  imports Ctl
begin

text \<open>
  The commands of \<open>novaroutectl\<close> that change something (\<open>cmd/novaroutectl/main.go\<close>), each
  with the request it builds from its flags.  Commands with many flags take them as a
  record.
\<close>

section \<open>Sessions and BGP settings\<close>

definition registerCmd :: "'s ctl_env \<Rightarrow> string \<Rightarrow> string \<Rightarrow> bool \<Rightarrow> 's command" where
  "registerCmd env owner token reassert = with_client env (\<lambda>client s.
     report ''register'' (\<lambda>resp.
         [println (''Registered: session_id='' @ regr_SessionId resp),
          println (''  Current peers:    '' @ show_strings (regr_CurrentPeers resp)),
          println (''  Current prefixes: '' @ show_strings (regr_CurrentPrefixes resp))])
       (cl_Register client
          \<lparr>regq_Owner = owner, regq_Token = token, regq_ReassertIntents = reassert\<rparr> s))"

definition deregisterCmd :: "'s ctl_env \<Rightarrow> string \<Rightarrow> string \<Rightarrow> bool \<Rightarrow> 's command" where
  "deregisterCmd env owner token withdrawAll = with_client env (\<lambda>client s.
     report ''deregister'' (\<lambda>_.
         [println (''Deregistered: owner='' @ owner @ '' withdraw_all='' @ show_bool withdrawAll)])
       (cl_Deregister client
          \<lparr>derq_Owner = owner, derq_Token = token, derq_WithdrawAll = withdrawAll\<rparr> s))"

definition configureBGPCmd :: "'s ctl_env \<Rightarrow> string \<Rightarrow> string \<Rightarrow> uint32 \<Rightarrow> string \<Rightarrow> 's command" where
  "configureBGPCmd env owner token localAS routerID = with_client env (\<lambda>client s.
     report ''ConfigureBGP'' (\<lambda>resp.
         [println (''BGP configured: AS='' @ dec32 localAS @ '' router_id='' @ routerID),
          println (''  Previous: AS='' @ dec32 (cfgr_PreviousAs resp) @ '' router_id='' @ cfgr_PreviousRouterId resp)])
       (cl_ConfigureBGP client
          \<lparr>cfgq_Owner = owner, cfgq_Token = token, cfgq_LocalAs = localAS, cfgq_RouterId = routerID\<rparr> s))"

section \<open>Peers\<close>

record applyPeerFlags =
  apf_owner :: string
  apf_token :: string
  apf_neighbor :: string
  apf_remoteAS :: uint32
  apf_peerType :: string
  apf_keepalive :: uint32
  apf_holdTime :: uint32
  apf_bfdEnabled :: bool
  apf_bfdMinRx :: uint32
  apf_bfdMinTx :: uint32
  apf_bfdDetectMult :: uint32
  apf_ebgpMultihop :: uint32
  apf_password :: string
  apf_sourceAddr :: string
  apf_maxPrefix :: uint32
  apf_addressFamilies :: "string list"
  apf_description :: string

definition peerTypeFlag :: "string \<Rightarrow> ctl_error + PeerType" where
  "peerTypeFlag peerType =
     (let t = ToLower peerType in
      if t = ''external'' \<or> t = ''ebgp'' then Inr PEER_TYPE_EXTERNAL
      else if t = ''internal'' \<or> t = ''ibgp'' then Inr PEER_TYPE_INTERNAL
      else Inl (InvalidPeerType peerType))"

fun addressFamilyFlags :: "string list \<Rightarrow> ctl_error + AddressFamily list" where
  "addressFamilyFlags [] = Inr []"
| "addressFamilyFlags (af # afs) =
     (let t = ToLower af; rest = map_sum (\<lambda>e. e) in
      if t = ''ipv4-unicast'' \<or> t = ''ipv4'' then
        rest (\<lambda>fs. ADDRESS_FAMILY_IPV4_UNICAST # fs) (addressFamilyFlags afs)
      else if t = ''ipv6-unicast'' \<or> t = ''ipv6'' then
        rest (\<lambda>fs. ADDRESS_FAMILY_IPV6_UNICAST # fs) (addressFamilyFlags afs)
      else Inl (InvalidAddressFamily af))"

definition peerOfFlags :: "applyPeerFlags \<Rightarrow> PeerType \<Rightarrow> AddressFamily list \<Rightarrow> BGPPeer" where
  "peerOfFlags fl pt afs =
     \<lparr>bp_NeighborAddress = apf_neighbor fl, bp_RemoteAs = apf_remoteAS fl, bp_PeerType = pt,
      bp_Keepalive = apf_keepalive fl, bp_HoldTime = apf_holdTime fl, bp_BfdEnabled = apf_bfdEnabled fl,
      bp_Description = apf_description fl, bp_AddressFamilies = afs, bp_SourceAddress = apf_sourceAddr fl,
      bp_EbgpMultihop = apf_ebgpMultihop fl, bp_Password = apf_password fl, bp_MaxPrefix = apf_maxPrefix fl,
      bp_BfdMinRxMs = apf_bfdMinRx fl, bp_BfdMinTxMs = apf_bfdMinTx fl,
      bp_BfdDetectMultiplier = apf_bfdDetectMult fl\<rparr>"

definition applyPeerCmd :: "'s ctl_env \<Rightarrow> applyPeerFlags \<Rightarrow> 's command" where
  "applyPeerCmd env fl = with_client env (\<lambda>client s.
     case peerTypeFlag (apf_peerType fl) of
       Inl err \<Rightarrow> (Some err, [], s)
     | Inr pt \<Rightarrow>
         (case addressFamilyFlags (apf_addressFamilies fl) of
            Inl err \<Rightarrow> (Some err, [], s)
          | Inr afs \<Rightarrow>
              report ''ApplyPeer'' (\<lambda>_.
                  [println (''Peer applied: neighbor='' @ apf_neighbor fl @ '' remote_as='' @ dec32 (apf_remoteAS fl))])
                (cl_ApplyPeer client
                   \<lparr>appq_Owner = apf_owner fl, appq_Token = apf_token fl,
                    appq_Peer = Some (peerOfFlags fl pt afs)\<rparr> s)))"

section \<open>The commands with one identifier\<close>

record 's simpleRPCConfig =
  rpcCall :: "'s RouteControlClient \<Rightarrow> string \<Rightarrow> string \<Rightarrow> string \<Rightarrow> 's \<Rightarrow> ctl_error option \<times> 's"
  successFmt :: "string \<Rightarrow> string"

definition simpleRPCCmd :: "'s simpleRPCConfig \<Rightarrow> 's ctl_env \<Rightarrow> string \<Rightarrow> string \<Rightarrow> string \<Rightarrow> 's command" where
  "simpleRPCCmd cfg env owner token ident = with_client env (\<lambda>client s.
     case rpcCall cfg client owner token ident s of
       (Some err, s) \<Rightarrow> (Some err, [], s)
     | (None, s) \<Rightarrow> (None, [println (successFmt cfg ident)], s))"

definition failed_call :: "string \<Rightarrow> (rpc_error + 'a) \<times> 's \<Rightarrow> ctl_error option \<times> 's" where
  "failed_call rpcName = (\<lambda>(r, s).
     (case r of Inl err \<Rightarrow> Some (RpcFailed rpcName err) | Inr _ \<Rightarrow> None, s))"

definition removePeerCmd :: "'s ctl_env \<Rightarrow> string \<Rightarrow> string \<Rightarrow> string \<Rightarrow> 's command" where
  "removePeerCmd = simpleRPCCmd
     \<lparr>rpcCall = (\<lambda>client owner token ident s. failed_call ''RemovePeer'' (cl_RemovePeer client
        \<lparr>remq_Owner = owner, remq_Token = token, remq_NeighborAddress = ident\<rparr> s)),
      successFmt = (\<lambda>ident. ''Peer removed: neighbor='' @ ident)\<rparr>"

definition disableBFDCmd :: "'s ctl_env \<Rightarrow> string \<Rightarrow> string \<Rightarrow> string \<Rightarrow> 's command" where
  "disableBFDCmd = simpleRPCCmd
     \<lparr>rpcCall = (\<lambda>client owner token ident s. failed_call ''DisableBFD'' (cl_DisableBFD client
        \<lparr>dbfq_Owner = owner, dbfq_Token = token, dbfq_PeerAddress = ident\<rparr> s)),
      successFmt = (\<lambda>ident. ''BFD disabled: peer='' @ ident)\<rparr>"

definition disableOSPFCmd :: "'s ctl_env \<Rightarrow> string \<Rightarrow> string \<Rightarrow> string \<Rightarrow> 's command" where
  "disableOSPFCmd = simpleRPCCmd
     \<lparr>rpcCall = (\<lambda>client owner token ident s. failed_call ''DisableOSPF'' (cl_DisableOSPF client
        \<lparr>dosq_Owner = owner, dosq_Token = token, dosq_InterfaceName = ident\<rparr> s)),
      successFmt = (\<lambda>ident. ''OSPF disabled: interface='' @ ident)\<rparr>"

section \<open>Prefixes\<close>

definition protocolFlag :: "string \<Rightarrow> Protocol" where
  "protocolFlag protocol = (if protocol = ''ospf'' then PROTOCOL_OSPF else PROTOCOL_BGP)"

record advertiseFlags =
  adf_owner :: string
  adf_token :: string
  adf_prefix :: string
  adf_protocol :: string
  adf_localPref :: uint32
  adf_med :: uint32
  adf_nextHop :: string
  adf_communities :: "string list"

definition attributesOfFlags :: "advertiseFlags \<Rightarrow> PrefixAttributes option" where
  "attributesOfFlags fl =
     (if 0 < adf_localPref fl \<or> 0 < adf_med fl \<or> adf_nextHop fl \<noteq> [] \<or> 0 < length (adf_communities fl)
      then Some \<lparr>pa_LocalPreference = adf_localPref fl, pa_Communities = adf_communities fl,
                 pa_Med = adf_med fl, pa_NextHop = adf_nextHop fl\<rparr>
      else None)"

definition advertiseCmd :: "'s ctl_env \<Rightarrow> advertiseFlags \<Rightarrow> 's command" where
  "advertiseCmd env fl = with_client env (\<lambda>client s.
     report ''AdvertisePrefix'' (\<lambda>_.
         [println (''Prefix advertised: '' @ adf_prefix fl @ '' via '' @ adf_protocol fl)])
       (cl_AdvertisePrefix client
          \<lparr>advq_Owner = adf_owner fl, advq_Token = adf_token fl, advq_Prefix = adf_prefix fl,
           advq_Protocol = protocolFlag (adf_protocol fl), advq_Attributes = attributesOfFlags fl\<rparr> s))"

definition withdrawCmd :: "'s ctl_env \<Rightarrow> string \<Rightarrow> string \<Rightarrow> string \<Rightarrow> string \<Rightarrow> 's command" where
  "withdrawCmd env owner token pfx protocol = with_client env (\<lambda>client s.
     report ''WithdrawPrefix'' (\<lambda>_. [println (''Prefix withdrawn: '' @ pfx @ '' from '' @ protocol)])
       (cl_WithdrawPrefix client
          \<lparr>wdrq_Owner = owner, wdrq_Token = token, wdrq_Prefix = pfx, wdrq_Protocol = protocolFlag protocol\<rparr> s))"

section \<open>BFD and OSPF\<close>

definition enableBFDCmd ::
    "'s ctl_env \<Rightarrow> string \<Rightarrow> string \<Rightarrow> string \<Rightarrow> string \<Rightarrow> uint32 \<Rightarrow> uint32 \<Rightarrow> uint32 \<Rightarrow> 's command" where
  "enableBFDCmd env owner token peerAddr iface minRx minTx detectMult = with_client env (\<lambda>client s.
     report ''EnableBFD'' (\<lambda>_. [println (''BFD enabled: peer='' @ peerAddr)])
       (cl_EnableBFD client
          \<lparr>ebfq_Owner = owner, ebfq_Token = token, ebfq_PeerAddress = peerAddr, ebfq_MinRxMs = minRx,
           ebfq_MinTxMs = minTx, ebfq_DetectMultiplier = detectMult, ebfq_InterfaceName = iface\<rparr> s))"

text \<open>There is no flag for OSPFv3: \<open>Ipv6\<close> keeps its zero value.\<close>

definition enableOSPFCmd ::
    "'s ctl_env \<Rightarrow> string \<Rightarrow> string \<Rightarrow> string \<Rightarrow> string \<Rightarrow> bool \<Rightarrow> uint32 \<Rightarrow> uint32 \<Rightarrow> uint32 \<Rightarrow> 's command" where
  "enableOSPFCmd env owner token iface areaID passive cost hello dead = with_client env (\<lambda>client s.
     report ''EnableOSPF'' (\<lambda>_. [println (''OSPF enabled: interface='' @ iface @ '' area='' @ areaID)])
       (cl_EnableOSPF client
          \<lparr>eosq_Owner = owner, eosq_Token = token, eosq_InterfaceName = iface, eosq_AreaId = areaID,
           eosq_Passive = passive, eosq_Cost = cost, eosq_HelloInterval = hello, eosq_DeadInterval = dead,
           eosq_Ipv6 = False\<rparr> s))"

end
