(* ===== verification/Ctl_Apply.thy ===== *)
theory Ctl_Apply
  imports Ctl_Commands
begin

text \<open>
  Batches (\<open>cmd/novaroutectl/apply.go\<close>): the entries of a file of intents, their decoding
  from JSON, and the loop that sends them one by one.  \<open>gopkg.in/yaml.v3\<close> is outside the
  program: what it makes of a text is the parameter \<open>yaml\<close>, as reading the file or the
  standard input is the parameter \<open>readInput\<close>.
\<close>

section \<open>Entries\<close>

record intentPeer =
  ip_NeighborAddress :: string
  ip_RemoteAS :: uint32
  ip_PeerType :: string
  ip_Keepalive :: uint32
  ip_HoldTime :: uint32
  ip_BFDEnabled :: bool
  ip_BFDMinRxMs :: uint32
  ip_BFDMinTxMs :: uint32
  ip_BFDDetectMultiplier :: uint32
  ip_EBGPMultihop :: uint32
  ip_BGPAuth :: string
  ip_SourceAddress :: string
  ip_MaxPrefix :: uint32
  ip_AddressFamilies :: "string list"
  ip_Description :: string

record intentAttributes =
  ia_LocalPreference :: uint32
  ia_Communities :: "string list"
  ia_MED :: uint32
  ia_NextHop :: string

record intentAction =
  in_Action :: string
  in_Owner :: string
  in_Token :: string
  in_LocalAS :: uint32
  in_RouterID :: string
  in_Peer :: "intentPeer option"
  in_NeighborAddress :: string
  in_Prefix :: string
  in_Protocol :: string
  in_Attributes :: "intentAttributes option"
  in_PeerAddress :: string
  in_MinRxMs :: uint32
  in_MinTxMs :: uint32
  in_DetectMultiplier :: uint32
  in_InterfaceName :: string
  in_AreaID :: string
  in_Passive :: bool
  in_Cost :: uint32
  in_HelloInterval :: uint32
  in_DeadInterval :: uint32

definition zero_intentPeer :: intentPeer where
  "zero_intentPeer =
     \<lparr>ip_NeighborAddress = [], ip_RemoteAS = 0, ip_PeerType = [], ip_Keepalive = 0, ip_HoldTime = 0,
      ip_BFDEnabled = False, ip_BFDMinRxMs = 0, ip_BFDMinTxMs = 0, ip_BFDDetectMultiplier = 0,
      ip_EBGPMultihop = 0, ip_BGPAuth = [], ip_SourceAddress = [], ip_MaxPrefix = 0,
      ip_AddressFamilies = [], ip_Description = []\<rparr>"

definition zero_intentAttributes :: intentAttributes where
  "zero_intentAttributes = \<lparr>ia_LocalPreference = 0, ia_Communities = [], ia_MED = 0, ia_NextHop = []\<rparr>"

definition zero_intentAction :: intentAction where
  "zero_intentAction =
     \<lparr>in_Action = [], in_Owner = [], in_Token = [], in_LocalAS = 0, in_RouterID = [], in_Peer = None,
      in_NeighborAddress = [], in_Prefix = [], in_Protocol = [], in_Attributes = None,
      in_PeerAddress = [], in_MinRxMs = 0, in_MinTxMs = 0, in_DetectMultiplier = 0,
      in_InterfaceName = [], in_AreaID = [], in_Passive = False, in_Cost = 0, in_HelloInterval = 0,
      in_DeadInterval = 0\<rparr>"

section \<open>Decoding\<close>

text \<open>A pointer to a struct: \<open>null\<close> makes it nil, an object is stored into the struct it points
  to, or into a new one.\<close>

definition into_pointer :: "(string \<Rightarrow> json \<Rightarrow> 'r \<Rightarrow> 'r option) \<Rightarrow> 'r \<Rightarrow> 'r option \<Rightarrow> json \<Rightarrow> 'r option option" where
  "into_pointer field zero old j =
     (if j = JNull then Some None
      else map_option Some (into_struct field (case old of None \<Rightarrow> zero | Some r \<Rightarrow> r) j))"

definition intentPeer_field :: "string \<Rightarrow> json \<Rightarrow> intentPeer \<Rightarrow> intentPeer option" where
  "intentPeer_field k v r =
     (if EqualFold k ''neighbor_address'' then
        map_option (\<lambda>x. r\<lparr>ip_NeighborAddress := x\<rparr>) (into_string (ip_NeighborAddress r) v)
      else if EqualFold k ''remote_as'' then
        map_option (\<lambda>x. r\<lparr>ip_RemoteAS := x\<rparr>) (into_uint (ip_RemoteAS r) v)
      else if EqualFold k ''peer_type'' then
        map_option (\<lambda>x. r\<lparr>ip_PeerType := x\<rparr>) (into_string (ip_PeerType r) v)
      else if EqualFold k ''keepalive'' then
        map_option (\<lambda>x. r\<lparr>ip_Keepalive := x\<rparr>) (into_uint (ip_Keepalive r) v)
      else if EqualFold k ''hold_time'' then
        map_option (\<lambda>x. r\<lparr>ip_HoldTime := x\<rparr>) (into_uint (ip_HoldTime r) v)
      else if EqualFold k ''bfd_enabled'' then
        map_option (\<lambda>x. r\<lparr>ip_BFDEnabled := x\<rparr>) (into_bool (ip_BFDEnabled r) v)
      else if EqualFold k ''bfd_min_rx_ms'' then
        map_option (\<lambda>x. r\<lparr>ip_BFDMinRxMs := x\<rparr>) (into_uint (ip_BFDMinRxMs r) v)
      else if EqualFold k ''bfd_min_tx_ms'' then
        map_option (\<lambda>x. r\<lparr>ip_BFDMinTxMs := x\<rparr>) (into_uint (ip_BFDMinTxMs r) v)
      else if EqualFold k ''bfd_detect_multiplier'' then
        map_option (\<lambda>x. r\<lparr>ip_BFDDetectMultiplier := x\<rparr>) (into_uint (ip_BFDDetectMultiplier r) v)
      else if EqualFold k ''ebgp_multihop'' then
        map_option (\<lambda>x. r\<lparr>ip_EBGPMultihop := x\<rparr>) (into_uint (ip_EBGPMultihop r) v)
      else if EqualFold k ''bgp_auth'' then
        map_option (\<lambda>x. r\<lparr>ip_BGPAuth := x\<rparr>) (into_string (ip_BGPAuth r) v)
      else if EqualFold k ''source_address'' then
        map_option (\<lambda>x. r\<lparr>ip_SourceAddress := x\<rparr>) (into_string (ip_SourceAddress r) v)
      else if EqualFold k ''max_prefix'' then
        map_option (\<lambda>x. r\<lparr>ip_MaxPrefix := x\<rparr>) (into_uint (ip_MaxPrefix r) v)
      else if EqualFold k ''address_families'' then
        map_option (\<lambda>x. r\<lparr>ip_AddressFamilies := x\<rparr>) (into_strings v)
      else if EqualFold k ''description'' then
        map_option (\<lambda>x. r\<lparr>ip_Description := x\<rparr>) (into_string (ip_Description r) v)
      else Some r)"

definition intentAttributes_field :: "string \<Rightarrow> json \<Rightarrow> intentAttributes \<Rightarrow> intentAttributes option" where
  "intentAttributes_field k v r =
     (if EqualFold k ''local_preference'' then
        map_option (\<lambda>x. r\<lparr>ia_LocalPreference := x\<rparr>) (into_uint (ia_LocalPreference r) v)
      else if EqualFold k ''communities'' then
        map_option (\<lambda>x. r\<lparr>ia_Communities := x\<rparr>) (into_strings v)
      else if EqualFold k ''med'' then
        map_option (\<lambda>x. r\<lparr>ia_MED := x\<rparr>) (into_uint (ia_MED r) v)
      else if EqualFold k ''next_hop'' then
        map_option (\<lambda>x. r\<lparr>ia_NextHop := x\<rparr>) (into_string (ia_NextHop r) v)
      else Some r)"

definition intentAction_field :: "string \<Rightarrow> json \<Rightarrow> intentAction \<Rightarrow> intentAction option" where
  "intentAction_field k v r =
     (if EqualFold k ''action'' then
        map_option (\<lambda>x. r\<lparr>in_Action := x\<rparr>) (into_string (in_Action r) v)
      else if EqualFold k ''owner'' then
        map_option (\<lambda>x. r\<lparr>in_Owner := x\<rparr>) (into_string (in_Owner r) v)
      else if EqualFold k ''token'' then
        map_option (\<lambda>x. r\<lparr>in_Token := x\<rparr>) (into_string (in_Token r) v)
      else if EqualFold k ''local_as'' then
        map_option (\<lambda>x. r\<lparr>in_LocalAS := x\<rparr>) (into_uint (in_LocalAS r) v)
      else if EqualFold k ''router_id'' then
        map_option (\<lambda>x. r\<lparr>in_RouterID := x\<rparr>) (into_string (in_RouterID r) v)
      else if EqualFold k ''peer'' then
        map_option (\<lambda>x. r\<lparr>in_Peer := x\<rparr>) (into_pointer intentPeer_field zero_intentPeer (in_Peer r) v)
      else if EqualFold k ''neighbor_address'' then
        map_option (\<lambda>x. r\<lparr>in_NeighborAddress := x\<rparr>) (into_string (in_NeighborAddress r) v)
      else if EqualFold k ''prefix'' then
        map_option (\<lambda>x. r\<lparr>in_Prefix := x\<rparr>) (into_string (in_Prefix r) v)
      else if EqualFold k ''protocol'' then
        map_option (\<lambda>x. r\<lparr>in_Protocol := x\<rparr>) (into_string (in_Protocol r) v)
      else if EqualFold k ''attributes'' then
        map_option (\<lambda>x. r\<lparr>in_Attributes := x\<rparr>)
          (into_pointer intentAttributes_field zero_intentAttributes (in_Attributes r) v)
      else if EqualFold k ''peer_address'' then
        map_option (\<lambda>x. r\<lparr>in_PeerAddress := x\<rparr>) (into_string (in_PeerAddress r) v)
      else if EqualFold k ''min_rx_ms'' then
        map_option (\<lambda>x. r\<lparr>in_MinRxMs := x\<rparr>) (into_uint (in_MinRxMs r) v)
      else if EqualFold k ''min_tx_ms'' then
        map_option (\<lambda>x. r\<lparr>in_MinTxMs := x\<rparr>) (into_uint (in_MinTxMs r) v)
      else if EqualFold k ''detect_multiplier'' then
        map_option (\<lambda>x. r\<lparr>in_DetectMultiplier := x\<rparr>) (into_uint (in_DetectMultiplier r) v)
      else if EqualFold k ''interface_name'' then
        map_option (\<lambda>x. r\<lparr>in_InterfaceName := x\<rparr>) (into_string (in_InterfaceName r) v)
      else if EqualFold k ''area_id'' then
        map_option (\<lambda>x. r\<lparr>in_AreaID := x\<rparr>) (into_string (in_AreaID r) v)
      else if EqualFold k ''passive'' then
        map_option (\<lambda>x. r\<lparr>in_Passive := x\<rparr>) (into_bool (in_Passive r) v)
      else if EqualFold k ''cost'' then
        map_option (\<lambda>x. r\<lparr>in_Cost := x\<rparr>) (into_uint (in_Cost r) v)
      else if EqualFold k ''hello_interval'' then
        map_option (\<lambda>x. r\<lparr>in_HelloInterval := x\<rparr>) (into_uint (in_HelloInterval r) v)
      else if EqualFold k ''dead_interval'' then
        map_option (\<lambda>x. r\<lparr>in_DeadInterval := x\<rparr>) (into_uint (in_DeadInterval r) v)
      else Some r)"

definition decode_intents :: "json \<Rightarrow> intentAction list option" where
  "decode_intents = into_slice (into_struct intentAction_field zero_intentAction)"

type_synonym yaml = "string \<Rightarrow> string + intentAction list"

text \<open>A text that begins with a bracket is JSON, any other YAML.\<close>

definition parseIntents :: "yaml \<Rightarrow> string \<Rightarrow> ctl_error + intentAction list" where
  "parseIntents yaml data =
     (case TrimSpace data of
        [] \<Rightarrow> Inr []
      | c # _ \<Rightarrow>
          if c = CHR ''['' then
            (case Option.bind (parse_json data) decode_intents of
               None \<Rightarrow> Inl InvalidJSON
             | Some batch \<Rightarrow> Inr batch)
          else (case yaml data of Inl err \<Rightarrow> Inl (InvalidYAML err) | Inr batch \<Rightarrow> Inr batch))"

section \<open>Applying\<close>

definition parsePeerType :: "string \<Rightarrow> PeerType" where
  "parsePeerType s =
     (let t = ToLower s in
      if t = ''external'' \<or> t = ''ebgp'' then PEER_TYPE_EXTERNAL
      else if t = ''internal'' \<or> t = ''ibgp'' then PEER_TYPE_INTERNAL
      else PEER_TYPE_EXTERNAL)"

definition parseAddressFamily :: "string \<Rightarrow> AddressFamily" where
  "parseAddressFamily s =
     (let t = ToLower s in
      if t = ''ipv4-unicast'' \<or> t = ''ipv4'' then ADDRESS_FAMILY_IPV4_UNICAST
      else if t = ''ipv6-unicast'' \<or> t = ''ipv6'' then ADDRESS_FAMILY_IPV6_UNICAST
      else ADDRESS_FAMILY_UNSPECIFIED)"

definition parseProtocol :: "string \<Rightarrow> Protocol" where
  "parseProtocol s =
     (let t = ToLower s in
      if t = ''ospf'' then PROTOCOL_OSPF else if t = ''bgp'' \<or> t = [] then PROTOCOL_BGP else PROTOCOL_BGP)"

definition applyConfigureBGP :: "'s RouteControlClient \<Rightarrow> intentAction \<Rightarrow> 's \<Rightarrow> ctl_error option \<times> 's" where
  "applyConfigureBGP client i s = failed_call ''ConfigureBGP'' (cl_ConfigureBGP client
     \<lparr>cfgq_Owner = in_Owner i, cfgq_Token = in_Token i, cfgq_LocalAs = in_LocalAS i, cfgq_RouterId = in_RouterID i\<rparr> s)"

definition peerOfIntent :: "intentPeer \<Rightarrow> BGPPeer" where
  "peerOfIntent p =
     \<lparr>bp_NeighborAddress = ip_NeighborAddress p, bp_RemoteAs = ip_RemoteAS p,
      bp_PeerType = parsePeerType (ip_PeerType p), bp_Keepalive = ip_Keepalive p, bp_HoldTime = ip_HoldTime p,
      bp_BfdEnabled = ip_BFDEnabled p, bp_Description = ip_Description p,
      bp_AddressFamilies = map parseAddressFamily (ip_AddressFamilies p), bp_SourceAddress = ip_SourceAddress p,
      bp_EbgpMultihop = ip_EBGPMultihop p, bp_Password = ip_BGPAuth p, bp_MaxPrefix = ip_MaxPrefix p,
      bp_BfdMinRxMs = ip_BFDMinRxMs p, bp_BfdMinTxMs = ip_BFDMinTxMs p,
      bp_BfdDetectMultiplier = ip_BFDDetectMultiplier p\<rparr>"

definition applyApplyPeer :: "'s RouteControlClient \<Rightarrow> intentAction \<Rightarrow> 's \<Rightarrow> ctl_error option \<times> 's" where
  "applyApplyPeer client i s =
     (case in_Peer i of
        None \<Rightarrow> (Some MissingPeer, s)
      | Some p \<Rightarrow> failed_call ''ApplyPeer'' (cl_ApplyPeer client
          \<lparr>appq_Owner = in_Owner i, appq_Token = in_Token i, appq_Peer = Some (peerOfIntent p)\<rparr> s))"

definition removedNeighbor :: "intentAction \<Rightarrow> string" where
  "removedNeighbor i =
     (case in_Peer i of
        Some p \<Rightarrow> if in_NeighborAddress i = [] then ip_NeighborAddress p else in_NeighborAddress i
      | None \<Rightarrow> in_NeighborAddress i)"

definition applyRemovePeer :: "'s RouteControlClient \<Rightarrow> intentAction \<Rightarrow> 's \<Rightarrow> ctl_error option \<times> 's" where
  "applyRemovePeer client i s = failed_call ''RemovePeer'' (cl_RemovePeer client
     \<lparr>remq_Owner = in_Owner i, remq_Token = in_Token i, remq_NeighborAddress = removedNeighbor i\<rparr> s)"

definition attributesOfIntent :: "intentAttributes \<Rightarrow> PrefixAttributes" where
  "attributesOfIntent a =
     \<lparr>pa_LocalPreference = ia_LocalPreference a, pa_Communities = ia_Communities a, pa_Med = ia_MED a,
      pa_NextHop = ia_NextHop a\<rparr>"

definition applyAdvertise :: "'s RouteControlClient \<Rightarrow> intentAction \<Rightarrow> 's \<Rightarrow> ctl_error option \<times> 's" where
  "applyAdvertise client i s = failed_call ''AdvertisePrefix'' (cl_AdvertisePrefix client
     \<lparr>advq_Owner = in_Owner i, advq_Token = in_Token i, advq_Prefix = in_Prefix i,
      advq_Protocol = parseProtocol (in_Protocol i),
      advq_Attributes = map_option attributesOfIntent (in_Attributes i)\<rparr> s)"

definition applyWithdraw :: "'s RouteControlClient \<Rightarrow> intentAction \<Rightarrow> 's \<Rightarrow> ctl_error option \<times> 's" where
  "applyWithdraw client i s = failed_call ''WithdrawPrefix'' (cl_WithdrawPrefix client
     \<lparr>wdrq_Owner = in_Owner i, wdrq_Token = in_Token i, wdrq_Prefix = in_Prefix i,
      wdrq_Protocol = parseProtocol (in_Protocol i)\<rparr> s)"

definition applyEnableBFD :: "'s RouteControlClient \<Rightarrow> intentAction \<Rightarrow> 's \<Rightarrow> ctl_error option \<times> 's" where
  "applyEnableBFD client i s = failed_call ''EnableBFD'' (cl_EnableBFD client
     \<lparr>ebfq_Owner = in_Owner i, ebfq_Token = in_Token i, ebfq_PeerAddress = in_PeerAddress i,
      ebfq_MinRxMs = in_MinRxMs i, ebfq_MinTxMs = in_MinTxMs i, ebfq_DetectMultiplier = in_DetectMultiplier i,
      ebfq_InterfaceName = in_InterfaceName i\<rparr> s)"

definition applyDisableBFD :: "'s RouteControlClient \<Rightarrow> intentAction \<Rightarrow> 's \<Rightarrow> ctl_error option \<times> 's" where
  "applyDisableBFD client i s = failed_call ''DisableBFD'' (cl_DisableBFD client
     \<lparr>dbfq_Owner = in_Owner i, dbfq_Token = in_Token i,
      dbfq_PeerAddress = (if in_PeerAddress i = [] then in_NeighborAddress i else in_PeerAddress i)\<rparr> s)"

definition applyEnableOSPF :: "'s RouteControlClient \<Rightarrow> intentAction \<Rightarrow> 's \<Rightarrow> ctl_error option \<times> 's" where
  "applyEnableOSPF client i s = failed_call ''EnableOSPF'' (cl_EnableOSPF client
     \<lparr>eosq_Owner = in_Owner i, eosq_Token = in_Token i, eosq_InterfaceName = in_InterfaceName i,
      eosq_AreaId = in_AreaID i, eosq_Passive = in_Passive i, eosq_Cost = in_Cost i,
      eosq_HelloInterval = in_HelloInterval i, eosq_DeadInterval = in_DeadInterval i, eosq_Ipv6 = False\<rparr> s)"

definition applyDisableOSPF :: "'s RouteControlClient \<Rightarrow> intentAction \<Rightarrow> 's \<Rightarrow> ctl_error option \<times> 's" where
  "applyDisableOSPF client i s = failed_call ''DisableOSPF'' (cl_DisableOSPF client
     \<lparr>dosq_Owner = in_Owner i, dosq_Token = in_Token i, dosq_InterfaceName = in_InterfaceName i\<rparr> s)"

definition applyIntent :: "'s RouteControlClient \<Rightarrow> intentAction \<Rightarrow> 's \<Rightarrow> ctl_error option \<times> 's" where
  "applyIntent client i s =
     (let a = ToLower (in_Action i) in
      if a = ''configure-bgp'' then applyConfigureBGP client i s
      else if a = ''apply-peer'' then applyApplyPeer client i s
      else if a = ''remove-peer'' then applyRemovePeer client i s
      else if a = ''advertise'' then applyAdvertise client i s
      else if a = ''withdraw'' then applyWithdraw client i s
      else if a = ''enable-bfd'' then applyEnableBFD client i s
      else if a = ''disable-bfd'' then applyDisableBFD client i s
      else if a = ''enable-ospf'' then applyEnableOSPF client i s
      else if a = ''disable-ospf'' then applyDisableOSPF client i s
      else (Some (UnknownAction (in_Action i)), s))"

section \<open>The batch\<close>

text \<open>The loop: \<open>n\<close> entries are done, \<open>cnt\<close> is their number.  It returns the number of
  failures and what was printed.\<close>

fun apply_loop :: "'s RouteControlClient \<Rightarrow> nat \<Rightarrow> nat \<Rightarrow> intentAction list \<Rightarrow> 's \<Rightarrow> nat \<times> printed list \<times> 's" where
  "apply_loop client cnt n [] s = (0, [], s)"
| "apply_loop client cnt n (i # rest) s =
     (case applyIntent client i s of
        (err, s) \<Rightarrow>
          (case apply_loop client cnt (Suc n) rest s of
             (failures, out, s) \<Rightarrow>
               ((if err = None then failures else Suc failures),
                [Text (''Applied '' @ dec n @ ''/'' @ dec cnt @ '' intents...'' @ [CHR 0x0D])] @
                (case err of None \<Rightarrow> [] | Some e \<Rightarrow> [IntentError (Suc n) (in_Action i) e]) @ out, s)))"

definition summary :: "nat \<Rightarrow> nat \<Rightarrow> printed list" where
  "summary cnt failures =
     [Text (''Applied '' @ dec cnt @ ''/'' @ dec cnt @ '' intents'')] @
     (if 0 < failures then [Text ('' ('' @ dec failures @ '' failed)'')] else []) @ [println []]"

definition runApply :: "'s ctl_env \<Rightarrow> (string \<Rightarrow> string + string) \<Rightarrow> yaml \<Rightarrow> string \<Rightarrow> 's command" where
  "runApply env readInput yaml filePath s =
     (case readInput filePath of
        Inl err \<Rightarrow> (Some (ReadingInput err), [], s)
      | Inr data \<Rightarrow>
          (case parseIntents yaml data of
             Inl err \<Rightarrow> (Some err, [], s)
           | Inr batch \<Rightarrow>
               if length batch = 0 then (None, [println ''No intents to apply.''], s)
               else with_client env (\<lambda>client s.
                 case apply_loop client (length batch) 0 batch s of
                   (failures, out, s) \<Rightarrow> (None, out @ summary (length batch) failures, s)) s))"

end
