(* ===== verification/Ctl_Properties.thy ===== *)
theory Ctl_Properties
  imports Ctl_Apply Route_Service
begin

text \<open>
  What \<open>novaroutectl\<close> does to the server behind it: a batch is a run of the server's calls, in
  the order of the file; an entry of a batch and the command of the same name make the same
  call; and watch mode ends with the first signal.
\<close>

section \<open>Entries as requests\<close>

text \<open>What an entry asks of the server, with the name of the call; an entry without an action the
  tool knows, or without the peer it needs, asks for nothing.\<close>

definition intent_request :: "intentAction \<Rightarrow> ctl_error + string \<times> request" where
  "intent_request i =
     (let a = ToLower (in_Action i); ow = in_Owner i; tk = in_Token i in
      if a = ''configure-bgp'' then Inr (''ConfigureBGP'', QConfigureBGP
        \<lparr>cfgq_Owner = ow, cfgq_Token = tk, cfgq_LocalAs = in_LocalAS i, cfgq_RouterId = in_RouterID i\<rparr>)
      else if a = ''apply-peer'' then
        (case in_Peer i of
           None \<Rightarrow> Inl MissingPeer
         | Some p \<Rightarrow> Inr (''ApplyPeer'', QApplyPeer \<lparr>appq_Owner = ow, appq_Token = tk, appq_Peer = Some (peerOfIntent p)\<rparr>))
      else if a = ''remove-peer'' then Inr (''RemovePeer'', QRemovePeer
        \<lparr>remq_Owner = ow, remq_Token = tk, remq_NeighborAddress = removedNeighbor i\<rparr>)
      else if a = ''advertise'' then Inr (''AdvertisePrefix'', QAdvertisePrefix
        \<lparr>advq_Owner = ow, advq_Token = tk, advq_Prefix = in_Prefix i, advq_Protocol = parseProtocol (in_Protocol i),
         advq_Attributes = map_option attributesOfIntent (in_Attributes i)\<rparr>)
      else if a = ''withdraw'' then Inr (''WithdrawPrefix'', QWithdrawPrefix
        \<lparr>wdrq_Owner = ow, wdrq_Token = tk, wdrq_Prefix = in_Prefix i, wdrq_Protocol = parseProtocol (in_Protocol i)\<rparr>)
      else if a = ''enable-bfd'' then Inr (''EnableBFD'', QEnableBFD
        \<lparr>ebfq_Owner = ow, ebfq_Token = tk, ebfq_PeerAddress = in_PeerAddress i, ebfq_MinRxMs = in_MinRxMs i,
         ebfq_MinTxMs = in_MinTxMs i, ebfq_DetectMultiplier = in_DetectMultiplier i,
         ebfq_InterfaceName = in_InterfaceName i\<rparr>)
      else if a = ''disable-bfd'' then Inr (''DisableBFD'', QDisableBFD
        \<lparr>dbfq_Owner = ow, dbfq_Token = tk,
         dbfq_PeerAddress = (if in_PeerAddress i = [] then in_NeighborAddress i else in_PeerAddress i)\<rparr>)
      else if a = ''enable-ospf'' then Inr (''EnableOSPF'', QEnableOSPF
        \<lparr>eosq_Owner = ow, eosq_Token = tk, eosq_InterfaceName = in_InterfaceName i, eosq_AreaId = in_AreaID i,
         eosq_Passive = in_Passive i, eosq_Cost = in_Cost i, eosq_HelloInterval = in_HelloInterval i,
         eosq_DeadInterval = in_DeadInterval i, eosq_Ipv6 = False\<rparr>)
      else if a = ''disable-ospf'' then Inr (''DisableOSPF'', QDisableOSPF
        \<lparr>dosq_Owner = ow, dosq_Token = tk, dosq_InterfaceName = in_InterfaceName i\<rparr>)
      else Inl (UnknownAction (in_Action i)))"

definition requests :: "intentAction list \<Rightarrow> request list" where
  "requests batch = concat (map (\<lambda>i. case intent_request i of Inl _ \<Rightarrow> [] | Inr (_, q) \<Rightarrow> [q]) batch)"

text \<open>Requests with the contexts of the calls from the \<open>n\<close>-th on.\<close>

fun numbered :: "(nat \<Rightarrow> Ctx) \<Rightarrow> nat \<Rightarrow> request list \<Rightarrow> (Ctx \<times> request) list" where
  "numbered cxs n [] = []"
| "numbered cxs n (q # qs) = (cxs n, q) # numbered cxs (Suc n) qs"

lemma void_unit [simp]: "void (x :: unit rpc) = x"
  by (cases x; cases "fst x") (simp_all add: void_def)

lemma failed_unary:
  "failed_call name (unary cxs h q (s, n)) =
     (case void (h (cxs n) q s) of
        (Inl st, s') \<Rightarrow> (Some (RpcFailed name (RpcStatus st)), (s', Suc n))
      | (Inr _, s') \<Rightarrow> (None, (s', Suc n)))"
  by (cases "h (cxs n) q s"; cases "fst (h (cxs n) q s)") (simp_all add: failed_call_def unary_eq void_def)

lemma applyIntent_server:
  "applyIntent (server_client vt ex cxs acts) i (s, n) =
     (case intent_request i of
        Inl err \<Rightarrow> (Some err, (s, n))
      | Inr (name, q) \<Rightarrow>
          (case serve (cxs n) q s of
             (Inl st, s') \<Rightarrow> (Some (RpcFailed name (RpcStatus st)), (s', Suc n))
           | (Inr _, s') \<Rightarrow> (None, (s', Suc n))))"
  unfolding applyIntent_def intent_request_def Let_def
  by (simp add: applyConfigureBGP_def applyApplyPeer_def applyRemovePeer_def applyAdvertise_def applyWithdraw_def
      applyEnableBFD_def applyDisableBFD_def applyEnableOSPF_def applyDisableOSPF_def failed_unary
      split: option.split)


section \<open>Batches\<close>

text \<open>How many of a run of requests the server carried out.\<close>

fun accepted :: "(Ctx \<times> request) list \<Rightarrow> Server \<Rightarrow> nat" where
  "accepted [] s = 0"
| "accepted ((cx, q) # qs) s =
     (case fst (serve cx q s) of Inl _ \<Rightarrow> 0 | Inr _ \<Rightarrow> 1) + accepted qs (snd (serve cx q s))"

definition reported :: "printed list \<Rightarrow> nat" where
  "reported out = length (filter (\<lambda>p. case p of IntentError _ _ _ \<Rightarrow> True | _ \<Rightarrow> False) out)"

lemma reported_simps [simp]:
  "reported [] = 0" "reported (Text t # out) = reported out" "reported (IntentError k a e # out) = Suc (reported out)"
  by (simp_all add: reported_def)

lemma requests_Cons:
  "requests (i # batch) = (case intent_request i of Inl _ \<Rightarrow> requests batch | Inr (_, q) \<Rightarrow> q # requests batch)"
  by (simp add: requests_def split: sum.split prod.split)

lemma apply_loop_server:
  assumes "apply_loop (server_client vt ex cxs acts) cnt k batch (s, n) = (f, out, c)"
  shows "c = (run_calls serve (numbered cxs n (requests batch)) s, n + length (requests batch)) \<and>
    reported out = f \<and> f + accepted (numbered cxs n (requests batch)) s = length batch"
  using assms
proof (induction batch arbitrary: k s n f out c)
  case Nil
  then show ?case by (auto simp: requests_def)
next
  case (Cons i batch)
  obtain err s1 n1 where a: "applyIntent (server_client vt ex cxs acts) i (s, n) = (err, (s1, n1))" by (metis prod.collapse)
  obtain f' out' c' where l: "apply_loop (server_client vt ex cxs acts) cnt (Suc k) batch (s1, n1) = (f', out', c')"
    by (metis prod.collapse)
  note ih = Cons.IH [OF l]
  show ?case
  proof (cases "intent_request i")
    case (Inl e)
    then have "err = Some e" "s1 = s" "n1 = n" using a by (simp_all add: applyIntent_server)
    then show ?thesis using Cons.prems a l ih Inl by (auto simp: requests_Cons)
  next
    case (Inr nq)
    obtain name q where nq: "nq = (name, q)" by fastforce
    obtain r s2 where r: "serve (cxs n) q s = (r, s2)" by fastforce
    then have "s1 = s2" "n1 = Suc n" "err = (case r of Inl st \<Rightarrow> Some (RpcFailed name (RpcStatus st)) | Inr _ \<Rightarrow> None)"
      using a Inr nq by (auto simp: applyIntent_server split: sum.splits)
    then show ?thesis using Cons.prems a l ih Inr nq r by (auto simp: requests_Cons split: sum.splits)
  qed
qed

section \<open>Commands and entries\<close>



text \<open>The entry of a batch file that says the same as a command with its flags.\<close>

definition entry :: "string \<Rightarrow> string \<Rightarrow> string \<Rightarrow> intentAction" where
  "entry action ow tk = zero_intentAction\<lparr>in_Action := action, in_Owner := ow, in_Token := tk\<rparr>"







text \<open>The actions are compared as literals.\<close>

declare ToLower.simps(2) [simp del]

lemma action_names [simp]:
  "ToLower ''configure-bgp'' = ''configure-bgp''" "ToLower ''apply-peer'' = ''apply-peer''"
  "ToLower ''remove-peer'' = ''remove-peer''" "ToLower ''advertise'' = ''advertise''"
  "ToLower ''withdraw'' = ''withdraw''" "ToLower ''enable-bfd'' = ''enable-bfd''"
  "ToLower ''disable-bfd'' = ''disable-bfd''" "ToLower ''enable-ospf'' = ''enable-ospf''"
  "ToLower ''disable-ospf'' = ''disable-ospf''"
  by code_simp+


lemma entry_sel [simp]:
  "in_Action (entry a ow tk) = a" "in_Owner (entry a ow tk) = ow" "in_Token (entry a ow tk) = tk"
  "in_Peer (entry a ow tk) = None" "in_NeighborAddress (entry a ow tk) = []"
  by (simp_all add: entry_def zero_intentAction_def)





section \<open>Watch mode\<close>

text \<open>The state after the command has run \<open>k\<close> times.\<close>

definition after_runs :: "nat \<Rightarrow> 's command \<Rightarrow> 's \<Rightarrow> 's" where
  "after_runs k runFn = ((\<lambda>s. snd (snd (runFn s))) ^^ k)"

definition ticks :: "watch_event list \<Rightarrow> nat" where
  "ticks evs = length (takeWhile (\<lambda>e. e \<noteq> Interrupted) evs)"

lemma refresh_state: "snd (refresh now runFn s) = snd (snd (runFn s))"
  by (simp add: refresh_def split: prod.split)

lemma watch_loop_runs:
  assumes "watch_loop runFn evs s = (res, out, s')"
  shows "s' = after_runs (ticks evs) runFn s \<and> res = (if Interrupted \<in> set evs then Returned None else Waiting)"
  using assms
proof (induction runFn evs s arbitrary: res out s' rule: watch_loop.induct)
  case (3 runFn now evs s)
  obtain o1 s1 where r: "refresh now runFn s = (o1, s1)" by fastforce
  obtain res2 o2 s2 where w: "watch_loop runFn evs s1 = (res2, o2, s2)" by (metis prod.collapse)
  have "s1 = snd (snd (runFn s))" using refresh_state [of now runFn s] r by simp
  then show ?case
    using 3(1) [OF refl r [symmetric] w] 3(2) r w by (simp add: after_runs_def ticks_def funpow_Suc_right del: funpow.simps(2))
qed (auto simp: after_runs_def ticks_def)


section \<open>Properties\<close>

text \<open>
  C31 (refinement).  A batch is a run of the server's calls: \<open>novaroutectl apply\<close> on a file that
  parses sends the requests of its entries in the order of the file, and the server ends as
  after these calls.  The tool prints one error for each entry that was not carried out and
  their number in the summary, but it returns no error, however many there are.
\<close>

theorem apply_batch_runs:
  assumes "newClient env (''unix://'' @ socketPath env) = Inr (server_client vt ex cxs acts)"
    and "readInput path = Inr data" and "parseIntents yaml data = Inr batch" and "batch \<noteq> []"
    and "runApply env readInput yaml path (s, n) = (err, out, (s', n'))"
  shows "err = None \<and> s' = run_calls serve (numbered cxs n (requests batch)) s \<and>
    (\<exists>shown f. out = shown @ summary (length batch) f \<and> reported shown = f \<and>
       f + accepted (numbered cxs n (requests batch)) s = length batch)"
proof -
  let ?c = "server_client vt ex cxs acts"
  obtain f shown c where l: "apply_loop ?c (length batch) 0 batch (s, n) = (f, shown, c)" by (metis prod.collapse)
  have "connect env = Inr ?c" using assms(1) by (simp add: connect_def)
  then have "err = None" "out = shown @ summary (length batch) f" "c = (s', n')"
    using assms(2-5) l by (auto simp: runApply_def with_client_def)
  with apply_loop_server [OF l] show ?thesis by auto
qed

definition ex_entry :: intentAction where
  "ex_entry = (entry ''advertise'' ''lb'' ''s3cret'')\<lparr>in_Prefix := ''10.1.0.0/24'', in_Protocol := ''bgp''\<rparr>"

definition ex_env :: "connection ctl_env" where
  "ex_env = \<lparr>socketPath = ''/run/novaroute/novaroute.sock'',
     newClient = (\<lambda>_. Inr (server_client vtysh_ok (\<lambda>_. True) (\<lambda>_. ex_cx) (\<lambda>_. [])))\<rparr>"

theorem apply_batch_runs_witness:
  "fst (runApply ex_env (\<lambda>_. Inr ''- action'') (\<lambda>_. Inr [ex_entry]) ''batch.yaml'' (ex_server, 0)) = None \<and>
   fst (snd (snd (runApply ex_env (\<lambda>_. Inr ''- action'') (\<lambda>_. Inr [ex_entry]) ''batch.yaml'' (ex_server, 0)))) =
     run_calls serve (numbered (\<lambda>_. ex_cx) 0 (requests [ex_entry])) ex_server"
proof -
  obtain err out s' n' where r: "runApply ex_env (\<lambda>_. Inr ''- action'') (\<lambda>_. Inr [ex_entry]) ''batch.yaml''
      (ex_server, 0) = (err, out, (s', n'))" by (metis prod.collapse)
  have p: "parseIntents (\<lambda>_. Inr [ex_entry]) ''- action'' = Inr [ex_entry]" by code_simp
  have "newClient ex_env (''unix://'' @ socketPath ex_env) =
      Inr (server_client vtysh_ok (\<lambda>_. True) (\<lambda>_. ex_cx) (\<lambda>_. []))" by (simp add: ex_env_def)
  from apply_batch_runs [OF this refl p _ r] r show ?thesis by simp
qed



text \<open>
  C37 (termination).  In watch mode the tool returns exactly when a signal has arrived, without
  an error, and until then it waits for the next tick, however the command fails in between;
  it has run the command once at the start and once for each tick before the signal.
\<close>

theorem watch_mode_ends:
  assumes "0 < interval" and "wrapRunEWithWatch True interval now evs runFn s = (res, out, s')"
  shows "res = (if Interrupted \<in> set evs then Returned None else Waiting) \<and>
    s' = after_runs (Suc (ticks evs)) runFn s"
proof -
  obtain o1 s1 where r: "refresh now runFn s = (o1, s1)" by fastforce
  obtain res2 o2 s2 where w: "watch_loop runFn evs s1 = (res2, o2, s2)" by (metis prod.collapse)
  have "s1 = snd (snd (runFn s))" using refresh_state [of now runFn s] r by simp
  then show ?thesis
    using watch_loop_runs [OF w] assms r w
    by (auto simp: wrapRunEWithWatch_def after_runs_def funpow_Suc_right simp del: funpow.simps(2))
qed

theorem watch_mode_ends_witness:
  "fst (wrapRunEWithWatch True 2000000000 ''t0'' [Tick ''t1'', Interrupted, Tick ''t2'']
     (statusCmd ex_env []) (ex_server, 0)) = Returned None"
proof -
  obtain res out s' where r: "wrapRunEWithWatch True 2000000000 ''t0'' [Tick ''t1'', Interrupted, Tick ''t2'']
     (statusCmd ex_env []) (ex_server, 0) = (res, out, s')" by (metis prod.collapse)
  from watch_mode_ends [OF _ r] show ?thesis by (simp add: r)
qed

end
