(* ===== verification/Spec2Isabelle.thy ===== *)
theory Spec2Isabelle
  imports Policy_Engine Reconciler_Properties Server_Gauges Agent_Properties Operator_Main Operator_Config
    E2e_Properties Ctl_Properties
begin

text \<open>
  NovaRoute: a verification library.

  NovaRoute is a node-local routing control plane.  An \<^emph>\<open>agent\<close> on every node takes routing
  intents (BGP peers, prefixes, BFD sessions, OSPF interfaces) from clients over gRPC, checks them
  against a policy, keeps them in a store and brings the FRR daemons of the node in line with
  them.  An \<^emph>\<open>operator\<close> deploys the agents on a Kubernetes cluster.  A \<^emph>\<open>command-line tool\<close> and an
  \<^emph>\<open>end-to-end test\<close> are clients of the agent.  The library models these programs, in Go under
  \<open>src/\<close>, as functions on explicit states and proves what makes them correct.

  \<^bold>\<open>How the parts interact.\<close>  A call of the server (\<open>internal/server\<close>) authenticates its owner with
  the policy engine (\<open>internal/policy\<close>), changes the intent store (\<open>internal/intent\<close>), publishes
  events on the bus, updates metrics (\<open>internal/metrics\<close>) and leaves a trigger for the reconciler
  (\<open>internal/reconciler\<close>).  The reconciler's loop compares the store with what it has applied and
  sends the difference through the FRR client (\<open>internal/frr\<close>), which runs \<open>vtysh\<close>.  The main
  program (\<open>cmd/novaroute-agent\<close>) starts all of them as goroutines and shuts them down; its
  configuration (\<open>internal/config\<close>) is a file that the operator (\<open>internal/operator\<close>,
  \<open>cmd/novaroute-operator\<close>) writes into a ConfigMap.

  \<^bold>\<open>The theories.\<close>

  \<^item> \<open>Nova_Prelude\<close>, \<open>Go_Strings\<close>, \<open>Go_Net\<close>, \<open>Go_Json\<close>, \<open>Go_Marshal\<close>, \<open>Go_Sha256\<close>: what the code uses of
    Go and its standard library.  A map is an association list with distinct keys, and a loop over
    it takes its order from a schedule (\<open>range_perm\<close>), so every statement holds for every order.
    Strings are byte strings; 32-bit fields are words, and their arithmetic wraps.  The round
    constants of SHA-256 are derived from the primes, as the standard does.
  \<^item> \<open>Api_Types\<close>, \<open>Api_Messages\<close>, \<open>Cluster_Types\<close>: the enumerations and messages of the gRPC API and
    the types of the Kubernetes resource, field by field.
  \<^item> \<open>Agent_Config\<close>, \<open>Config_File\<close>: \<open>internal/config/config.go\<close>, from the text of the file to the
    validated and expanded configuration.
  \<^item> \<open>Policy_Engine\<close>: every check of \<open>internal/policy/engine.go\<close>.
  \<^item> \<open>Intent_Store\<close>: every operation of \<open>internal/intent/store.go\<close>; the locale \<open>intent_kind\<close> is the
    contract that the four kinds of intent share.
  \<^item> \<open>Frr_Client\<close>, \<open>Frr_Show\<close>: the FRR client as the list of \<open>vtysh\<close> runs it makes (locale \<open>frr_op\<close>),
    and the parsers of what \<open>show\<close> commands print.
  \<^item> \<open>Reconcile_Loop\<close>, \<open>Reconciler\<close> and \<open>Reconciler_*\<close>: \<open>internal/reconciler/reconciler.go\<close>.  The
    locale \<open>reconcile_stage\<close> proves convergence and idleness once for a loop that adds what is
    missing and deletes what is not wanted; it is interpreted for peers, prefixes, BFD sessions and
    OSPF interfaces.  \<open>client_invariant\<close> and \<open>removal_loop\<close> do the same for what the FRR operations
    keep and for \<open>WithdrawAll\<close>.
  \<^item> \<open>Metrics\<close>, \<open>Event_Bus\<close>, \<open>Server\<close> and \<open>Server_*\<close>: metrics as a log with what a scrape shows of it,
    the bus with its buffered channels, every call of \<open>internal/server/server.go\<close>.  The locale
    \<open>rpc_handler\<close> is the contract of a call; each of the eleven calls and the dispatcher \<open>serve\<close>
    is shown to meet it.
  \<^item> \<open>Agent\<close> and \<open>Agent_*\<close>: \<open>cmd/novaroute-agent/main.go\<close> with \<open>RunLoop\<close>, as the step relation
    \<open>agent_step\<close> of its goroutines, each with a program counter; a step is one locked section, one
    channel operation or one call.  \<open>agent_reachable\<close> are the states of all interleavings.
  \<^item> \<open>Route_Client\<close>, \<open>Route_Service\<close>: the client side of the API, and the locale \<open>routing_service\<close>, an
    abstract specification of the service by who holds what, which the server refines.
  \<^item> \<open>E2e_Test\<close>, \<open>E2e_Properties\<close>: \<open>cmd/novaroute-test\<close> as a program over any such service.
  \<^item> \<open>Ctl\<close>, \<open>Ctl_Commands\<close>, \<open>Ctl_Apply\<close>, \<open>Ctl_Properties\<close>: the commands, batches and watch mode of
    \<open>cmd/novaroutectl\<close>.
  \<^item> \<open>Kube_Api\<close>, \<open>Operator\<close> and \<open>Operator_*\<close>: the controller of \<open>internal/operator/controller\<close> over an
    API server that is a parameter, the main program, and the way from the resource to the agent.

  \<^bold>\<open>What is shown.\<close>  For the agent: its components stay well formed in every interleaving, nothing
  panics, no update is lost, and at rest what is applied is what the store asks for; from an idle
  loop one cycle gets there; shutdown withdraws everything or reports it.  For the reconciler: a
  cycle without errors has converged and the next one sends no configuration.  For the server:
  only the owner's token changes an owner's intents, a prefix has one owner, every stored intent is
  valid, every change is noticed by the reconciler, and the gauges show what the store holds.  For
  the policy: an accepted prefix lies within an allowed network.  For the bus: a subscriber gets the
  matching events in order, all of them while its buffer has room.  For the operator: success means
  that everything is deployed, nothing else is touched, an accepting server leads to success, secrets
  are watched and their rotation restarts the pods, deletion cleans up, and the agent loads from the
  ConfigMap what the resource describes.  For the clients: the test suite passes against every server
  with the deployed policy, a batch is the run of its entries, a command and its batch entry agree,
  and watch mode ends with a signal.  The properties of kind \<^emph>\<open>error\<close> show where the code falls
  short of its comments, each by a theorem about the code as it is.

  \<^bold>\<open>Parameters and hypotheses.\<close>  \<open>vtysh\<close> is a function from the run to its result; \<open>vtysh_accepts\<close> says
  that it takes every configuration.  The file system, the environment and the clock are arguments
  (\<open>Env\<close> and \<open>Ctx\<close> hold the readings and schedules of one cycle or call).  The Kubernetes client is
  the record \<open>kube\<close>; its promises are the predicates of \<open>Kube_Api\<close>, and \<open>Operator_Memory\<close> is a server
  that keeps them.  The decoder of batch files, the connection and the command line are functions.

  \<^bold>\<open>Bounds and fuel.\<close>  \<open>parse_json\<close> runs on fuel; twice the length of the text plus one is proved to be
  enough, so it never refuses for want of it.  \<open>root_bits\<close> computes 37 bits, enough for the roots of
  numbers below \<open>2^10\<close>.  The loop of watch mode is a recursion over the ticks and signals that
  arrive.  Every other recursion is structural or has a termination proof.

  \<^bold>\<open>Not modelled.\<close>  Locking (an operation under a lock is one step), logging, durations and the timeouts
  of contexts; the HTTP and gRPC servers, connections and the parsing of flags by cobra and \<open>flag\<close>;
  the column layout of tables; \<open>SetupWithManager\<close>, which only registers watches; shell completion,
  which calls generators of cobra; the generated getters, descriptors and stubs of the protobuf
  code and the generated deep copies, which on immutable values are the identity.
\<close>

end
